(* ===== verification/Prelude.thy ===== *)
theory Prelude
  imports Main "HOL-Library.Word"
begin

text \<open>
  The vocabulary shared by every component: Go values and errors, the result type of a
  fallible Go function, and the generic list lemmas the component proofs use.

  A Go \<open>string\<close> or \<open>[]byte\<close> is a HOL \<open>string\<close>: a list of bytes (a HOL \<open>char\<close> is one byte).
  A Go \<open>int\<close> is an \<open>int\<close> where the code cannot overflow it, and a \<open>64 word\<close> where it can.
  A Go pointer to a value that is only read is an \<open>option\<close>.
  An instant is an \<open>int\<close> number of nanoseconds, and so is a duration.
\<close>

type_synonym gostring = string
type_synonym bytes = string
type_synonym time = int
type_synonym duration = int

section \<open>Errors and results\<close>

text \<open>
  The error values the two services return and compare.  \<open>ErrNoRows\<close> is \<open>sql.ErrNoRows\<close>,
  \<open>PqError c\<close> a \<open>*pq.Error\<close> (or any other failure of the database driver) with code \<open>c\<close>,
  \<open>ErrText m\<close> an error made by \<open>errors.New m\<close>, the rest are the sentinels of
  \<open>gateway-service/internal/service/errors.go\<close>.
\<close>

datatype err =
    ErrNoRows
  | PqError string
  | ErrText string
  | ErrInvalidCredentials
  | ErrDuplicateEntity
  | ErrUniversityPending
  | ErrUniversityBlocked
  | ErrUniversityInactive
  | ErrDiplomaNotFound
  | ErrShareLinkExpired
  | ErrInvalidShareToken
  | ErrInvalidSigningKey
  | ErrSigningKeyMismatch
  | ErrSigningKeyNotFound

type_synonym 'a res = "err + 'a"

definition bind_res :: "'e + 'a \<Rightarrow> ('a \<Rightarrow> 'e + 'b) \<Rightarrow> 'e + 'b" where
  "bind_res r f = (case r of Inl e \<Rightarrow> Inl e | Inr x \<Rightarrow> f x)"

definition of_option :: "'e \<Rightarrow> 'a option \<Rightarrow> 'e + 'a" where
  "of_option e x = (case x of None \<Rightarrow> Inl e | Some y \<Rightarrow> Inr y)"

lemma bind_res_simps [simp]:
  "bind_res (Inl e) f = Inl e"
  "bind_res (Inr x) f = f x"
  by (simp_all add: bind_res_def)

lemma bind_res_eq_Inr [simp]: "bind_res r f = Inr y \<longleftrightarrow> (\<exists>x. r = Inr x \<and> f x = Inr y)"
  by (cases r) auto

lemma bind_res_eq_Inl: "bind_res r f = Inl e \<longleftrightarrow> r = Inl e \<or> (\<exists>x. r = Inr x \<and> f x = Inl e)"
  by (cases r) auto

lemma of_option_simps [simp]:
  "of_option e None = Inl e"
  "of_option e (Some x) = Inr x"
  by (simp_all add: of_option_def)

lemma of_option_eq_Inr [simp]: "of_option e x = Inr y \<longleftrightarrow> x = Some y"
  by (cases x) auto

lemma of_option_eq_Inl [simp]: "of_option e x = Inl e' \<longleftrightarrow> x = None \<and> e' = e"
  by (cases x) auto

section \<open>Collections of facts\<close>

named_theorems row_defs \<open>definitions of the SQL statements over the tables\<close>
named_theorems fault_transparent \<open>transaction bodies a fault can only turn into an error\<close>
named_theorems inv_intros \<open>preservation of the registry invariant, operation by operation\<close>

section \<open>Lists\<close>

lemma length_filter_map_same:
  assumes "\<And>x. x \<in> set xs \<Longrightarrow> P (f x) = P x"
  shows "length (filter P (map f xs)) = length (filter P xs)"
  using assms by (induction xs) auto

lemma filter_map_same:
  assumes "\<And>x. x \<in> set xs \<Longrightarrow> P (f x) = P x"
  shows "filter P (map f xs) = map f (filter P xs)"
  using assms by (induction xs) auto

lemma map_if_absent: "(\<And>x. x \<in> set xs \<Longrightarrow> \<not> P x) \<Longrightarrow> map (\<lambda>x. if P x then f x else x) xs = xs"
  by (induction xs) auto

lemma map_key_if [simp]:
  assumes "\<And>x. k (f x) = k x"
  shows "map k (map (\<lambda>x. if P x then f x else x) xs) = map k xs"
  using assms by (induction xs) auto

lemma map_comp_if [simp]:
  assumes "\<And>x. k (f x) = k x"
  shows "map (k \<circ> (\<lambda>x. if P x then f x else x)) xs = map k xs"
  using assms by (induction xs) auto

lemma image_key_if:
  assumes "\<And>x. k (f x) = k x"
  shows "k ` set (map (\<lambda>x. if P x then f x else x) xs) = k ` set xs"
  by (metis assms map_key_if set_map)

lemma distinct_map_filter_key: "distinct (map k xs) \<Longrightarrow> distinct (map k (filter P xs))"
  by (induction xs) auto

lemma distinct_key_unique:
  "distinct (map k xs) \<Longrightarrow> x \<in> set xs \<Longrightarrow> y \<in> set xs \<Longrightarrow> k x = k y \<Longrightarrow> x = y"
  by (metis distinct_map inj_onD)

lemma filter_key_unique:
  assumes "distinct (map k xs)" "x \<in> set xs"
  shows "filter (\<lambda>y. k y = k x) xs = [x]"
  using assms by (induction xs) (auto simp: filter_empty_conv image_iff)

text \<open>The first row of a result set, or none: what \<open>QueryRow(...).Scan\<close> reads.\<close>

definition first_row :: "'a list \<Rightarrow> 'a res" where
  "first_row xs = (case xs of [] \<Rightarrow> Inl ErrNoRows | x # _ \<Rightarrow> Inr x)"

lemma first_row_simps [simp]:
  "first_row [] = Inl ErrNoRows"
  "first_row (x # xs) = Inr x"
  by (simp_all add: first_row_def)

lemma first_row_eq_Inr: "first_row xs = Inr x \<longleftrightarrow> (\<exists>ys. xs = x # ys)"
  by (cases xs) auto

lemma first_row_eq_Inl [simp]: "first_row xs = Inl e \<longleftrightarrow> xs = [] \<and> e = ErrNoRows"
  by (cases xs) auto

lemma first_row_filterD: "first_row (filter P xs) = Inr x \<Longrightarrow> x \<in> set xs \<and> P x"
  by (metis first_row_eq_Inr filter_eq_ConsD in_set_conv_decomp)

end
