(* ===== verification/Model.thy ===== *)
theory Model
  imports Prelude
begin

text \<open>
  The data model of the gateway: \<open>gateway-service/internal/model/model.go\<close> and \<open>kafka.go\<close>,
  struct by struct with the Go field names (each prefixed with the struct's initials, since HOL
  record fields share one name space), the string constants of the status columns, and the
  payload types of \<open>internal/infrastructure/security\<close>.  A Go pointer or nullable column is an
  option.
\<close>

section \<open>Status strings\<close>

definition RoleUniversity :: string where "RoleUniversity = ''university''"
definition RoleAdmin :: string where "RoleAdmin = ''admin''"

definition UniversityStatusPending :: string where "UniversityStatusPending = ''pending''"
definition UniversityStatusActive :: string where "UniversityStatusActive = ''active''"
definition UniversityStatusBlocked :: string where "UniversityStatusBlocked = ''blocked''"

definition BatchStatusProcessing :: string where "BatchStatusProcessing = ''processing''"
definition BatchStatusCompleted :: string where "BatchStatusCompleted = ''completed''"
definition BatchStatusFailed :: string where "BatchStatusFailed = ''failed''"

definition RecordStatusError :: string where "RecordStatusError = ''error''"

definition DiplomaStatusActive :: string where "DiplomaStatusActive = ''active''"
definition DiplomaStatusRevoked :: string where "DiplomaStatusRevoked = ''revoked''"

lemmas status_defs = RoleUniversity_def RoleAdmin_def UniversityStatusPending_def
  UniversityStatusActive_def UniversityStatusBlocked_def BatchStatusProcessing_def
  BatchStatusCompleted_def BatchStatusFailed_def RecordStatusError_def DiplomaStatusActive_def
  DiplomaStatusRevoked_def

section \<open>Accounts\<close>

record RegisterUniversityRequest =
  rur_Name :: string
  rur_VuzCode :: string
  rur_INN :: string
  rur_OGRN :: string
  rur_Email :: string
  rur_Password :: string

record RegisterUniversityResponse =
  rus_ID :: string
  rus_Status :: string
  rus_CreatedAt :: time

record LoginRequest =
  lr_Email :: string
  lr_Password :: string

record AuthResponse =
  ar_AccessToken :: string
  ar_TokenType :: string
  ar_ExpiresAt :: time
  ar_Role :: string
  ar_Status :: string
  ar_VUZID :: string
  ar_Email :: string

record University =
  u_ID :: string
  u_Name :: string
  u_VuzCode :: string
  u_INN :: string
  u_OGRN :: string
  u_Email :: string
  u_PasswordHash :: string
  u_PublicKey :: "string option"
  u_Status :: string
  u_CreatedAt :: time

record UniversityAdminResponse =
  uar_ID :: string
  uar_VuzCode :: string
  uar_Name :: string
  uar_INN :: string
  uar_OGRN :: string
  uar_Email :: string
  uar_Status :: string
  uar_HasPublicKey :: bool
  uar_CreatedAt :: time

record UniversitySigningKey =
  usk_VUZID :: string
  usk_EncryptedPrivateKey :: string
  usk_KeyAlgorithm :: string
  usk_EncryptionAlgorithm :: string
  usk_PublicKeyFingerprint :: string
  usk_CreatedAt :: time
  usk_UpdatedAt :: time

record PlatformAdmin =
  pa_ID :: string
  pa_Email :: string
  pa_PasswordHash :: string
  pa_CreatedAt :: time

record APIKey =
  ak_ID :: string
  ak_VUZID :: string
  ak_Name :: "string option"
  ak_KeyHash :: string
  ak_IsActive :: bool
  ak_CreatedAt :: time

record APIKeySummary =
  aks_ID :: string
  aks_Name :: "string option"
  aks_IsActive :: bool
  aks_CreatedAt :: time

record CreateAPIKeyResponse =
  cak_ID :: string
  cak_Name :: "string option"
  cak_APIKey :: string
  cak_CreatedAt :: time

record SigningKeyStatusResponse =
  sks_Configured :: bool
  sks_KeyAlgorithm :: string
  sks_EncryptionAlgorithm :: string
  sks_PublicKeyFingerprint :: string
  sks_UpdatedAt :: time

record AdminStats =
  as_TotalUniversities :: nat
  as_PendingUniversities :: nat
  as_ActiveUniversities :: nat
  as_BlockedUniversities :: nat
  as_TotalBatches :: nat
  as_TotalDiplomas :: nat
  as_RevokedDiplomas :: nat

section \<open>Batches and diplomas\<close>

record Batch =
  b_ID :: string
  b_VUZID :: string
  b_Status :: string
  b_TotalRecords :: nat
  b_ProcessedRecords :: nat
  b_FailedRecords :: nat
  b_CreatedAt :: time
  b_CompletedAt :: "time option"

record BatchUploadResponse =
  bur_BatchID :: string
  bur_Status :: string

record DiplomaUploadRecord =
  dur_FullName :: string
  dur_DiplomaNumber :: string
  dur_Specialty :: string
  dur_Degree :: string
  dur_Faculty :: string
  dur_Year :: int
  dur_RawCSVRow :: string

record BatchDownloadRow =
  bdr_RecordIndex :: int
  bdr_DiplomaHash :: string
  bdr_FullName :: string
  bdr_DiplomaNumber :: string
  bdr_Specialty :: string
  bdr_Degree :: string
  bdr_Faculty :: string
  bdr_Year :: int
  bdr_QRPayload :: string
  bdr_Status :: string
  bdr_Error :: "string option"

record StudentSearchResult =
  ssr_DiplomaHash :: string
  ssr_DiplomaNumber :: string
  ssr_FullName :: string
  ssr_Specialty :: string
  ssr_Degree :: string
  ssr_Faculty :: string
  ssr_Year :: int
  ssr_UniversityID :: string
  ssr_UniversityName :: string
  ssr_Status :: string
  ssr_CreatedAt :: time

record ShareLink =
  sl_ID :: string
  sl_DiplomaHash :: string
  sl_Token :: string
  sl_ExpiresAt :: time
  sl_UsedCount :: nat
  sl_CreatedAt :: time

record ShareLinkResponse =
  slr_ShareURL :: string
  slr_Token :: string
  slr_ExpiresAt :: time

record SharedDiplomaResponse =
  sdr_DiplomaHash :: string
  sdr_DiplomaNumber :: string
  sdr_FullName :: string
  sdr_Specialty :: string
  sdr_Degree :: string
  sdr_Faculty :: string
  sdr_Year :: int
  sdr_UniversityID :: string
  sdr_UniversityName :: string
  sdr_Status :: string
  sdr_ExpiresAt :: time

section \<open>Kafka messages\<close>

record DiplomaStudent =
  ds_FullName :: string
  ds_DiplomaNumber :: string
  ds_Specialty :: string
  ds_Degree :: string
  ds_Year :: int
  ds_Faculty :: string
  ds_RawCSVRow :: string

record KafkaRawTask =
  krt_BatchID :: string
  krt_VUZID :: string
  krt_RecordIndex :: nat
  krt_TotalInBatch :: nat
  krt_Student :: DiplomaStudent
  krt_CreatedAt :: string

record KafkaProcessingResult =
  kpr_BatchID :: string
  kpr_VUZID :: string
  kpr_RecordIndex :: int
  kpr_DiplomaHash :: string
  kpr_QRPayload :: "string option"
  kpr_Status :: string
  kpr_Error :: "string option"
  kpr_ProcessedAt :: string

section \<open>QR payloads\<close>

record QRPayloadClaims =
  qpc_FullName :: string
  qpc_StudentName :: string
  qpc_DiplomaNumber :: string
  qpc_Specialty :: string
  qpc_Degree :: string
  qpc_Faculty :: string
  qpc_Year :: int
  qpc_Salt :: string

text \<open>\<open>ParsedQRPayload\<close> embeds \<open>QRPayloadClaims\<close>; its fields are promoted in Go.\<close>

record ParsedQRPayload =
  pqp_DiplomaHash :: string
  pqp_VUZID :: string
  pqp_IssuedAt :: int
  pqp_Claims :: QRPayloadClaims

text \<open>
  Two interfaces of the repository, as the methods it calls.  \<open>seal\<close> takes the random nonce it
  reads as its first argument; \<open>None\<close> is a failing random source.
\<close>

type_synonym qr_decoder = "string \<Rightarrow> ParsedQRPayload res"

record payload_cipher =
  cipher_Seal :: "bytes option \<Rightarrow> bytes \<Rightarrow> string res"
  cipher_Open :: "string \<Rightarrow> bytes res"

end
