(* ===== verification/Database.thy ===== *)
theory Database
  imports Model
begin

text \<open>
  The PostgreSQL database behind the gateway: the tables of \<open>gateway-service/migrations\<close> after
  the last migration, the constraints they declare, and the way \<open>database/sql\<close> runs statements
  and transactions over them.

  A table is the list of its rows in insertion order.  A statement is a function from the tables
  to a result and new tables.  Every statement and every \<open>Begin\<close> and \<open>Commit\<close> consumes one entry
  of a fault schedule: it runs, or it fails before having an effect, or it fails after having had
  it (a connection lost on the way back).  A schedule stands for every failure whose cause is not
  in the tables: lost connections, cancelled contexts, malformed UUID text, values too long for
  their column.  Transactions are atomic and run one after the other.
\<close>

section \<open>Tables\<close>

record batch_row =
  br_id :: string
  br_vuz_id :: string
  br_status :: string
  br_total :: nat
  br_processed :: nat
  br_created_at :: time
  br_completed_at :: "time option"

record payload_row =
  pr_batch_id :: string
  pr_index :: int
  pr_payload :: string

record hash_row =
  hr_hash :: string
  hr_vuz_id :: string
  hr_number :: "string option"
  hr_status :: string
  hr_created_at :: time
  hr_revoked_at :: "time option"

record result_row =
  rr_batch_id :: string
  rr_index :: int
  rr_hash :: "string option"
  rr_qr :: "string option"
  rr_status :: string
  rr_error :: "string option"
  rr_created_at :: time

record db =
  universities :: "University list"
  platform_admins :: "PlatformAdmin list"
  api_keys :: "APIKey list"
  batches :: "batch_row list"
  batch_record_payloads :: "payload_row list"
  diploma_hashes :: "hash_row list"
  batch_results :: "result_row list"
  share_links :: "ShareLink list"
  university_signing_keys :: "UniversitySigningKey list"

definition empty_db :: db where
  "empty_db = \<lparr>universities = [], platform_admins = [], api_keys = [], batches = [],
     batch_record_payloads = [], diploma_hashes = [], batch_results = [], share_links = [],
     university_signing_keys = []\<rparr>"

text \<open>The error codes of PostgreSQL for the constraint violations.\<close>

abbreviation unique_violation :: err where "unique_violation \<equiv> PqError ''23505''"
abbreviation foreign_key_violation :: err where "foreign_key_violation \<equiv> PqError ''23503''"
abbreviation check_violation :: err where "check_violation \<equiv> PqError ''23514''"

definition has_university :: "db \<Rightarrow> string \<Rightarrow> bool" where
  "has_university d v \<longleftrightarrow> v \<in> u_ID ` set (universities d)"

definition has_batch :: "db \<Rightarrow> string \<Rightarrow> bool" where
  "has_batch d b \<longleftrightarrow> b \<in> br_id ` set (batches d)"

definition has_hash :: "db \<Rightarrow> string \<Rightarrow> bool" where
  "has_hash d h \<longleftrightarrow> h \<in> hr_hash ` set (diploma_hashes d)"

section \<open>Sessions\<close>

datatype fault = NoFault | FailBefore string | FailAfter string

record sess =
  tables :: db
  faults :: "fault list"

type_synonym 'a stmt = "db \<Rightarrow> 'a res \<times> db"
type_synonym 'a dbm = "sess \<Rightarrow> 'a res \<times> sess"

definition run_stmt :: "'a stmt \<Rightarrow> 'a dbm" where
  "run_stmt q s = (case faults s of
     [] \<Rightarrow> (fst (q (tables s)), s\<lparr>tables := snd (q (tables s))\<rparr>)
   | NoFault # fs \<Rightarrow> (fst (q (tables s)), \<lparr>tables = snd (q (tables s)), faults = fs\<rparr>)
   | FailBefore c # fs \<Rightarrow> (Inl (PqError c), \<lparr>tables = tables s, faults = fs\<rparr>)
   | FailAfter c # fs \<Rightarrow> (Inl (PqError c), \<lparr>tables = snd (q (tables s)), faults = fs\<rparr>))"

definition ret :: "'a \<Rightarrow> 'a dbm" where
  "ret x s = (Inr x, s)"

definition fail :: "err \<Rightarrow> 'a dbm" where
  "fail e s = (Inl e, s)"

text \<open>\<open>if err != nil { return err }\<close> after a call, and a call whose error is inspected.\<close>

definition and_then :: "'a dbm \<Rightarrow> ('a \<Rightarrow> 'b dbm) \<Rightarrow> 'b dbm" where
  "and_then m f s = (case m s of (Inl e, t) \<Rightarrow> (Inl e, t) | (Inr x, t) \<Rightarrow> f x t)"

definition attempt :: "'a dbm \<Rightarrow> ('a res \<Rightarrow> 'b dbm) \<Rightarrow> 'b dbm" where
  "attempt m f s = (case m s of (r, t) \<Rightarrow> f r t)"

text \<open>
  \<open>BeginTx\<close>, the body, \<open>return tx.Commit()\<close>; the deferred \<open>Rollback\<close> undoes the body when it
  returns an error.
\<close>

definition with_tx :: "'a dbm \<Rightarrow> 'a dbm" where
  "with_tx body s =
     (case run_stmt (\<lambda>d. (Inr (), d)) s of
        (Inl e, s1) \<Rightarrow> (Inl e, s1)
      | (Inr _, s1) \<Rightarrow>
          (case body s1 of
             (Inl e, s2) \<Rightarrow> (Inl e, s2\<lparr>tables := tables s1\<rparr>)
           | (Inr x, s2) \<Rightarrow>
               (case run_stmt (\<lambda>d. (Inr x, tables s2)) (s2\<lparr>tables := tables s1\<rparr>) of
                  (r, s3) \<Rightarrow> (r, s3))))"

text \<open>A run with no fault, on the tables alone.\<close>

definition pure :: "'a dbm \<Rightarrow> db \<Rightarrow> 'a res \<times> db" where
  "pure m d = (case m \<lparr>tables = d, faults = []\<rparr> of (r, s) \<Rightarrow> (r, tables s))"

text \<open>The tables after a transaction that nothing interrupts.\<close>

definition tx_effect :: "'a dbm \<Rightarrow> db \<Rightarrow> db" where
  "tx_effect body d = (case pure body d of (Inl e, _) \<Rightarrow> d | (Inr x, d') \<Rightarrow> d')"

section \<open>Facts about sessions\<close>

lemma run_stmt_cases:
  obtains "run_stmt q s = (fst (q (tables s)), \<lparr>tables = snd (q (tables s)), faults = tl (faults s)\<rparr>)"
      "faults s = [] \<or> hd (faults s) = NoFault"
  | c where "run_stmt q s = (Inl (PqError c), \<lparr>tables = tables s, faults = tl (faults s)\<rparr>)"
      "hd (faults s) = FailBefore c" "faults s \<noteq> []"
  | c where "run_stmt q s = (Inl (PqError c), \<lparr>tables = snd (q (tables s)), faults = tl (faults s)\<rparr>)"
      "hd (faults s) = FailAfter c" "faults s \<noteq> []"
proof (cases "faults s")
  case Nil
  then show thesis using that(1) by (simp add: run_stmt_def sess.defs)
next
  case (Cons f fs)
  then show thesis using that by (cases f) (auto simp: run_stmt_def)
qed

lemma run_stmt_pure [simp]:
  "run_stmt q \<lparr>tables = d, faults = []\<rparr> = (fst (q d), \<lparr>tables = snd (q d), faults = []\<rparr>)"
  by (simp add: run_stmt_def)

lemma run_stmt_tables: "tables (snd (run_stmt q s)) \<in> {tables s, snd (q (tables s))}"
  by (cases rule: run_stmt_cases[of q s]) auto

lemma run_stmt_InrD: "run_stmt q s = (Inr x, t) \<Longrightarrow> q (tables s) = (Inr x, tables t)"
  by (cases rule: run_stmt_cases[of q s]) (auto simp: prod_eq_iff)

lemma pure_run_stmt [simp]: "pure (run_stmt q) d = q d"
  by (simp add: pure_def)

lemma pure_ret [simp]: "pure (ret x) d = (Inr x, d)"
  by (simp add: pure_def ret_def)

lemma pure_fail [simp]: "pure (fail e) d = (Inl e, d)"
  by (simp add: pure_def fail_def)

text \<open>
  A body is transparent when a run that returns a value is the run without faults: a fault can
  only turn it into an error.
\<close>

definition transparent :: "'a dbm \<Rightarrow> bool" where
  "transparent m \<longleftrightarrow>
     (\<forall>s x t. m s = (Inr x, t) \<longrightarrow> pure m (tables s) = (Inr x, tables t)) \<and>
     (\<forall>d. faults (snd (m \<lparr>tables = d, faults = []\<rparr>)) = [])"

lemma transparentD: "transparent m \<Longrightarrow> m s = (Inr x, t) \<Longrightarrow> pure m (tables s) = (Inr x, tables t)"
  by (simp add: transparent_def)

lemma transparent_faults:
  "transparent m \<Longrightarrow> faults (snd (m \<lparr>tables = d, faults = []\<rparr>)) = []"
  by (simp add: transparent_def)

lemma transparent_pure:
  assumes "transparent m"
  shows "m \<lparr>tables = d, faults = []\<rparr> = (fst (pure m d), \<lparr>tables = snd (pure m d), faults = []\<rparr>)"
  using transparent_faults[OF assms, of d]
  by (cases "m \<lparr>tables = d, faults = []\<rparr>") (auto simp: pure_def intro: sess.equality)

lemma transparent_run_stmt [fault_transparent, intro]: "transparent (run_stmt q)"
  by (auto simp: transparent_def dest: run_stmt_InrD)

lemma transparent_ret [fault_transparent, intro]: "transparent (ret x)"
  by (auto simp: transparent_def ret_def pure_def)

lemma transparent_fail [fault_transparent, intro]: "transparent (fail e)"
  by (auto simp: transparent_def fail_def)

lemma pure_and_then:
  assumes "transparent m"
  shows "pure (and_then m f) d =
    (case pure m d of (Inl e, d') \<Rightarrow> (Inl e, d') | (Inr x, d') \<Rightarrow> pure (f x) d')"
  using transparent_pure[OF assms, of d]
  by (cases "fst (pure m d)") (auto simp: pure_def and_then_def split: prod.splits)

lemma pure_attempt:
  assumes "transparent m"
  shows "pure (attempt m f) d = (case pure m d of (r, d') \<Rightarrow> pure (f r) d')"
  using transparent_pure[OF assms, of d]
  by (auto simp: pure_def attempt_def split: prod.splits)

lemma transparent_and_then [fault_transparent, intro]:
  assumes "transparent m" "\<And>x. transparent (f x)"
  shows "transparent (and_then m f)"
  unfolding transparent_def
proof (intro conjI allI impI)
  fix s x t assume "and_then m f s = (Inr x, t)"
  then obtain y u where "m s = (Inr y, u)" "f y u = (Inr x, t)"
    by (auto simp: and_then_def split: prod.splits sum.splits)
  with assms have "pure m (tables s) = (Inr y, tables u)" "pure (f y) (tables u) = (Inr x, tables t)"
    by (blast dest: transparentD)+
  then show "pure (and_then m f) (tables s) = (Inr x, tables t)"
    by (simp add: pure_and_then assms)
next
  fix d
  show "faults (snd (and_then m f \<lparr>tables = d, faults = []\<rparr>)) = []"
    using transparent_pure[OF assms(1), of d] transparent_faults[OF assms(2)]
    by (simp add: and_then_def split: sum.splits)
qed

text \<open>Inspecting an error is harmless if the error of a fault is passed on.\<close>

lemma transparent_attempt [fault_transparent]:
  assumes "\<And>r. transparent (f r)" "\<And>c. \<exists>e. f (Inl (PqError c)) = fail e"
  shows "transparent (attempt (run_stmt q) f)"
  unfolding transparent_def
proof (intro conjI allI impI)
  fix s x t assume "attempt (run_stmt q) f s = (Inr x, t)"
  then obtain r u where ru: "run_stmt q s = (r, u)" "f r u = (Inr x, t)"
    by (auto simp: attempt_def split: prod.splits)
  have "r \<noteq> Inl (PqError c)" for c
    using assms(2)[of c] ru(2) by (auto simp: fail_def)
  then have "q (tables s) = (r, tables u)"
    using ru(1) by (cases rule: run_stmt_cases[of q s]) (auto simp: prod_eq_iff)
  moreover have "pure (f r) (tables u) = (Inr x, tables t)"
    using assms(1) ru(2) by (blast dest: transparentD)
  ultimately show "pure (attempt (run_stmt q) f) (tables s) = (Inr x, tables t)"
    by (simp add: pure_attempt transparent_run_stmt)
next
  fix d
  show "faults (snd (attempt (run_stmt q) f \<lparr>tables = d, faults = []\<rparr>)) = []"
    using transparent_faults[OF assms(1)] by (simp add: attempt_def)
qed

lemma transparent_if [fault_transparent]:
  "(c \<Longrightarrow> transparent m) \<Longrightarrow> (\<not> c \<Longrightarrow> transparent n) \<Longrightarrow> transparent (if c then m else n)"
  by simp

lemma transparent_option [fault_transparent]:
  "(x = None \<Longrightarrow> transparent m) \<Longrightarrow> (\<And>y. x = Some y \<Longrightarrow> transparent (f y)) \<Longrightarrow>
   transparent (case x of None \<Rightarrow> m | Some y \<Rightarrow> f y)"
  by (cases x) auto

lemma transparent_sum [fault_transparent]:
  "(\<And>e. x = Inl e \<Longrightarrow> transparent (f e)) \<Longrightarrow> (\<And>y. x = Inr y \<Longrightarrow> transparent (g y)) \<Longrightarrow>
   transparent (case x of Inl e \<Rightarrow> f e | Inr y \<Rightarrow> g y)"
  by (cases x) auto

text \<open>
  Atomicity: after a transaction the tables are what they were, or what the uninterrupted body
  makes of them; the latter whenever the transaction reports success.
\<close>

lemma with_tx_cases:
  assumes "transparent body" "with_tx body s = (r, t)"
  obtains e where "r = Inl e" "tables t = tables s"
  | x where "pure body (tables s) = (Inr x, tables t)" "r = Inr x \<or> (\<exists>e. r = Inl e)"
proof -
  obtain r1 s1 where b: "run_stmt (\<lambda>d. (Inr (), d)) s = (r1, s1)" by force
  then have s1: "tables s1 = tables s"
    by (cases rule: run_stmt_cases[of "\<lambda>d. (Inr (), d)" s]) auto
  show thesis
  proof (cases r1)
    case (Inl e)
    with b assms(2) s1 that(1) show thesis by (auto simp: with_tx_def)
  next
    case (Inr u)
    obtain r2 s2 where c: "body s1 = (r2, s2)" by force
    show thesis
    proof (cases r2)
      case (Inl e)
      with b c Inr assms(2) s1 that(1) show thesis by (auto simp: with_tx_def)
    next
      case (Inr x)
      with c assms(1) s1 have p: "pure body (tables s) = (Inr x, tables s2)"
        by (metis transparentD)
      have "run_stmt (\<lambda>d. (Inr x, tables s2)) (s2\<lparr>tables := tables s1\<rparr>) = (r, t)"
        using b c \<open>r1 = Inr u\<close> Inr assms(2) by (simp add: with_tx_def)
      then show thesis
        using that p s1
        by (cases rule: run_stmt_cases[of "\<lambda>d. (Inr x, tables s2)" "s2\<lparr>tables := tables s1\<rparr>"]) auto
    qed
  qed
qed

lemma with_tx_atomic:
  assumes "transparent body"
  shows "tables (snd (with_tx body s)) \<in> {tables s, tx_effect body (tables s)}"
    and "fst (with_tx body s) = Inr x \<Longrightarrow>
      tables (snd (with_tx body s)) = tx_effect body (tables s) \<and> fst (pure body (tables s)) = Inr x"
proof -
  obtain r t where rt: "with_tx body s = (r, t)" by force
  from assms rt show "tables (snd (with_tx body s)) \<in> {tables s, tx_effect body (tables s)}"
    by (cases rule: with_tx_cases) (auto simp: tx_effect_def rt)
  assume "fst (with_tx body s) = Inr x"
  with assms rt show "tables (snd (with_tx body s)) = tx_effect body (tables s)
      \<and> fst (pure body (tables s)) = Inr x"
    by (cases rule: with_tx_cases) (auto simp: tx_effect_def rt)
qed

lemma with_tx_pure:
  assumes "transparent body"
  shows "with_tx body \<lparr>tables = d, faults = []\<rparr> =
    (fst (pure body d), \<lparr>tables = tx_effect body d, faults = []\<rparr>)"
  using transparent_pure[OF assms, of d]
  by (cases "fst (pure body d)") (auto simp: with_tx_def tx_effect_def split: prod.splits)

lemma transparent_with_tx [fault_transparent, intro]:
  assumes "transparent body"
  shows "transparent (with_tx body)"
  unfolding transparent_def
proof (intro conjI allI impI)
  fix s x t assume "with_tx body s = (Inr x, t)"
  with assms show "pure (with_tx body) (tables s) = (Inr x, tables t)"
    by (cases rule: with_tx_cases)
       (auto simp: pure_def[of "with_tx body"] with_tx_pure[OF assms] tx_effect_def)
qed (simp add: with_tx_pure assms)

text \<open>What a result of a composed program says about its parts.\<close>

named_theorems run_simps \<open>results of database programs, part by part\<close>

lemma ret_eq [run_simps]: "ret x s = (r, t) \<longleftrightarrow> r = Inr x \<and> t = s"
  by (auto simp: ret_def)

lemma fail_eq [run_simps]: "fail e s = (r, t) \<longleftrightarrow> r = Inl e \<and> t = s"
  by (auto simp: fail_def)

lemma and_then_Inr [run_simps]:
  "and_then m f s = (Inr y, t) \<longleftrightarrow> (\<exists>x u. m s = (Inr x, u) \<and> f x u = (Inr y, t))"
  by (auto simp: and_then_def split: prod.splits sum.splits)

lemma and_then_Inl [run_simps]:
  "and_then m f s = (Inl e, t) \<longleftrightarrow> m s = (Inl e, t) \<or> (\<exists>x u. m s = (Inr x, u) \<and> f x u = (Inl e, t))"
  by (auto simp: and_then_def split: prod.splits sum.splits)

lemma attempt_eq [run_simps]: "attempt m f s = (r, t) \<longleftrightarrow> (\<exists>x u. m s = (x, u) \<and> f x u = (r, t))"
  by (auto simp: attempt_def split: prod.splits)

section \<open>Preservation of an invariant by a database program\<close>

definition preserves :: "(db \<Rightarrow> bool) \<Rightarrow> 'a dbm \<Rightarrow> bool" where
  "preserves P m \<longleftrightarrow> (\<forall>s. P (tables s) \<longrightarrow> P (tables (snd (m s))))"

lemma preservesD: "preserves P m \<Longrightarrow> P (tables s) \<Longrightarrow> P (tables (snd (m s)))"
  by (simp add: preserves_def)

lemma preserves_ret [intro]: "preserves P (ret x)"
  by (simp add: preserves_def ret_def)

lemma preserves_fail [intro]: "preserves P (fail e)"
  by (simp add: preserves_def fail_def)

lemma preserves_run_stmt [intro]:
  "(\<And>d. P d \<Longrightarrow> P (snd (q d))) \<Longrightarrow> preserves P (run_stmt q)"
  unfolding preserves_def by (metis insertE run_stmt_tables singletonD)

lemma preserves_and_then [intro]:
  "preserves P m \<Longrightarrow> (\<And>x. preserves P (f x)) \<Longrightarrow> preserves P (and_then m f)"
  unfolding preserves_def and_then_def
  by (auto split: prod.splits sum.splits; metis snd_conv)

lemma preserves_attempt [intro]:
  "preserves P m \<Longrightarrow> (\<And>x. preserves P (f x)) \<Longrightarrow> preserves P (attempt m f)"
  unfolding preserves_def attempt_def
  by (auto split: prod.splits; metis snd_conv)

lemma preserves_with_tx [intro]:
  "transparent body \<Longrightarrow> (\<And>d. P d \<Longrightarrow> P (tx_effect body d)) \<Longrightarrow> preserves P (with_tx body)"
  unfolding preserves_def by (metis insertE singletonD with_tx_atomic(1))

end
