(* ===== verification/GoStd.thy ===== *)
theory GoStd
  imports Prelude
begin

text \<open>
  The functions of Go's standard library that the code calls on strings, as the library
  defines them: \<open>strings\<close> (TrimSpace, TrimRight, HasPrefix, TrimPrefix, Contains, Split,
  SplitN, Join, EqualFold), \<open>strconv\<close> (Itoa, Atoi), \<open>encoding/hex\<close> and
  \<open>encoding/base64\<close>.  A string is its list of bytes, so a Unicode white space beyond ASCII
  is the byte sequence of its UTF-8 encoding.
\<close>

section \<open>Bytes\<close>

abbreviation byte :: "nat \<Rightarrow> char" where
  "byte n \<equiv> char_of n"

abbreviation code :: "char \<Rightarrow> nat" where
  "code c \<equiv> of_char c"

lemma code_lt [simp]: "code c < 256"
  by (metis mod_less_divisor of_char_mod_256 zero_less_numeral)

lemma code_le: "code c \<le> 255"
  using code_lt[of c] by linarith

lemma code_byte [simp]: "n < 256 \<Longrightarrow> code (byte n) = n"
  by simp

lemma char_eq_byte: "n < 256 \<Longrightarrow> c = byte n \<longleftrightarrow> code c = n"
  by auto

lemma byte_eq_char: "n < 256 \<Longrightarrow> byte n = c \<longleftrightarrow> code c = n"
  by auto

lemma code_eq_iff [simp]: "(code a = code b) = (a = b)"
  by simp

section \<open>Package strings\<close>

text \<open>
  \<open>unicode.IsSpace\<close>: the white space of Unicode, each as its UTF-8 encoding.
\<close>

definition space_encodings :: "string list" where
  "space_encodings =
     map (\<lambda>n. [byte n]) [9, 10, 11, 12, 13, 32]
     @ map (map byte) [[194, 133], [194, 160], [225, 154, 128], [226, 128, 168], [226, 128, 169],
         [226, 128, 175], [226, 129, 159], [227, 128, 128]]
     @ map (\<lambda>n. map byte [226, 128, n]) [128, 129, 130, 131, 132, 133, 134, 135, 136, 137, 138]"

fun strip_prefix :: "string \<Rightarrow> string \<Rightarrow> string option" where
  "strip_prefix [] s = Some s"
| "strip_prefix (p # ps) [] = None"
| "strip_prefix (p # ps) (c # cs) = (if p = c then strip_prefix ps cs else None)"

fun strip_first :: "string list \<Rightarrow> string \<Rightarrow> string option" where
  "strip_first [] s = None"
| "strip_first (e # es) s = (case strip_prefix e s of Some r \<Rightarrow> Some r | None \<Rightarrow> strip_first es s)"

lemma strip_prefix_Some: "strip_prefix p s = Some r \<longleftrightarrow> s = p @ r"
  by (induction p s rule: strip_prefix.induct) auto

lemma strip_first_Some: "strip_first es s = Some r \<Longrightarrow> \<exists>e \<in> set es. s = e @ r"
  by (induction es s rule: strip_first.induct) (auto simp: strip_prefix_Some split: option.splits)

lemma strip_first_None: "strip_first es s = None \<longleftrightarrow> (\<forall>e \<in> set es. \<forall>r. s \<noteq> e @ r)"
  by (induction es s rule: strip_first.induct)
    (auto simp: strip_prefix_Some split: option.splits, metis not_None_eq strip_prefix_Some)

text \<open>
  Removing leading white space, with the encodings given: the trailing white space is removed
  by the same loop on the reversed string with the reversed encodings.
\<close>

function trim_with :: "string list \<Rightarrow> string \<Rightarrow> string" where
  "trim_with es s = (case strip_first es s of
     None \<Rightarrow> s | Some r \<Rightarrow> if length r < length s then trim_with es r else s)"
  by pat_completeness auto
termination
  by (relation "measure (\<lambda>(es, s). length s)") auto

declare trim_with.simps [simp del]

definition trim_left :: "string \<Rightarrow> string" where
  "trim_left s = trim_with space_encodings s"

definition trim_right :: "string \<Rightarrow> string" where
  "trim_right s = rev (trim_with (map rev space_encodings) (rev s))"

definition TrimSpace :: "string \<Rightarrow> string" where
  "TrimSpace s = trim_right (trim_left s)"

definition blank :: "string \<Rightarrow> bool" where
  "blank s \<longleftrightarrow> TrimSpace s = ''''"

text \<open>\<open>strings.TrimRight(s, cutset)\<close> for a one-byte cut set.\<close>

definition TrimRight :: "string \<Rightarrow> char \<Rightarrow> string" where
  "TrimRight s c = rev (dropWhile (\<lambda>x. x = c) (rev s))"

definition HasPrefix :: "string \<Rightarrow> string \<Rightarrow> bool" where
  "HasPrefix s p \<longleftrightarrow> strip_prefix p s \<noteq> None"

definition TrimPrefix :: "string \<Rightarrow> string \<Rightarrow> string" where
  "TrimPrefix s p = (case strip_prefix p s of None \<Rightarrow> s | Some r \<Rightarrow> r)"

fun Contains :: "string \<Rightarrow> string \<Rightarrow> bool" where
  "Contains [] p = HasPrefix [] p"
| "Contains (c # cs) p = (HasPrefix (c # cs) p \<or> Contains cs p)"

text \<open>\<open>strings.Split(s, sep)\<close> for a one-byte separator: always at least one part.\<close>

fun Split :: "char \<Rightarrow> string \<Rightarrow> string list" where
  "Split sep [] = [[]]"
| "Split sep (c # cs) =
     (if c = sep then [] # Split sep cs
      else case Split sep cs of [] \<Rightarrow> [[c]] | p # ps \<Rightarrow> (c # p) # ps)"

text \<open>\<open>strings.SplitN(s, sep, 2)\<close>: at most two parts, the rest unsplit.\<close>

fun Split2 :: "char \<Rightarrow> string \<Rightarrow> string list" where
  "Split2 sep [] = [[]]"
| "Split2 sep (c # cs) =
     (if c = sep then [[], cs]
      else case Split2 sep cs of [] \<Rightarrow> [[c]] | p # ps \<Rightarrow> (c # p) # ps)"

fun Join :: "string list \<Rightarrow> string \<Rightarrow> string" where
  "Join [] sep = []"
| "Join [p] sep = p"
| "Join (p # q # ps) sep = p @ sep @ Join (q # ps) sep"

definition ascii_lower :: "char \<Rightarrow> char" where
  "ascii_lower c = (if 65 \<le> code c \<and> code c \<le> 90 then byte (code c + 32) else c)"

text \<open>
  \<open>strings.EqualFold(s, t)\<close> where \<open>t\<close> is ASCII: letters are compared without case, and the two
  runes beyond ASCII that fold to an ASCII letter are the Kelvin sign (k) and the long s (s).
\<close>

fun EqualFold :: "string \<Rightarrow> string \<Rightarrow> bool" where
  "EqualFold s [] = (s = [])"
| "EqualFold s (t # ts) =
     (case s of
        [] \<Rightarrow> False
      | c # cs \<Rightarrow>
          if ascii_lower c = ascii_lower t then EqualFold cs ts
          else if ascii_lower t = CHR ''k'' then
            (case strip_prefix (map byte [226, 132, 170]) s of
               Some r \<Rightarrow> EqualFold r ts | None \<Rightarrow> False)
          else if ascii_lower t = CHR ''s'' then
            (case strip_prefix (map byte [197, 191]) s of
               Some r \<Rightarrow> EqualFold r ts | None \<Rightarrow> False)
          else False)"

section \<open>Package strconv\<close>

definition digit_char :: "nat \<Rightarrow> char" where
  "digit_char d = byte (48 + d)"

definition digit_value :: "char \<Rightarrow> nat option" where
  "digit_value c = (if 48 \<le> code c \<and> code c \<le> 57 then Some (code c - 48) else None)"

fun nat_string :: "nat \<Rightarrow> string" where
  "nat_string n = (if n < 10 then [digit_char n] else nat_string (n div 10) @ [digit_char (n mod 10)])"

declare nat_string.simps [simp del]

definition Itoa :: "int \<Rightarrow> string" where
  "Itoa i = (if i < 0 then CHR ''-'' # nat_string (nat (- i)) else nat_string (nat i))"

fun digits_value :: "nat \<Rightarrow> string \<Rightarrow> nat option" where
  "digits_value acc [] = Some acc"
| "digits_value acc (c # cs) =
     (case digit_value c of None \<Rightarrow> None | Some d \<Rightarrow> digits_value (10 * acc + d) cs)"

definition int_min :: int where "int_min = - (2 ^ 63)"
definition int_max :: int where "int_max = 2 ^ 63 - 1"

text \<open>\<open>strconv.Atoi\<close>: an optional sign, at least one digit, only digits, in the range of \<open>int\<close>.\<close>

definition Atoi :: "string \<Rightarrow> int option" where
  "Atoi s =
     (let neg = (case s of c # _ \<Rightarrow> c = CHR ''-'' | [] \<Rightarrow> False);
          body = (case s of [] \<Rightarrow> [] | c # cs \<Rightarrow> if c = CHR ''-'' \<or> c = CHR ''+'' then cs else s)
      in if body = [] then None
         else case digits_value 0 body of
             None \<Rightarrow> None
           | Some n \<Rightarrow>
               let v = (if neg then - int n else int n)
               in if int_min \<le> v \<and> v \<le> int_max then Some v else None)"

section \<open>Package encoding/hex\<close>

definition hex_char :: "nat \<Rightarrow> char" where
  "hex_char d = (if d < 10 then byte (48 + d) else byte (87 + d))"

definition hex_value :: "char \<Rightarrow> nat option" where
  "hex_value c =
     (let n = code c
      in if 48 \<le> n \<and> n \<le> 57 then Some (n - 48)
         else if 97 \<le> n \<and> n \<le> 102 then Some (n - 87)
         else if 65 \<le> n \<and> n \<le> 70 then Some (n - 55) else None)"

fun hex_encode :: "bytes \<Rightarrow> string" where
  "hex_encode [] = []"
| "hex_encode (b # bs) = hex_char (code b div 16) # hex_char (code b mod 16) # hex_encode bs"

fun hex_decode :: "string \<Rightarrow> bytes option" where
  "hex_decode [] = Some []"
| "hex_decode [c] = None"
| "hex_decode (c # d # cs) =
     (case (hex_value c, hex_value d, hex_decode cs) of
        (Some h, Some l, Some bs) \<Rightarrow> Some (byte (16 * h + l) # bs)
      | _ \<Rightarrow> None)"

section \<open>Package encoding/base64\<close>

text \<open>The standard and the URL alphabet.\<close>

definition b64_char :: "bool \<Rightarrow> nat \<Rightarrow> char" where
  "b64_char url n =
     (if n < 26 then byte (65 + n) else if n < 52 then byte (71 + n)
      else if n < 62 then byte (n - 4)
      else if n = 62 then (if url then CHR ''-'' else CHR ''+'')
      else (if url then CHR ''_'' else CHR ''/''))"

definition b64_value :: "bool \<Rightarrow> char \<Rightarrow> nat option" where
  "b64_value url c =
     (let n = code c
      in if 65 \<le> n \<and> n \<le> 90 then Some (n - 65)
         else if 97 \<le> n \<and> n \<le> 122 then Some (n - 71)
         else if 48 \<le> n \<and> n \<le> 57 then Some (n + 4)
         else if c = (if url then CHR ''-'' else CHR ''+'') then Some 62
         else if c = (if url then CHR ''_'' else CHR ''/'') then Some 63
         else None)"

fun b64_encode :: "bool \<Rightarrow> bool \<Rightarrow> bytes \<Rightarrow> string" where
  "b64_encode url pad [] = []"
| "b64_encode url pad [a] =
     (let n = code a * 16
      in [b64_char url (n div 64), b64_char url (n mod 64)] @ (if pad then ''=='' else []))"
| "b64_encode url pad [a, b] =
     (let n = (code a * 256 + code b) * 4
      in [b64_char url (n div 4096), b64_char url (n div 64 mod 64), b64_char url (n mod 64)]
         @ (if pad then ''='' else []))"
| "b64_encode url pad (a # b # c # rest) =
     (let n = code a * 65536 + code b * 256 + code c
      in [b64_char url (n div 262144), b64_char url (n div 4096 mod 64),
          b64_char url (n div 64 mod 64), b64_char url (n mod 64)] @ b64_encode url pad rest)"

text \<open>
  Decoding skips carriage returns and newlines wherever they stand, then reads groups of four;
  with padding the last group is filled with \<open>=\<close>, without padding it may be short.
\<close>

fun b64_groups :: "bool \<Rightarrow> bool \<Rightarrow> string \<Rightarrow> bytes option" where
  "b64_groups url pad [] = Some []"
| "b64_groups url pad [w] = None"
| "b64_groups url pad [w, x] =
     (if pad then None
      else case (b64_value url w, b64_value url x) of
          (Some p, Some q) \<Rightarrow> Some [byte ((p * 64 + q) div 16)]
        | _ \<Rightarrow> None)"
| "b64_groups url pad [w, x, y] =
     (if pad then None
      else case (b64_value url w, b64_value url x, b64_value url y) of
          (Some p, Some q, Some r) \<Rightarrow>
            (let n = p * 4096 + q * 64 + r in Some [byte (n div 1024), byte (n div 4 mod 256)])
        | _ \<Rightarrow> None)"
| "b64_groups url pad (w # x # y # z # rest) =
     (case (b64_value url w, b64_value url x) of
        (Some p, Some q) \<Rightarrow>
          (case (b64_value url y, b64_value url z) of
             (Some r, Some s) \<Rightarrow>
               (let n = p * 262144 + q * 4096 + r * 64 + s
                in map_option
                     (\<lambda>bs. byte (n div 65536) # byte (n div 256 mod 256) # byte (n mod 256) # bs)
                     (b64_groups url pad rest))
           | (Some r, None) \<Rightarrow>
               if pad \<and> z = CHR ''='' \<and> rest = [] then
                 (let n = p * 4096 + q * 64 + r in Some [byte (n div 1024), byte (n div 4 mod 256)])
               else None
           | (None, _) \<Rightarrow>
               if pad \<and> y = CHR ''='' \<and> z = CHR ''='' \<and> rest = []
               then Some [byte ((p * 64 + q) div 16)] else None)
      | _ \<Rightarrow> None)"

definition b64_decode :: "bool \<Rightarrow> bool \<Rightarrow> string \<Rightarrow> bytes option" where
  "b64_decode url pad s = b64_groups url pad (filter (\<lambda>c. c \<noteq> byte 10 \<and> c \<noteq> byte 13) s)"

abbreviation std_encode :: "bytes \<Rightarrow> string" where "std_encode \<equiv> b64_encode False True"
abbreviation std_decode :: "string \<Rightarrow> bytes option" where "std_decode \<equiv> b64_decode False True"
abbreviation raw_std_encode :: "bytes \<Rightarrow> string" where "raw_std_encode \<equiv> b64_encode False False"
abbreviation raw_std_decode :: "string \<Rightarrow> bytes option" where "raw_std_decode \<equiv> b64_decode False False"
abbreviation raw_url_encode :: "bytes \<Rightarrow> string" where "raw_url_encode \<equiv> b64_encode True False"
abbreviation raw_url_decode :: "string \<Rightarrow> bytes option" where "raw_url_decode \<equiv> b64_decode True False"


section \<open>Facts about trimming\<close>

lemma trim_with_suffix: "\<exists>p. s = p @ trim_with es s"
proof (induction es s rule: trim_with.induct)
  case (1 es s)
  show ?case
  proof (cases "strip_first es s")
    case None
    then show ?thesis by (subst trim_with.simps) simp
  next
    case (Some r)
    then obtain e where "s = e @ r" using strip_first_Some by blast
    with Some 1 show ?thesis
      by (subst trim_with.simps) (auto split: if_splits, metis append.assoc)
  qed
qed

lemma length_trim_with: "length (trim_with es s) \<le> length s"
  by (metis trim_with_suffix le_add2 length_append)

lemma trim_with_fixed: "strip_first es s = None \<Longrightarrow> trim_with es s = s"
  by (subst trim_with.simps) simp

lemma strip_first_shorter:
  "[] \<notin> set es \<Longrightarrow> strip_first es s = Some r \<Longrightarrow> length r < length s"
  by (auto dest!: strip_first_Some)

lemma strip_first_trim_with: "[] \<notin> set es \<Longrightarrow> strip_first es (trim_with es s) = None"
proof (induction es s rule: trim_with.induct)
  case (1 es s)
  show ?case
  proof (cases "strip_first es s")
    case None
    then show ?thesis by (simp add: trim_with_fixed)
  next
    case (Some r)
    with 1 strip_first_shorter[of es s r] show ?thesis
      by (subst trim_with.simps) simp
  qed
qed

lemma strip_first_None_prefix:
  "strip_first es (x @ y) = None \<Longrightarrow> strip_first es x = None"
  by (auto simp: strip_first_None)

lemma Nil_notin_space_encodings [simp]:
  "[] \<notin> set space_encodings" "[] \<notin> set (map rev space_encodings)"
  by (auto simp: space_encodings_def)

lemma strip_first_TrimSpace:
  "strip_first space_encodings (TrimSpace s) = None"
  "strip_first (map rev space_encodings) (rev (TrimSpace s)) = None"
proof -
  obtain p where "rev (trim_left s) = p @ rev (TrimSpace s)"
    using trim_with_suffix[of "rev (trim_left s)" "map rev space_encodings"]
    by (auto simp: TrimSpace_def trim_right_def)
  then have "trim_left s = TrimSpace s @ rev p"
    by (metis rev_append rev_rev_ident)
  then show "strip_first space_encodings (TrimSpace s) = None"
    using strip_first_trim_with[of space_encodings s]
    by (metis Nil_notin_space_encodings(1) strip_first_None_prefix trim_left_def)
  show "strip_first (map rev space_encodings) (rev (TrimSpace s)) = None"
    by (simp add: TrimSpace_def trim_right_def strip_first_trim_with del: set_map)
qed

lemma TrimSpace_fixed:
  "strip_first space_encodings s = None \<Longrightarrow>
   strip_first (map rev space_encodings) (rev s) = None \<Longrightarrow> TrimSpace s = s"
  by (simp add: TrimSpace_def trim_left_def trim_right_def trim_with_fixed)

lemma TrimSpace_idem [simp]: "TrimSpace (TrimSpace s) = TrimSpace s"
  by (rule TrimSpace_fixed) (simp_all add: strip_first_TrimSpace)

lemma TrimSpace_Nil [simp]: "TrimSpace [] = []"
  by (rule TrimSpace_fixed) (auto simp: strip_first_None space_encodings_def)

lemma blank_Nil [simp]: "blank []"
  by (simp add: blank_def)

lemma blank_TrimSpace [simp]: "blank (TrimSpace s) = blank s"
  by (simp add: blank_def)

lemma not_blank_nonempty: "\<not> blank s \<Longrightarrow> s \<noteq> []"
  by auto

text \<open>A string that starts and ends with a printable ASCII byte is not changed.\<close>

definition graphic :: "char \<Rightarrow> bool" where
  "graphic c \<longleftrightarrow> 33 \<le> code c \<and> code c \<le> 126"

lemma space_encodings_not_graphic:
  "e \<in> set space_encodings \<Longrightarrow> \<not> graphic (hd e) \<and> \<not> graphic (last e) \<and> e \<noteq> []"
  by (auto simp: space_encodings_def graphic_def)

lemma TrimSpace_graphic:
  assumes "s \<noteq> []" "graphic (hd s)" "graphic (last s)"
  shows "TrimSpace s = s"
proof (rule TrimSpace_fixed)
  show "strip_first space_encodings s = None"
    using assms space_encodings_not_graphic by (auto simp: strip_first_None)
  show "strip_first (map rev space_encodings) (rev s) = None"
  proof -
    have "rev s \<noteq> rev e @ r" if "e \<in> set space_encodings" for e r
    proof
      assume "rev s = rev e @ r"
      then have "s = rev r @ e" by (metis rev_append rev_rev_ident)
      with that assms(3) space_encodings_not_graphic[of e] show False by auto
    qed
    then show ?thesis by (auto simp: strip_first_None)
  qed
qed

lemma not_blank_graphic: "s \<noteq> [] \<Longrightarrow> graphic (hd s) \<Longrightarrow> graphic (last s) \<Longrightarrow> \<not> blank s"
  by (simp add: blank_def TrimSpace_graphic)

section \<open>Facts about splitting and joining\<close>

lemma Split_nonempty [simp]: "Split sep s \<noteq> []"
  by (induction s) (auto split: list.splits)

lemma Join_Split: "Join (Split sep s) [sep] = s"
proof (induction s)
  case (Cons c s)
  then show ?case
    by (cases "Split sep s") (auto split: list.splits, (metis Join.simps(2,3) append_Cons neq_Nil_conv)+)
qed simp

lemma Split_no_sep: "sep \<notin> set s \<Longrightarrow> Split sep s = [s]"
  by (induction s) auto

lemma Split_append_sep: "sep \<notin> set p \<Longrightarrow> Split sep (p @ sep # s) = p # Split sep s"
  by (induction p) auto

lemma Split_Join:
  "ps \<noteq> [] \<Longrightarrow> (\<And>p. p \<in> set ps \<Longrightarrow> sep \<notin> set p) \<Longrightarrow> Split sep (Join ps [sep]) = ps"
  by (induction ps "[sep]" rule: Join.induct) (auto simp: Split_no_sep Split_append_sep)

lemma Join_inject:
  assumes "Join ps [sep] = Join qs [sep]" "ps \<noteq> []" "qs \<noteq> []"
    "\<And>p. p \<in> set ps \<Longrightarrow> sep \<notin> set p" "\<And>p. p \<in> set qs \<Longrightarrow> sep \<notin> set p"
  shows "ps = qs"
  by (metis assms Split_Join)

lemma TrimPrefix_append [simp]: "TrimPrefix (p @ s) p = s"
  by (simp add: TrimPrefix_def strip_prefix_Some[THEN iffD2, OF refl])

lemma HasPrefix_append [simp]: "HasPrefix (p @ s) p"
  by (simp add: HasPrefix_def strip_prefix_Some[THEN iffD2, OF refl])

lemma HasPrefix_iff: "HasPrefix s p \<longleftrightarrow> (\<exists>r. s = p @ r)"
  by (auto simp: HasPrefix_def strip_prefix_Some)

section \<open>Round trips\<close>

lemma hex_value_char: "d < 16 \<Longrightarrow> hex_value (hex_char d) = Some d"
  by (auto simp: hex_value_def hex_char_def Let_def)

lemma code_div_16 [simp]: "code c div 16 < 16"
  by (rule less_mult_imp_div_less) simp

lemma hex_decode_encode [simp]: "hex_decode (hex_encode bs) = Some bs"
  by (induction bs rule: hex_encode.induct) (auto simp: hex_value_char)

lemma length_hex_encode [simp]: "length (hex_encode bs) = 2 * length bs"
  by (induction bs) auto

lemma b64_value_char: "n < 64 \<Longrightarrow> b64_value url (b64_char url n) = Some n"
  by (auto simp: b64_char_def b64_value_def Let_def)

definition in_token :: "char \<Rightarrow> bool" where
  "in_token c \<longleftrightarrow> graphic c \<and> c \<noteq> CHR ''.''"

lemma b64_char_in_token: "n < 64 \<Longrightarrow> in_token (b64_char url n)"
  by (auto simp: b64_char_def graphic_def in_token_def byte_eq_char)

lemma in_token_pad: "in_token (CHR ''='')"
  by (simp add: graphic_def in_token_def)

lemma b64_value_pad [simp]: "b64_value url (CHR ''='') = None"
  by (simp add: b64_value_def)

lemma b64_encode_in_token: "c \<in> set (b64_encode url pad bs) \<Longrightarrow> in_token c"
proof (induction url pad bs rule: b64_encode.induct)
  case (4 url pad a b d rest)
  have "code a * 65536 + code b * 256 + code d < 64 * 262144"
    using code_le[of a] code_le[of b] code_le[of d] by linarith
  then have "(code a * 65536 + code b * 256 + code d) div 262144 < 64"
    by (rule less_mult_imp_div_less)
  with 4 show ?case by (auto simp: Let_def b64_char_in_token in_token_pad)
next
  case (3 url pad a b)
  have "code a * 256 + code b < 65536"
    using code_le[of a] code_le[of b] by linarith
  then have "(code a * 256 + code b) * 4 < 64 * 4096" by simp
  then have "(code a * 256 + code b) * 4 div 4096 < 64"
    by (rule less_mult_imp_div_less)
  with 3 show ?case by (auto simp: Let_def b64_char_in_token in_token_pad split: if_splits)
next
  case (2 url pad a)
  have "code a * 16 < 64 * 64"
    using code_lt[of a] by linarith
  then have "code a * 16 div 64 < 64"
    by (rule less_mult_imp_div_less)
  with 2 show ?case by (auto simp: Let_def b64_char_in_token in_token_pad split: if_splits)
qed simp

lemma b64_encode_graphic: "c \<in> set (b64_encode url pad bs) \<Longrightarrow> graphic c"
  using b64_encode_in_token[of c url pad bs] by (simp add: in_token_def)

lemma b64_encode_no_dot [simp]: "CHR ''.'' \<notin> set (b64_encode url pad bs)"
  using b64_encode_in_token[of "CHR ''.''" url pad bs] by (auto simp: in_token_def)

lemma b64_encode_plain: "c \<in> set (b64_encode url pad bs) \<Longrightarrow> code c \<noteq> 10 \<and> code c \<noteq> 13"
  using b64_encode_graphic[of c url pad bs] by (auto simp: graphic_def)

lemma b64_encode_eq_Nil [simp]: "b64_encode url pad bs = [] \<longleftrightarrow> bs = []"
  by (cases "(url, pad, bs)" rule: b64_encode.cases) (auto simp: Let_def)

lemma sextets4_join:
  "n div 262144 * 262144 + n div 4096 mod 64 * 4096 + n div 64 mod 64 * 64 + n mod 64 = (n::nat)"
proof -
  have "n = n div 64 * 64 + n mod 64" "n div 64 = n div 4096 * 64 + n div 64 mod 64"
    "n div 4096 = n div 262144 * 64 + n div 4096 mod 64"
    by (simp_all add: div_mult2_eq[of n 64 64, simplified] div_mult2_eq[of n 4096 64, simplified])
  then show ?thesis by linarith
qed

lemma sextets3_join: "n div 4096 * 4096 + n div 64 mod 64 * 64 + n mod 64 = (n::nat)"
proof -
  have "n = n div 64 * 64 + n mod 64" "n div 64 = n div 4096 * 64 + n div 64 mod 64"
    by (simp_all add: div_mult2_eq[of n 64 64, simplified])
  then show ?thesis by linarith
qed

lemma bytes3_split:
  fixes a b c :: nat
  assumes "a < 256" "b < 256" "c < 256"
  shows "(a * 65536 + b * 256 + c) div 65536 = a"
    and "(a * 65536 + b * 256 + c) div 256 mod 256 = b"
    and "(a * 65536 + b * 256 + c) mod 256 = c"
proof -
  show "(a * 65536 + b * 256 + c) div 65536 = a"
    using assms by (intro div_nat_eqI) auto
  have "(a * 65536 + b * 256 + c) div 256 = a * 256 + b"
    using assms by (intro div_nat_eqI) auto
  then show "(a * 65536 + b * 256 + c) div 256 mod 256 = b"
    using assms by simp
  have "a * 65536 + b * 256 + c = (a * 256 + b) * 256 + c" by simp
  then show "(a * 65536 + b * 256 + c) mod 256 = c"
    using assms by (metis mod_less mod_mult_self3)
qed

lemma byte_modI: "n mod 256 = code c \<Longrightarrow> byte n = c"
  by (metis char_of_char char_of_mod_256)

lemma b64_group4:
  assumes "p < 64" "q < 64" "r < 64" "s < 64"
    and "byte ((p * 262144 + q * 4096 + r * 64 + s) div 65536) = a"
    and "byte ((p * 262144 + q * 4096 + r * 64 + s) div 256) = b"
    and "byte (p * 262144 + q * 4096 + r * 64 + s) = c"
  shows "b64_groups url pad
           (b64_char url p # b64_char url q # b64_char url r # b64_char url s # rest) =
         map_option (\<lambda>bs. a # b # c # bs) (b64_groups url pad rest)"
  using assms by (simp add: b64_value_char Let_def)

lemma b64_group3:
  assumes "p < 64" "q < 64" "r < 64"
    and "byte ((p * 4096 + q * 64 + r) div 1024) = a"
    and "byte ((p * 4096 + q * 64 + r) div 4) = b"
  shows "b64_groups url pad
           ([b64_char url p, b64_char url q, b64_char url r] @ (if pad then ''='' else [])) = Some [a, b]"
  using assms by (simp add: b64_value_char Let_def)

lemma b64_groups_encode: "b64_groups url pad (b64_encode url pad bs) = Some bs"
proof (induction url pad bs rule: b64_encode.induct)
  case (4 url pad a b d rest)
  define n where "n = code a * 65536 + code b * 256 + code d"
  have "n < 64 * 262144"
    using code_le[of a] code_le[of b] code_le[of d] unfolding n_def by linarith
  then have top: "n div 262144 < 64"
    by (rule less_mult_imp_div_less)
  have ds: "n div 65536 = code a" "n div 256 mod 256 = code b" "n mod 256 = code d"
    unfolding n_def by (rule bytes3_split; rule code_lt)+
  have "byte (n div 65536) = a" by (simp only: ds char_of_char)
  moreover have "byte (n div 256) = b" by (rule byte_modI) (rule ds)
  moreover have "byte n = d" by (rule byte_modI) (rule ds)
  ultimately have "b64_groups url pad
       (b64_char url (n div 262144) # b64_char url (n div 4096 mod 64) #
        b64_char url (n div 64 mod 64) # b64_char url (n mod 64) # b64_encode url pad rest) =
     map_option (\<lambda>bs. a # b # d # bs) (b64_groups url pad (b64_encode url pad rest))"
    using top by (intro b64_group4) (simp_all only: sextets4_join mod_less_divisor zero_less_numeral)
  also have "\<dots> = Some (a # b # d # rest)"
    by (simp only: 4[OF refl] option.map)
  finally show ?case
    by (simp only: b64_encode.simps Let_def n_def append.simps)
next
  case (3 url pad a b)
  define n where "n = (code a * 256 + code b) * 4"
  have "code a * 256 + code b < 65536"
    using code_le[of a] code_le[of b] by linarith
  then have "n < 64 * 4096" unfolding n_def by simp
  then have top: "n div 4096 < 64"
    by (rule less_mult_imp_div_less)
  have join: "n div 4096 * 4096 + n div 64 mod 64 * 64 + n mod 64 = n"
    by (rule sextets3_join)
  have "n div 4 = code a * 256 + code b" by (simp add: n_def)
  then have ds: "n div 1024 = code a" "n div 4 mod 256 = code b"
    using bytes3_split(2,3)[of 0 "code a" "code b"]
    by (simp_all add: div_mult2_eq[of n 4 256, simplified])
  have "byte (n div 1024) = a" by (simp only: ds char_of_char)
  moreover have "byte (n div 4) = b" by (rule byte_modI) (rule ds)
  ultimately have "b64_groups url pad
      ([b64_char url (n div 4096), b64_char url (n div 64 mod 64), b64_char url (n mod 64)]
       @ (if pad then ''='' else [])) = Some [a, b]"
    using top by (intro b64_group3) (simp_all only: join mod_less_divisor zero_less_numeral)
  then show ?case
    by (simp only: b64_encode.simps Let_def n_def)
next
  case (2 url pad a)
  define n where "n = code a * 16"
  have "n < 64 * 64"
    using code_le[of a] unfolding n_def by linarith
  then have top: "n div 64 < 64"
    by (rule less_mult_imp_div_less)
  have "b64_groups url pad
      ([b64_char url (n div 64), b64_char url (n mod 64)] @ (if pad then ''=='' else [])) = Some [a]"
    using top by (simp add: b64_value_char) (simp add: n_def)
  then show ?case
    by (simp only: b64_encode.simps Let_def n_def)
qed simp

lemma b64_decode_encode [simp]: "b64_decode url pad (b64_encode url pad bs) = Some bs"
proof -
  have "filter (\<lambda>c. c \<noteq> byte 10 \<and> c \<noteq> byte 13) (b64_encode url pad bs) = b64_encode url pad bs"
    using b64_encode_plain by (intro filter_True) (auto simp: char_eq_byte)
  then show ?thesis by (simp add: b64_decode_def b64_groups_encode)
qed

lemma digit_value_char [simp]: "d < 10 \<Longrightarrow> digit_value (digit_char d) = Some d"
  by (auto simp: digit_value_def digit_char_def)

lemma digits_value_append:
  "digits_value acc (xs @ ys) =
     (case digits_value acc xs of None \<Rightarrow> None | Some a \<Rightarrow> digits_value a ys)"
  by (induction acc xs rule: digits_value.induct) (auto split: option.splits)

lemma digits_value_nat_string: "digits_value 0 (nat_string n) = Some n"
proof (induction n rule: nat_string.induct)
  case (1 n)
  then show ?case
    by (subst nat_string.simps) (auto simp: digits_value_append)
qed

lemma nat_string_not_Nil [simp]: "nat_string n \<noteq> []"
  by (subst nat_string.simps) simp

lemma hd_nat_string: "code (hd (nat_string n)) \<in> {48..57}"
proof (induction n rule: nat_string.induct)
  case (1 n)
  then show ?case
    by (subst nat_string.simps) (auto simp: digit_char_def hd_append)
qed

lemma Atoi_Itoa: "int_min \<le> i \<Longrightarrow> i \<le> int_max \<Longrightarrow> Atoi (Itoa i) = Some i"
proof -
  assume range: "int_min \<le> i" "i \<le> int_max"
  obtain c cs where s: "nat_string (nat i) = c # cs" by (cases "nat_string (nat i)") auto
  have c: "c \<noteq> CHR ''-''" "c \<noteq> CHR ''+''"
    using hd_nat_string[of "nat i"] s by auto
  show ?thesis
    using range s c digits_value_nat_string[of "nat i"] digits_value_nat_string[of "nat (- i)"]
    by (auto simp: Atoi_def Itoa_def Let_def)
qed

end
