(* ===== verification/GoJson.thy ===== *)
theory GoJson
  imports GoStd
begin

text \<open>
  Go's \<open>encoding/json\<close> as the code uses it: the compact encoding \<open>Marshal\<close> writes (HTML
  characters, control characters and the two line separators escaped, invalid UTF-8 replaced),
  the parser behind \<open>Unmarshal\<close> and \<open>Decoder.Decode\<close>, and the rules by which a struct is
  filled from an object: keys match without case, unknown keys are skipped or refused, \<open>null\<close>
  leaves a field alone, a value of the wrong type is an error.  The nesting limit of the library
  (10000 levels) is not modelled.
\<close>

section \<open>UTF-8\<close>

definition cont :: "char \<Rightarrow> bool" where
  "cont c \<longleftrightarrow> 128 \<le> code c \<and> code c \<le> 191"

text \<open>
  The length a lead byte announces, the range its second byte must be in (no overlong forms, no
  surrogates, nothing beyond U+10FFFF), and the length of the multi-byte sequence at the head of
  a string; 0 if there is none.
\<close>

definition lead_len :: "char \<Rightarrow> nat" where
  "lead_len a =
     (if 194 \<le> code a \<and> code a \<le> 223 then 2
      else if 224 \<le> code a \<and> code a \<le> 239 then 3
      else if 240 \<le> code a \<and> code a \<le> 244 then 4 else 0)"

definition second_ok :: "char \<Rightarrow> char \<Rightarrow> bool" where
  "second_ok a b \<longleftrightarrow>
     (if code a = 224 then 160 else if code a = 240 then 144 else 128) \<le> code b \<and>
     code b \<le> (if code a = 237 then 159 else if code a = 244 then 143 else 191)"

definition utf8_len :: "string \<Rightarrow> nat" where
  "utf8_len s = (case s of
     a # b # r \<Rightarrow>
       if lead_len a \<noteq> 0 \<and> second_ok a b \<and> lead_len a \<le> length s
          \<and> list_all cont (take (lead_len a - 2) r)
       then lead_len a else 0
   | _ \<Rightarrow> 0)"

lemma utf8_len_le: "utf8_len s \<le> length s"
  by (auto simp: utf8_len_def split: list.splits)

lemma lead_len_cases: "lead_len a \<noteq> 0 \<Longrightarrow> 2 \<le> lead_len a"
  by (simp add: lead_len_def split: if_splits)

lemma utf8_len_take:
  assumes "utf8_len s \<noteq> 0"
  shows "utf8_len (take (utf8_len s) s @ t) = utf8_len s"
proof -
  from assms obtain a b r where s: "s = a # b # r"
    and k: "utf8_len s = lead_len a" "lead_len a \<noteq> 0" "second_ok a b" "lead_len a \<le> length s"
      "list_all cont (take (lead_len a - 2) r)"
    by (auto simp: utf8_len_def split: list.splits if_splits)
  from k(2) lead_len_cases have "2 \<le> lead_len a" by blast
  then obtain m where m: "lead_len a = Suc (Suc m)"
    by (metis Suc_le_D Suc_le_mono numeral_2_eq_2)
  with s k show ?thesis
    by (simp add: utf8_len_def)
qed

lemma lead_len_head: "lead_len a \<noteq> 0 \<Longrightarrow> 194 \<le> code a"
  by (cases "194 \<le> code a") (auto simp: lead_len_def)

lemma utf8_len_head: "utf8_len s \<noteq> 0 \<Longrightarrow> 194 \<le> code (hd s)"
  by (auto simp: utf8_len_def split: list.splits if_splits intro: lead_len_head)

function valid_utf8 :: "string \<Rightarrow> bool" where
  "valid_utf8 s = (case s of
     [] \<Rightarrow> True
   | c # cs \<Rightarrow> if code c < 128 then valid_utf8 cs
       else if utf8_len s = 0 then False
       else valid_utf8 (drop (utf8_len s) s))"
  by pat_completeness auto
termination
  by (relation "measure length") auto

declare valid_utf8.simps [simp del]

text \<open>\<open>utf8.EncodeRune\<close> for a rune that is not a surrogate.\<close>

definition utf8_encode :: "nat \<Rightarrow> string" where
  "utf8_encode r =
     (if r < 128 then [byte r]
      else if r < 2048 then [byte (192 + r div 64), byte (128 + r mod 64)]
      else if r < 65536 then
        [byte (224 + r div 4096), byte (128 + r div 64 mod 64), byte (128 + r mod 64)]
      else [byte (240 + r div 262144), byte (128 + r div 4096 mod 64),
            byte (128 + r div 64 mod 64), byte (128 + r mod 64)])"

section \<open>Strings\<close>

abbreviation quote :: char where "quote \<equiv> byte 34"
abbreviation bslash :: char where "bslash \<equiv> byte 92"

definition u_escape :: "nat \<Rightarrow> string" where
  "u_escape r = [bslash, CHR ''u'', hex_char (r div 4096), hex_char (r div 256 mod 16),
                 hex_char (r div 16 mod 16), hex_char (r mod 16)]"

definition escape_ascii :: "char \<Rightarrow> string" where
  "escape_ascii c =
     (let n = code c
      in if n = 34 then [bslash, quote]
         else if n = 92 then [bslash, bslash]
         else if n = 8 then [bslash, CHR ''b'']
         else if n = 12 then [bslash, CHR ''f'']
         else if n = 10 then [bslash, CHR ''n'']
         else if n = 13 then [bslash, CHR ''r'']
         else if n = 9 then [bslash, CHR ''t'']
         else if n < 32 \<or> n = 60 \<or> n = 62 \<or> n = 38 then u_escape n
         else [c])"

function escape :: "string \<Rightarrow> string" where
  "escape s = (case s of
     [] \<Rightarrow> []
   | c # cs \<Rightarrow>
       if code c < 128 then escape_ascii c @ escape cs
       else if utf8_len s = 0 then u_escape 65533 @ escape cs
       else (if take (utf8_len s) s = utf8_encode 8232 then u_escape 8232
             else if take (utf8_len s) s = utf8_encode 8233 then u_escape 8233
             else take (utf8_len s) s) @ escape (drop (utf8_len s) s))"
  by pat_completeness auto
termination
  by (relation "measure length") auto

declare escape.simps [simp del]

definition json_string :: "string \<Rightarrow> string" where
  "json_string s = quote # escape s @ [quote]"

definition hex4 :: "string \<Rightarrow> (nat \<times> string) option" where
  "hex4 s = (case s of
     a # b # c # d # r \<Rightarrow>
       (case (hex_value a, hex_value b, hex_value c, hex_value d) of
          (Some p, Some q, Some x, Some y) \<Rightarrow> Some (4096 * p + 256 * q + 16 * x + y, r)
        | _ \<Rightarrow> None)
   | _ \<Rightarrow> None)"

text \<open>The rune of a \<open>\u\<close> escape, a surrogate pair joined, a lone surrogate replaced.\<close>

definition unescape_u :: "string \<Rightarrow> (string \<times> string) option" where
  "unescape_u s = (case hex4 s of
     None \<Rightarrow> None
   | Some (r, rest) \<Rightarrow>
       if 55296 \<le> r \<and> r < 57344 then
         (case rest of
            b # u # more \<Rightarrow>
              (if b = bslash \<and> u = CHR ''u'' then
                 (case hex4 more of
                    Some (r2, rest2) \<Rightarrow>
                      if r < 56320 \<and> 56320 \<le> r2 \<and> r2 < 57344
                      then Some (utf8_encode (65536 + (r - 55296) * 1024 + (r2 - 56320)), rest2)
                      else Some (utf8_encode 65533, rest)
                  | None \<Rightarrow> Some (utf8_encode 65533, rest))
               else Some (utf8_encode 65533, rest))
          | _ \<Rightarrow> Some (utf8_encode 65533, rest))
       else Some (utf8_encode r, rest))"

definition unescape :: "string \<Rightarrow> (string \<times> string) option" where
  "unescape s = (case s of
     [] \<Rightarrow> None
   | e # es \<Rightarrow>
       if e = quote \<or> e = bslash \<or> e = CHR ''/'' then Some ([e], es)
       else if e = CHR ''b'' then Some ([byte 8], es)
       else if e = CHR ''f'' then Some ([byte 12], es)
       else if e = CHR ''n'' then Some ([byte 10], es)
       else if e = CHR ''r'' then Some ([byte 13], es)
       else if e = CHR ''t'' then Some ([byte 9], es)
       else if e = CHR ''u'' then unescape_u es
       else None)"

lemma hex4_shorter: "hex4 s = Some (r, t) \<Longrightarrow> length t < length s"
  by (auto simp: hex4_def split: list.splits option.splits)

lemma unescape_u_shorter: "unescape_u s = Some (p, t) \<Longrightarrow> length t < length s"
  by (auto simp: unescape_u_def split: option.splits prod.splits if_splits list.splits
      dest!: hex4_shorter)

lemma unescape_shorter: "unescape s = Some (p, t) \<Longrightarrow> length t < length s"
  by (auto simp: unescape_def split: list.splits if_splits dest!: unescape_u_shorter)

text \<open>The body of a string literal up to its closing quote, and what follows it.\<close>

function parse_string :: "string \<Rightarrow> (string \<times> string) option" where
  "parse_string s = (case s of
     [] \<Rightarrow> None
   | c # cs \<Rightarrow>
       if c = quote then Some ([], cs)
       else if c = bslash then
         (case unescape cs of
            None \<Rightarrow> None
          | Some (p, t) \<Rightarrow> map_option (map_prod (\<lambda>x. p @ x) id) (parse_string t))
       else if code c < 32 then None
       else if code c < 128 then map_option (map_prod (\<lambda>x. c # x) id) (parse_string cs)
       else if utf8_len s = 0
       then map_option (map_prod (\<lambda>x. utf8_encode 65533 @ x) id) (parse_string cs)
       else map_option (map_prod (\<lambda>x. take (utf8_len s) s @ x) id)
              (parse_string (drop (utf8_len s) s)))"
  by pat_completeness auto
termination
  by (relation "measure length") (auto dest!: unescape_shorter)

declare parse_string.simps [simp del]

section \<open>Values\<close>

datatype json =
    JNull
  | JBool bool
  | JNum string
  | JStr string
  | JArr "json list"
  | JObj "(string \<times> json) list"

fun json_print :: "json \<Rightarrow> string" where
  "json_print JNull = ''null''"
| "json_print (JBool b) = (if b then ''true'' else ''false'')"
| "json_print (JNum n) = n"
| "json_print (JStr s) = json_string s"
| "json_print (JArr vs) = ''['' @ Join (map json_print vs) '','' @ '']''"
| "json_print (JObj kvs) =
     ''{'' @ Join (map (\<lambda>(k, v). json_string k @ '':'' @ json_print v) kvs) '','' @ ''}''"

definition json_space :: "char \<Rightarrow> bool" where
  "json_space c \<longleftrightarrow> c = byte 32 \<or> c = byte 9 \<or> c = byte 10 \<or> c = byte 13"

definition skip_space :: "string \<Rightarrow> string" where
  "skip_space s = dropWhile json_space s"

definition is_digit :: "char \<Rightarrow> bool" where
  "is_digit c \<longleftrightarrow> 48 \<le> code c \<and> code c \<le> 57"

text \<open>The number literal at the head of a string, as the scanner accepts it.\<close>

definition scan_int :: "string \<Rightarrow> (string \<times> string) option" where
  "scan_int s = (case s of
     [] \<Rightarrow> None
   | c # cs \<Rightarrow> if c = CHR ''0'' then Some ([c], cs)
       else if is_digit c then Some (takeWhile is_digit s, dropWhile is_digit s) else None)"

definition scan_frac :: "string \<Rightarrow> (string \<times> string) option" where
  "scan_frac s = (case s of
     c # cs \<Rightarrow> if c = CHR ''.'' then
          (if takeWhile is_digit cs = [] then None
           else Some (c # takeWhile is_digit cs, dropWhile is_digit cs))
        else Some ([], s)
   | [] \<Rightarrow> Some ([], s))"

definition scan_exp :: "string \<Rightarrow> (string \<times> string) option" where
  "scan_exp s = (case s of
     c # cs \<Rightarrow> if c = CHR ''e'' \<or> c = CHR ''E'' then
          (let sign = (case cs of d # _ \<Rightarrow> if d = CHR ''+'' \<or> d = CHR ''-'' then [d] else [] | [] \<Rightarrow> []);
               ds = drop (length sign) cs
           in if takeWhile is_digit ds = [] then None
              else Some (c # sign @ takeWhile is_digit ds, dropWhile is_digit ds))
        else Some ([], s)
   | [] \<Rightarrow> Some ([], s))"

definition scan_number :: "string \<Rightarrow> (string \<times> string) option" where
  "scan_number s =
     (let sign = (case s of c # _ \<Rightarrow> if c = CHR ''-'' then [c] else [] | [] \<Rightarrow> [])
      in case scan_int (drop (length sign) s) of
           None \<Rightarrow> None
         | Some (i, r1) \<Rightarrow>
             (case scan_frac r1 of
                None \<Rightarrow> None
              | Some (f, r2) \<Rightarrow>
                  (case scan_exp r2 of
                     None \<Rightarrow> None
                   | Some (e, r3) \<Rightarrow> Some (sign @ i @ f @ e, r3))))"

text \<open>
  The parser, with fuel for the nesting and the number of elements: the length of the input is
  enough, since every step consumes at least one byte.
\<close>

fun parse_value :: "nat \<Rightarrow> string \<Rightarrow> (json \<times> string) option"
  and parse_elems :: "nat \<Rightarrow> string \<Rightarrow> (json list \<times> string) option"
  and parse_members :: "nat \<Rightarrow> string \<Rightarrow> ((string \<times> json) list \<times> string) option"
where
  "parse_value 0 s = None"
| "parse_value (Suc n) s =
     (case skip_space s of
        [] \<Rightarrow> None
      | c # cs \<Rightarrow>
          if c = quote then map_option (map_prod JStr id) (parse_string cs)
          else if c = CHR ''{'' then
            (case skip_space cs of
               [] \<Rightarrow> None
             | d # ds \<Rightarrow> if d = CHR ''}'' then Some (JObj [], ds)
                 else map_option (map_prod JObj id) (parse_members n (d # ds)))
          else if c = CHR ''['' then
            (case skip_space cs of
               [] \<Rightarrow> None
             | d # ds \<Rightarrow> if d = CHR '']'' then Some (JArr [], ds)
                 else map_option (map_prod JArr id) (parse_elems n (d # ds)))
          else if HasPrefix (c # cs) ''true'' then Some (JBool True, drop 4 (c # cs))
          else if HasPrefix (c # cs) ''false'' then Some (JBool False, drop 5 (c # cs))
          else if HasPrefix (c # cs) ''null'' then Some (JNull, drop 4 (c # cs))
          else map_option (map_prod JNum id) (scan_number (c # cs)))"
| "parse_elems 0 s = None"
| "parse_elems (Suc n) s =
     (case parse_value n s of
        None \<Rightarrow> None
      | Some (v, r) \<Rightarrow>
          (case skip_space r of
             [] \<Rightarrow> None
           | c # cs \<Rightarrow>
               if c = CHR '']'' then Some ([v], cs)
               else if c = CHR '','' then map_option (map_prod (\<lambda>vs. v # vs) id) (parse_elems n cs)
               else None))"
| "parse_members 0 s = None"
| "parse_members (Suc n) s =
     (case skip_space s of
        [] \<Rightarrow> None
      | q # qs \<Rightarrow>
          if q \<noteq> quote then None
          else case parse_string qs of
            None \<Rightarrow> None
          | Some (k, r) \<Rightarrow>
              (case skip_space r of
                 [] \<Rightarrow> None
               | e # es \<Rightarrow>
                   if e \<noteq> CHR '':'' then None
                   else case parse_value n es of
                     None \<Rightarrow> None
                   | Some (v, r2) \<Rightarrow>
                       (case skip_space r2 of
                          [] \<Rightarrow> None
                        | c # cs \<Rightarrow>
                            if c = CHR ''}'' then Some ([(k, v)], cs)
                            else if c = CHR '','' then
                              map_option (map_prod (\<lambda>kvs. (k, v) # kvs) id) (parse_members n cs)
                            else None)))"

text \<open>
  \<open>json.Unmarshal\<close> parses the whole text; \<open>Decoder.Decode\<close> parses the first value and leaves the
  rest unread.
\<close>

definition json_decode_first :: "string \<Rightarrow> json option" where
  "json_decode_first s = map_option fst (parse_value (Suc (length s)) s)"

definition json_parse :: "string \<Rightarrow> json option" where
  "json_parse s = (case parse_value (Suc (length s)) s of
     Some (v, r) \<Rightarrow> if skip_space r = [] then Some v else None
   | None \<Rightarrow> None)"

section \<open>Structs\<close>

text \<open>
  Filling a struct: the fields by name, each with the function that stores a value in it.
\<close>

fun set_field :: "(string \<times> (json \<Rightarrow> 'a \<Rightarrow> 'a option)) list \<Rightarrow> bool \<Rightarrow> string \<Rightarrow> json \<Rightarrow> 'a \<Rightarrow> 'a option" where
  "set_field [] strict k v x = (if strict then None else Some x)"
| "set_field ((n, f) # fs) strict k v x =
     (if EqualFold k n then f v x else set_field fs strict k v x)"

fun set_fields :: "(string \<times> (json \<Rightarrow> 'a \<Rightarrow> 'a option)) list \<Rightarrow> bool \<Rightarrow> (string \<times> json) list \<Rightarrow> 'a \<Rightarrow> 'a option" where
  "set_fields fs strict [] x = Some x"
| "set_fields fs strict ((k, v) # kvs) x =
     (case set_field fs strict k v x of None \<Rightarrow> None | Some y \<Rightarrow> set_fields fs strict kvs y)"

definition decode_struct :: "(string \<times> (json \<Rightarrow> 'a \<Rightarrow> 'a option)) list \<Rightarrow> bool \<Rightarrow> 'a \<Rightarrow> json \<Rightarrow> 'a option" where
  "decode_struct fs strict zero j = (case j of
     JNull \<Rightarrow> Some zero
   | JObj kvs \<Rightarrow> set_fields fs strict kvs zero
   | _ \<Rightarrow> None)"

definition set_string :: "((string \<Rightarrow> string) \<Rightarrow> 'a \<Rightarrow> 'a) \<Rightarrow> json \<Rightarrow> 'a \<Rightarrow> 'a option" where
  "set_string upd j x = (case j of
     JStr s \<Rightarrow> Some (upd (\<lambda>_. s) x) | JNull \<Rightarrow> Some x | _ \<Rightarrow> None)"

definition set_int :: "((int \<Rightarrow> int) \<Rightarrow> 'a \<Rightarrow> 'a) \<Rightarrow> json \<Rightarrow> 'a \<Rightarrow> 'a option" where
  "set_int upd j x = (case j of
     JNum n \<Rightarrow> (case Atoi n of Some i \<Rightarrow> Some (upd (\<lambda>_. i) x) | None \<Rightarrow> None)
   | JNull \<Rightarrow> Some x | _ \<Rightarrow> None)"

definition set_string_ptr :: "((string option \<Rightarrow> string option) \<Rightarrow> 'a \<Rightarrow> 'a) \<Rightarrow> json \<Rightarrow> 'a \<Rightarrow> 'a option" where
  "set_string_ptr upd j x = (case j of
     JStr s \<Rightarrow> Some (upd (\<lambda>_. Some s) x) | JNull \<Rightarrow> Some (upd (\<lambda>_. None) x) | _ \<Rightarrow> None)"

definition set_int_ptr :: "((int option \<Rightarrow> int option) \<Rightarrow> 'a \<Rightarrow> 'a) \<Rightarrow> json \<Rightarrow> 'a \<Rightarrow> 'a option" where
  "set_int_ptr upd j x = (case j of
     JNum n \<Rightarrow> (case Atoi n of Some i \<Rightarrow> Some (upd (\<lambda>_. Some i) x) | None \<Rightarrow> None)
   | JNull \<Rightarrow> Some (upd (\<lambda>_. None) x) | _ \<Rightarrow> None)"


section \<open>Round trips\<close>

lemma hex4_digits:
  assumes "r < 65536"
  shows "hex4 (hex_char (r div 4096) # hex_char (r div 256 mod 16) # hex_char (r div 16 mod 16) #
           hex_char (r mod 16) # t) = Some (r, t)"
proof -
  have "r div 4096 < 16" using assms by (intro less_mult_imp_div_less) simp
  moreover have "r = r div 16 * 16 + r mod 16" "r div 16 = r div 256 * 16 + r div 16 mod 16"
    "r div 256 = r div 4096 * 16 + r div 256 mod 16"
    by (simp_all add: div_mult2_eq[of r 16 16, simplified] div_mult2_eq[of r 256 16, simplified])
  then have "4096 * (r div 4096) + 256 * (r div 256 mod 16) + 16 * (r div 16 mod 16) + r mod 16 = r"
    by linarith
  ultimately show ?thesis
    by (simp add: hex4_def hex_value_char)
qed

lemma unescape_u_digits:
  "r < 55296 \<or> 57344 \<le> r \<Longrightarrow> r < 65536 \<Longrightarrow>
   unescape_u (drop 2 (u_escape r) @ t) = Some (utf8_encode r, t)"
  by (auto simp: unescape_u_def u_escape_def hex4_digits)

lemma unescape_bslash:
  "unescape (bslash # t) = Some ([bslash], t)"
  "unescape (quote # t) = Some ([quote], t)"
  "unescape (CHR ''b'' # t) = Some ([byte 8], t)"
  "unescape (CHR ''f'' # t) = Some ([byte 12], t)"
  "unescape (CHR ''n'' # t) = Some ([byte 10], t)"
  "unescape (CHR ''r'' # t) = Some ([byte 13], t)"
  "unescape (CHR ''t'' # t) = Some ([byte 9], t)"
  "unescape (CHR ''u'' # t) = unescape_u t"
  by (simp_all add: unescape_def char_eq_byte)

lemma parse_string_quote [simp]: "parse_string (quote # t) = Some ([], t)"
  by (subst parse_string.simps) simp

lemma parse_string_bslash:
  "parse_string (bslash # cs) = (case unescape cs of
     None \<Rightarrow> None | Some (p, t) \<Rightarrow> map_option (map_prod (\<lambda>x. p @ x) id) (parse_string t))"
  by (subst parse_string.simps) (simp add: char_eq_byte)

lemma parse_string_u:
  assumes "r < 55296 \<or> 57344 \<le> r" "r < 65536"
  shows "parse_string (u_escape r @ t) =
    map_option (map_prod (\<lambda>x. utf8_encode r @ x) id) (parse_string t)"
proof -
  have eq: "u_escape r @ t = bslash # CHR ''u'' # (drop 2 (u_escape r) @ t)"
    by (simp add: u_escape_def)
  show ?thesis
    by (subst eq) (simp add: parse_string_bslash unescape_bslash unescape_u_digits[OF assms])
qed

lemma append_single: "(@) [c] = (#) c"
  by (simp add: fun_eq_iff)

lemma parse_string_ascii:
  "code c < 128 \<Longrightarrow> parse_string (escape_ascii c @ t) =
     map_option (map_prod (\<lambda>x. c # x) id) (parse_string t)"
proof (cases "code c < 32 \<or> code c \<in> {34, 92, 60, 62, 38}")
  case True
  assume "code c < 128"
  then have u: "parse_string (u_escape (code c) @ t) =
      map_option (map_prod (\<lambda>x. [c] @ x) id) (parse_string t)"
    by (subst parse_string_u) (auto simp: utf8_encode_def)
  have sp: "c = byte n" if "code c = n" for n using that by auto
  from True u show ?thesis
    by (auto simp: escape_ascii_def Let_def parse_string_bslash unescape_bslash append_single dest!: sp)
next
  case False
  assume "code c < 128"
  with False show ?thesis
    by (subst parse_string.simps) (auto simp: escape_ascii_def char_eq_byte)
qed

lemma parse_string_multi:
  assumes k: "utf8_len s \<noteq> 0" and t: "u = take (utf8_len s) s @ t"
  shows "parse_string u = map_option (map_prod (\<lambda>x. take (utf8_len s) s @ x) id) (parse_string t)"
proof -
  from k obtain c cs where s: "s = c # cs" by (cases s) (auto simp: utf8_len_def)
  from k utf8_len_head[OF k] s have c: "194 \<le> code c" by simp
  have len: "utf8_len u = utf8_len s"
    using k utf8_len_take t by simp
  obtain ds where u: "u = c # ds"
    using s t k by (cases "utf8_len s") auto
  have tk: "take (utf8_len s) u = take (utf8_len s) s" "drop (utf8_len s) u = t"
    using t utf8_len_le[of s] by simp_all
  show ?thesis
    using c k len tk u by (subst parse_string.simps) (auto simp: char_eq_byte)
qed

lemma parse_string_escape:
  "valid_utf8 s \<Longrightarrow> parse_string (escape s @ quote # t) = Some (s, t)"
proof (induction s rule: valid_utf8.induct)
  case (1 s)
  show ?case
  proof (cases s)
    case Nil
    then show ?thesis by (subst escape.simps) simp
  next
    case (Cons c cs)
    show ?thesis
    proof (cases "code c < 128")
      case True
      with Cons 1 show ?thesis
        by (subst escape.simps) (simp add: parse_string_ascii valid_utf8.simps[of "c # cs"])
    next
      case False
      with Cons 1 have k: "utf8_len s \<noteq> 0" and
        IH: "parse_string (escape (drop (utf8_len s) s) @ quote # t) = Some (drop (utf8_len s) s, t)"
        by (auto simp: valid_utf8.simps[of "c # cs"] split: if_splits)
      let ?h = "take (utf8_len s) s" and ?rest = "escape (drop (utf8_len s) s) @ quote # t"
      have "parse_string
        ((if ?h = utf8_encode 8232 then u_escape 8232
          else if ?h = utf8_encode 8233 then u_escape 8233 else ?h) @ ?rest)
        = map_option (map_prod (\<lambda>x. ?h @ x) id) (parse_string ?rest)"
        by (auto simp: parse_string_u intro: parse_string_multi[OF k])
      with False Cons k IH show ?thesis
        by (subst escape.simps) simp
    qed
  qed
qed


text \<open>
  The values the printer is used on: integers written in decimal and strings of valid UTF-8; and
  the fuel that parsing one back needs, which its printed length always covers.
\<close>

fun wf_json :: "json \<Rightarrow> bool" where
  "wf_json (JNum n) = (\<exists>i. n = Itoa i)"
| "wf_json (JStr s) = valid_utf8 s"
| "wf_json (JArr vs) = (\<forall>v \<in> set vs. wf_json v)"
| "wf_json (JObj kvs) = (\<forall>kv \<in> set kvs. valid_utf8 (fst kv) \<and> wf_json (snd kv))"
| "wf_json v = True"

fun need :: "json \<Rightarrow> nat" where
  "need (JArr vs) = Suc (sum_list (map (\<lambda>v. Suc (need v)) vs))"
| "need (JObj kvs) = Suc (sum_list (map (\<lambda>kv. Suc (need (snd kv))) kvs))"
| "need v = 1"

definition stop :: "string \<Rightarrow> bool" where
  "stop t \<longleftrightarrow> (case t of [] \<Rightarrow> True
     | c # _ \<Rightarrow> \<not> is_digit c \<and> c \<noteq> CHR ''.'' \<and> c \<noteq> CHR ''e'' \<and> c \<noteq> CHR ''E'')"

lemma stop_simps [simp]:
  "stop []" "stop ('','' @ t)" "stop ('']'' @ t)" "stop (''}'' @ t)"
  "stop (CHR '','' # t)" "stop (CHR '']'' # t)" "stop (CHR ''}'' # t)"
  by (simp_all add: stop_def is_digit_def)

lemma digits_nat_string: "c \<in> set (nat_string n) \<Longrightarrow> is_digit c"
proof (induction n rule: nat_string.induct)
  case (1 n)
  then show ?case
    by (subst (asm) nat_string.simps)
      (auto simp: is_digit_def digit_char_def split: if_splits)
qed

lemma hd_nat_string_pos: "0 < n \<Longrightarrow> hd (nat_string n) \<noteq> CHR ''0''"
proof (induction n rule: nat_string.induct)
  case (1 n)
  show ?case
  proof (cases "n < 10")
    case True
    with 1 show ?thesis
      by (subst nat_string.simps) (auto simp: digit_char_def byte_eq_char)
  next
    case False
    with 1 have "hd (nat_string (n div 10)) \<noteq> CHR ''0''" by simp
    with False show ?thesis by (subst nat_string.simps) (simp add: hd_append)
  qed
qed

lemma nat_string_0: "nat_string 0 = ''0''"
  by (subst nat_string.simps) (simp add: digit_char_def byte_eq_char)

lemma scan_int_nat_string:
  assumes "stop t"
  shows "scan_int (nat_string n @ t) = Some (nat_string n, t)"
proof (cases "n = 0")
  case True
  then show ?thesis by (simp add: nat_string_0 scan_int_def)
next
  case False
  obtain c cs where s: "nat_string n = c # cs" by (cases "nat_string n") auto
  from False hd_nat_string_pos[of n] s have "c \<noteq> CHR ''0''" by simp
  moreover have "is_digit c" using digits_nat_string[of c n] s by simp
  moreover have "takeWhile is_digit (nat_string n @ t) = nat_string n"
    "dropWhile is_digit (nat_string n @ t) = t"
    using digits_nat_string assms
    by (auto simp: takeWhile_append dropWhile_append stop_def split: list.splits)
  ultimately show ?thesis by (simp add: s scan_int_def)
qed

lemma scan_number_Itoa: "stop t \<Longrightarrow> scan_number (Itoa i @ t) = Some (Itoa i, t)"
proof -
  assume t: "stop t"
  have hd: "hd (nat_string n) \<noteq> CHR ''-''" for n
    using hd_nat_string[of n] by auto
  have rest: "scan_frac t = Some ([], t)" "scan_exp t = Some ([], t)"
    using t by (auto simp: scan_frac_def scan_exp_def stop_def split: list.splits)
  show ?thesis
  proof (cases "i < 0")
    case True
    then show ?thesis
      using t rest by (simp add: scan_number_def Itoa_def scan_int_nat_string)
  next
    case False
    obtain c cs where s: "nat_string (nat i) = c # cs" by (cases "nat_string (nat i)") auto
    then show ?thesis
      using t rest False hd[of "nat i"] scan_int_nat_string[OF t, of "nat i"]
      by (simp add: scan_number_def Itoa_def)
  qed
qed

lemma Itoa_head: "\<exists>c cs. Itoa i = c # cs \<and> (c = CHR ''-'' \<or> is_digit c)"
  using digits_nat_string[of _ "nat i"]
  by (cases "nat_string (nat i)") (auto simp: Itoa_def)

lemma parse_value_num:
  assumes "stop t" shows "parse_value (Suc n) (Itoa i @ t) = Some (JNum (Itoa i), t)"
proof -
  obtain c cs where c: "Itoa i = c # cs" "c = CHR ''-'' \<or> is_digit c"
    using Itoa_head by blast
  then have "45 \<le> code c \<and> code c \<le> 57" by (auto simp: is_digit_def)
  then have "skip_space (Itoa i @ t) = c # cs @ t" "c \<noteq> quote" "c \<noteq> CHR ''{''" "c \<noteq> CHR ''[''"
    "c \<noteq> CHR ''t''" "c \<noteq> CHR ''f''" "c \<noteq> CHR ''n''"
    using c by (auto simp: skip_space_def json_space_def char_eq_byte)
  with scan_number_Itoa[OF assms, of i] c show ?thesis
    by (simp add: HasPrefix_def)
qed

lemma skip_space_head [simp]: "\<not> json_space c \<Longrightarrow> skip_space (c # cs) = c # cs"
  by (simp add: skip_space_def)

lemma json_space_chars [simp]:
  "\<not> json_space quote" "\<not> json_space (CHR '':'')" "\<not> json_space (CHR '','')"
  "\<not> json_space (CHR ''{'')" "\<not> json_space (CHR ''}'')"
  "\<not> json_space (CHR ''['')" "\<not> json_space (CHR '']'')"
  "\<not> json_space (CHR ''n'')" "\<not> json_space (CHR ''t'')" "\<not> json_space (CHR ''f'')"
  by (simp_all add: json_space_def char_eq_byte)

lemma quote_neq [simp]:
  "quote \<noteq> CHR ''}''" "quote \<noteq> CHR '']''" "quote \<noteq> CHR ''{''" "quote \<noteq> CHR ''[''"
  by (simp_all add: byte_eq_char)

lemma json_print_head:
  "wf_json v \<Longrightarrow> \<exists>c cs. json_print v = c # cs \<and> \<not> json_space c \<and> c \<noteq> CHR '']''"
proof (cases v)
  case (JNum n)
  assume "wf_json v"
  with JNum obtain i c cs where "n = c # cs" "c = CHR ''-'' \<or> is_digit c"
    using Itoa_head by fastforce
  then show ?thesis using JNum by (auto simp: json_space_def is_digit_def char_eq_byte)
qed (auto simp: json_string_def char_eq_byte)

lemma parse_elems_print:
  assumes IH: "\<And>v n t. v \<in> set vs \<Longrightarrow> need v \<le> n \<Longrightarrow> stop t \<Longrightarrow>
      parse_value n (json_print v @ t) = Some (v, t)"
    and "vs \<noteq> []" "sum_list (map (\<lambda>v. Suc (need v)) vs) \<le> n"
  shows "parse_elems n (Join (map json_print vs) '','' @ CHR '']'' # t) = Some (vs, t)"
  using assms
proof (induction vs arbitrary: n)
  case (Cons v vs)
  then obtain m where n: "n = Suc m" "need v \<le> m" by (cases n) auto
  have IHv: "parse_value m (json_print v @ t') = Some (v, t')" if "stop t'" for t'
    using Cons.prems(1) n that by simp
  show ?case
  proof (cases vs)
    case Nil
    then show ?thesis by (simp add: n IHv)
  next
    case (Cons w ws)
    have "parse_elems m (Join (map json_print vs) '','' @ CHR '']'' # t) = Some (vs, t)"
      using Cons.prems n \<open>vs = w # ws\<close> by (intro Cons.IH) auto
    then show ?thesis using \<open>vs = w # ws\<close> by (simp add: n IHv)
  qed
qed simp

lemma parse_members_print:
  assumes IH: "\<And>kv n t. kv \<in> set kvs \<Longrightarrow> need (snd kv) \<le> n \<Longrightarrow> stop t \<Longrightarrow>
      parse_value n (json_print (snd kv) @ t) = Some (snd kv, t)"
    and "\<forall>kv \<in> set kvs. valid_utf8 (fst kv)"
    and "kvs \<noteq> []" "sum_list (map (\<lambda>kv. Suc (need (snd kv))) kvs) \<le> n"
  shows "parse_members n (Join (map (\<lambda>(k, v). json_string k @ '':'' @ json_print v) kvs) '',''
           @ CHR ''}'' # t) = Some (kvs, t)"
  using assms
proof (induction kvs arbitrary: n)
  case (Cons kv kvs)
  obtain k v where kv: "kv = (k, v)" by force
  from Cons.prems kv obtain m where n: "n = Suc m" "need v \<le> m" by (cases n) auto
  have IHv: "parse_value m (json_print v @ t') = Some (v, t')" if "stop t'" for t'
    using Cons.prems(1)[of kv m t'] n that kv by simp
  have k: "parse_string (escape k @ quote # t') = Some (k, t')" for t'
    using Cons.prems(2) kv by (simp add: parse_string_escape)
  show ?case
  proof (cases kvs)
    case Nil
    then show ?thesis by (simp add: n IHv kv k json_string_def)
  next
    case (Cons kw kws)
    have "parse_members m (Join (map (\<lambda>(k, v). json_string k @ '':'' @ json_print v) kvs) '',''
           @ CHR ''}'' # t) = Some (kvs, t)"
      using Cons.prems n \<open>kvs = kw # kws\<close> kv by (intro Cons.IH) auto
    then show ?thesis using \<open>kvs = kw # kws\<close> by (simp add: n IHv kv k json_string_def)
  qed
qed simp

lemma parse_value_print:
  "wf_json v \<Longrightarrow> need v \<le> n \<Longrightarrow> stop t \<Longrightarrow> parse_value n (json_print v @ t) = Some (v, t)"
proof (induction v arbitrary: n t)
  case JNull
  then show ?case by (cases n) (auto simp: HasPrefix_def char_eq_byte)
next
  case (JBool b)
  then show ?case by (cases n) (auto simp: HasPrefix_def char_eq_byte)
next
  case (JNum x)
  then show ?case by (cases n) (auto simp: parse_value_num simp del: parse_value.simps)
next
  case (JStr s)
  then show ?case by (cases n) (auto simp: json_string_def parse_string_escape)
next
  case (JArr vs)
  then obtain m where n: "n = Suc m" by (cases n) auto
  show ?case
  proof (cases vs)
    case Nil
    then show ?thesis by (simp add: n char_eq_byte)
  next
    case (Cons w ws)
    obtain c cs where w: "json_print w = c # cs" "\<not> json_space c" "c \<noteq> CHR '']''"
      using json_print_head[of w] JArr.prems Cons by auto
    then obtain ds where j: "Join (map json_print vs) '','' = c # ds"
      using Cons by (cases ws) auto
    have "parse_elems m (Join (map json_print vs) '','' @ CHR '']'' # t) = Some (vs, t)"
      using JArr Cons n by (intro parse_elems_print) auto
    with w j show ?thesis by (simp add: n char_eq_byte)
  qed
next
  case (JObj kvs)
  then obtain m where n: "n = Suc m" by (cases n) auto
  show ?case
  proof (cases kvs)
    case Nil
    then show ?thesis by (simp add: n char_eq_byte)
  next
    case (Cons w ws)
    then obtain ds where j: "Join (map (\<lambda>(k, v). json_string k @ '':'' @ json_print v) kvs) '','' = quote # ds"
      by (cases ws; cases w) (auto simp: json_string_def)
    have "parse_members m (Join (map (\<lambda>(k, v). json_string k @ '':'' @ json_print v) kvs) '',''
        @ CHR ''}'' # t) = Some (kvs, t)"
    proof (rule parse_members_print)
      fix kv n' t'
      assume "kv \<in> set kvs" "need (snd kv) \<le> n'" "stop t'"
      moreover from this JObj.prems have "wf_json (snd kv)" by auto
      moreover have "snd kv \<in> Basic_BNFs.snds kv" by (cases kv) (simp add: snds.simps)
      ultimately show "parse_value n' (json_print (snd kv) @ t') = Some (snd kv, t')"
        using JObj.IH by blast
    qed (use JObj.prems Cons n in auto)
    with j show ?thesis by (simp add: n char_eq_byte)
  qed
qed

lemma length_Join: "length (Join ps '','') = sum_list (map length ps) + (length ps - 1)"
  by (induction ps "'',''" rule: Join.induct) auto

lemma need_le_length: "wf_json v \<Longrightarrow> need v \<le> length (json_print v)"
proof (induction v)
  case (JNum x)
  then obtain i c cs where "x = c # cs" using Itoa_head by fastforce
  then show ?case by simp
next
  case (JArr vs)
  then have "sum_list (map need vs) \<le> sum_list (map (length \<circ> json_print) vs)"
    by (intro sum_list_mono) auto
  then show ?case by (simp add: length_Join sum_list_Suc o_def)
next
  case (JObj kvs)
  then have "sum_list (map (\<lambda>kv. need (snd kv)) kvs) \<le>
      sum_list (map (length \<circ> (\<lambda>(k, v). json_string k @ '':'' @ json_print v)) kvs)"
  proof (intro sum_list_mono)
    fix kv assume kv: "kv \<in> set kvs"
    moreover have "snd kv \<in> Basic_BNFs.snds kv" by (cases kv) (simp add: snds.simps)
    ultimately have "need (snd kv) \<le> length (json_print (snd kv))"
      using JObj by auto
    then show "need (snd kv) \<le> (length \<circ> (\<lambda>(k, v). json_string k @ '':'' @ json_print v)) kv"
      by (cases kv) simp
  qed
  then show ?case by (simp add: length_Join sum_list_Suc o_def)
qed (auto simp: json_string_def)

text \<open>What is printed is parsed back, with or without text after it.\<close>

lemma json_parse_print: "wf_json v \<Longrightarrow> json_parse (json_print v) = Some v"
  using parse_value_print[of v "Suc (length (json_print v))" "[]"] need_le_length[of v]
  by (simp add: json_parse_def skip_space_def del: parse_value.simps)

end
