(* ===== verification/RecordPayload.thy ===== *)
theory RecordPayload
  imports Model GoJson
begin

text \<open>
  \<open>gateway-service/internal/repository/postgres/record_payload.go\<close>, \<open>qr_payload.go\<close>: the
  encrypted copy of an uploaded record kept beside its batch, and the helpers of the repository.
  The cipher is the interface \<open>RecordPayloadCipher\<close>; its contract is the locale
  \<open>record_payload_cipher\<close>, whose client lemma is the round trip of a record.
\<close>

section \<open>The JSON of a record\<close>

definition record_json :: "DiplomaUploadRecord \<Rightarrow> json" where
  "record_json r = JObj
     [(''full_name'', JStr (dur_FullName r)), (''diploma_number'', JStr (dur_DiplomaNumber r)),
      (''specialty'', JStr (dur_Specialty r)), (''degree'', JStr (dur_Degree r)),
      (''faculty'', JStr (dur_Faculty r)), (''year'', JNum (Itoa (dur_Year r)))]"

definition record_fields ::
  "(string \<times> (json \<Rightarrow> DiplomaUploadRecord \<Rightarrow> DiplomaUploadRecord option)) list" where
  "record_fields =
     [(''full_name'', set_string dur_FullName_update),
      (''diploma_number'', set_string dur_DiplomaNumber_update),
      (''specialty'', set_string dur_Specialty_update),
      (''degree'', set_string dur_Degree_update),
      (''faculty'', set_string dur_Faculty_update),
      (''year'', set_int dur_Year_update)]"

definition empty_record :: DiplomaUploadRecord where
  "empty_record = \<lparr>dur_FullName = '''', dur_DiplomaNumber = '''', dur_Specialty = '''',
     dur_Degree = '''', dur_Faculty = '''', dur_Year = 0, dur_RawCSVRow = ''''\<rparr>"

section \<open>Encoding and decoding\<close>

definition encodeBatchRecordPayload ::
  "payload_cipher option \<Rightarrow> bytes option \<Rightarrow> DiplomaUploadRecord \<Rightarrow> string res" where
  "encodeBatchRecordPayload cipher nonce record =
     (case cipher of
        None \<Rightarrow> Inl (ErrText ''record payload cipher is not configured'')
      | Some c \<Rightarrow>
          let plaintext = json_print (record_json
                \<lparr>dur_FullName = dur_FullName record, dur_DiplomaNumber = dur_DiplomaNumber record,
                 dur_Specialty = dur_Specialty record, dur_Degree = dur_Degree record,
                 dur_Faculty = dur_Faculty record, dur_Year = dur_Year record,
                 dur_RawCSVRow = ''''\<rparr>)
          in cipher_Seal c nonce plaintext)"

definition decodeBatchRecordPayload ::
  "payload_cipher option \<Rightarrow> string \<Rightarrow> DiplomaUploadRecord option res" where
  "decodeBatchRecordPayload cipher value =
     (if blank value then Inr None
      else case cipher of
        None \<Rightarrow> Inl (ErrText ''record payload cipher is not configured'')
      | Some c \<Rightarrow>
          (case cipher_Open c value of
             Inl e \<Rightarrow> Inl e
           | Inr plaintext \<Rightarrow>
               (case json_parse plaintext of
                  None \<Rightarrow> Inl (ErrText ''json'')
                | Some j \<Rightarrow>
                    (case decode_struct record_fields False empty_record j of
                       None \<Rightarrow> Inl (ErrText ''json'')
                     | Some item \<Rightarrow> Inr (Some item)))))"

definition parseQRPayload :: "qr_decoder option \<Rightarrow> string \<Rightarrow> ParsedQRPayload res" where
  "parseQRPayload decoder payload =
     (case decoder of
        None \<Rightarrow> Inl (ErrText ''qr payload decoder is not configured'')
      | Some parse \<Rightarrow> parse payload)"

fun firstNonEmpty :: "string list \<Rightarrow> string" where
  "firstNonEmpty [] = ''''"
| "firstNonEmpty (v # vs) = (if TrimSpace v \<noteq> '''' then v else firstNonEmpty vs)"

fun firstNonZero :: "int list \<Rightarrow> int" where
  "firstNonZero [] = 0"
| "firstNonZero (v # vs) = (if v \<noteq> 0 then v else firstNonZero vs)"

definition stringOrDefault :: "string option \<Rightarrow> string \<Rightarrow> string" where
  "stringOrDefault value defaultValue =
     (case value of
        None \<Rightarrow> defaultValue
      | Some v \<Rightarrow> if TrimSpace v = '''' then defaultValue else TrimSpace v)"

lemma stringOrDefault_nonblank:
  "\<not> blank d \<Longrightarrow> \<not> blank (stringOrDefault v d)"
  by (auto simp: stringOrDefault_def blank_def split: option.splits)

section \<open>The contract of the cipher\<close>

definition record_utf8 :: "DiplomaUploadRecord \<Rightarrow> bool" where
  "record_utf8 r \<longleftrightarrow> valid_utf8 (dur_FullName r) \<and> valid_utf8 (dur_DiplomaNumber r) \<and>
     valid_utf8 (dur_Specialty r) \<and> valid_utf8 (dur_Degree r) \<and> valid_utf8 (dur_Faculty r) \<and>
     int_min \<le> dur_Year r \<and> dur_Year r \<le> int_max"

lemma EqualFold_refl_ascii: "EqualFold s s"
  by (induction s) auto

lemma decode_record_json:
  assumes "int_min \<le> dur_Year r" "dur_Year r \<le> int_max"
  shows "decode_struct record_fields False empty_record (record_json r) =
    Some (r\<lparr>dur_RawCSVRow := ''''\<rparr>)"
  using Atoi_Itoa[OF assms]
  by (simp add: decode_struct_def record_fields_def record_json_def set_string_def set_int_def
      empty_record_def ascii_lower_def)

text \<open>What the repository relies on: opening what was sealed gives it back, and a sealed value is not blank.\<close>

locale record_payload_cipher =
  fixes cipher :: payload_cipher
  assumes open_seal: "cipher_Seal cipher nonce p = Inr v \<Longrightarrow> cipher_Open cipher v = Inr p"
    and seal_not_blank: "cipher_Seal cipher nonce p = Inr v \<Longrightarrow> \<not> blank v"
begin

lemma decode_encode:
  assumes "record_utf8 r" "encodeBatchRecordPayload (Some cipher) nonce r = Inr v"
  shows "decodeBatchRecordPayload (Some cipher) v = Inr (Some (r\<lparr>dur_RawCSVRow := ''''\<rparr>))"
proof -
  let ?r = "r\<lparr>dur_RawCSVRow := ''''\<rparr>"
  have r: "\<lparr>dur_FullName = dur_FullName r, dur_DiplomaNumber = dur_DiplomaNumber r,
      dur_Specialty = dur_Specialty r, dur_Degree = dur_Degree r, dur_Faculty = dur_Faculty r,
      dur_Year = dur_Year r, dur_RawCSVRow = ''''\<rparr> = ?r"
    by (cases r) simp
  have v: "cipher_Seal cipher nonce (json_print (record_json ?r)) = Inr v"
    using assms(2) by (simp only: encodeBatchRecordPayload_def option.case Let_def r)
  have "wf_json (record_json ?r)"
    using assms(1) by (auto simp: record_json_def record_utf8_def valid_utf8.simps)
  then have "json_parse (json_print (record_json ?r)) = Some (record_json ?r)"
    by (rule json_parse_print)
  then show ?thesis
    using open_seal[OF v] seal_not_blank[OF v] assms(1) decode_record_json[of ?r]
    by (simp add: decodeBatchRecordPayload_def record_utf8_def)
qed

end

end
