(* ===== verification/DiplomaRepo.thy ===== *)
theory DiplomaRepo
  imports Database RecordPayload
begin

text \<open>
  \<open>gateway-service/internal/repository/postgres/diploma_repository.go\<close>: batches, the results the
  cryptography engine sends back, the registry of diploma hashes and the share links.  Every SQL
  statement of the file is a function on the tables; every method is a database program over
  them.  \<open>now\<close> is the time \<open>NOW()\<close> reads, \<open>new_id\<close> the UUID the column default draws.
\<close>

section \<open>Batches\<close>

definition insert_batch :: "string \<Rightarrow> time \<Rightarrow> string \<Rightarrow> nat \<Rightarrow> Batch stmt" where
  "insert_batch new_id now vuzID totalRecords d =
     (if has_batch d new_id then (Inl unique_violation, d)
      else if \<not> has_university d vuzID then (Inl foreign_key_violation, d)
      else (Inr \<lparr>b_ID = new_id, b_VUZID = vuzID, b_Status = BatchStatusProcessing,
                 b_TotalRecords = totalRecords, b_ProcessedRecords = 0, b_FailedRecords = 0,
                 b_CreatedAt = now, b_CompletedAt = None\<rparr>,
            d\<lparr>batches := batches d @
                [\<lparr>br_id = new_id, br_vuz_id = vuzID, br_status = BatchStatusProcessing,
                  br_total = totalRecords, br_processed = 0, br_created_at = now,
                  br_completed_at = None\<rparr>]\<rparr>))"

definition insert_payload :: "string \<Rightarrow> int \<Rightarrow> string \<Rightarrow> unit stmt" where
  "insert_payload batchID index encryptedPayload d =
     (if \<exists>p \<in> set (batch_record_payloads d). pr_batch_id p = batchID \<and> pr_index p = index
      then (Inl unique_violation, d)
      else if \<not> has_batch d batchID then (Inl foreign_key_violation, d)
      else (Inr (), d\<lparr>batch_record_payloads := batch_record_payloads d @
              [\<lparr>pr_batch_id = batchID, pr_index = index, pr_payload = encryptedPayload\<rparr>]\<rparr>))"

text \<open>The loop over the records: encrypt, insert, from the given index on.\<close>

primrec insert_payloads ::
  "payload_cipher option \<Rightarrow> (nat \<Rightarrow> bytes option) \<Rightarrow> string \<Rightarrow> nat \<Rightarrow> DiplomaUploadRecord list \<Rightarrow> unit dbm" where
  "insert_payloads cipher nonces batchID index [] = ret ()"
| "insert_payloads cipher nonces batchID index (record # records) =
     (case encodeBatchRecordPayload cipher (nonces index) record of
        Inl e \<Rightarrow> fail e
      | Inr encryptedPayload \<Rightarrow>
          and_then (run_stmt (insert_payload batchID (int index) encryptedPayload))
            (\<lambda>_. insert_payloads cipher nonces batchID (Suc index) records))"

definition create_batch_body ::
  "payload_cipher option \<Rightarrow> (nat \<Rightarrow> bytes option) \<Rightarrow> string \<Rightarrow> time \<Rightarrow> string \<Rightarrow> DiplomaUploadRecord list \<Rightarrow> Batch dbm" where
  "create_batch_body cipher nonces new_id now vuzID records =
     and_then (run_stmt (insert_batch new_id now vuzID (length records)))
       (\<lambda>batch. and_then (insert_payloads cipher nonces (b_ID batch) 0 records) (\<lambda>_. ret batch))"

definition CreateBatchWithRecords ::
  "payload_cipher option \<Rightarrow> (nat \<Rightarrow> bytes option) \<Rightarrow> string \<Rightarrow> time \<Rightarrow> string \<Rightarrow> DiplomaUploadRecord list \<Rightarrow> Batch dbm" where
  "CreateBatchWithRecords cipher nonces new_id now vuzID records =
     with_tx (create_batch_body cipher nonces new_id now vuzID records)"

definition update_batch :: "string \<Rightarrow> (batch_row \<Rightarrow> batch_row) \<Rightarrow> db \<Rightarrow> db" where
  "update_batch batchID f d =
     d\<lparr>batches := map (\<lambda>b. if br_id b = batchID then f b else b) (batches d)\<rparr>"

definition FailBatch :: "time \<Rightarrow> string \<Rightarrow> unit dbm" where
  "FailBatch now batchID = run_stmt (\<lambda>d. (Inr (), update_batch batchID
     (\<lambda>b. b\<lparr>br_status := BatchStatusFailed, br_completed_at := Some now\<rparr>) d))"

definition results_of :: "db \<Rightarrow> string \<Rightarrow> result_row list" where
  "results_of d batchID = filter (\<lambda>r. rr_batch_id r = batchID) (batch_results d)"

definition errors_of :: "db \<Rightarrow> string \<Rightarrow> result_row list" where
  "errors_of d batchID = filter (\<lambda>r. rr_status r = RecordStatusError) (results_of d batchID)"

definition batch_view :: "db \<Rightarrow> batch_row \<Rightarrow> Batch" where
  "batch_view d b =
     \<lparr>b_ID = br_id b, b_VUZID = br_vuz_id b, b_Status = br_status b, b_TotalRecords = br_total b,
      b_ProcessedRecords = br_processed b, b_FailedRecords = length (errors_of d (br_id b)),
      b_CreatedAt = br_created_at b, b_CompletedAt = br_completed_at b\<rparr>"

definition GetBatch :: "string \<Rightarrow> string \<Rightarrow> Batch dbm" where
  "GetBatch batchID vuzID = run_stmt (\<lambda>d.
     (bind_res (first_row (filter (\<lambda>b. br_id b = batchID \<and> br_vuz_id b = vuzID) (batches d)))
        (\<lambda>b. Inr (batch_view d b)), d))"

text \<open>\<open>ORDER BY created_at DESC\<close>: equal times keep their insertion order in the model.\<close>

definition ListBatches :: "string \<Rightarrow> int \<Rightarrow> Batch list dbm" where
  "ListBatches vuzID limit =
     (let limit = (if limit \<le> 0 then 20 else limit)
      in run_stmt (\<lambda>d. (Inr (map (batch_view d) (take (nat limit)
           (sort_key (\<lambda>b. - br_created_at b) (filter (\<lambda>b. br_vuz_id b = vuzID) (batches d))))), d)))"

section \<open>Results of the cryptography engine\<close>

definition select_result_status :: "string \<Rightarrow> int \<Rightarrow> string stmt" where
  "select_result_status batchID recordIndex d =
     (bind_res (first_row (filter (\<lambda>r. rr_batch_id r = batchID \<and> rr_index r = recordIndex)
        (batch_results d))) (\<lambda>r. Inr (rr_status r)), d)"

definition insert_result :: "result_row \<Rightarrow> unit stmt" where
  "insert_result row d =
     (if \<exists>r \<in> set (batch_results d). rr_batch_id r = rr_batch_id row \<and> rr_index r = rr_index row
      then (Inl unique_violation, d)
      else if \<not> has_batch d (rr_batch_id row) then (Inl foreign_key_violation, d)
      else (Inr (), d\<lparr>batch_results := batch_results d @ [row]\<rparr>))"

definition insertBatchResultErrorTx :: "time \<Rightarrow> string \<Rightarrow> int \<Rightarrow> string \<Rightarrow> unit dbm" where
  "insertBatchResultErrorTx now batchID recordIndex message =
     run_stmt (insert_result \<lparr>rr_batch_id = batchID, rr_index = recordIndex, rr_hash = None,
       rr_qr = None, rr_status = RecordStatusError, rr_error = Some message, rr_created_at = now\<rparr>)"

definition incrementBatchProcessedTx :: "string \<Rightarrow> unit dbm" where
  "incrementBatchProcessedTx batchID =
     run_stmt (\<lambda>d. (Inr (), update_batch batchID (\<lambda>b. b\<lparr>br_processed := br_processed b + 1\<rparr>) d))"

definition select_progress :: "string \<Rightarrow> (nat \<times> nat \<times> nat) stmt" where
  "select_progress batchID d =
     (bind_res (first_row (filter (\<lambda>b. br_id b = batchID) (batches d)))
        (\<lambda>b. Inr (br_total b, br_processed b, length (errors_of d batchID))), d)"

definition finalizeBatchIfCompleteTx :: "time \<Rightarrow> string \<Rightarrow> unit dbm" where
  "finalizeBatchIfCompleteTx now batchID =
     and_then (run_stmt (select_progress batchID)) (\<lambda>(totalRecords, processed, errorsCnt).
       if processed < totalRecords then ret ()
       else
         let status = (if errorsCnt > 0 then BatchStatusFailed else BatchStatusCompleted)
         in run_stmt (\<lambda>d. (Inr (), update_batch batchID
              (\<lambda>b. b\<lparr>br_status := status,
                     br_completed_at := Some (case br_completed_at b of None \<Rightarrow> now | Some t \<Rightarrow> t)\<rparr>) d)))"

definition count_and_finalize :: "time \<Rightarrow> string \<Rightarrow> unit dbm" where
  "count_and_finalize now batchID =
     and_then (incrementBatchProcessedTx batchID) (\<lambda>_. finalizeBatchIfCompleteTx now batchID)"

definition record_error :: "time \<Rightarrow> string \<Rightarrow> int \<Rightarrow> string \<Rightarrow> unit dbm" where
  "record_error now batchID recordIndex message =
     and_then (insertBatchResultErrorTx now batchID recordIndex message)
       (\<lambda>_. count_and_finalize now batchID)"

definition select_hash :: "string \<Rightarrow> string \<Rightarrow> string stmt" where
  "select_hash vuzID number d =
     (bind_res (first_row (filter (\<lambda>h. hr_vuz_id h = vuzID \<and> hr_number h = Some number)
        (diploma_hashes d))) (\<lambda>h. Inr (hr_hash h)), d)"

definition insert_hash :: "time \<Rightarrow> string \<Rightarrow> string \<Rightarrow> string \<Rightarrow> unit stmt" where
  "insert_hash now hash vuzID number d =
     (if has_hash d hash \<or>
         (\<exists>h \<in> set (diploma_hashes d). hr_vuz_id h = vuzID \<and> hr_number h = Some number)
      then (Inl unique_violation, d)
      else if \<not> has_university d vuzID then (Inl foreign_key_violation, d)
      else (Inr (), d\<lparr>diploma_hashes := diploma_hashes d @
              [\<lparr>hr_hash = hash, hr_vuz_id = vuzID, hr_number = Some number,
                hr_status = DiplomaStatusActive, hr_created_at = now, hr_revoked_at = None\<rparr>]\<rparr>))"

definition record_ok :: "time \<Rightarrow> KafkaProcessingResult \<Rightarrow> string \<Rightarrow> unit dbm" where
  "record_ok now result qr =
     and_then (run_stmt (insert_result \<lparr>rr_batch_id = kpr_BatchID result,
        rr_index = kpr_RecordIndex result, rr_hash = Some (kpr_DiplomaHash result), rr_qr = Some qr,
        rr_status = ''ok'', rr_error = None, rr_created_at = now\<rparr>))
       (\<lambda>_. count_and_finalize now (kpr_BatchID result))"

definition apply_body :: "qr_decoder option \<Rightarrow> time \<Rightarrow> KafkaProcessingResult \<Rightarrow> unit dbm" where
  "apply_body decoder now result =
     (let batchID = kpr_BatchID result; recordIndex = kpr_RecordIndex result;
          reject = record_error now batchID recordIndex
      in attempt (run_stmt (select_result_status batchID recordIndex)) (\<lambda>existing.
        case existing of
          Inr existingStatus \<Rightarrow> ret ()
        | Inl e \<Rightarrow>
            if e \<noteq> ErrNoRows then fail e
            else case kpr_QRPayload result of
              None \<Rightarrow> reject (stringOrDefault (kpr_Error result) ''processing error'')
            | Some qr \<Rightarrow>
                if kpr_Status result \<noteq> ''ok'' \<or> TrimSpace (kpr_DiplomaHash result) = ''''
                then reject (stringOrDefault (kpr_Error result) ''processing error'')
                else case parseQRPayload decoder qr of
                  Inl e \<Rightarrow> reject ''qr payload does not contain diploma number''
                | Inr qrData \<Rightarrow>
                    let number = qpc_DiplomaNumber (pqp_Claims qrData)
                    in if TrimSpace number = ''''
                       then reject ''qr payload does not contain diploma number''
                       else if TrimSpace (pqp_VUZID qrData) \<noteq> '''' \<and> pqp_VUZID qrData \<noteq> kpr_VUZID result
                       then reject ''qr payload university mismatch''
                       else attempt (run_stmt (select_hash (kpr_VUZID result) number))
                         (\<lambda>existingHash. case existingHash of
                            Inl e \<Rightarrow>
                              if e = ErrNoRows
                              then and_then (run_stmt (insert_hash now (kpr_DiplomaHash result)
                                     (kpr_VUZID result) number)) (\<lambda>_. record_ok now result qr)
                              else fail e
                          | Inr h \<Rightarrow>
                              if h \<noteq> kpr_DiplomaHash result
                              then reject ''diploma number already exists''
                              else record_ok now result qr)))"

definition ApplyProcessingResult :: "qr_decoder option \<Rightarrow> time \<Rightarrow> KafkaProcessingResult \<Rightarrow> unit dbm" where
  "ApplyProcessingResult decoder now result = with_tx (apply_body decoder now result)"

section \<open>Revocation\<close>

definition MarkDiplomaRevoked :: "time \<Rightarrow> string \<Rightarrow> string \<Rightarrow> unit dbm" where
  "MarkDiplomaRevoked now vuzID hash = run_stmt (\<lambda>d.
     (if (\<exists>h \<in> set (diploma_hashes d). hr_hash h = hash \<and> hr_vuz_id h = vuzID)
      then Inr () else Inl ErrNoRows,
      d\<lparr>diploma_hashes := map (\<lambda>h. if hr_hash h = hash \<and> hr_vuz_id h = vuzID
          then h\<lparr>hr_status := DiplomaStatusRevoked, hr_revoked_at := Some now\<rparr> else h)
        (diploma_hashes d)\<rparr>))"

section \<open>The rows of a download\<close>

definition download_row ::
  "qr_decoder option \<Rightarrow> payload_cipher option \<Rightarrow> db \<Rightarrow> result_row \<Rightarrow> BatchDownloadRow res" where
  "download_row decoder cipher d r =
     (let diplomaStatus = (case rr_hash r of None \<Rightarrow> None
            | Some hash \<Rightarrow> map_option hr_status (find (\<lambda>h. hr_hash h = hash) (diploma_hashes d)));
          encryptedPayload = map_option pr_payload
            (find (\<lambda>p. pr_batch_id p = rr_batch_id r \<and> pr_index p = rr_index r) (batch_record_payloads d));
          status = (if rr_status r \<noteq> RecordStatusError
                    then (case diplomaStatus of Some s \<Rightarrow> s | None \<Rightarrow> rr_status r) else rr_status r)
      in bind_res
        (case encryptedPayload of None \<Rightarrow> Inr None
         | Some v \<Rightarrow> decodeBatchRecordPayload cipher v)
        (\<lambda>payload.
          let rec = (case payload of None \<Rightarrow> empty_record | Some p \<Rightarrow> p);
              item = \<lparr>bdr_RecordIndex = rr_index r,
                bdr_DiplomaHash = (case rr_hash r of None \<Rightarrow> '''' | Some h \<Rightarrow> h),
                bdr_FullName = dur_FullName rec, bdr_DiplomaNumber = dur_DiplomaNumber rec,
                bdr_Specialty = dur_Specialty rec, bdr_Degree = dur_Degree rec,
                bdr_Faculty = dur_Faculty rec, bdr_Year = dur_Year rec, bdr_QRPayload = '''',
                bdr_Status = status, bdr_Error = rr_error r\<rparr>
          in case rr_qr r of
               None \<Rightarrow> Inr item
             | Some qr \<Rightarrow>
                 if TrimSpace qr = '''' then Inr item
                 else if bdr_FullName item = '''' \<or> bdr_DiplomaNumber item = '''' \<or> bdr_Specialty item = ''''
                    \<or> bdr_Degree item = '''' \<or> bdr_Faculty item = '''' \<or> bdr_Year item = 0
                 then bind_res (parseQRPayload decoder qr) (\<lambda>parsed.
                   let c = pqp_Claims parsed
                   in Inr (item\<lparr>bdr_QRPayload := qr,
                        bdr_FullName := firstNonEmpty [bdr_FullName item, qpc_FullName c],
                        bdr_DiplomaNumber := firstNonEmpty [bdr_DiplomaNumber item, qpc_DiplomaNumber c],
                        bdr_Specialty := firstNonEmpty [bdr_Specialty item, qpc_Specialty c],
                        bdr_Degree := firstNonEmpty [bdr_Degree item, qpc_Degree c],
                        bdr_Faculty := firstNonEmpty [bdr_Faculty item, qpc_Faculty c],
                        bdr_Year := firstNonZero [bdr_Year item, qpc_Year c]\<rparr>))
                 else Inr (item\<lparr>bdr_QRPayload := qr\<rparr>)))"

fun map_res :: "('a \<Rightarrow> 'b res) \<Rightarrow> 'a list \<Rightarrow> 'b list res" where
  "map_res f [] = Inr []"
| "map_res f (x # xs) = bind_res (f x) (\<lambda>y. bind_res (map_res f xs) (\<lambda>ys. Inr (y # ys)))"

definition GetBatchDownloadRows ::
  "qr_decoder option \<Rightarrow> payload_cipher option \<Rightarrow> string \<Rightarrow> string \<Rightarrow> BatchDownloadRow list dbm" where
  "GetBatchDownloadRows decoder cipher batchID vuzID = run_stmt (\<lambda>d.
     (map_res (download_row decoder cipher d)
        (sort_key rr_index
          (if \<exists>b \<in> set (batches d). br_id b = batchID \<and> br_vuz_id b = vuzID
           then results_of d batchID else [])), d))"

section \<open>Search and share links\<close>

text \<open>
  The lateral join of the search: the newest successful result that carries the hash, and the
  university of the hash.  A row without either is dropped by the join.
\<close>

definition latest_ok :: "db \<Rightarrow> string \<Rightarrow> result_row option" where
  "latest_ok d hash =
     (case sort_key (\<lambda>r. - rr_created_at r)
        (filter (\<lambda>r. rr_hash r = Some hash \<and> rr_status r = ''ok'') (batch_results d)) of
        [] \<Rightarrow> None | r # _ \<Rightarrow> Some r)"

type_synonym student_row = "hash_row \<times> string option \<times> University"

definition student_rows :: "db \<Rightarrow> hash_row list \<Rightarrow> student_row list" where
  "student_rows d hs = concat (map (\<lambda>h.
     case latest_ok d (hr_hash h) of
       None \<Rightarrow> []
     | Some r \<Rightarrow> map (\<lambda>u. (h, rr_qr r, u)) (filter (\<lambda>u. u_ID u = hr_vuz_id h) (universities d))) hs)"

text \<open>\<open>rows.Scan\<close> of the payload into a Go string refuses NULL.\<close>

definition scan_text :: "string option \<Rightarrow> string res" where
  "scan_text v = of_option (ErrText ''converting NULL to string is unsupported'') v"

definition student_item :: "hash_row \<Rightarrow> University \<Rightarrow> ParsedQRPayload \<Rightarrow> StudentSearchResult" where
  "student_item h u payload =
     (let c = pqp_Claims payload
      in \<lparr>ssr_DiplomaHash = hr_hash h, ssr_DiplomaNumber = qpc_DiplomaNumber c,
          ssr_FullName = qpc_FullName c, ssr_Specialty = qpc_Specialty c, ssr_Degree = qpc_Degree c,
          ssr_Faculty = qpc_Faculty c, ssr_Year = qpc_Year c, ssr_UniversityID = u_ID u,
          ssr_UniversityName = u_Name u, ssr_Status = hr_status h, ssr_CreatedAt = hr_created_at h\<rparr>)"

text \<open>
  The scan of the result set: rows whose name does not contain the needle are skipped, the scan
  stops at fifty hits, a payload that does not parse stops it with its error.  \<open>lower\<close> is
  \<open>strings.ToLower\<close>.
\<close>

fun scan_students ::
  "qr_decoder option \<Rightarrow> (string \<Rightarrow> string) \<Rightarrow> string \<Rightarrow> nat \<Rightarrow> student_row list
     \<Rightarrow> StudentSearchResult list res" where
  "scan_students decoder lower normalizedName room [] = Inr []"
| "scan_students decoder lower normalizedName room ((h, qr, u) # rows) =
     bind_res (bind_res (scan_text qr) (parseQRPayload decoder)) (\<lambda>payload.
       if normalizedName \<noteq> '''' \<and>
          \<not> Contains (lower (qpc_FullName (pqp_Claims payload))) normalizedName
       then scan_students decoder lower normalizedName room rows
       else if room \<le> 1 then Inr [student_item h u payload]
       else bind_res (scan_students decoder lower normalizedName (room - 1) rows)
              (\<lambda>items. Inr (student_item h u payload # items)))"

definition SearchStudents ::
  "qr_decoder option \<Rightarrow> (string \<Rightarrow> string) \<Rightarrow> string \<Rightarrow> string \<Rightarrow> StudentSearchResult list dbm" where
  "SearchStudents decoder lower diplomaNumber fullName = run_stmt (\<lambda>d.
     (scan_students decoder lower (lower (TrimSpace fullName)) 50
        (student_rows d (sort_key (\<lambda>h. - hr_created_at h)
          (if TrimSpace diplomaNumber \<noteq> ''''
           then filter (\<lambda>h. hr_number h = Some diplomaNumber) (diploma_hashes d)
           else diploma_hashes d))), d))"

definition FindStudentByHash :: "qr_decoder option \<Rightarrow> string \<Rightarrow> StudentSearchResult dbm" where
  "FindStudentByHash decoder diplomaHash = run_stmt (\<lambda>d.
     (bind_res (first_row (student_rows d (filter (\<lambda>h. hr_hash h = diplomaHash) (diploma_hashes d))))
        (\<lambda>(h, qr, u). bind_res (bind_res (scan_text qr) (parseQRPayload decoder)) (\<lambda>payload. Inr (student_item h u payload))), d))"

definition CreateShareLink :: "string \<Rightarrow> time \<Rightarrow> string \<Rightarrow> string \<Rightarrow> time \<Rightarrow> unit dbm" where
  "CreateShareLink new_id now diplomaHash token expiresAt = run_stmt (\<lambda>d.
     if new_id \<in> sl_ID ` set (share_links d) \<or> token \<in> sl_Token ` set (share_links d)
     then (Inl unique_violation, d)
     else if \<not> has_hash d diplomaHash then (Inl foreign_key_violation, d)
     else (Inr (), d\<lparr>share_links := share_links d @
       [\<lparr>sl_ID = new_id, sl_DiplomaHash = diplomaHash, sl_Token = token, sl_ExpiresAt = expiresAt,
         sl_UsedCount = 0, sl_CreatedAt = now\<rparr>]\<rparr>))"

definition FindShareLink :: "string \<Rightarrow> ShareLink dbm" where
  "FindShareLink token = run_stmt (\<lambda>d.
     (first_row (filter (\<lambda>l. sl_Token l = token) (share_links d)), d))"

definition IncrementShareLinkUsage :: "string \<Rightarrow> unit dbm" where
  "IncrementShareLinkUsage token = run_stmt (\<lambda>d.
     (Inr (), d\<lparr>share_links := map (\<lambda>l. if sl_Token l = token
        then l\<lparr>sl_UsedCount := sl_UsedCount l + 1\<rparr> else l) (share_links d)\<rparr>))"

end
