(* ===== verification/DiplomaInv.thy ===== *)
theory DiplomaInv
  imports DiplomaRepo
begin

text \<open>
  The effect of the diploma repository in closed form, and the invariants it keeps.  A result of
  the engine is judged by \<open>verdict\<close> and its row booked by \<open>book\<close>; \<open>ApplyProcessingResult\<close> is
  shown to be exactly that.  \<open>schema_ok\<close> collects the keys and references of the migrations,
  \<open>ledger_ok\<close> ties the counters and the status of a batch to the rows stored for it.
\<close>

section \<open>Small facts on the tables\<close>

lemma update_batch_sel [simp]:
  "universities (update_batch i f d) = universities d"
  "platform_admins (update_batch i f d) = platform_admins d"
  "api_keys (update_batch i f d) = api_keys d"
  "batch_record_payloads (update_batch i f d) = batch_record_payloads d"
  "diploma_hashes (update_batch i f d) = diploma_hashes d"
  "batch_results (update_batch i f d) = batch_results d"
  "share_links (update_batch i f d) = share_links d"
  "university_signing_keys (update_batch i f d) = university_signing_keys d"
  "batches (update_batch i f d) = map (\<lambda>b. if br_id b = i then f b else b) (batches d)"
  by (simp_all add: update_batch_def)

lemma results_of_update [simp]: "results_of (update_batch i f d) j = results_of d j"
  by (simp add: results_of_def)

lemma errors_of_update [simp]: "errors_of (update_batch i f d) j = errors_of d j"
  by (simp add: errors_of_def)

lemma update_batch_twice:
  assumes "\<And>b. br_id (f b) = br_id b"
  shows "update_batch i g (update_batch i f d) = update_batch i (g \<circ> f) d"
  using assms by (auto simp: update_batch_def)

lemma update_batch_cong:
  assumes "\<And>b. b \<in> set (batches d) \<Longrightarrow> br_id b = i \<Longrightarrow> f b = g b"
  shows "update_batch i f d = update_batch i g d"
  using assms by (auto simp: update_batch_def)

lemma update_batch_id: "(\<And>b. b \<in> set (batches d) \<Longrightarrow> br_id b = i \<Longrightarrow> f b = b) \<Longrightarrow> update_batch i f d = d"
proof -
  assume "\<And>b. b \<in> set (batches d) \<Longrightarrow> br_id b = i \<Longrightarrow> f b = b"
  then have "map (\<lambda>b. if br_id b = i then f b else b) (batches d) = batches d"
    by (intro map_idI) simp
  then show ?thesis by (simp add: update_batch_def)
qed

lemma br_id_if [simp]: "br_id (f b) = br_id b \<Longrightarrow> br_id (if c then f b else b) = br_id b"
  by simp

lemma has_batch_update [simp]:
  "(\<And>b. br_id (f b) = br_id b) \<Longrightarrow> has_batch (update_batch i f d) j = has_batch d j"
  by (simp only: has_batch_def update_batch_sel set_map[symmetric] map_key_if)

lemma has_batchE:
  assumes "has_batch d i" obtains b where "b \<in> set (batches d)" "br_id b = i"
  using assms by (auto simp: has_batch_def)

section \<open>Booking a result row\<close>

text \<open>What one more stored row does to its batch.\<close>

definition settled :: "time \<Rightarrow> nat \<Rightarrow> batch_row \<Rightarrow> batch_row" where
  "settled now errs b =
     (if br_processed b + 1 < br_total b then b\<lparr>br_processed := br_processed b + 1\<rparr>
      else b\<lparr>br_processed := br_processed b + 1,
             br_status := if errs > 0 then BatchStatusFailed else BatchStatusCompleted,
             br_completed_at := Some (case br_completed_at b of None \<Rightarrow> now | Some t \<Rightarrow> t)\<rparr>)"

lemma settled_sel [simp]:
  "br_id (settled now e b) = br_id b"
  "br_vuz_id (settled now e b) = br_vuz_id b"
  "br_total (settled now e b) = br_total b"
  "br_processed (settled now e b) = br_processed b + 1"
  "br_created_at (settled now e b) = br_created_at b"
  by (simp_all add: settled_def)

definition result_taken :: "db \<Rightarrow> string \<Rightarrow> int \<Rightarrow> bool" where
  "result_taken d i n \<longleftrightarrow> (\<exists>r \<in> set (batch_results d). rr_batch_id r = i \<and> rr_index r = n)"

definition add_row :: "result_row \<Rightarrow> db \<Rightarrow> db" where
  "add_row row d = d\<lparr>batch_results := batch_results d @ [row]\<rparr>"

definition book :: "time \<Rightarrow> result_row \<Rightarrow> unit stmt" where
  "book now row d =
     (if result_taken d (rr_batch_id row) (rr_index row) then (Inl unique_violation, d)
      else if \<not> has_batch d (rr_batch_id row) then (Inl foreign_key_violation, d)
      else (Inr (), update_batch (rr_batch_id row)
              (settled now (length (errors_of (add_row row d) (rr_batch_id row)))) (add_row row d)))"

definition book_row :: "time \<Rightarrow> result_row \<Rightarrow> unit dbm" where
  "book_row now row =
     and_then (run_stmt (insert_result row)) (\<lambda>_. count_and_finalize now (rr_batch_id row))"

definition error_row :: "time \<Rightarrow> string \<Rightarrow> int \<Rightarrow> string \<Rightarrow> result_row" where
  "error_row now i n message =
     \<lparr>rr_batch_id = i, rr_index = n, rr_hash = None, rr_qr = None, rr_status = RecordStatusError,
      rr_error = Some message, rr_created_at = now\<rparr>"

definition ok_row :: "time \<Rightarrow> KafkaProcessingResult \<Rightarrow> string \<Rightarrow> result_row" where
  "ok_row now result qr =
     \<lparr>rr_batch_id = kpr_BatchID result, rr_index = kpr_RecordIndex result,
      rr_hash = Some (kpr_DiplomaHash result), rr_qr = Some qr, rr_status = ''ok'',
      rr_error = None, rr_created_at = now\<rparr>"

lemma row_sel [simp]:
  "rr_batch_id (error_row now i n m) = i" "rr_index (error_row now i n m) = n"
  "rr_hash (error_row now i n m) = None" "rr_status (error_row now i n m) = RecordStatusError"
  "rr_qr (error_row now i n m) = None" "rr_error (error_row now i n m) = Some m"
  "rr_batch_id (ok_row now result qr) = kpr_BatchID result"
  "rr_index (ok_row now result qr) = kpr_RecordIndex result"
  "rr_hash (ok_row now result qr) = Some (kpr_DiplomaHash result)"
  "rr_status (ok_row now result qr) = ''ok''" "rr_qr (ok_row now result qr) = Some qr"
  "rr_error (ok_row now result qr) = None"
  by (simp_all add: error_row_def ok_row_def)

lemma add_row_sel [simp]:
  "batch_results (add_row row d) = batch_results d @ [row]"
  "batches (add_row row d) = batches d" "diploma_hashes (add_row row d) = diploma_hashes d"
  "universities (add_row row d) = universities d" "share_links (add_row row d) = share_links d"
  "batch_record_payloads (add_row row d) = batch_record_payloads d"
  "platform_admins (add_row row d) = platform_admins d" "api_keys (add_row row d) = api_keys d"
  "university_signing_keys (add_row row d) = university_signing_keys d"
  by (simp_all add: add_row_def)

lemma has_batch_add_row [simp]: "has_batch (add_row row d) i = has_batch d i"
  by (simp add: has_batch_def)

lemma results_of_add_row [simp]:
  "results_of (add_row row d) i =
     (if rr_batch_id row = i then results_of d i @ [row] else results_of d i)"
  by (simp add: results_of_def)

lemma errors_of_add_row [simp]:
  "errors_of (add_row row d) i =
     (if rr_batch_id row = i \<and> rr_status row = RecordStatusError
      then errors_of d i @ [row] else errors_of d i)"
  by (simp add: errors_of_def)

lemma record_error_book: "record_error now i n m = book_row now (error_row now i n m)"
  by (simp add: record_error_def book_row_def insertBatchResultErrorTx_def error_row_def)

lemma record_ok_book: "record_ok now result qr = book_row now (ok_row now result qr)"
  by (simp add: record_ok_def book_row_def ok_row_def)

lemma transparent_finalize [fault_transparent, intro]:
  "transparent (finalizeBatchIfCompleteTx now i)"
  by (auto simp: finalizeBatchIfCompleteTx_def Let_def intro!: fault_transparent split: prod.splits)

lemma transparent_count [fault_transparent, intro]: "transparent (count_and_finalize now i)"
  by (auto simp: count_and_finalize_def incrementBatchProcessedTx_def intro!: fault_transparent)

lemma transparent_book_row [fault_transparent, intro]: "transparent (book_row now row)"
  by (auto simp: book_row_def intro!: fault_transparent)

lemma pure_count_and_finalize:
  assumes "distinct (map br_id (batches d))" "has_batch d i"
  shows "pure (count_and_finalize now i) d =
    (Inr (), update_batch i (settled now (length (errors_of d i))) d)"
proof -
  obtain b where b: "b \<in> set (batches d)" "br_id b = i" using assms(2) by (rule has_batchE)
  let ?inc = "\<lambda>b. b\<lparr>br_processed := br_processed b + 1\<rparr>"
  let ?d = "update_batch i ?inc d"
  have key: "b' \<in> set (batches d) \<Longrightarrow> br_id b' = i \<Longrightarrow> b' = b" for b'
    using assms(1) b distinct_key_unique by metis
  have "distinct (map br_id (batches ?d))" using assms(1) by simp
  moreover have "?inc b \<in> set (batches ?d)" using b by force
  ultimately have f: "filter (\<lambda>x. br_id x = i) (batches ?d) = [?inc b]"
    using filter_key_unique[of br_id "batches ?d" "?inc b"] b(2) by simp
  have p: "select_progress i ?d =
      (Inr (br_total b, br_processed b + 1, length (errors_of d i)), ?d)"
    unfolding select_progress_def f by simp
  show ?thesis
  proof (cases "br_processed b + 1 < br_total b")
    case True
    have "?d = update_batch i (settled now (length (errors_of d i))) d"
      using True key by (intro update_batch_cong) (simp add: settled_def)
    then show ?thesis
      using True p
      by (simp add: count_and_finalize_def incrementBatchProcessedTx_def
          finalizeBatchIfCompleteTx_def pure_and_then fault_transparent)
  next
    case False
    let ?close = "\<lambda>b. b\<lparr>br_status := if length (errors_of d i) > 0 then BatchStatusFailed
        else BatchStatusCompleted,
        br_completed_at := Some (case br_completed_at b of None \<Rightarrow> now | Some t \<Rightarrow> t)\<rparr>"
    have "update_batch i ?close ?d = update_batch i (?close \<circ> ?inc) d"
      by (rule update_batch_twice) simp
    also have "\<dots> = update_batch i (settled now (length (errors_of d i))) d"
      using False key by (intro update_batch_cong) (auto simp: settled_def)
    finally show ?thesis
      using False p
      by (simp add: count_and_finalize_def incrementBatchProcessedTx_def
          finalizeBatchIfCompleteTx_def pure_and_then fault_transparent Let_def)
  qed
qed

lemma pure_book_row:
  assumes "distinct (map br_id (batches d))"
  shows "pure (book_row now row) d = book now row d"
proof -
  let ?i = "rr_batch_id row"
  have i: "insert_result row d =
      (if result_taken d ?i (rr_index row) then (Inl unique_violation, d)
       else if \<not> has_batch d ?i then (Inl foreign_key_violation, d) else (Inr (), add_row row d))"
    by (simp add: insert_result_def result_taken_def add_row_def)
  have c: "has_batch d ?i \<Longrightarrow> pure (count_and_finalize now ?i) (add_row row d) =
      (Inr (), update_batch ?i (settled now (length (errors_of (add_row row d) ?i))) (add_row row d))"
    using assms by (intro pure_count_and_finalize) simp_all
  show ?thesis
    unfolding book_row_def book_def
    by (simp add: pure_and_then fault_transparent i c del: errors_of_add_row)
qed

section \<open>Judging a result\<close>

text \<open>
  What the service decides about a message of the engine, from the message, the decoder and the
  hash already registered for a diploma number.
\<close>

datatype judgement = Rejected string | Known string | Fresh string string

definition verdict ::
  "qr_decoder option \<Rightarrow> KafkaProcessingResult \<Rightarrow> (string \<Rightarrow> string option) \<Rightarrow> judgement" where
  "verdict decoder result registered =
     (case kpr_QRPayload result of
        None \<Rightarrow> Rejected (stringOrDefault (kpr_Error result) ''processing error'')
      | Some qr \<Rightarrow>
          if kpr_Status result \<noteq> ''ok'' \<or> blank (kpr_DiplomaHash result)
          then Rejected (stringOrDefault (kpr_Error result) ''processing error'')
          else (case parseQRPayload decoder qr of
             Inl _ \<Rightarrow> Rejected ''qr payload does not contain diploma number''
           | Inr p \<Rightarrow>
               let number = qpc_DiplomaNumber (pqp_Claims p)
               in if blank number then Rejected ''qr payload does not contain diploma number''
                  else if \<not> blank (pqp_VUZID p) \<and> pqp_VUZID p \<noteq> kpr_VUZID result
                  then Rejected ''qr payload university mismatch''
                  else (case registered number of
                     None \<Rightarrow> Fresh number qr
                   | Some h \<Rightarrow> if h = kpr_DiplomaHash result then Known qr
                              else Rejected ''diploma number already exists'')))"

definition registered :: "db \<Rightarrow> string \<Rightarrow> string \<Rightarrow> string option" where
  "registered d v number = map_option hr_hash
     (find (\<lambda>h. hr_vuz_id h = v \<and> hr_number h = Some number) (diploma_hashes d))"

definition apply_spec :: "qr_decoder option \<Rightarrow> time \<Rightarrow> KafkaProcessingResult \<Rightarrow> unit stmt" where
  "apply_spec decoder now result d =
     (if result_taken d (kpr_BatchID result) (kpr_RecordIndex result) then (Inr (), d)
      else case verdict decoder result (registered d (kpr_VUZID result)) of
        Rejected m \<Rightarrow> book now (error_row now (kpr_BatchID result) (kpr_RecordIndex result) m) d
      | Known qr \<Rightarrow> book now (ok_row now result qr) d
      | Fresh number qr \<Rightarrow>
          (case insert_hash now (kpr_DiplomaHash result) (kpr_VUZID result) number d of
             (Inl e, d') \<Rightarrow> (Inl e, d')
           | (Inr _, d') \<Rightarrow> book now (ok_row now result qr) d'))"

lemma first_row_filter:
  "first_row (filter P xs) = (case find P xs of None \<Rightarrow> Inl ErrNoRows | Some x \<Rightarrow> Inr x)"
  by (induction xs) simp_all

lemma select_hash_registered:
  "select_hash v number d =
     (case registered d v number of None \<Rightarrow> Inl ErrNoRows | Some h \<Rightarrow> Inr h, d)"
  by (simp add: select_hash_def registered_def first_row_filter split: option.split)

lemma select_result_taken:
  "\<exists>r. select_result_status i n d = (r, d) \<and>
     (if result_taken d i n then \<exists>x. r = Inr x else r = Inl ErrNoRows)"
  by (auto simp: select_result_status_def result_taken_def first_row_def filter_empty_conv
      filter_eq_Cons_iff split: list.splits)

lemma insert_hash_batches [simp]: "batches (snd (insert_hash now h v n d)) = batches d"
  by (simp add: insert_hash_def)

lemma transparent_apply_body [fault_transparent, intro]: "transparent (apply_body decoder now result)"
  unfolding apply_body_def Let_def record_error_book record_ok_book
  by (intro fault_transparent transparent_attempt allI conjI impI) 
     (auto intro!: fault_transparent split: sum.splits option.splits)


lemma pure_apply_body:
  assumes "distinct (map br_id (batches d))"
  shows "pure (apply_body decoder now result) d = apply_spec decoder now result d"
proof (cases "result_taken d (kpr_BatchID result) (kpr_RecordIndex result)")
  case True
  then show ?thesis
    using select_result_taken[of "kpr_BatchID result" "kpr_RecordIndex result" d]
    by (auto simp: apply_body_def Let_def pure_attempt fault_transparent apply_spec_def)
next
  case False
  then have s: "select_result_status (kpr_BatchID result) (kpr_RecordIndex result) d = (Inl ErrNoRows, d)"
    using select_result_taken[of "kpr_BatchID result" "kpr_RecordIndex result" d] by auto
  have b: "pure (book_row now row) d' = book now row d'"
    if "insert_hash now h v n d = (r, d')" for h v n r d' row
    using insert_hash_batches[of now h v n d] that assms by (intro pure_book_row) simp
  show ?thesis
    using False assms s
    by (auto simp: apply_body_def Let_def pure_attempt pure_and_then fault_transparent apply_spec_def
        record_error_book record_ok_book pure_book_row verdict_def blank_def select_hash_registered
        split: option.split sum.split prod.split dest: b)
qed

end
