(* ===== verification/Invariant.thy ===== *)
theory Invariant
  imports DiplomaInv
begin

text \<open>
  The invariant of the database: \<open>keys_ok\<close>, \<open>refs_ok\<close> and \<open>checks_ok\<close> are the constraints of
  \<open>gateway-service/migrations\<close> (primary and unique keys, foreign keys, \<open>CHECK\<close>s), \<open>rows_ok\<close> says
  what a stored result and a registered hash look like, \<open>ledger_ok\<close> ties the counter and the
  status of a batch to its stored rows.  Every operation of the diploma repository keeps all of
  them, under every fault schedule.
\<close>

section \<open>Constraints of the schema\<close>

definition keys_ok :: "db \<Rightarrow> bool" where
  "keys_ok d \<longleftrightarrow>
     distinct (map u_ID (universities d)) \<and> distinct (map u_VuzCode (universities d)) \<and>
     distinct (map u_INN (universities d)) \<and> distinct (map u_OGRN (universities d)) \<and>
     distinct (map u_Email (universities d)) \<and>
     distinct (map pa_ID (platform_admins d)) \<and> distinct (map pa_Email (platform_admins d)) \<and>
     distinct (map ak_ID (api_keys d)) \<and> distinct (map ak_KeyHash (api_keys d)) \<and>
     distinct (map br_id (batches d)) \<and>
     distinct (map (\<lambda>p. (pr_batch_id p, pr_index p)) (batch_record_payloads d)) \<and>
     distinct (map hr_hash (diploma_hashes d)) \<and>
     distinct (map (\<lambda>h. (hr_vuz_id h, hr_number h))
       (filter (\<lambda>h. hr_number h \<noteq> None) (diploma_hashes d))) \<and>
     distinct (map (\<lambda>r. (rr_batch_id r, rr_index r)) (batch_results d)) \<and>
     distinct (map sl_ID (share_links d)) \<and> distinct (map sl_Token (share_links d)) \<and>
     distinct (map usk_VUZID (university_signing_keys d))"

definition refs_ok :: "db \<Rightarrow> bool" where
  "refs_ok d \<longleftrightarrow>
     (\<forall>k \<in> set (api_keys d). has_university d (ak_VUZID k)) \<and>
     (\<forall>b \<in> set (batches d). has_university d (br_vuz_id b)) \<and>
     (\<forall>p \<in> set (batch_record_payloads d). has_batch d (pr_batch_id p)) \<and>
     (\<forall>h \<in> set (diploma_hashes d). has_university d (hr_vuz_id h)) \<and>
     (\<forall>r \<in> set (batch_results d). has_batch d (rr_batch_id r)) \<and>
     (\<forall>l \<in> set (share_links d). has_hash d (sl_DiplomaHash l)) \<and>
     (\<forall>k \<in> set (university_signing_keys d). has_university d (usk_VUZID k))"

definition university_status :: "string \<Rightarrow> bool" where
  "university_status s \<longleftrightarrow>
     s = UniversityStatusPending \<or> s = UniversityStatusActive \<or> s = UniversityStatusBlocked"

definition checks_ok :: "db \<Rightarrow> bool" where
  "checks_ok d \<longleftrightarrow>
     (\<forall>u \<in> set (universities d). university_status (u_Status u)) \<and>
     (\<forall>k \<in> set (university_signing_keys d). usk_KeyAlgorithm k = ''ed25519'')"

section \<open>The registry and the ledger\<close>

definition result_row_ok :: "result_row \<Rightarrow> bool" where
  "result_row_ok r \<longleftrightarrow>
     (rr_status r = ''ok'' \<and> (\<exists>h. rr_hash r = Some h \<and> \<not> blank h) \<and> rr_qr r \<noteq> None \<and> rr_error r = None) \<or>
     (rr_status r = RecordStatusError \<and> rr_hash r = None \<and> rr_qr r = None \<and>
       (\<exists>m. rr_error r = Some m \<and> \<not> blank m))"

definition hash_row_ok :: "hash_row \<Rightarrow> bool" where
  "hash_row_ok h \<longleftrightarrow>
     (hr_status h = DiplomaStatusActive \<and> hr_revoked_at h = None) \<or>
     (hr_status h = DiplomaStatusRevoked \<and> hr_revoked_at h \<noteq> None)"

definition rows_ok :: "db \<Rightarrow> bool" where
  "rows_ok d \<longleftrightarrow> list_all result_row_ok (batch_results d) \<and> list_all hash_row_ok (diploma_hashes d)"

definition batch_ok :: "db \<Rightarrow> batch_row \<Rightarrow> bool" where
  "batch_ok d b \<longleftrightarrow>
     br_processed b = length (results_of d (br_id b)) \<and>
     (br_status b = BatchStatusProcessing \<and> br_completed_at b = None \<and>
        (br_processed b < br_total b \<or> br_processed b = 0) \<or>
      br_status b = BatchStatusCompleted \<and> br_completed_at b \<noteq> None \<and>
        br_total b \<le> br_processed b \<and> errors_of d (br_id b) = [] \<or>
      br_status b = BatchStatusFailed \<and> br_completed_at b \<noteq> None)"

definition ledger_ok :: "db \<Rightarrow> bool" where
  "ledger_ok d \<longleftrightarrow> list_all (batch_ok d) (batches d)"

definition db_ok :: "db \<Rightarrow> bool" where
  "db_ok d \<longleftrightarrow> keys_ok d \<and> refs_ok d \<and> checks_ok d \<and> rows_ok d \<and> ledger_ok d"

lemmas db_ok_defs = db_ok_def keys_ok_def refs_ok_def checks_ok_def rows_ok_def ledger_ok_def

lemma db_okI:
  "keys_ok d \<Longrightarrow> refs_ok d \<Longrightarrow> checks_ok d \<Longrightarrow> rows_ok d \<Longrightarrow> ledger_ok d \<Longrightarrow> db_ok d"
  by (simp add: db_ok_def)

lemma db_okD:
  assumes "db_ok d"
  shows "keys_ok d" "refs_ok d" "checks_ok d" "rows_ok d" "ledger_ok d"
  using assms by (simp_all add: db_ok_def)

lemma db_ok_empty: "db_ok empty_db"
  by (simp add: db_ok_defs empty_db_def)

lemma db_ok_batch_ids: "db_ok d \<Longrightarrow> distinct (map br_id (batches d))"
  by (simp add: db_ok_defs)

lemma batch_okD: "db_ok d \<Longrightarrow> b \<in> set (batches d) \<Longrightarrow> batch_ok d b"
  by (simp add: db_ok_defs list_all_iff)

lemma results_of_empty:
  "refs_ok d \<Longrightarrow> \<not> has_batch d i \<Longrightarrow> results_of d i = []"
  by (auto simp: refs_ok_def results_of_def filter_empty_conv)

section \<open>Steps on single tables\<close>

lemma has_simps [simp]:
  "has_university (d\<lparr>batches := x\<rparr>) v = has_university d v"
  "has_university (d\<lparr>batch_results := y\<rparr>) v = has_university d v"
  "has_university (d\<lparr>diploma_hashes := z\<rparr>) v = has_university d v"
  "has_university (d\<lparr>share_links := s\<rparr>) v = has_university d v"
  "has_university (d\<lparr>batch_record_payloads := p\<rparr>) v = has_university d v"
  "has_university (update_batch i f d) v = has_university d v"
  "has_university (add_row r d) v = has_university d v"
  "has_batch (d\<lparr>batch_results := y\<rparr>) w = has_batch d w"
  "has_batch (d\<lparr>diploma_hashes := z\<rparr>) w = has_batch d w"
  "has_batch (d\<lparr>share_links := s\<rparr>) w = has_batch d w"
  "has_batch (d\<lparr>batch_record_payloads := p\<rparr>) w = has_batch d w"
  "has_hash (d\<lparr>batches := x\<rparr>) h = has_hash d h"
  "has_hash (d\<lparr>batch_results := y\<rparr>) h = has_hash d h"
  "has_hash (d\<lparr>share_links := s\<rparr>) h = has_hash d h"
  "has_hash (d\<lparr>batch_record_payloads := p\<rparr>) h = has_hash d h"
  "has_hash (update_batch i f d) h = has_hash d h"
  "has_hash (add_row r d) h = has_hash d h"
  by (simp_all add: has_university_def has_batch_def has_hash_def)

lemma results_of_simps [simp]:
  "results_of (d\<lparr>batches := x\<rparr>) j = results_of d j"
  "results_of (d\<lparr>diploma_hashes := z\<rparr>) j = results_of d j"
  "results_of (d\<lparr>share_links := s\<rparr>) j = results_of d j"
  "results_of (d\<lparr>batch_record_payloads := p\<rparr>) j = results_of d j"
  "errors_of (d\<lparr>batches := x\<rparr>) j = errors_of d j"
  "errors_of (d\<lparr>diploma_hashes := z\<rparr>) j = errors_of d j"
  "errors_of (d\<lparr>share_links := s\<rparr>) j = errors_of d j"
  "errors_of (d\<lparr>batch_record_payloads := p\<rparr>) j = errors_of d j"
  by (simp_all add: results_of_def errors_of_def)

lemma batch_ok_cong:
  "results_of d (br_id b) = results_of d' (br_id b) \<Longrightarrow> batch_ok d b = batch_ok d' b"
  by (simp add: batch_ok_def errors_of_def)

lemma has_batch_append [simp]:
  "has_batch (d\<lparr>batches := xs @ ys\<rparr>) i = (has_batch (d\<lparr>batches := xs\<rparr>) i \<or> i \<in> br_id ` set ys)"
  by (auto simp: has_batch_def)

lemma has_batch_same [simp]: "has_batch (d\<lparr>batches := batches d\<rparr>) i = has_batch d i"
  by (simp add: has_batch_def)

lemma db_ok_new_batch:
  assumes "db_ok d" "\<not> has_batch d i" "has_university d v"
  shows "db_ok (d\<lparr>batches := batches d @ [\<lparr>br_id = i, br_vuz_id = v, br_status = BatchStatusProcessing,
    br_total = n, br_processed = 0, br_created_at = now, br_completed_at = None\<rparr>]\<rparr>)" (is "db_ok ?d")
proof (rule db_okI)
  note ok = db_okD[OF assms(1)]
  show "keys_ok ?d" using ok(1) assms(2) by (auto simp: keys_ok_def has_batch_def)
  show "refs_ok ?d" using ok(2) assms(3) by (auto simp: refs_ok_def)
  show "checks_ok ?d" using ok(3) by (simp add: checks_ok_def)
  show "rows_ok ?d" using ok(4) by (simp add: rows_ok_def)
  have "batch_ok ?d b = batch_ok d b" for b by (rule batch_ok_cong) simp
  then show "ledger_ok ?d"
    using ok(5) results_of_empty[OF ok(2) assms(2)]
    by (simp add: ledger_ok_def list_all_iff) (simp add: batch_ok_def)
qed

lemma db_ok_new_payload:
  assumes "db_ok d" "has_batch d i"
    "\<not> (\<exists>p \<in> set (batch_record_payloads d). pr_batch_id p = i \<and> pr_index p = n)"
  shows "db_ok (d\<lparr>batch_record_payloads := batch_record_payloads d @
    [\<lparr>pr_batch_id = i, pr_index = n, pr_payload = x\<rparr>]\<rparr>)" (is "db_ok ?d")
proof (rule db_okI)
  note ok = db_okD[OF assms(1)]
  show "keys_ok ?d" using ok(1) assms(3) by (auto simp: keys_ok_def)
  show "refs_ok ?d" using ok(2) assms(2) by (auto simp: refs_ok_def)
  show "checks_ok ?d" using ok(3) by (simp add: checks_ok_def)
  show "rows_ok ?d" using ok(4) by (simp add: rows_ok_def)
  have "batch_ok ?d b = batch_ok d b" for b by (rule batch_ok_cong) simp
  then show "ledger_ok ?d" using ok(5) by (simp add: ledger_ok_def list_all_iff)
qed

text \<open>An update of one batch that keeps its identity, its counter and its consistency.\<close>

lemma db_ok_update_batch:
  assumes "db_ok d" "\<And>b. br_id (f b) = br_id b" "\<And>b. br_vuz_id (f b) = br_vuz_id b"
    "\<And>b. b \<in> set (batches d) \<Longrightarrow> br_id b = i \<Longrightarrow> batch_ok d b \<Longrightarrow> batch_ok d (f b)"
  shows "db_ok (update_batch i f d)" (is "db_ok ?d")
proof (rule db_okI)
  note ok = db_okD[OF assms(1)]
  show "keys_ok ?d" using ok(1) assms(2) by (simp add: keys_ok_def)
  show "refs_ok ?d" using ok(2) assms(2,3) by (auto simp: refs_ok_def)
  show "checks_ok ?d" using ok(3) by (simp add: checks_ok_def)
  show "rows_ok ?d" using ok(4) by (simp add: rows_ok_def)
  have "batch_ok ?d b = batch_ok d b" for b by (rule batch_ok_cong) simp
  then show "ledger_ok ?d" using ok(5) assms(4) by (auto simp: ledger_ok_def list_all_iff)
qed

lemma db_ok_book:
  assumes "db_ok d" "result_row_ok row"
  shows "db_ok (snd (book now row d))"
proof (cases "result_taken d (rr_batch_id row) (rr_index row) \<or> \<not> has_batch d (rr_batch_id row)")
  case True
  then show ?thesis using assms by (auto simp: book_def)
next
  case False
  let ?i = "rr_batch_id row"
  let ?e = "length (errors_of (add_row row d) ?i)"
  let ?d = "update_batch ?i (settled now ?e) (add_row row d)"
  note ok = db_okD[OF assms(1)]
  have "db_ok ?d"
  proof (rule db_okI)
    show "keys_ok ?d" using ok(1) False by (auto simp: keys_ok_def result_taken_def)
    show "refs_ok ?d" using ok(2) False by (auto simp: refs_ok_def)
    show "checks_ok ?d" using ok(3) by (simp add: checks_ok_def)
    show "rows_ok ?d" using ok(4) assms(2) by (simp add: rows_ok_def)
    have "batch_ok ?d (settled now ?e b)" if "batch_ok d b" "br_id b = ?i" for b
      using that by (auto simp: batch_ok_def settled_def split: option.split)
    moreover have "batch_ok ?d b" if "batch_ok d b" "br_id b \<noteq> ?i" for b
      using that by (auto simp: batch_ok_def)
    ultimately show "ledger_ok ?d" using ok(5) by (auto simp: ledger_ok_def list_all_iff)
  qed
  then show ?thesis using False by (simp add: book_def)
qed

lemma db_ok_insert_hash:
  assumes "db_ok d"
  shows "db_ok (snd (insert_hash now h v n d))"
proof (cases "has_hash d h \<or> (\<exists>x \<in> set (diploma_hashes d). hr_vuz_id x = v \<and> hr_number x = Some n)
    \<or> \<not> has_university d v")
  case True
  then have "snd (insert_hash now h v n d) = d" by (auto simp: insert_hash_def)
  then show ?thesis using assms by simp
next
  case False
  let ?d = "d\<lparr>diploma_hashes := diploma_hashes d @ [\<lparr>hr_hash = h, hr_vuz_id = v, hr_number = Some n,
     hr_status = DiplomaStatusActive, hr_created_at = now, hr_revoked_at = None\<rparr>]\<rparr>"
  have d: "snd (insert_hash now h v n d) = ?d" "has_university d v" "\<not> has_hash d h"
    "\<not> (\<exists>x \<in> set (diploma_hashes d). hr_vuz_id x = v \<and> hr_number x = Some n)"
    using False by (auto simp: insert_hash_def)
  note ok = db_okD[OF assms]
  have "db_ok ?d"
  proof (rule db_okI)
    show "keys_ok ?d" using ok(1) d(3,4) by (auto simp: keys_ok_def has_hash_def)
    show "refs_ok ?d" using ok(2) d(2) by (auto simp: refs_ok_def has_hash_def)
    show "checks_ok ?d" using ok(3) by (simp add: checks_ok_def)
    show "rows_ok ?d" using ok(4) by (simp add: rows_ok_def hash_row_ok_def)
    have "batch_ok ?d b = batch_ok d b" for b by (rule batch_ok_cong) simp
    then show "ledger_ok ?d" using ok(5) by (simp add: ledger_ok_def list_all_iff)
  qed
  then show ?thesis by (simp only: d(1))
qed


section \<open>Every operation of the diploma repository keeps the invariant\<close>

lemma result_row_ok_error: "\<not> blank m \<Longrightarrow> result_row_ok (error_row now i n m)"
  by (simp add: result_row_ok_def)

lemma result_row_ok_ok: "\<not> blank (kpr_DiplomaHash result) \<Longrightarrow> result_row_ok (ok_row now result qr)"
  by (simp add: result_row_ok_def)

lemma messages_nonblank:
  "\<not> blank ''processing error''" "\<not> blank ''qr payload does not contain diploma number''"
  "\<not> blank ''qr payload university mismatch''" "\<not> blank ''diploma number already exists''"
  by (simp_all add: not_blank_graphic graphic_def)

lemma verdict_Rejected: "verdict decoder result reg = Rejected m \<Longrightarrow> \<not> blank m"
  using stringOrDefault_nonblank[OF messages_nonblank(1), of "kpr_Error result"] messages_nonblank
  by (auto simp: verdict_def Let_def split: option.splits sum.splits if_splits)

lemma verdict_accept:
  assumes "verdict decoder result reg \<in> {Known qr, Fresh n qr}"
  shows "kpr_QRPayload result = Some qr" "kpr_Status result = ''ok''" "\<not> blank (kpr_DiplomaHash result)"
    "\<exists>p. parseQRPayload decoder qr = Inr p \<and> \<not> blank (qpc_DiplomaNumber (pqp_Claims p)) \<and>
       (blank (pqp_VUZID p) \<or> pqp_VUZID p = kpr_VUZID result) \<and>
       (verdict decoder result reg = Known qr \<longrightarrow>
          reg (qpc_DiplomaNumber (pqp_Claims p)) = Some (kpr_DiplomaHash result)) \<and>
       (verdict decoder result reg = Fresh n qr \<longrightarrow>
          n = qpc_DiplomaNumber (pqp_Claims p) \<and> reg n = None)"
  using assms by (auto simp: verdict_def Let_def split: option.splits sum.splits if_splits)

lemma db_ok_apply_spec:
  assumes "db_ok d"
  shows "db_ok (snd (apply_spec decoder now result d))"
proof (cases "verdict decoder result (registered d (kpr_VUZID result))")
  case (Rejected m)
  then show ?thesis
    using assms verdict_Rejected[OF Rejected] by (auto simp: apply_spec_def intro: db_ok_book result_row_ok_error)
next
  case (Known qr)
  then have "result_row_ok (ok_row now result qr)" using verdict_accept(3)[of decoder result] by (blast intro: result_row_ok_ok)
  then show ?thesis using assms Known by (auto simp: apply_spec_def intro: db_ok_book)
next
  case (Fresh n qr)
  then have "result_row_ok (ok_row now result qr)" using verdict_accept(3)[of decoder result] by (blast intro: result_row_ok_ok)
  moreover have "db_ok (snd (insert_hash now (kpr_DiplomaHash result) (kpr_VUZID result) n d))"
    by (rule db_ok_insert_hash[OF assms])
  ultimately show ?thesis using assms Fresh
    by (auto simp: apply_spec_def intro: db_ok_book split: prod.split sum.split)
qed

lemma apply_tx_effect:
  assumes "db_ok d"
  shows "tx_effect (apply_body decoder now result) d =
    (if isl (fst (apply_spec decoder now result d)) then d else snd (apply_spec decoder now result d))"
  using pure_apply_body[OF db_ok_batch_ids[OF assms]]
  by (auto simp: tx_effect_def split: prod.split sum.split)

lemma db_ok_tx_effect_apply: "db_ok d \<Longrightarrow> db_ok (tx_effect (apply_body decoder now result) d)"
  using db_ok_apply_spec[of d decoder now result] by (simp add: apply_tx_effect)

lemma preserves_Apply [inv_intros]: "preserves db_ok (ApplyProcessingResult decoder now result)"
  unfolding ApplyProcessingResult_def using db_ok_tx_effect_apply by blast


lemma tx_effect_preserved:
  assumes "preserves P body" "P d"
  shows "P (tx_effect body d)"
  using preservesD[OF assms(1), of "\<lparr>tables = d, faults = []\<rparr>"] assms(2)
  by (auto simp: tx_effect_def pure_def split: prod.split sum.split)

lemma preserves_with_tx_body [intro]:
  "transparent body \<Longrightarrow> preserves P body \<Longrightarrow> preserves P (with_tx body)"
  by (blast intro: tx_effect_preserved)

lemma preserves_read [intro]: "(\<And>d. snd (q d) = d) \<Longrightarrow> preserves P (run_stmt q)"
  by (rule preserves_run_stmt) simp

lemma transparent_insert_payloads [fault_transparent, intro]:
  "transparent (insert_payloads cipher nonces i n rs)"
  by (induction rs arbitrary: n) (auto intro!: fault_transparent)

lemma transparent_create_batch_body [fault_transparent, intro]:
  "transparent (create_batch_body cipher nonces new_id now v rs)"
  by (auto simp: create_batch_body_def intro!: fault_transparent)

lemma db_ok_insert_batch: "db_ok d \<Longrightarrow> db_ok (snd (insert_batch i now v n d))"
  by (auto simp: insert_batch_def intro: db_ok_new_batch)

lemma db_ok_insert_payload: "db_ok d \<Longrightarrow> db_ok (snd (insert_payload i n x d))"
  by (auto simp: insert_payload_def intro: db_ok_new_payload)

lemma preserves_insert_payloads: "preserves db_ok (insert_payloads cipher nonces i n rs)"
  by (induction rs arbitrary: n)
     (auto intro!: preserves_and_then preserves_run_stmt db_ok_insert_payload split: sum.split)

lemma preserves_CreateBatch [inv_intros]:
  "preserves db_ok (CreateBatchWithRecords cipher nonces new_id now v rs)"
  unfolding CreateBatchWithRecords_def
  by (intro preserves_with_tx_body transparent_create_batch_body)
     (auto simp: create_batch_body_def intro!: preserves_and_then preserves_run_stmt
       db_ok_insert_batch preserves_insert_payloads)

lemma preserves_FailBatch [inv_intros]: "preserves db_ok (FailBatch now i)"
  unfolding FailBatch_def
  by (rule preserves_run_stmt) (auto intro!: db_ok_update_batch simp: batch_ok_def)

lemma db_ok_revoke:
  assumes "db_ok d" and f: "\<And>h. hr_hash (f h) = hr_hash h" "\<And>h. hr_vuz_id (f h) = hr_vuz_id h"
    "\<And>h. hr_number (f h) = hr_number h" "\<And>h. hash_row_ok (f h)"
  shows "db_ok (d\<lparr>diploma_hashes := map (\<lambda>h. if P h then f h else h) (diploma_hashes d)\<rparr>)"
    (is "db_ok ?d")
proof (rule db_okI)
  note ok = db_okD[OF assms(1)]
  let ?g = "\<lambda>h. if P h then f h else h"
  have "filter (\<lambda>h. hr_number h \<noteq> None) (map ?g hs) = map ?g (filter (\<lambda>h. hr_number h \<noteq> None) hs)" for hs
    using f by (intro filter_map_same) simp
  then show "keys_ok ?d" using ok(1) f by (simp add: keys_ok_def)
  have "has_hash ?d h = has_hash d h" for h
    by (simp add: has_hash_def image_key_if f del: set_map)
  then show "refs_ok ?d" using ok(2) f by (auto simp: refs_ok_def)
  show "checks_ok ?d" using ok(3) by (simp add: checks_ok_def)
  show "rows_ok ?d" using ok(4) f by (auto simp: rows_ok_def list_all_iff)
  have "batch_ok ?d b = batch_ok d b" for b by (rule batch_ok_cong) simp
  then show "ledger_ok ?d" using ok(5) by (simp add: ledger_ok_def list_all_iff)
qed

lemma preserves_MarkDiplomaRevoked [inv_intros]: "preserves db_ok (MarkDiplomaRevoked now v h)"
  unfolding MarkDiplomaRevoked_def
  by (rule preserves_run_stmt) (auto intro!: db_ok_revoke simp: hash_row_ok_def)

lemma db_ok_share_links:
  assumes "db_ok d" "distinct (map sl_ID ls)" "distinct (map sl_Token ls)"
    "\<forall>l \<in> set ls. has_hash d (sl_DiplomaHash l)"
  shows "db_ok (d\<lparr>share_links := ls\<rparr>)" (is "db_ok ?d")
proof (rule db_okI)
  note ok = db_okD[OF assms(1)]
  show "keys_ok ?d" using ok(1) assms(2,3) by (simp add: keys_ok_def)
  show "refs_ok ?d" using ok(2) assms(4) by (simp add: refs_ok_def)
  show "checks_ok ?d" using ok(3) by (simp add: checks_ok_def)
  show "rows_ok ?d" using ok(4) by (simp add: rows_ok_def)
  have "batch_ok ?d b = batch_ok d b" for b by (rule batch_ok_cong) simp
  then show "ledger_ok ?d" using ok(5) by (simp add: ledger_ok_def list_all_iff)
qed

lemma db_ok_share_facts:
  assumes "db_ok d"
  shows "distinct (map sl_ID (share_links d))" "distinct (map sl_Token (share_links d))"
    "l \<in> set (share_links d) \<Longrightarrow> has_hash d (sl_DiplomaHash l)"
  using assms by (auto simp: db_ok_def keys_ok_def refs_ok_def)

lemma preserves_CreateShareLink [inv_intros]:
  "preserves db_ok (CreateShareLink new_id now h token expires)"
  unfolding CreateShareLink_def
  by (rule preserves_run_stmt) (auto intro!: db_ok_share_links simp: db_ok_share_facts)

lemma preserves_IncrementShareLinkUsage [inv_intros]: "preserves db_ok (IncrementShareLinkUsage token)"
  unfolding IncrementShareLinkUsage_def
  by (rule preserves_run_stmt) (auto intro!: db_ok_share_links simp: db_ok_share_facts)

lemma preserves_diploma_reads [inv_intros]:
  "preserves P (GetBatch i v)" "preserves P (ListBatches v limit)"
  "preserves P (GetBatchDownloadRows decoder cipher i v)"
  "preserves P (SearchStudents decoder lower number name)"
  "preserves P (FindStudentByHash decoder h)" "preserves P (FindShareLink token)"
  by (auto simp: GetBatch_def ListBatches_def GetBatchDownloadRows_def SearchStudents_def
      FindStudentByHash_def FindShareLink_def Let_def intro!: preserves_read)

end
