(* ===== verification/Samples.thy ===== *)
theory Samples
  imports Invariant
begin

text \<open>
  A small concrete database and the messages the witnesses of the properties are evaluated on:
  one active university \<open>u1\<close> with an open batch \<open>b1\<close> of two records.
\<close>

definition sample_university :: University where
  "sample_university = \<lparr>u_ID = ''u1'', u_Name = ''First'', u_VuzCode = ''V1'', u_INN = ''7700000001'',
     u_OGRN = ''1027700000001'', u_Email = ''a@u1'', u_PasswordHash = ''h1'', u_PublicKey = None,
     u_Status = UniversityStatusActive, u_CreatedAt = 1\<rparr>"

definition sample_batch :: batch_row where
  "sample_batch = \<lparr>br_id = ''b1'', br_vuz_id = ''u1'', br_status = BatchStatusProcessing,
     br_total = 2, br_processed = 0, br_created_at = 2, br_completed_at = None\<rparr>"

definition sample_db :: db where
  "sample_db = empty_db\<lparr>universities := [sample_university], batches := [sample_batch]\<rparr>"

text \<open>A decoder that reads the payload as the diploma number.\<close>

definition sample_claims :: "string \<Rightarrow> QRPayloadClaims" where
  "sample_claims number = \<lparr>qpc_FullName = ''Ann Lee'', qpc_StudentName = ''Ann Lee'',
     qpc_DiplomaNumber = number, qpc_Specialty = ''Maths'', qpc_Degree = ''BSc'',
     qpc_Faculty = ''Science'', qpc_Year = 2024, qpc_Salt = ''s''\<rparr>"

definition sample_decoder :: qr_decoder where
  "sample_decoder payload = Inr \<lparr>pqp_DiplomaHash = '''', pqp_VUZID = ''u1'', pqp_IssuedAt = 0,
     pqp_Claims = sample_claims payload\<rparr>"

definition sample_result :: "int \<Rightarrow> string \<Rightarrow> string \<Rightarrow> KafkaProcessingResult" where
  "sample_result n hash number = \<lparr>kpr_BatchID = ''b1'', kpr_VUZID = ''u1'', kpr_RecordIndex = n,
     kpr_DiplomaHash = hash, kpr_QRPayload = Some number, kpr_Status = ''ok'', kpr_Error = None,
     kpr_ProcessedAt = ''''\<rparr>"

definition sample_error :: "int \<Rightarrow> KafkaProcessingResult" where
  "sample_error n = \<lparr>kpr_BatchID = ''b1'', kpr_VUZID = ''u1'', kpr_RecordIndex = n,
     kpr_DiplomaHash = '''', kpr_QRPayload = None, kpr_Status = ''error'',
     kpr_Error = Some ''bad row'', kpr_ProcessedAt = ''''\<rparr>"

lemma sample_db_ok: "db_ok sample_db"
  by (simp add: db_ok_defs sample_db_def empty_db_def sample_batch_def sample_university_def
      batch_ok_def has_university_def university_status_def results_of_def)

named_theorems sample_simps \<open>facts that evaluate a program on the samples\<close>

lemmas [sample_simps] = sample_db_def empty_db_def sample_batch_def sample_university_def
  sample_claims_def sample_decoder_def parseQRPayload_def
  not_blank_graphic graphic_def Let_def

lemma sample_result_sel [simp]:
  "kpr_BatchID (sample_result n h k) = ''b1''" "kpr_VUZID (sample_result n h k) = ''u1''"
  "kpr_RecordIndex (sample_result n h k) = n" "kpr_DiplomaHash (sample_result n h k) = h"
  "kpr_QRPayload (sample_result n h k) = Some k" "kpr_Status (sample_result n h k) = ''ok''"
  "kpr_BatchID (sample_error n) = ''b1''" "kpr_VUZID (sample_error n) = ''u1''"
  "kpr_RecordIndex (sample_error n) = n" "kpr_QRPayload (sample_error n) = None"
  "kpr_Error (sample_error n) = Some ''bad row''"
  by (simp_all add: sample_result_def sample_error_def)

lemma judge_sample:
  "\<not> blank hash \<Longrightarrow> \<not> blank number \<Longrightarrow>
   verdict (Some sample_decoder) (sample_result n hash number) reg =
     (case reg number of None \<Rightarrow> Fresh number number
      | Some h \<Rightarrow> if h = hash then Known number else Rejected ''diploma number already exists'')"
  by (simp add: verdict_def sample_simps split: option.split)

lemma judge_sample_error: "verdict (Some sample_decoder) (sample_error n) reg = Rejected ''bad row''"
proof -
  have "TrimSpace ''bad row'' = ''bad row''" by (rule TrimSpace_graphic) (simp_all add: graphic_def)
  then show ?thesis by (simp add: verdict_def stringOrDefault_def)
qed

text \<open>The first record is accepted.\<close>

definition sample_db1 :: db where
  "sample_db1 = sample_db\<lparr>batches := [sample_batch\<lparr>br_processed := 1\<rparr>],
     diploma_hashes := [\<lparr>hr_hash = ''h0'', hr_vuz_id = ''u1'', hr_number = Some ''n0'',
       hr_status = DiplomaStatusActive, hr_created_at = 5, hr_revoked_at = None\<rparr>],
     batch_results := [\<lparr>rr_batch_id = ''b1'', rr_index = 0, rr_hash = Some ''h0'', rr_qr = Some ''n0'',
       rr_status = ''ok'', rr_error = None, rr_created_at = 5\<rparr>]\<rparr>"

lemmas apply_eval = apply_spec_def result_taken_def registered_def insert_hash_def has_hash_def
  has_university_def has_batch_def book_def update_batch_def add_row_def settled_def errors_of_def
  results_of_def ok_row_def error_row_def status_defs

lemma sample_apply_0:
  "apply_spec (Some sample_decoder) 5 (sample_result 0 ''h0'' ''n0'') sample_db = (Inr (), sample_db1)"
  by (simp add: apply_eval judge_sample sample_simps sample_db1_def)

lemma sample_db1_ok: "db_ok sample_db1"
  using db_ok_apply_spec[OF sample_db_ok, of "Some sample_decoder" 5 "sample_result 0 ''h0'' ''n0''"]
  by (simp add: sample_apply_0)


text \<open>The second record fails, which closes the batch.\<close>

definition sample_db2 :: db where
  "sample_db2 = sample_db1\<lparr>batches := [sample_batch\<lparr>br_processed := 2, br_status := BatchStatusFailed,
       br_completed_at := Some 7\<rparr>],
     batch_results := batch_results sample_db1 @ [error_row 7 ''b1'' 1 ''bad row'']\<rparr>"

lemma sample_apply_1:
  "apply_spec (Some sample_decoder) 7 (sample_error 1) sample_db1 = (Inr (), sample_db2)"
  by (simp add: apply_eval judge_sample_error sample_simps sample_db1_def sample_db2_def)

end
