(* ===== verification/DiplomaProps.thy ===== *)
theory DiplomaProps
  imports Samples
begin

text \<open>
  What the diploma repository promises: a message of the engine takes effect exactly once however
  often it is delivered and wherever a connection breaks, the effect is the verdict of
  \<open>apply_spec\<close>, and a batch is closed by its last result with the status its rows earn.
\<close>

section \<open>Redelivery\<close>

text \<open>The same message delivered at the given times, whatever came of the earlier deliveries.\<close>

primrec deliveries ::
  "qr_decoder option \<Rightarrow> KafkaProcessingResult \<Rightarrow> time list \<Rightarrow> sess \<Rightarrow> unit res list \<times> sess" where
  "deliveries decoder result [] s = ([], s)"
| "deliveries decoder result (t # ts) s =
     (let (r, s') = ApplyProcessingResult decoder t result s;
          (rs, s'') = deliveries decoder result ts s'
      in (r # rs, s''))"

lemma apply_spec_taken:
  "result_taken d (kpr_BatchID result) (kpr_RecordIndex result) \<Longrightarrow>
   apply_spec decoder now result d = (Inr (), d)"
  by (simp add: apply_spec_def)

lemma result_taken_update [simp]: "result_taken (update_batch i f d) j n = result_taken d j n"
  by (simp add: result_taken_def)

lemma result_taken_add_row [simp]:
  "result_taken (add_row row d) j n \<longleftrightarrow>
     result_taken d j n \<or> (rr_batch_id row = j \<and> rr_index row = n)"
  by (auto simp: result_taken_def)

lemma book_Inr_taken:
  "book now row d = (Inr u, d') \<Longrightarrow> result_taken d' (rr_batch_id row) (rr_index row)"
  by (auto simp: book_def split: if_splits)

lemma apply_spec_Inr_taken:
  "apply_spec decoder now result d = (Inr u, d') \<Longrightarrow>
   result_taken d' (kpr_BatchID result) (kpr_RecordIndex result)"
  by (auto simp: apply_spec_def dest: book_Inr_taken
      split: if_splits judgement.splits prod.splits sum.splits)

lemma apply_cases:
  assumes "db_ok (tables s)" "ApplyProcessingResult decoder t result s = (r, s')"
  obtains e where "r = Inl e" "tables s' = tables s"
  | "apply_spec decoder t result (tables s) = (Inr (), tables s')"
proof -
  have p: "pure (apply_body decoder t result) (tables s) = apply_spec decoder t result (tables s)"
    by (rule pure_apply_body[OF db_ok_batch_ids[OF assms(1)]])
  show thesis
    using transparent_apply_body assms(2)[unfolded ApplyProcessingResult_def]
  proof (cases rule: with_tx_cases)
    case 1 then show thesis by (rule that(1))
  next
    case 2 then show thesis using that(2) p by auto
  qed
qed

lemma deliveries_taken:
  assumes "db_ok (tables s)" "result_taken (tables s) (kpr_BatchID result) (kpr_RecordIndex result)"
  shows "tables (snd (deliveries decoder result ts s)) = tables s"
  using assms
proof (induction ts arbitrary: s)
  case (Cons t ts)
  obtain r s' where a: "ApplyProcessingResult decoder t result s = (r, s')" by force
  have "tables s' = tables s"
    using Cons.prems(1) a
    by (cases rule: apply_cases) (simp_all add: apply_spec_taken[OF Cons.prems(2)])
  with Cons show ?case by (simp add: a split: prod.split) (metis snd_conv)
qed simp

lemma deliveries_outcome:
  assumes "db_ok (tables s)" "deliveries decoder result ts s = (rs, s')"
  shows "(tables s' = tables s \<and> (Inr () \<in> set rs \<longrightarrow>
            result_taken (tables s) (kpr_BatchID result) (kpr_RecordIndex result))) \<or>
      (\<exists>t \<in> set ts. apply_spec decoder t result (tables s) = (Inr (), tables s'))"
  using assms
proof (induction ts arbitrary: s rs)
  case (Cons t ts)
  obtain r s1 where a: "ApplyProcessingResult decoder t result s = (r, s1)" by force
  obtain rs' where d: "deliveries decoder result ts s1 = (rs', s')" "rs = r # rs'"
    using Cons.prems(2) a by (auto split: prod.splits)
  show ?case
    using Cons.prems(1) a
  proof (cases rule: apply_cases)
    case (1 e)
    with Cons.IH[of s1 rs'] Cons.prems(1) d show ?thesis by auto
  next
    case 2
    then have "result_taken (tables s1) (kpr_BatchID result) (kpr_RecordIndex result)"
      by (rule apply_spec_Inr_taken)
    moreover have "db_ok (tables s1)"
      using db_ok_apply_spec[OF Cons.prems(1), of decoder t result] 2 by simp
    ultimately have "tables s' = tables s1"
      using deliveries_taken[of s1 result decoder ts] d by simp
    with 2 show ?thesis by auto
  qed
qed simp

section \<open>What a processed message changes\<close>

lemma pure_ApplyProcessingResult:
  assumes "db_ok d"
  shows "pure (ApplyProcessingResult decoder now result) d =
    (case apply_spec decoder now result d of (Inl e, _) \<Rightarrow> (Inl e, d) | (Inr x, d') \<Rightarrow> (Inr x, d'))"
  using with_tx_pure[OF transparent_apply_body, of decoder now result d] apply_tx_effect[OF assms]
    pure_apply_body[OF db_ok_batch_ids[OF assms]]
  by (auto simp: ApplyProcessingResult_def pure_def[of "with_tx _"] split: prod.split sum.split)

lemma pure_Apply_InrD:
  "db_ok d \<Longrightarrow> pure (ApplyProcessingResult decoder now result) d = (Inr u, d') \<Longrightarrow>
   apply_spec decoder now result d = (Inr u, d')"
  by (auto simp: pure_ApplyProcessingResult split: prod.splits sum.splits)

text \<open>A successful message that was not a duplicate books one row, after at most one new hash.\<close>

lemma apply_spec_booked:
  assumes "apply_spec decoder now result d = (Inr u, d')"
    "\<not> result_taken d (kpr_BatchID result) (kpr_RecordIndex result)"
  obtains row d0 hs where "book now row d0 = (Inr (), d')" "rr_batch_id row = kpr_BatchID result"
    "rr_index row = kpr_RecordIndex result" "d0 = d\<lparr>diploma_hashes := diploma_hashes d @ hs\<rparr>"
    "\<forall>h \<in> set hs. hr_hash h = kpr_DiplomaHash result \<and> hr_vuz_id h = kpr_VUZID result \<and>
       hr_status h = DiplomaStatusActive \<and> \<not> has_hash d (hr_hash h)" "length hs \<le> 1"
proof (cases "verdict decoder result (registered d (kpr_VUZID result))")
  case (Rejected m)
  then show thesis using assms that[of _ d "[]"] by (simp add: apply_spec_def)
next
  case (Known qr)
  then show thesis using assms that[of _ d "[]"] by (simp add: apply_spec_def)
next
  case (Fresh n qr)
  let ?h = "\<lparr>hr_hash = kpr_DiplomaHash result, hr_vuz_id = kpr_VUZID result, hr_number = Some n,
      hr_status = DiplomaStatusActive, hr_created_at = now, hr_revoked_at = None\<rparr>"
  have "insert_hash now (kpr_DiplomaHash result) (kpr_VUZID result) n d =
      (Inr (), d\<lparr>diploma_hashes := diploma_hashes d @ [?h]\<rparr>)"
    "\<not> has_hash d (kpr_DiplomaHash result)"
    "book now (ok_row now result qr) (d\<lparr>diploma_hashes := diploma_hashes d @ [?h]\<rparr>) = (Inr (), d')"
    using assms Fresh by (auto simp: apply_spec_def insert_hash_def split: if_splits)
  then show thesis using that[of "ok_row now result qr" _ "[?h]"] by simp
qed

lemma book_InrD:
  assumes "book now row d = (Inr u, d')"
  shows "d' = update_batch (rr_batch_id row)
      (settled now (length (errors_of (add_row row d) (rr_batch_id row)))) (add_row row d)"
    "has_batch d (rr_batch_id row)" "\<not> result_taken d (rr_batch_id row) (rr_index row)"
  using assms by (auto simp: book_def split: if_splits)

section \<open>A batch whose records are all accepted\<close>

text \<open>The messages of the engine, one after the other, at their times.\<close>

primrec ApplyAll :: "qr_decoder option \<Rightarrow> (time \<times> KafkaProcessingResult) list \<Rightarrow> unit dbm" where
  "ApplyAll decoder [] = ret ()"
| "ApplyAll decoder (m # ms) =
     and_then (ApplyProcessingResult decoder (fst m) (snd m)) (\<lambda>_. ApplyAll decoder ms)"

text \<open>A message the service accepts as a new diploma with the given number, and the row it registers.\<close>

definition accepts_new :: "qr_decoder option \<Rightarrow> KafkaProcessingResult \<Rightarrow> string option" where
  "accepts_new decoder m =
     (case verdict decoder m (\<lambda>_. None) of Fresh n qr \<Rightarrow> Some n | _ \<Rightarrow> None)"

definition registration :: "qr_decoder option \<Rightarrow> time \<times> KafkaProcessingResult \<Rightarrow> hash_row" where
  "registration decoder m =
     \<lparr>hr_hash = kpr_DiplomaHash (snd m), hr_vuz_id = kpr_VUZID (snd m),
      hr_number = accepts_new decoder (snd m), hr_status = DiplomaStatusActive,
      hr_created_at = fst m, hr_revoked_at = None\<rparr>"

lemma registration_sel [simp]:
  "hr_hash (registration decoder m) = kpr_DiplomaHash (snd m)"
  "hr_vuz_id (registration decoder m) = kpr_VUZID (snd m)"
  "hr_number (registration decoder m) = accepts_new decoder (snd m)"
  "hr_status (registration decoder m) = DiplomaStatusActive"
  by (simp_all add: registration_def)

lemma verdict_Fresh_reg:
  assumes "accepts_new decoder m = Some n" "reg n = None"
  obtains qr where "verdict decoder m reg = Fresh n qr"
  using assms that
  by (auto simp: accepts_new_def verdict_def Let_def
      split: option.splits sum.splits if_splits judgement.splits)

lemma registered_None_iff:
  "registered d v n = None \<longleftrightarrow>
     (\<forall>h \<in> set (diploma_hashes d). hr_vuz_id h = v \<longrightarrow> hr_number h \<noteq> Some n)"
  by (auto simp: registered_def find_None_iff)

lemma apply_spec_accept:
  assumes "accepts_new decoder m = Some n" "registered d (kpr_VUZID m) n = None"
    "\<not> result_taken d (kpr_BatchID m) (kpr_RecordIndex m)" "has_batch d (kpr_BatchID m)"
    "has_university d (kpr_VUZID m)" "\<not> has_hash d (kpr_DiplomaHash m)"
  obtains qr where "apply_spec decoder t m d = (Inr (), update_batch (kpr_BatchID m)
      (settled t (length (errors_of d (kpr_BatchID m))))
      (add_row (ok_row t m qr) (d\<lparr>diploma_hashes := diploma_hashes d @ [registration decoder (t, m)]\<rparr>)))"
proof -
  obtain qr where qr: "verdict decoder m (registered d (kpr_VUZID m)) = Fresh n qr"
    by (rule verdict_Fresh_reg[OF assms(1), of "registered d (kpr_VUZID m)"]) (rule assms(2))
  have r: "\<lparr>hr_hash = kpr_DiplomaHash m, hr_vuz_id = kpr_VUZID m, hr_number = Some n,
      hr_status = DiplomaStatusActive, hr_created_at = t, hr_revoked_at = None\<rparr> = registration decoder (t, m)"
    using assms(1) by (simp add: registration_def)
  have "insert_hash t (kpr_DiplomaHash m) (kpr_VUZID m) n d =
      (Inr (), d\<lparr>diploma_hashes := diploma_hashes d @ [registration decoder (t, m)]\<rparr>)"
    using assms(2,5,6) unfolding insert_hash_def r
    by (auto simp: registered_def find_None_iff)
  moreover have "\<not> result_taken (d\<lparr>diploma_hashes := hs\<rparr>) (kpr_BatchID m) (kpr_RecordIndex m)" for hs
    using assms(3) by (simp add: result_taken_def)
  ultimately show thesis
    using that[of qr] qr assms(3,4)
    by (simp add: apply_spec_def book_def RecordStatusError_def)
qed

text \<open>The state of the batch while its messages arrive, and what the remaining ones need.\<close>

definition awaiting :: "db \<Rightarrow> string \<Rightarrow> nat \<Rightarrow> nat \<Rightarrow> bool" where
  "awaiting d i done todo \<longleftrightarrow> (\<exists>b \<in> set (batches d). br_id b = i \<and> br_processed b = done \<and>
     br_total b = done + todo) \<and> errors_of d i = []"

definition acceptable ::
  "qr_decoder option \<Rightarrow> db \<Rightarrow> string \<Rightarrow> string \<Rightarrow> (time \<times> KafkaProcessingResult) list \<Rightarrow> bool" where
  "acceptable decoder d i v ms \<longleftrightarrow>
     (\<forall>m \<in> set ms. kpr_BatchID (snd m) = i \<and> kpr_VUZID (snd m) = v \<and>
        \<not> result_taken d i (kpr_RecordIndex (snd m)) \<and> \<not> has_hash d (kpr_DiplomaHash (snd m)) \<and>
        (\<exists>n. accepts_new decoder (snd m) = Some n \<and> registered d v n = None)) \<and>
     distinct (map (kpr_RecordIndex \<circ> snd) ms) \<and> distinct (map (kpr_DiplomaHash \<circ> snd) ms) \<and>
     distinct (map (accepts_new decoder \<circ> snd) ms)"


lemma acceptable_tail:
  assumes "acceptable decoder d i v (m # ms)" "accepts_new decoder (snd m) = Some num"
    "\<And>h. has_hash d' h \<Longrightarrow> has_hash d h \<or> h = kpr_DiplomaHash (snd m)"
    "\<And>j. registered d v j = None \<Longrightarrow> j \<noteq> num \<Longrightarrow> registered d' v j = None"
    "\<And>j. result_taken d' i j \<Longrightarrow> result_taken d i j \<or> j = kpr_RecordIndex (snd m)"
  shows "acceptable decoder d' i v ms"
  unfolding acceptable_def
proof (intro conjI ballI)
  fix x assume x: "x \<in> set ms"
  then have ne: "kpr_RecordIndex (snd m) \<noteq> kpr_RecordIndex (snd x)"
      "kpr_DiplomaHash (snd m) \<noteq> kpr_DiplomaHash (snd x)"
      "accepts_new decoder (snd m) \<noteq> accepts_new decoder (snd x)"
    using assms(1) by (simp_all add: acceptable_def image_iff)
  obtain n where n: "accepts_new decoder (snd x) = Some n" "registered d v n = None"
    using assms(1) x by (auto simp: acceptable_def)
  show "kpr_BatchID (snd x) = i" "kpr_VUZID (snd x) = v"
    using assms(1) x by (simp_all add: acceptable_def)
  show "\<not> result_taken d' i (kpr_RecordIndex (snd x))" "\<not> has_hash d' (kpr_DiplomaHash (snd x))"
    using assms(1) x ne assms(3)[of "kpr_DiplomaHash (snd x)"] assms(5)[of "kpr_RecordIndex (snd x)"]
    by (simp_all add: acceptable_def) metis+
  show "\<exists>n. accepts_new decoder (snd x) = Some n \<and> registered d' v n = None"
    using assms(2) assms(4)[of n] n ne(3) by auto
qed (use assms(1) in \<open>simp_all add: acceptable_def\<close>)

lemma transparent_Apply [fault_transparent, intro]:
  "transparent (ApplyProcessingResult decoder now result)"
  by (auto simp: ApplyProcessingResult_def)

lemma accept_step:
  assumes "db_ok d" "awaiting d i k (Suc n)" "has_university d v" "acceptable decoder d i v (m # ms)"
  obtains d' where "pure (ApplyProcessingResult decoder (fst m) (snd m)) d = (Inr (), d')" "db_ok d'"
    "awaiting d' i (Suc k) n" "has_university d' v" "acceptable decoder d' i v ms"
    "diploma_hashes d' = diploma_hashes d @ [registration decoder m]"
    "n = 0 \<Longrightarrow> \<forall>b \<in> set (batches d'). br_id b = i \<longrightarrow> br_status b = BatchStatusCompleted"
proof -
  obtain num where num: "accepts_new decoder (snd m) = Some num" "registered d v num = None"
    "kpr_BatchID (snd m) = i" "kpr_VUZID (snd m) = v" "\<not> result_taken d i (kpr_RecordIndex (snd m))"
    "\<not> has_hash d (kpr_DiplomaHash (snd m))"
    using assms(4) by (auto simp: acceptable_def)
  obtain b where b: "b \<in> set (batches d)" "br_id b = i" "br_processed b = k" "br_total b = k + Suc n"
    and e: "errors_of d i = []"
    using assms(2) by (auto simp: awaiting_def)
  have u: "b' \<in> set (batches d) \<Longrightarrow> br_id b' = i \<Longrightarrow> b' = b" for b'
    using distinct_key_unique[OF db_ok_batch_ids[OF assms(1)]] b(1,2) by metis
  have hb: "has_batch d i" using b(1,2) by (auto simp: has_batch_def)
  obtain qr where a: "apply_spec decoder (fst m) (snd m) d = (Inr (), update_batch i
      (settled (fst m) 0) (add_row (ok_row (fst m) (snd m) qr)
        (d\<lparr>diploma_hashes := diploma_hashes d @ [registration decoder m]\<rparr>)))" (is "_ = (_, ?d)")
    by (rule apply_spec_accept[OF num(1), of d "fst m"]) (use num assms(3) hb e in simp_all)
  show thesis
  proof (rule that)
    show "pure (ApplyProcessingResult decoder (fst m) (snd m)) d = (Inr (), ?d)"
      using a by (simp add: pure_ApplyProcessingResult[OF assms(1)])
    show "db_ok ?d" using db_ok_apply_spec[OF assms(1), of decoder "fst m" "snd m"] a by simp
    have "settled (fst m) 0 b \<in> set (batches ?d)" using b(1,2) by auto
    then show "awaiting ?d i (Suc k) n"
      using b e num(3) unfolding awaiting_def
      by (intro conjI bexI[of _ "settled (fst m) 0 b"]) (simp_all add: RecordStatusError_def)
    show "has_university ?d v" using assms(3) by simp
    have hh: "has_hash ?d h \<longleftrightarrow> has_hash d h \<or> h = kpr_DiplomaHash (snd m)" for h
      by (auto simp: has_hash_def)
    have rg: "registered ?d v j = None \<longleftrightarrow> registered d v j = None \<and> j \<noteq> num" for j
      using num(1,4) by (auto simp: registered_None_iff)
    have rt: "result_taken ?d i j \<longleftrightarrow> result_taken d i j \<or> j = kpr_RecordIndex (snd m)" for j
      using num(3) by (auto simp: result_taken_def)
    show "acceptable decoder ?d i v ms"
      by (rule acceptable_tail[OF assms(4) num(1) hh[THEN iffD1] rg[THEN iffD2, OF conjI] rt[THEN iffD1]])
    show "diploma_hashes ?d = diploma_hashes d @ [registration decoder m]" by simp
    show "n = 0 \<Longrightarrow> \<forall>b \<in> set (batches ?d). br_id b = i \<longrightarrow> br_status b = BatchStatusCompleted"
    proof (intro ballI impI)
      fix x assume "n = 0" "x \<in> set (batches ?d)" "br_id x = i"
      then obtain y where "y \<in> set (batches d)" "br_id y = i" "x = settled (fst m) 0 y"
        by (auto split: if_splits)
      then show "br_status x = BatchStatusCompleted"
        using u[of y] b(3,4) \<open>n = 0\<close> by (simp add: settled_def)
    qed
  qed
qed

lemma ApplyAll_completes:
  assumes "db_ok d" "awaiting d i k (length ms)" "has_university d v" "acceptable decoder d i v ms"
    "ms \<noteq> []"
  shows "\<exists>d'. pure (ApplyAll decoder ms) d = (Inr (), d') \<and> db_ok d' \<and>
     awaiting d' i (k + length ms) 0 \<and>
     (\<forall>b \<in> set (batches d'). br_id b = i \<longrightarrow> br_status b = BatchStatusCompleted) \<and>
     diploma_hashes d' = diploma_hashes d @ map (registration decoder) ms"
  using assms
proof (induction ms arbitrary: d k)
  case (Cons m ms)
  obtain d1 where d1: "pure (ApplyProcessingResult decoder (fst m) (snd m)) d = (Inr (), d1)" "db_ok d1"
    "awaiting d1 i (Suc k) (length ms)" "has_university d1 v" "acceptable decoder d1 i v ms"
    "diploma_hashes d1 = diploma_hashes d @ [registration decoder m]"
    "length ms = 0 \<Longrightarrow> \<forall>b \<in> set (batches d1). br_id b = i \<longrightarrow> br_status b = BatchStatusCompleted"
    using accept_step[of d i k "length ms" v decoder m ms] Cons.prems by auto
  have p: "pure (ApplyAll decoder (m # ms)) d = pure (ApplyAll decoder ms) d1"
    by (simp add: pure_and_then fault_transparent d1(1))
  show ?case
  proof (cases "ms = []")
    case True
    then show ?thesis using p d1 by simp
  next
    case False
    then show ?thesis using Cons.IH[OF d1(2-5)] p d1(6) by auto
  qed
qed simp

section \<open>Properties\<close>

text \<open>
  C3: delivering one message any number of times, at any times and under any faults, either leaves
  the tables alone or applies the message exactly once; and once one delivery has reported
  success, its record is stored.
\<close>

theorem apply_exactly_once:
  assumes "db_ok (tables s)" "deliveries decoder result ts s = (rs, s')"
  shows "(tables s' = tables s \<or>
      (\<exists>t \<in> set ts. apply_spec decoder t result (tables s) = (Inr (), tables s'))) \<and>
    (Inr () \<in> set rs \<longrightarrow>
      result_taken (tables s') (kpr_BatchID result) (kpr_RecordIndex result))"
  using deliveries_outcome[OF assms] by (auto dest: apply_spec_Inr_taken)


lemma apply_exactly_once_witness:
  "\<exists>rs s'. deliveries (Some sample_decoder) (sample_result 0 ''h0'' ''n0'') [5, 9]
       \<lparr>tables = sample_db, faults = replicate 7 NoFault @ [FailAfter ''08006'']\<rparr> = (rs, s') \<and>
     (tables s' = sample_db \<or> (\<exists>t \<in> {5, 9}. apply_spec (Some sample_decoder) t
        (sample_result 0 ''h0'' ''n0'') sample_db = (Inr (), tables s'))) \<and>
     (Inr () \<in> set rs \<longrightarrow> result_taken (tables s') ''b1'' 0)"
proof -
  let ?s = "\<lparr>tables = sample_db, faults = replicate 7 NoFault @ [FailAfter ''08006'']\<rparr>"
  obtain rs s' where d: "deliveries (Some sample_decoder) (sample_result 0 ''h0'' ''n0'') [5, 9] ?s = (rs, s')"
    by force
  have "db_ok (tables ?s)" by (simp add: sample_db_ok)
  from apply_exactly_once[OF this d] d show ?thesis by auto
qed

text \<open>
  C7: an uninterrupted \<open>ApplyProcessingResult\<close> is the abstract verdict: duplicates change nothing,
  a rejected message books its error row, an accepted one registers the hash if the number is
  new and books the row, and a database error rolls everything back.
\<close>

theorem apply_refines_spec:
  assumes "db_ok d"
  shows "pure (ApplyProcessingResult decoder now result) d =
    (case apply_spec decoder now result d of (Inl e, _) \<Rightarrow> (Inl e, d) | (Inr x, d') \<Rightarrow> (Inr x, d'))"
  by (rule pure_ApplyProcessingResult[OF assms])

lemma apply_refines_spec_witness:
  "pure (ApplyProcessingResult (Some sample_decoder) 5 (sample_result 0 ''h0'' ''n0'')) sample_db =
     (Inr (), sample_db1)"
  by (simp add: apply_refines_spec[OF sample_db_ok] sample_apply_0)

text \<open>
  C15: the result that brings a batch to its record count closes it, as \<open>failed\<close> if any of its
  rows is an error and as \<open>completed\<close> otherwise, and stamps the completion time.
\<close>

theorem apply_closes_batch:
  assumes "db_ok d" "pure (ApplyProcessingResult decoder now result) d = (Inr (), d')"
    "\<not> result_taken d (kpr_BatchID result) (kpr_RecordIndex result)"
    "b \<in> set (batches d')" "br_id b = kpr_BatchID result" "br_total b \<le> br_processed b"
  shows "br_status b = (if errors_of d' (br_id b) = [] then BatchStatusCompleted else BatchStatusFailed)
    \<and> br_completed_at b \<noteq> None"
proof -
  obtain row d0 where k: "book now row d0 = (Inr (), d')" "rr_batch_id row = kpr_BatchID result"
    using apply_spec_booked[OF pure_Apply_InrD[OF assms(1,2)] assms(3)] by metis
  then show ?thesis
    using assms(4-6) book_InrD(1)[OF k(1)]
    by (auto simp: settled_def split: if_splits)
qed

lemma apply_closes_batch_witness:
  "let d' = snd (pure (ApplyProcessingResult (Some sample_decoder) 7 (sample_error 1)) sample_db1)
   in \<exists>b \<in> set (batches d'). br_id b = ''b1'' \<and> br_status b = BatchStatusFailed"
proof -
  let ?d = sample_db2
  have p: "pure (ApplyProcessingResult (Some sample_decoder) 7 (sample_error 1)) sample_db1 = (Inr (), ?d)"
    by (simp add: pure_ApplyProcessingResult sample_db1_ok sample_apply_1)
  let ?b = "hd (batches ?d)"
  have b: "?b \<in> set (batches ?d)" "br_id ?b = ''b1''" "br_total ?b \<le> br_processed ?b"
    "errors_of ?d ''b1'' \<noteq> []"
    by (simp_all add: sample_db2_def sample_db1_def sample_batch_def errors_of_def results_of_def)
  have "\<not> result_taken sample_db1 ''b1'' 1"
    by (simp add: result_taken_def sample_db1_def)
  then have "br_status ?b = BatchStatusFailed"
    using apply_closes_batch[OF sample_db1_ok p _ b(1)] b(2-4) by simp
  with b p show ?thesis by (auto simp: Let_def)
qed

text \<open>
  C23: processing a message is append-only outside its own batch row: stored results and registered
  hashes stay where they are, at most one result and one hash are added, the hash is new to the
  registry and active, and no other batch changes.
\<close>

theorem apply_append_only:
  assumes "db_ok d" "pure (ApplyProcessingResult decoder now result) d = (r, d')"
  shows "\<exists>rs hs. batch_results d' = batch_results d @ rs \<and> diploma_hashes d' = diploma_hashes d @ hs
     \<and> length rs \<le> 1 \<and> length hs \<le> length rs
     \<and> (\<forall>h \<in> set hs. \<not> has_hash d (hr_hash h) \<and> hr_status h = DiplomaStatusActive)
     \<and> (\<forall>b. br_id b \<noteq> kpr_BatchID result \<longrightarrow> (b \<in> set (batches d') \<longleftrightarrow> b \<in> set (batches d)))
     \<and> universities d' = universities d \<and> share_links d' = share_links d
     \<and> batch_record_payloads d' = batch_record_payloads d"
proof (cases "r = Inr () \<and> \<not> result_taken d (kpr_BatchID result) (kpr_RecordIndex result)")
  case False
  then have "d' = d"
    using assms apply_spec_taken[of d result decoder now]
    by (auto simp: pure_ApplyProcessingResult split: prod.splits sum.splits)
  then show ?thesis by (intro exI[of _ "[]"]) simp
next
  case True
  then obtain row d0 hs where k: "book now row d0 = (Inr (), d')" "rr_batch_id row = kpr_BatchID result"
    "d0 = d\<lparr>diploma_hashes := diploma_hashes d @ hs\<rparr>" "length hs \<le> 1"
    "\<forall>h \<in> set hs. hr_hash h = kpr_DiplomaHash result \<and> hr_vuz_id h = kpr_VUZID result \<and>
       hr_status h = DiplomaStatusActive \<and> \<not> has_hash d (hr_hash h)"
    using apply_spec_booked[OF pure_Apply_InrD[OF assms(1)], of decoder now result "()" d'] assms(2)
    by metis
  show ?thesis
    using k(2-) unfolding book_InrD(1)[OF k(1)]
    by (intro exI[of _ "[row]"] exI[of _ hs]) (auto simp del: errors_of_add_row)
qed

lemma apply_append_only_witness:
  "\<exists>rs hs. batch_results sample_db1 = batch_results sample_db @ rs
     \<and> diploma_hashes sample_db1 = diploma_hashes sample_db @ hs \<and> length rs = 1 \<and> length hs = 1"
proof -
  have "pure (ApplyProcessingResult (Some sample_decoder) 5 (sample_result 0 ''h0'' ''n0'')) sample_db =
      (Inr (), sample_db1)"
    by (simp add: pure_ApplyProcessingResult sample_db_ok sample_apply_0)
  from apply_append_only[OF sample_db_ok this] show ?thesis
    by (auto simp: sample_db1_def sample_db_def empty_db_def)
qed

text \<open>
  C5: when the engine answers every record of an open batch with a new acceptable diploma, all
  messages succeed, the batch ends \<open>completed\<close> with its counter at the record count and no errors,
  and exactly the diplomas of the messages are registered, active, for the university.
\<close>

theorem batch_completes:
  assumes "db_ok d" "awaiting d i 0 (length ms)" "has_university d v" "acceptable decoder d i v ms"
    "ms \<noteq> []"
  shows "\<exists>d'. pure (ApplyAll decoder ms) d = (Inr (), d') \<and> awaiting d' i (length ms) 0 \<and>
     (\<forall>b \<in> set (batches d'). br_id b = i \<longrightarrow> br_status b = BatchStatusCompleted) \<and>
     diploma_hashes d' = diploma_hashes d @ map (registration decoder) ms"
  using ApplyAll_completes[OF assms] by auto

lemma batch_completes_witness:
  "\<exists>d'. pure (ApplyAll (Some sample_decoder)
        [(5, sample_result 0 ''h0'' ''n0''), (6, sample_result 1 ''h1'' ''n1'')]) sample_db = (Inr (), d') \<and>
     map hr_hash (diploma_hashes d') = [''h0'', ''h1'']"
proof -
  have v: "verdict (Some sample_decoder) (sample_result 0 ''h0'' ''n0'') (\<lambda>_. None) = Fresh ''n0'' ''n0''"
    "verdict (Some sample_decoder) (sample_result 1 ''h1'' ''n1'') (\<lambda>_. None) = Fresh ''n1'' ''n1''"
    by (simp_all add: judge_sample sample_simps)
  have "acceptable (Some sample_decoder) sample_db ''b1'' ''u1''
      [(5, sample_result 0 ''h0'' ''n0''), (6, sample_result 1 ''h1'' ''n1'')]"
    by (simp add: acceptable_def accepts_new_def v result_taken_def has_hash_def registered_def
        sample_db_def empty_db_def)
  moreover have "awaiting sample_db ''b1'' 0 2" "has_university sample_db ''u1''"
    by (simp_all add: awaiting_def errors_of_def results_of_def has_university_def sample_db_def
        sample_batch_def sample_university_def empty_db_def)
  moreover have "diploma_hashes sample_db = []" by (simp add: sample_db_def empty_db_def)
  ultimately show ?thesis
    using batch_completes[OF sample_db_ok, of "''b1''"
        "[(5, sample_result 0 ''h0'' ''n0''), (6, sample_result 1 ''h1'' ''n1'')]" "''u1''" "Some sample_decoder"]
    by (auto simp: numeral_2_eq_2)
qed

end
