(* ===== verification/UniversityRepo.thy ===== *)
theory UniversityRepo
  imports Invariant
begin

text \<open>
  The other repositories of \<open>gateway-service/internal/repository/postgres\<close>:
  \<open>university_repository.go\<close>, \<open>admin_repository.go\<close>, \<open>api_key_repository.go\<close>,
  \<open>signing_key_repository.go\<close>, and the handle of \<open>db.go\<close> that wires the diploma repository.
  Each operation keeps the invariant of the database.
\<close>

section \<open>Universities\<close>

text \<open>The unique columns of the table, against every row that is not the given one.\<close>

definition university_clash :: "db \<Rightarrow> string option \<Rightarrow> RegisterUniversityRequest \<Rightarrow> bool" where
  "university_clash d own request \<longleftrightarrow>
     (\<exists>u \<in> set (universities d). own \<noteq> Some (u_ID u) \<and>
        (u_VuzCode u = rur_VuzCode request \<or> u_INN u = rur_INN request \<or>
         u_OGRN u = rur_OGRN request \<or> u_Email u = rur_Email request))"

definition new_university ::
  "string \<Rightarrow> time \<Rightarrow> RegisterUniversityRequest \<Rightarrow> string \<Rightarrow> string \<Rightarrow> University" where
  "new_university new_id now request passwordHash status =
     \<lparr>u_ID = new_id, u_Name = rur_Name request, u_VuzCode = rur_VuzCode request,
      u_INN = rur_INN request, u_OGRN = rur_OGRN request, u_Email = rur_Email request,
      u_PasswordHash = passwordHash, u_PublicKey = None, u_Status = status, u_CreatedAt = now\<rparr>"

definition insert_university ::
  "string \<Rightarrow> time \<Rightarrow> RegisterUniversityRequest \<Rightarrow> string \<Rightarrow> string \<Rightarrow> University stmt" where
  "insert_university new_id now request passwordHash status d =
     (if \<not> university_status status then (Inl check_violation, d)
      else if has_university d new_id \<or> university_clash d None request then (Inl unique_violation, d)
      else let u = new_university new_id now request passwordHash status
           in (Inr u, d\<lparr>universities := universities d @ [u]\<rparr>))"

definition University_Create ::
  "string \<Rightarrow> time \<Rightarrow> RegisterUniversityRequest \<Rightarrow> string \<Rightarrow> University dbm" where
  "University_Create new_id now request passwordHash =
     run_stmt (insert_university new_id now request passwordHash UniversityStatusPending)"

text \<open>A row with the same e-mail is preferred to a row with the same code.\<close>

definition select_demo :: "RegisterUniversityRequest \<Rightarrow> string stmt" where
  "select_demo request d =
     (bind_res (first_row (sort_key (\<lambda>u. if u_Email u = rur_Email request then 0 else 1 :: nat)
        (filter (\<lambda>u. u_Email u = rur_Email request \<or> u_VuzCode u = rur_VuzCode request)
          (universities d)))) (\<lambda>u. Inr (u_ID u)), d)"

definition update_demo ::
  "string \<Rightarrow> RegisterUniversityRequest \<Rightarrow> string \<Rightarrow> string \<Rightarrow> University stmt" where
  "update_demo existingID request passwordHash status d =
     (let f = (\<lambda>u. u\<lparr>u_Name := rur_Name request, u_VuzCode := rur_VuzCode request,
            u_INN := rur_INN request, u_OGRN := rur_OGRN request, u_Email := rur_Email request,
            u_PasswordHash := passwordHash, u_Status := status\<rparr>)
      in if \<not> has_university d existingID then (Inl ErrNoRows, d)
         else if \<not> university_status status then (Inl check_violation, d)
         else if university_clash d (Some existingID) request then (Inl unique_violation, d)
         else let us = map (\<lambda>u. if u_ID u = existingID then f u else u) (universities d)
              in (first_row (filter (\<lambda>u. u_ID u = existingID) us), d\<lparr>universities := us\<rparr>))"

definition upsert_demo_body ::
  "string \<Rightarrow> time \<Rightarrow> RegisterUniversityRequest \<Rightarrow> string \<Rightarrow> string \<Rightarrow> University dbm" where
  "upsert_demo_body new_id now request passwordHash status =
     attempt (run_stmt (select_demo request)) (\<lambda>r. case r of
         Inl e \<Rightarrow> if e \<noteq> ErrNoRows then fail e
                  else run_stmt (insert_university new_id now request passwordHash status)
       | Inr existingID \<Rightarrow> run_stmt (update_demo existingID request passwordHash status))"

definition University_UpsertDemo ::
  "string \<Rightarrow> time \<Rightarrow> RegisterUniversityRequest \<Rightarrow> string \<Rightarrow> string \<Rightarrow> University dbm" where
  "University_UpsertDemo new_id now request passwordHash status =
     with_tx (upsert_demo_body new_id now request passwordHash status)"

definition University_FindByEmail :: "string \<Rightarrow> University dbm" where
  "University_FindByEmail email =
     run_stmt (\<lambda>d. (first_row (filter (\<lambda>u. u_Email u = email) (universities d)), d))"

definition University_FindByID :: "string \<Rightarrow> University dbm" where
  "University_FindByID i =
     run_stmt (\<lambda>d. (first_row (filter (\<lambda>u. u_ID u = i) (universities d)), d))"

definition University_List :: "University list dbm" where
  "University_List = run_stmt (\<lambda>d. (Inr (sort_key (\<lambda>u. - u_CreatedAt u) (universities d)), d))"

definition University_UpdateStatus :: "string \<Rightarrow> string \<Rightarrow> University dbm" where
  "University_UpdateStatus i status = run_stmt (\<lambda>d.
     if \<not> has_university d i then (Inl ErrNoRows, d)
     else if \<not> university_status status then (Inl check_violation, d)
     else let us = map (\<lambda>u. if u_ID u = i then u\<lparr>u_Status := status\<rparr> else u) (universities d)
          in (first_row (filter (\<lambda>u. u_ID u = i) us), d\<lparr>universities := us\<rparr>))"

definition University_Activate :: "string \<Rightarrow> University dbm" where
  "University_Activate i = University_UpdateStatus i UniversityStatusActive"

definition University_UpdatePublicKey :: "string \<Rightarrow> string \<Rightarrow> unit dbm" where
  "University_UpdatePublicKey i publicKey = run_stmt (\<lambda>d.
     (if has_university d i then Inr () else Inl ErrNoRows,
      d\<lparr>universities := map (\<lambda>u. if u_ID u = i then u\<lparr>u_PublicKey := Some publicKey\<rparr> else u)
          (universities d)\<rparr>))"

section \<open>Deleting a university\<close>

definition owned_hashes :: "db \<Rightarrow> string \<Rightarrow> string set" where
  "owned_hashes d i = hr_hash ` set (filter (\<lambda>h. hr_vuz_id h = i) (diploma_hashes d))"

definition owned_batches :: "db \<Rightarrow> string \<Rightarrow> string set" where
  "owned_batches d i = br_id ` set (filter (\<lambda>b. br_vuz_id b = i) (batches d))"

definition delete_share_links :: "string \<Rightarrow> unit stmt" where
  "delete_share_links i d =
     (Inr (), d\<lparr>share_links := filter (\<lambda>l. sl_DiplomaHash l \<notin> owned_hashes d i) (share_links d)\<rparr>)"

text \<open>Payloads and results go with their batch (\<open>ON DELETE CASCADE\<close>).\<close>

definition delete_batches :: "string \<Rightarrow> unit stmt" where
  "delete_batches i d =
     (Inr (), d\<lparr>batches := filter (\<lambda>b. br_vuz_id b \<noteq> i) (batches d),
        batch_record_payloads :=
          filter (\<lambda>p. pr_batch_id p \<notin> owned_batches d i) (batch_record_payloads d),
        batch_results := filter (\<lambda>r. rr_batch_id r \<notin> owned_batches d i) (batch_results d)\<rparr>)"

definition delete_hashes :: "string \<Rightarrow> unit stmt" where
  "delete_hashes i d =
     (if \<exists>l \<in> set (share_links d). sl_DiplomaHash l \<in> owned_hashes d i
      then (Inl foreign_key_violation, d)
      else (Inr (), d\<lparr>diploma_hashes := filter (\<lambda>h. hr_vuz_id h \<noteq> i) (diploma_hashes d)\<rparr>))"

text \<open>API keys and the signing key go with the university; a batch or a hash would block it.\<close>

definition delete_university :: "string \<Rightarrow> unit stmt" where
  "delete_university i d =
     (if (\<exists>b \<in> set (batches d). br_vuz_id b = i) \<or> (\<exists>h \<in> set (diploma_hashes d). hr_vuz_id h = i)
      then (Inl foreign_key_violation, d)
      else (if has_university d i then Inr () else Inl ErrNoRows,
            d\<lparr>universities := filter (\<lambda>u. u_ID u \<noteq> i) (universities d),
              api_keys := filter (\<lambda>k. ak_VUZID k \<noteq> i) (api_keys d),
              university_signing_keys :=
                filter (\<lambda>k. usk_VUZID k \<noteq> i) (university_signing_keys d)\<rparr>))"

definition delete_cascade_body :: "string \<Rightarrow> unit dbm" where
  "delete_cascade_body i =
     and_then (run_stmt (\<lambda>d. (bind_res (first_row (filter (\<lambda>u. u_ID u = i) (universities d)))
                                (\<lambda>u. Inr (u_ID u)), d))) (\<lambda>_.
     and_then (run_stmt (delete_share_links i)) (\<lambda>_.
     and_then (run_stmt (delete_batches i)) (\<lambda>_.
     and_then (run_stmt (delete_hashes i)) (\<lambda>_.
     run_stmt (delete_university i)))))"

definition University_DeleteCascade :: "string \<Rightarrow> unit dbm" where
  "University_DeleteCascade i = with_tx (delete_cascade_body i)"

section \<open>Administrators\<close>

definition Admin_UpsertBootstrap :: "string \<Rightarrow> time \<Rightarrow> string \<Rightarrow> string \<Rightarrow> unit dbm" where
  "Admin_UpsertBootstrap new_id now email passwordHash = run_stmt (\<lambda>d.
     if email \<in> pa_Email ` set (platform_admins d)
     then (Inr (), d\<lparr>platform_admins := map (\<lambda>a. if pa_Email a = email
             then a\<lparr>pa_PasswordHash := passwordHash\<rparr> else a) (platform_admins d)\<rparr>)
     else if new_id \<in> pa_ID ` set (platform_admins d) then (Inl unique_violation, d)
     else (Inr (), d\<lparr>platform_admins := platform_admins d @ [\<lparr>pa_ID = new_id, pa_Email = email,
             pa_PasswordHash = passwordHash, pa_CreatedAt = now\<rparr>]\<rparr>))"

definition Admin_FindByEmail :: "string \<Rightarrow> PlatformAdmin dbm" where
  "Admin_FindByEmail email =
     run_stmt (\<lambda>d. (first_row (filter (\<lambda>a. pa_Email a = email) (platform_admins d)), d))"

definition count_status :: "db \<Rightarrow> string \<Rightarrow> nat" where
  "count_status d s = length (filter (\<lambda>u. u_Status u = s) (universities d))"

definition Admin_Stats :: "AdminStats dbm" where
  "Admin_Stats = run_stmt (\<lambda>d.
     (Inr \<lparr>as_TotalUniversities = length (universities d),
       as_PendingUniversities = count_status d UniversityStatusPending,
       as_ActiveUniversities = count_status d UniversityStatusActive,
       as_BlockedUniversities = count_status d UniversityStatusBlocked,
       as_TotalBatches = length (batches d), as_TotalDiplomas = length (diploma_hashes d),
       as_RevokedDiplomas = length (filter (\<lambda>h. hr_status h = DiplomaStatusRevoked) (diploma_hashes d))\<rparr>,
      d))"

section \<open>API keys\<close>

definition APIKey_Create ::
  "string \<Rightarrow> time \<Rightarrow> string \<Rightarrow> string option \<Rightarrow> string \<Rightarrow> APIKey dbm" where
  "APIKey_Create new_id now vuzID name keyHash = run_stmt (\<lambda>d.
     if new_id \<in> ak_ID ` set (api_keys d) \<or> keyHash \<in> ak_KeyHash ` set (api_keys d)
     then (Inl unique_violation, d)
     else if \<not> has_university d vuzID then (Inl foreign_key_violation, d)
     else let k = \<lparr>ak_ID = new_id, ak_VUZID = vuzID, ak_Name = name, ak_KeyHash = keyHash,
                   ak_IsActive = True, ak_CreatedAt = now\<rparr>
          in (Inr k, d\<lparr>api_keys := api_keys d @ [k]\<rparr>))"

definition APIKey_ListActiveByVUZ :: "string \<Rightarrow> APIKeySummary list dbm" where
  "APIKey_ListActiveByVUZ vuzID = run_stmt (\<lambda>d.
     (Inr (map (\<lambda>k. \<lparr>aks_ID = ak_ID k, aks_Name = ak_Name k, aks_IsActive = ak_IsActive k,
                    aks_CreatedAt = ak_CreatedAt k\<rparr>)
        (sort_key (\<lambda>k. - ak_CreatedAt k)
          (filter (\<lambda>k. ak_VUZID k = vuzID \<and> ak_IsActive k) (api_keys d)))), d))"

text \<open>The query does not select \<open>vuz_code\<close>: the university comes back with an empty code.\<close>

definition APIKey_FindActiveUniversityByHash :: "string \<Rightarrow> (University \<times> APIKey) dbm" where
  "APIKey_FindActiveUniversityByHash keyHash = run_stmt (\<lambda>d.
     (first_row (concat (map (\<lambda>k. map (\<lambda>u. (u\<lparr>u_VuzCode := ''''\<rparr>, k))
         (filter (\<lambda>u. u_ID u = ak_VUZID k \<and> u_Status u = UniversityStatusActive) (universities d)))
        (filter (\<lambda>k. ak_KeyHash k = keyHash \<and> ak_IsActive k) (api_keys d)))), d))"

section \<open>Signing keys\<close>

definition SigningKey_Upsert ::
  "time \<Rightarrow> string \<Rightarrow> string \<Rightarrow> string \<Rightarrow> string \<Rightarrow> string \<Rightarrow> UniversitySigningKey dbm" where
  "SigningKey_Upsert now vuzID encryptedPrivateKey keyAlgorithm encryptionAlgorithm fingerprint =
     run_stmt (\<lambda>d.
       if keyAlgorithm \<noteq> ''ed25519'' then (Inl check_violation, d)
       else case find (\<lambda>k. usk_VUZID k = vuzID) (university_signing_keys d) of
         Some old \<Rightarrow>
           (let k = old\<lparr>usk_EncryptedPrivateKey := encryptedPrivateKey, usk_KeyAlgorithm := keyAlgorithm,
                  usk_EncryptionAlgorithm := encryptionAlgorithm,
                  usk_PublicKeyFingerprint := fingerprint, usk_UpdatedAt := now\<rparr>
            in (Inr k, d\<lparr>university_signing_keys :=
                 map (\<lambda>k'. if usk_VUZID k' = vuzID then k else k') (university_signing_keys d)\<rparr>))
       | None \<Rightarrow>
           if \<not> has_university d vuzID then (Inl foreign_key_violation, d)
           else let k = \<lparr>usk_VUZID = vuzID, usk_EncryptedPrivateKey = encryptedPrivateKey,
                  usk_KeyAlgorithm = keyAlgorithm, usk_EncryptionAlgorithm = encryptionAlgorithm,
                  usk_PublicKeyFingerprint = fingerprint, usk_CreatedAt = now, usk_UpdatedAt = now\<rparr>
                in (Inr k, d\<lparr>university_signing_keys := university_signing_keys d @ [k]\<rparr>))"

definition SigningKey_FindByVUZID :: "string \<Rightarrow> UniversitySigningKey dbm" where
  "SigningKey_FindByVUZID vuzID = run_stmt (\<lambda>d.
     (first_row (filter (\<lambda>k. usk_VUZID k = vuzID) (university_signing_keys d)), d))"

section \<open>The database handle\<close>

text \<open>
  The fields of \<open>DB\<close> the diploma repository is wired from: the repository is made on first use and
  keeps copies of the decoder and the cipher, which the setters refresh.
\<close>

record DB =
  db_diplomaRepo :: "(qr_decoder option \<times> payload_cipher option) option"
  db_qrPayloadDecoder :: "qr_decoder option"
  db_recordCipher :: "payload_cipher option"

definition New :: "DB" where
  "New = \<lparr>db_diplomaRepo = None, db_qrPayloadDecoder = None, db_recordCipher = None\<rparr>"

definition Diploma :: "DB \<Rightarrow> (qr_decoder option \<times> payload_cipher option) \<times> DB" where
  "Diploma h = (case db_diplomaRepo h of
     Some r \<Rightarrow> (r, h)
   | None \<Rightarrow> let r = (db_qrPayloadDecoder h, db_recordCipher h) in (r, h\<lparr>db_diplomaRepo := Some r\<rparr>))"

definition SetQRPayloadDecoder :: "qr_decoder option \<Rightarrow> DB \<Rightarrow> DB" where
  "SetQRPayloadDecoder decoder h =
     (let h = h\<lparr>db_qrPayloadDecoder := decoder\<rparr>
      in h\<lparr>db_diplomaRepo := map_option (\<lambda>r. (decoder, snd r)) (db_diplomaRepo h)\<rparr>)"

definition SetRecordPayloadCipher :: "payload_cipher option \<Rightarrow> DB \<Rightarrow> DB" where
  "SetRecordPayloadCipher cipher h =
     (let h = h\<lparr>db_recordCipher := cipher\<rparr>
      in h\<lparr>db_diplomaRepo := map_option (\<lambda>r. (fst r, cipher)) (db_diplomaRepo h)\<rparr>)"

end
