(* ===== verification/UniversityInv.thy ===== *)
theory UniversityInv
  imports UniversityRepo
begin

text \<open>
  The operations on universities, administrators and keys keep the invariant of the database;
  what the deletion of a university removes; the wiring of the handle.
\<close>

lemma has_simps_accounts [simp]:
  "has_university (d\<lparr>platform_admins := a\<rparr>) v = has_university d v"
  "has_university (d\<lparr>api_keys := k\<rparr>) v = has_university d v"
  "has_university (d\<lparr>university_signing_keys := s\<rparr>) v = has_university d v"
  "has_batch (d\<lparr>universities := u\<rparr>) w = has_batch d w"
  "has_batch (d\<lparr>platform_admins := a\<rparr>) w = has_batch d w"
  "has_batch (d\<lparr>api_keys := k\<rparr>) w = has_batch d w"
  "has_batch (d\<lparr>university_signing_keys := s\<rparr>) w = has_batch d w"
  "has_hash (d\<lparr>universities := u\<rparr>) h = has_hash d h"
  "has_hash (d\<lparr>platform_admins := a\<rparr>) h = has_hash d h"
  "has_hash (d\<lparr>api_keys := k\<rparr>) h = has_hash d h"
  "has_hash (d\<lparr>university_signing_keys := s\<rparr>) h = has_hash d h"
  "results_of (d\<lparr>universities := u\<rparr>) j = results_of d j"
  "results_of (d\<lparr>platform_admins := a\<rparr>) j = results_of d j"
  "results_of (d\<lparr>api_keys := k\<rparr>) j = results_of d j"
  "results_of (d\<lparr>university_signing_keys := s\<rparr>) j = results_of d j"
  by (simp_all add: has_university_def has_batch_def has_hash_def results_of_def)

text \<open>The unique columns of the universities.\<close>

definition university_keys :: "University list \<Rightarrow> bool" where
  "university_keys us \<longleftrightarrow> distinct (map u_ID us) \<and> distinct (map u_VuzCode us) \<and>
     distinct (map u_INN us) \<and> distinct (map u_OGRN us) \<and> distinct (map u_Email us)"

lemma db_ok_universities:
  assumes "db_ok d" "university_keys us" "\<And>v. has_university d v \<Longrightarrow> v \<in> u_ID ` set us"
    "\<forall>u \<in> set us. university_status (u_Status u)"
  shows "db_ok (d\<lparr>universities := us\<rparr>)" (is "db_ok ?d")
proof (rule db_okI)
  note ok = db_okD[OF assms(1)]
  have u: "has_university d v \<Longrightarrow> has_university ?d v" for v
    using assms(3) by (simp add: has_university_def)
  show "keys_ok ?d" using ok(1) assms(2) by (simp add: keys_ok_def university_keys_def)
  show "refs_ok ?d" using ok(2) u by (simp add: refs_ok_def)
  show "checks_ok ?d" using ok(3) assms(4) by (simp add: checks_ok_def)
  show "rows_ok ?d" using ok(4) by (simp add: rows_ok_def)
  have "batch_ok ?d b = batch_ok d b" for b by (rule batch_ok_cong) simp
  then show "ledger_ok ?d" using ok(5) by (simp add: ledger_ok_def list_all_iff)
qed

lemma db_ok_university_facts:
  assumes "db_ok d"
  shows "university_keys (universities d)" "\<forall>u \<in> set (universities d). university_status (u_Status u)"
  using assms by (auto simp: db_ok_def keys_ok_def checks_ok_def university_keys_def)

lemma university_keys_append:
  "university_keys us \<Longrightarrow> u_ID u \<notin> u_ID ` set us \<Longrightarrow>
   \<forall>x \<in> set us. u_VuzCode x \<noteq> u_VuzCode u \<and> u_INN x \<noteq> u_INN u \<and> u_OGRN x \<noteq> u_OGRN u \<and> u_Email x \<noteq> u_Email u
   \<Longrightarrow> university_keys (us @ [u])"
  by (force simp: university_keys_def)

lemma db_ok_insert_university: "db_ok d \<Longrightarrow> db_ok (snd (insert_university i now r h s d))"
  using db_ok_university_facts[of d]
  by (auto simp: insert_university_def Let_def university_clash_def has_university_def
      new_university_def intro!: db_ok_universities university_keys_append)

text \<open>Changing one row, its unique columns compared with all the others.\<close>

lemma distinct_map_update:
  assumes "distinct (map k xs)" "distinct (map i xs)"
    "\<And>x. x \<in> set xs \<Longrightarrow> i x = j \<Longrightarrow> \<forall>y \<in> set xs. i y \<noteq> j \<longrightarrow> k y \<noteq> k (f x)"
  shows "distinct (map k (map (\<lambda>x. if i x = j then f x else x) xs))"
  using assms
proof (induction xs)
  case (Cons x xs)
  let ?g = "\<lambda>x. if i x = j then f x else x"
  have ih: "distinct (map k (map ?g xs))"
    using Cons.prems by (intro Cons.IH) auto
  have "k (?g x) \<noteq> k (?g y)" if "y \<in> set xs" for y
  proof -
    have "i x \<noteq> i y" "k x \<noteq> k y" using Cons.prems(1,2) that by (auto simp: image_iff)
    then show ?thesis
      using Cons.prems(3)[of x] Cons.prems(3)[of y] that by (metis list.set_intros(1,2))
  qed
  then have "k (?g x) \<notin> set (map k (map ?g xs))" by (simp only: set_map image_iff) blast
  then show ?case using ih by (simp only: list.map distinct.simps) blast
qed simp

lemma university_keys_update:
  assumes "university_keys us" "\<And>u. u_ID (f u) = u_ID u"
    "\<And>u y. u \<in> set us \<Longrightarrow> u_ID u = i \<Longrightarrow> y \<in> set us \<Longrightarrow> u_ID y \<noteq> i \<Longrightarrow>
       u_VuzCode y \<noteq> u_VuzCode (f u) \<and> u_INN y \<noteq> u_INN (f u) \<and> u_OGRN y \<noteq> u_OGRN (f u) \<and>
       u_Email y \<noteq> u_Email (f u)"
  shows "university_keys (map (\<lambda>u. if u_ID u = i then f u else u) us)"
  using assms(1) unfolding university_keys_def
  by (intro conjI distinct_map_update) (use assms(2,3) in \<open>auto\<close>)

lemma db_ok_update_university:
  assumes "db_ok d" "\<And>u. u_ID (f u) = u_ID u" "\<And>u. u \<in> set (universities d) \<Longrightarrow> university_status (u_Status (f u))"
    "\<And>u y. u \<in> set (universities d) \<Longrightarrow> u_ID u = i \<Longrightarrow> y \<in> set (universities d) \<Longrightarrow> u_ID y \<noteq> i \<Longrightarrow>
       u_VuzCode y \<noteq> u_VuzCode (f u) \<and> u_INN y \<noteq> u_INN (f u) \<and> u_OGRN y \<noteq> u_OGRN (f u) \<and>
       u_Email y \<noteq> u_Email (f u)"
  shows "db_ok (d\<lparr>universities := map (\<lambda>u. if u_ID u = i then f u else u) (universities d)\<rparr>)"
proof (rule db_ok_universities[OF assms(1)])
  show "university_keys (map (\<lambda>u. if u_ID u = i then f u else u) (universities d))"
    using db_ok_university_facts(1)[OF assms(1)] assms(2,4) by (rule university_keys_update)
  show "v \<in> u_ID ` set (map (\<lambda>u. if u_ID u = i then f u else u) (universities d))"
    if "has_university d v" for v
    using that image_key_if[of u_ID f, OF assms(2)] by (simp add: has_university_def del: set_map)
qed (use assms(3) db_ok_university_facts(2)[OF assms(1)] in auto)

lemma same_unique_columns:
  assumes "db_ok d" "u \<in> set (universities d)" "y \<in> set (universities d)" "u_ID y \<noteq> u_ID u"
  shows "u_VuzCode y \<noteq> u_VuzCode u \<and> u_INN y \<noteq> u_INN u \<and> u_OGRN y \<noteq> u_OGRN u \<and> u_Email y \<noteq> u_Email u"
  using db_ok_university_facts(1)[OF assms(1)] assms(2-4)
  unfolding university_keys_def by (metis distinct_key_unique)

lemma db_ok_update_demo: "db_ok d \<Longrightarrow> db_ok (snd (update_demo i r h s d))"
  by (auto simp: update_demo_def Let_def university_clash_def intro!: db_ok_update_university
      dest: db_ok_university_facts(2))

section \<open>Preservation, operation by operation\<close>

lemma preserves_University_Create [inv_intros]: "preserves db_ok (University_Create i now r h)"
  unfolding University_Create_def by (intro preserves_run_stmt db_ok_insert_university)

lemma transparent_upsert_demo_body [fault_transparent, intro]:
  "transparent (upsert_demo_body i now r h s)"
  unfolding upsert_demo_body_def
  by (intro transparent_attempt) (auto intro!: fault_transparent split: sum.split)

lemma preserves_UpsertDemo [inv_intros]: "preserves db_ok (University_UpsertDemo i now r h s)"
  unfolding University_UpsertDemo_def
  by (intro preserves_with_tx_body transparent_upsert_demo_body)
     (auto simp: upsert_demo_body_def select_demo_def split: sum.split
       intro!: preserves_attempt preserves_run_stmt db_ok_insert_university db_ok_update_demo)

lemma preserves_UpdateStatus [inv_intros]: "preserves db_ok (University_UpdateStatus i s)"
  unfolding University_UpdateStatus_def Let_def
  by (intro preserves_run_stmt)
     (auto intro!: db_ok_update_university dest: same_unique_columns)

lemma preserves_Activate [inv_intros]: "preserves db_ok (University_Activate i)"
  unfolding University_Activate_def by (rule preserves_UpdateStatus)

lemma preserves_UpdatePublicKey [inv_intros]: "preserves db_ok (University_UpdatePublicKey i k)"
  unfolding University_UpdatePublicKey_def
  by (intro preserves_run_stmt)
     (auto intro!: db_ok_update_university dest: same_unique_columns db_ok_university_facts(2))


lemma db_ok_accounts:
  assumes "db_ok d" "distinct (map pa_ID as)" "distinct (map pa_Email as)"
    "distinct (map ak_ID ks)" "distinct (map ak_KeyHash ks)" "distinct (map usk_VUZID ss)"
    "\<forall>k \<in> set ks. has_university d (ak_VUZID k)" "\<forall>k \<in> set ss. has_university d (usk_VUZID k)"
    "\<forall>k \<in> set ss. usk_KeyAlgorithm k = ''ed25519''"
  shows "db_ok (d\<lparr>platform_admins := as, api_keys := ks, university_signing_keys := ss\<rparr>)" (is "db_ok ?d")
proof (rule db_okI)
  note ok = db_okD[OF assms(1)]
  show "keys_ok ?d" using ok(1) assms(2-6) by (simp add: keys_ok_def)
  show "refs_ok ?d" using ok(2) assms(7,8) by (simp add: refs_ok_def)
  show "checks_ok ?d" using ok(3) assms(9) by (simp add: checks_ok_def)
  show "rows_ok ?d" using ok(4) by (simp add: rows_ok_def)
  have "batch_ok ?d b = batch_ok d b" for b by (rule batch_ok_cong) simp
  then show "ledger_ok ?d" using ok(5) by (simp add: ledger_ok_def list_all_iff)
qed

lemma db_ok_account_facts:
  assumes "db_ok d"
  shows "distinct (map pa_ID (platform_admins d))" "distinct (map pa_Email (platform_admins d))"
    "distinct (map ak_ID (api_keys d))" "distinct (map ak_KeyHash (api_keys d))"
    "distinct (map usk_VUZID (university_signing_keys d))"
    "\<forall>k \<in> set (api_keys d). has_university d (ak_VUZID k)"
    "\<forall>k \<in> set (university_signing_keys d). has_university d (usk_VUZID k)"
    "\<forall>k \<in> set (university_signing_keys d). usk_KeyAlgorithm k = ''ed25519''"
  using assms by (simp_all add: db_ok_def keys_ok_def refs_ok_def checks_ok_def)

lemma db_ok_admins:
  "db_ok d \<Longrightarrow> distinct (map pa_ID as) \<Longrightarrow> distinct (map pa_Email as) \<Longrightarrow> db_ok (d\<lparr>platform_admins := as\<rparr>)"
  using db_ok_accounts[of d as "api_keys d" "university_signing_keys d"] db_ok_account_facts[of d]
  by simp

lemma db_ok_api_keys:
  "db_ok d \<Longrightarrow> distinct (map ak_ID ks) \<Longrightarrow> distinct (map ak_KeyHash ks) \<Longrightarrow>
   \<forall>k \<in> set ks. has_university d (ak_VUZID k) \<Longrightarrow> db_ok (d\<lparr>api_keys := ks\<rparr>)"
  using db_ok_accounts[of d "platform_admins d" ks "university_signing_keys d"] db_ok_account_facts[of d]
  by simp

lemma db_ok_signing_keys:
  "db_ok d \<Longrightarrow> distinct (map usk_VUZID ss) \<Longrightarrow> \<forall>k \<in> set ss. has_university d (usk_VUZID k) \<Longrightarrow>
   \<forall>k \<in> set ss. usk_KeyAlgorithm k = ''ed25519'' \<Longrightarrow> db_ok (d\<lparr>university_signing_keys := ss\<rparr>)"
  using db_ok_accounts[of d "platform_admins d" "api_keys d" ss] db_ok_account_facts[of d]
  by simp

lemma preserves_UpsertBootstrap [inv_intros]: "preserves db_ok (Admin_UpsertBootstrap i now e h)"
  unfolding Admin_UpsertBootstrap_def
  by (rule preserves_run_stmt) (auto intro!: db_ok_admins simp: db_ok_account_facts)

lemma preserves_APIKey_Create [inv_intros]: "preserves db_ok (APIKey_Create i now v n h)"
  unfolding APIKey_Create_def
  by (rule preserves_run_stmt) (auto simp: Let_def db_ok_account_facts intro!: db_ok_api_keys)

lemma preserves_SigningKey_Upsert [inv_intros]: "preserves db_ok (SigningKey_Upsert now v x ka ea f)"
proof -
  have "db_ok (snd (if ka \<noteq> ''ed25519'' then (Inl check_violation, d)
      else case find (\<lambda>k. usk_VUZID k = v) (university_signing_keys d) of
        Some old \<Rightarrow>
          (let k = old\<lparr>usk_EncryptedPrivateKey := x, usk_KeyAlgorithm := ka,
                 usk_EncryptionAlgorithm := ea, usk_PublicKeyFingerprint := f, usk_UpdatedAt := now\<rparr>
           in (Inr k, d\<lparr>university_signing_keys :=
                map (\<lambda>k'. if usk_VUZID k' = v then k else k') (university_signing_keys d)\<rparr>))
      | None \<Rightarrow> if \<not> has_university d v then (Inl foreign_key_violation, d)
          else let k = \<lparr>usk_VUZID = v, usk_EncryptedPrivateKey = x, usk_KeyAlgorithm = ka,
                 usk_EncryptionAlgorithm = ea, usk_PublicKeyFingerprint = f, usk_CreatedAt = now,
                 usk_UpdatedAt = now\<rparr>
               in (Inr k, d\<lparr>university_signing_keys := university_signing_keys d @ [k]\<rparr>)))"
    (is "db_ok (snd ?r)") if "db_ok d" for d
  proof (cases "find (\<lambda>k. usk_VUZID k = v) (university_signing_keys d)")
    case None
    then have "\<forall>k \<in> set (university_signing_keys d). usk_VUZID k \<noteq> v" by (auto simp: find_None_iff)
    then show ?thesis
      using None that by (auto simp: Let_def db_ok_account_facts intro!: db_ok_signing_keys)
  next
    case (Some old)
    then have v: "usk_VUZID old = v" "old \<in> set (university_signing_keys d)"
      by (auto simp: find_Some_iff)
    let ?k = "old\<lparr>usk_EncryptedPrivateKey := x, usk_KeyAlgorithm := ka,
      usk_EncryptionAlgorithm := ea, usk_PublicKeyFingerprint := f, usk_UpdatedAt := now\<rparr>"
    have "map usk_VUZID (map (\<lambda>k'. if usk_VUZID k' = v then ?k else k') ks) = map usk_VUZID ks" for ks
      using v(1) by (induction ks) auto
    then have ok: "ka = ''ed25519'' \<Longrightarrow> db_ok (d\<lparr>university_signing_keys :=
        map (\<lambda>k'. if usk_VUZID k' = v then ?k else k') (university_signing_keys d)\<rparr>)"
      using that v db_ok_account_facts(5,7,8)[OF that]
      by (intro db_ok_signing_keys) (auto simp del: map_map)
    show ?thesis
    proof (cases "ka = ''ed25519''")
      case True
      then show ?thesis using Some ok[OF True, unfolded True] by (simp add: Let_def)
    qed (use that in simp)
  qed
  then show ?thesis unfolding SigningKey_Upsert_def by (rule preserves_run_stmt)
qed

lemma preserves_account_reads [inv_intros]:
  "preserves P (University_FindByEmail e)" "preserves P (University_FindByID i)"
  "preserves P University_List" "preserves P (Admin_FindByEmail e)" "preserves P Admin_Stats"
  "preserves P (APIKey_ListActiveByVUZ v)" "preserves P (APIKey_FindActiveUniversityByHash h)"
  "preserves P (SigningKey_FindByVUZID v)"
  by (auto simp: University_FindByEmail_def University_FindByID_def University_List_def
      Admin_FindByEmail_def Admin_Stats_def APIKey_ListActiveByVUZ_def
      APIKey_FindActiveUniversityByHash_def SigningKey_FindByVUZID_def intro!: preserves_read)

section \<open>The deletion of a university\<close>

definition without_university :: "string \<Rightarrow> db \<Rightarrow> db" where
  "without_university i d = d\<lparr>
     universities := filter (\<lambda>u. u_ID u \<noteq> i) (universities d),
     api_keys := filter (\<lambda>k. ak_VUZID k \<noteq> i) (api_keys d),
     batches := filter (\<lambda>b. br_vuz_id b \<noteq> i) (batches d),
     batch_record_payloads := filter (\<lambda>p. pr_batch_id p \<notin> owned_batches d i) (batch_record_payloads d),
     diploma_hashes := filter (\<lambda>h. hr_vuz_id h \<noteq> i) (diploma_hashes d),
     batch_results := filter (\<lambda>r. rr_batch_id r \<notin> owned_batches d i) (batch_results d),
     share_links := filter (\<lambda>l. sl_DiplomaHash l \<notin> owned_hashes d i) (share_links d),
     university_signing_keys := filter (\<lambda>k. usk_VUZID k \<noteq> i) (university_signing_keys d)\<rparr>"

lemma transparent_delete_cascade [fault_transparent, intro]: "transparent (delete_cascade_body i)"
  by (auto simp: delete_cascade_body_def intro!: fault_transparent)

lemma pure_delete_cascade:
  "pure (delete_cascade_body i) d =
     (if has_university d i then (Inr (), without_university i d) else (Inl ErrNoRows, d))"
proof (cases "has_university d i")
  case True
  then obtain u where "first_row (filter (\<lambda>u. u_ID u = i) (universities d)) = Inr u"
    by (cases "filter (\<lambda>u. u_ID u = i) (universities d)")
       (auto simp: has_university_def filter_empty_conv)
  then show ?thesis
    using True
    by (simp add: delete_cascade_body_def pure_and_then fault_transparent delete_share_links_def
        delete_batches_def delete_hashes_def delete_university_def owned_hashes_def owned_batches_def
        without_university_def has_university_def)
next
  case False
  then have "filter (\<lambda>u. u_ID u = i) (universities d) = []"
    by (auto simp: has_university_def filter_empty_conv)
  then show ?thesis
    using False by (simp add: delete_cascade_body_def pure_and_then fault_transparent)
qed

lemma results_of_without:
  "j \<notin> owned_batches d i \<Longrightarrow> results_of (without_university i d) j = results_of d j"
  by (auto simp: results_of_def without_university_def intro!: filter_cong)

lemma distinct_map_filter_twice:
  "distinct (map k (filter P xs)) \<Longrightarrow> distinct (map k (filter P (filter Q xs)))"
  by (induction xs) auto

lemma db_ok_without_university:
  assumes "db_ok d"
  shows "db_ok (without_university i d)" (is "db_ok ?d")
proof (rule db_okI)
  note ok = db_okD[OF assms]
  have sel: "universities ?d = filter (\<lambda>u. u_ID u \<noteq> i) (universities d)"
    "batches ?d = filter (\<lambda>b. br_vuz_id b \<noteq> i) (batches d)"
    "diploma_hashes ?d = filter (\<lambda>h. hr_vuz_id h \<noteq> i) (diploma_hashes d)"
    "api_keys ?d = filter (\<lambda>k. ak_VUZID k \<noteq> i) (api_keys d)"
    "batch_record_payloads ?d =
      filter (\<lambda>p. pr_batch_id p \<notin> owned_batches d i) (batch_record_payloads d)"
    "batch_results ?d = filter (\<lambda>r. rr_batch_id r \<notin> owned_batches d i) (batch_results d)"
    "share_links ?d = filter (\<lambda>l. sl_DiplomaHash l \<notin> owned_hashes d i) (share_links d)"
    "university_signing_keys ?d = filter (\<lambda>k. usk_VUZID k \<noteq> i) (university_signing_keys d)"
    by (simp_all add: without_university_def)
  show "keys_ok ?d"
    using ok(1) by (auto simp: keys_ok_def without_university_def distinct_map_filter_key
        distinct_map_filter_twice simp del: filter_filter)
  show "checks_ok ?d" using ok(3) by (auto simp: checks_ok_def without_university_def)
  show "rows_ok ?d" using ok(4) by (auto simp: rows_ok_def without_university_def list_all_iff)
  have u: "has_university ?d v \<longleftrightarrow> has_university d v \<and> v \<noteq> i" for v
    by (auto simp: has_university_def sel)
  have b: "has_batch ?d j" if "has_batch d j" "j \<notin> owned_batches d i" for j
    using that by (auto simp: has_batch_def sel owned_batches_def)
  have h: "has_hash ?d j" if "has_hash d j" "j \<notin> owned_hashes d i" for j
    using that by (auto simp: has_hash_def sel owned_hashes_def)
  show "refs_ok ?d"
    using ok(2) unfolding refs_ok_def u sel by (auto intro: b h)
  show "ledger_ok ?d"
  proof -
    have "batch_ok ?d x" if "x \<in> set (batches d)" "br_vuz_id x \<noteq> i" for x
    proof -
      have "br_id x \<notin> owned_batches d i"
        using that distinct_key_unique[OF db_ok_batch_ids[OF assms]] by (auto simp: owned_batches_def)
      then show ?thesis
        using batch_okD[OF assms that(1)] batch_ok_cong[of ?d x d] by (simp add: results_of_without)
    qed
    then show ?thesis by (simp add: ledger_ok_def list_all_iff sel)
  qed
qed

lemma preserves_DeleteCascade [inv_intros]: "preserves db_ok (University_DeleteCascade i)"
  unfolding University_DeleteCascade_def
  by (intro preserves_with_tx transparent_delete_cascade)
     (auto simp: tx_effect_def pure_delete_cascade db_ok_without_university split: prod.split)

section \<open>The handle\<close>

text \<open>A diploma repository that was made works with the current decoder and cipher.\<close>

definition wired :: "DB \<Rightarrow> bool" where
  "wired h \<longleftrightarrow> db_diplomaRepo h \<in> {None, Some (db_qrPayloadDecoder h, db_recordCipher h)}"

lemma wired_steps:
  "wired New" "wired h \<Longrightarrow> wired (snd (Diploma h))"
  "wired h \<Longrightarrow> wired (SetQRPayloadDecoder q h)" "wired h \<Longrightarrow> wired (SetRecordPayloadCipher c h)"
  by (auto simp: wired_def New_def Diploma_def SetQRPayloadDecoder_def SetRecordPayloadCipher_def
      Let_def split: option.split)

lemma Diploma_current: "wired h \<Longrightarrow> fst (Diploma h) = (db_qrPayloadDecoder h, db_recordCipher h)"
  by (auto simp: wired_def Diploma_def Let_def)

end
