(* ===== verification/Crypto.thy ===== *)
theory Crypto
  imports GoStd
begin

text \<open>
  The parts of Go's \<open>crypto\<close> packages the code calls, on octets (\<open>8 word\<close>): SHA-256
  (\<open>crypto/sha256\<close>), AES (\<open>crypto/aes\<close>, encryption direction) and GCM with a 12-byte nonce and a
  16-byte tag (\<open>crypto/cipher\<close>).  The mode is defined over any block function, so its facts
  (opening what was sealed, sizes) do not depend on the cipher.
\<close>

unbundle bit_operations_syntax

type_synonym octet = "8 word"

definition octets :: "bytes \<Rightarrow> octet list" where
  "octets s = map (\<lambda>c. word_of_nat (code c)) s"

definition of_octets :: "octet list \<Rightarrow> bytes" where
  "of_octets ws = map (\<lambda>w. byte (unat w)) ws"

lemma of_octets_octets [simp]: "of_octets (octets s) = s"
  by (simp add: of_octets_def octets_def unat_of_nat map_idI)

lemma octets_of_octets [simp]: "octets (of_octets ws) = ws"
proof -
  have "unat w < 256" for w :: octet using unsigned_less[of w] by simp
  then show ?thesis by (simp add: of_octets_def octets_def map_idI)
qed

lemma length_octets [simp]: "length (octets s) = length s" "length (of_octets ws) = length ws"
  by (simp_all add: octets_def of_octets_def)

text \<open>Big-endian groups of octets.\<close>

definition be_word :: "octet list \<Rightarrow> 'a::len word" where
  "be_word ws = foldl (\<lambda>acc w. push_bit 8 acc OR ucast w) 0 ws"

definition be_octets :: "nat \<Rightarrow> 'a::len word \<Rightarrow> octet list" where
  "be_octets n w = map (\<lambda>i. ucast (drop_bit (8 * (n - 1 - i)) w)) [0..<n]"

lemma length_be_octets [simp]: "length (be_octets n w) = n"
  by (simp add: be_octets_def)

fun chunks :: "nat \<Rightarrow> 'a list \<Rightarrow> 'a list list" where
  "chunks n xs = (if xs = [] \<or> n = 0 then [] else take n xs # chunks n (drop n xs))"

declare chunks.simps [simp del]

section \<open>SHA-256\<close>

definition sha256_k :: "32 word list" where
  "sha256_k =
    [1116352408, 1899447441, 3049323471, 3921009573, 961987163, 1508970993, 2453635748, 2870763221,
     3624381080, 310598401, 607225278, 1426881987, 1925078388, 2162078206, 2614888103, 3248222580,
     3835390401, 4022224774, 264347078, 604807628, 770255983, 1249150122, 1555081692, 1996064986,
     2554220882, 2821834349, 2952996808, 3210313671, 3336571891, 3584528711, 113926993, 338241895,
     666307205, 773529912, 1294757372, 1396182291, 1695183700, 1986661051, 2177026350, 2456956037,
     2730485921, 2820302411, 3259730800, 3345764771, 3516065817, 3600352804, 4094571909, 275423344,
     430227734, 506948616, 659060556, 883997877, 958139571, 1322822218, 1537002063, 1747873779,
     1955562222, 2024104815, 2227730452, 2361852424, 2428436474, 2756734187, 3204031479, 3329325298]"

definition sha256_init :: "32 word list" where
  "sha256_init = [1779033703, 3144134277, 1013904242, 2773480762, 1359893119, 2600822924, 528734635, 1541459225]"

definition sha256_pad :: "octet list \<Rightarrow> octet list" where
  "sha256_pad m = m @ 0x80 # replicate ((119 - length m mod 64) mod 64) 0
     @ be_octets 8 (word_of_nat (8 * length m) :: 64 word)"

definition sha256_schedule :: "octet list \<Rightarrow> 32 word list" where
  "sha256_schedule block = fold (\<lambda>_ w.
       let t = length w; x = w ! (t - 15); y = w ! (t - 2);
           s0 = word_rotr 7 x XOR word_rotr 18 x XOR drop_bit 3 x;
           s1 = word_rotr 17 y XOR word_rotr 19 y XOR drop_bit 10 y
       in w @ [w ! (t - 16) + s0 + w ! (t - 7) + s1]) [16..<64] (map be_word (chunks 4 block))"

fun sha256_round :: "32 word \<times> 32 word \<Rightarrow> 32 word list \<Rightarrow> 32 word list" where
  "sha256_round (k, w) [a, b, c, d, e, f, g, h] =
     (let s1 = word_rotr 6 e XOR word_rotr 11 e XOR word_rotr 25 e;
          ch = (e AND f) XOR ((NOT e) AND g);
          t1 = h + s1 + ch + k + w;
          s0 = word_rotr 2 a XOR word_rotr 13 a XOR word_rotr 22 a;
          maj = (a AND b) XOR (a AND c) XOR (b AND c)
      in [t1 + (s0 + maj), a, b, c, d + t1, e, f, g])"
| "sha256_round kw s = s"

definition sha256_block :: "octet list \<Rightarrow> 32 word list \<Rightarrow> 32 word list" where
  "sha256_block block h = map2 (+) h (fold sha256_round (zip sha256_k (sha256_schedule block)) h)"

definition sha256_octets :: "octet list \<Rightarrow> octet list" where
  "sha256_octets m = concat (map (be_octets 4) (fold sha256_block (chunks 64 (sha256_pad m)) sha256_init))"

definition Sum256 :: "bytes \<Rightarrow> bytes" where
  "Sum256 m = of_octets (sha256_octets (octets m))"

lemma length_sha256_round [simp]: "length (sha256_round kw s) = length s"
  by (cases "(kw, s)" rule: sha256_round.cases) (simp_all add: Let_def)

lemma length_fold_round [simp]: "length (fold sha256_round kws s) = length s"
  by (induction kws arbitrary: s) simp_all

lemma length_sha256_block [simp]: "length (sha256_block b h) = length h"
  by (simp add: sha256_block_def)

lemma length_fold_block [simp]: "length (fold sha256_block bs h) = length h"
  by (induction bs arbitrary: h) simp_all

lemma length_concat_be: "length (concat (map (be_octets 4) ws)) = 4 * length ws"
  by (induction ws) simp_all

lemma length_Sum256 [simp]: "length (Sum256 m) = 32"
  by (simp add: Sum256_def sha256_octets_def length_concat_be sha256_init_def)

section \<open>AES\<close>

definition xtime :: "octet \<Rightarrow> octet" where
  "xtime b = push_bit 1 b XOR (if bit b 7 then 0x1b else 0)"

primrec gmul_bits :: "nat \<Rightarrow> octet \<Rightarrow> octet \<Rightarrow> octet" where
  "gmul_bits 0 a b = 0"
| "gmul_bits (Suc n) a b = (if bit b 0 then a else 0) XOR gmul_bits n (xtime a) (drop_bit 1 b)"

definition gmul :: "octet \<Rightarrow> octet \<Rightarrow> octet" where
  "gmul a b = gmul_bits 8 a b"

text \<open>The inverse is the 254th power; the S-box adds the affine map.\<close>

definition ginv :: "octet \<Rightarrow> octet" where
  "ginv a = snd (((\<lambda>(s, p). let s' = gmul s s in (s', gmul p s')) ^^ 7) (a, 1))"

definition sbox :: "octet \<Rightarrow> octet" where
  "sbox a = (let b = ginv a
     in b XOR word_rotl 1 b XOR word_rotl 2 b XOR word_rotl 3 b XOR word_rotl 4 b XOR 0x63)"

definition ShiftRows :: "octet list \<Rightarrow> octet list" where
  "ShiftRows s = map (\<lambda>i. s ! ((i + 4 * (i mod 4)) mod 16)) [0..<16]"

fun MixColumn :: "octet list \<Rightarrow> octet list" where
  "MixColumn [a, b, c, d] =
     [xtime a XOR (xtime b XOR b) XOR c XOR d, a XOR xtime b XOR (xtime c XOR c) XOR d,
      a XOR b XOR xtime c XOR (xtime d XOR d), (xtime a XOR a) XOR b XOR c XOR xtime d]"
| "MixColumn s = s"

definition MixColumns :: "octet list \<Rightarrow> octet list" where
  "MixColumns s = concat (map MixColumn (chunks 4 s))"

definition rcon :: "nat \<Rightarrow> octet" where
  "rcon i = (xtime ^^ (i - 1)) 1"

text \<open>The round keys, as a list of four-octet words; \<open>nk\<close> is 4, 6 or 8.\<close>

definition KeyExpansion :: "octet list \<Rightarrow> octet list list" where
  "KeyExpansion key = (let nk = length key div 4 in
     fold (\<lambda>i w.
       let t = w ! (i - 1);
           t = (if i mod nk = 0
                then map2 (XOR) (map sbox (rotate1 t)) [rcon (i div nk), 0, 0, 0]
                else if nk > 6 \<and> i mod nk = 4 then map sbox t else t)
       in w @ [map2 (XOR) (w ! (i - nk)) t]) [nk..<4 * (nk + 7)] (chunks 4 key))"

definition aes_encrypt :: "octet list \<Rightarrow> octet list \<Rightarrow> octet list" where
  "aes_encrypt key block =
     (let ks = map concat (chunks 4 (KeyExpansion key)); rounds = length key div 4 + 6;
          s = map2 (XOR) block (ks ! 0);
          s = fold (\<lambda>r s. map2 (XOR) (MixColumns (ShiftRows (map sbox s))) (ks ! r)) [1..<rounds] s
      in map2 (XOR) (ShiftRows (map sbox s)) (ks ! rounds))"

text \<open>\<open>aes.NewCipher\<close> accepts keys of 16, 24 and 32 bytes.\<close>

definition NewCipher :: "bytes \<Rightarrow> (octet list \<Rightarrow> octet list) option" where
  "NewCipher key = (if length key \<in> {16, 24, 32} then Some (aes_encrypt (octets key)) else None)"

section \<open>GCM\<close>

primrec ghash_mul_bits :: "nat \<Rightarrow> 128 word \<Rightarrow> 128 word \<Rightarrow> 128 word \<Rightarrow> 128 word" where
  "ghash_mul_bits 0 x v z = z"
| "ghash_mul_bits (Suc n) x v z =
     ghash_mul_bits n (push_bit 1 x)
       (if bit v 0 then drop_bit 1 v XOR push_bit 120 0xe1 else drop_bit 1 v)
       (if bit x 127 then z XOR v else z)"

definition ghash_mul :: "128 word \<Rightarrow> 128 word \<Rightarrow> 128 word" where
  "ghash_mul x y = ghash_mul_bits 128 x y 0"

definition pad16 :: "octet list \<Rightarrow> octet list" where
  "pad16 xs = xs @ replicate ((16 - length xs mod 16) mod 16) 0"

definition ghash :: "128 word \<Rightarrow> octet list \<Rightarrow> octet list \<Rightarrow> 128 word" where
  "ghash h aad c = fold (\<lambda>b y. ghash_mul (y XOR be_word b) h)
     (chunks 16 (pad16 aad @ pad16 c @ be_octets 8 (word_of_nat (8 * length aad) :: 64 word)
        @ be_octets 8 (word_of_nat (8 * length c) :: 64 word))) 0"

type_synonym block_fun = "octet list \<Rightarrow> octet list"

definition counter_block :: "octet list \<Rightarrow> nat \<Rightarrow> octet list" where
  "counter_block nonce n = nonce @ be_octets 4 (word_of_nat n :: 32 word)"

definition keystream :: "block_fun \<Rightarrow> octet list \<Rightarrow> nat \<Rightarrow> octet list" where
  "keystream E nonce n =
     take n (concat (map (\<lambda>i. E (counter_block nonce (i + 2))) [0..<(n + 15) div 16]))"

definition gcm_tag :: "block_fun \<Rightarrow> octet list \<Rightarrow> octet list \<Rightarrow> octet list \<Rightarrow> octet list" where
  "gcm_tag E nonce aad c =
     map2 (XOR) (be_octets 16 (ghash (be_word (E (replicate 16 0))) aad c)) (E (counter_block nonce 1))"

definition gcm_crypt :: "block_fun \<Rightarrow> octet list \<Rightarrow> octet list \<Rightarrow> octet list" where
  "gcm_crypt E nonce m = map2 (XOR) m (keystream E nonce (length m))"

definition gcm_seal :: "block_fun \<Rightarrow> bytes \<Rightarrow> bytes \<Rightarrow> bytes" where
  "gcm_seal E nonce m =
     (let c = gcm_crypt E (octets nonce) (octets m)
      in of_octets (c @ gcm_tag E (octets nonce) [] c))"

definition gcm_open :: "block_fun \<Rightarrow> bytes \<Rightarrow> bytes \<Rightarrow> bytes option" where
  "gcm_open E nonce sealed =
     (if length sealed < 16 then None
      else let ws = octets sealed; n = length ws - 16; c = take n ws
           in if drop n ws = gcm_tag E (octets nonce) [] c
              then Some (of_octets (gcm_crypt E (octets nonce) c)) else None)"

text \<open>A block function maps blocks of sixteen octets to such blocks.\<close>

definition block_ok :: "block_fun \<Rightarrow> bool" where
  "block_ok E \<longleftrightarrow> (\<forall>b. length (E b) = 16)"


section \<open>Sizes\<close>

lemma chunks_step: "n \<noteq> 0 \<Longrightarrow> xs \<noteq> [] \<Longrightarrow> chunks n xs = take n xs # chunks n (drop n xs)"
  by (subst chunks.simps) simp

lemma chunks_Nil [simp]: "chunks n [] = []"
  by (subst chunks.simps) simp

lemma chunks_exact:
  assumes "n \<noteq> 0" "length xs = n * k"
  shows "length (chunks n xs) = k \<and> (\<forall>c \<in> set (chunks n xs). length c = n)"
  using assms(2)
proof (induction k arbitrary: xs)
  case (Suc k)
  then have ne: "xs \<noteq> []" and d: "length (drop n xs) = n * k" and tk: "length (take n xs) = n"
    using assms(1) by auto
  show ?case unfolding chunks_step[OF assms(1) ne] using Suc.IH[OF d] tk by simp
qed simp

lemma length_concat_equal: "(\<forall>c \<in> set cs. length c = n) \<Longrightarrow> length (concat cs) = length cs * n"
  by (induction cs) auto

lemma length_MixColumn [simp]: "length (MixColumn s) = length s"
  by (cases s rule: MixColumn.cases) simp_all

lemma length_MixColumns: "length s = 16 \<Longrightarrow> length (MixColumns s) = 16"
  using chunks_exact[of 4 s 4] by (simp add: MixColumns_def length_concat_equal[of _ 4])

lemma length_ShiftRows [simp]: "length (ShiftRows s) = 16"
  by (simp add: ShiftRows_def)

lemma length_KeyExpansion:
  assumes "length key = 4 * nk" "nk \<in> {4, 6, 8}"
  shows "length (KeyExpansion key) = 4 * (nk + 7) \<and> (\<forall>w \<in> set (KeyExpansion key). length w = 4)"
proof -
  define step where "step = (\<lambda>i (w :: octet list list).
       let t = w ! (i - 1);
           t = (if i mod nk = 0 then map2 (XOR) (map sbox (rotate1 t)) [rcon (i div nk), 0, 0, 0]
                else if nk > 6 \<and> i mod nk = 4 then map sbox t else t)
       in w @ [map2 (XOR) (w ! (i - nk)) t])"
  let ?good = "\<lambda>n (w :: octet list list). length w = n \<and> (\<forall>x \<in> set w. length x = 4)"
  have inv: "?good m (fold step [nk..<m] w)" if "?good nk w" "nk \<le> m" for w m
    using that(2)
  proof (induction m rule: nat_induct_at_least)
    case base
    then show ?case using that(1) by simp
  next
    case (Suc m)
    let ?w = "fold step [nk..<m] w"
    have "nk > 0" using assms(2) by auto
    then have "length (?w ! (m - 1)) = 4" "length (?w ! (m - nk)) = 4"
      using Suc nth_mem[of "m - 1" ?w] nth_mem[of "m - nk" ?w] by auto
    then have "length (last (step m ?w)) = 4" by (simp add: step_def Let_def)
    then show ?case using Suc by (auto simp: step_def Let_def)
  qed
  have "?good nk (chunks 4 key)" using chunks_exact[of 4 key nk] assms(1) by simp
  moreover have "KeyExpansion key = fold step [nk..<4 * (nk + 7)] (chunks 4 key)"
    using assms(1) unfolding KeyExpansion_def step_def by (simp add: Let_def)
  ultimately show ?thesis using inv[of "chunks 4 key" "4 * (nk + 7)"] by simp
qed

lemma length_round_key:
  assumes "length key = 4 * nk" "nk \<in> {4, 6, 8}" "r \<le> nk + 6"
  shows "length (map concat (chunks 4 (KeyExpansion key)) ! r) = 16"
proof -
  note k = length_KeyExpansion[OF assms(1,2)]
  note c = chunks_exact[of 4 "KeyExpansion key" "nk + 7"]
  have r: "r < length (chunks 4 (KeyExpansion key))" using k c assms(3) by simp
  have sub: "set x \<subseteq> set xs" if "x \<in> set (chunks n xs)" for x n and xs :: "octet list list"
    using that
  proof (induction n xs rule: chunks.induct)
    case (1 n xs)
    show ?case
    proof (cases "xs = [] \<or> n = 0")
      case True
      then show ?thesis using 1(2) by (simp add: chunks.simps[of n xs])
    next
      case False
      then show ?thesis using 1 by (auto simp: chunks_step dest: in_set_takeD in_set_dropD)
    qed
  qed
  let ?c = "chunks 4 (KeyExpansion key) ! r"
  have "?c \<in> set (chunks 4 (KeyExpansion key))" using r by simp
  then have "length ?c = 4" "\<forall>w \<in> set ?c. length w = 4" using c k sub[of ?c 4 "KeyExpansion key"] by auto
  then show ?thesis using r length_concat_equal[of ?c 4] by simp
qed

lemma fold_length16:
  "length s = 16 \<Longrightarrow> (\<And>r s. r \<in> set rs \<Longrightarrow> length s = 16 \<Longrightarrow> length (f r s) = 16) \<Longrightarrow> length (fold f rs s) = 16"
  by (induction rs arbitrary: s) auto

lemma length_aes_encrypt:
  assumes "length key = 4 * nk" "nk \<in> {4, 6, 8}"
  shows "length (aes_encrypt key block) = 16"
  using length_round_key[OF assms, of "nk + 6"] assms(1)
  by (simp add: aes_encrypt_def Let_def)

lemma NewCipher_block_ok: "NewCipher key = Some E \<Longrightarrow> block_ok E"
  using length_aes_encrypt[of "octets key" 4] length_aes_encrypt[of "octets key" 6]
    length_aes_encrypt[of "octets key" 8]
  by (auto simp: NewCipher_def block_ok_def split: if_splits)

section \<open>GCM opens exactly what it sealed\<close>

lemma length_keystream:
  assumes "block_ok E"
  shows "length (keystream E nonce n) = n"
proof -
  have "length (concat (map (\<lambda>i. E (counter_block nonce (i + 2))) [0..<(n + 15) div 16])) = (n + 15) div 16 * 16"
    using length_concat_equal[of "map (\<lambda>i. E (counter_block nonce (i + 2))) [0..<(n + 15) div 16]" 16] assms
    by (simp add: block_ok_def)
  moreover have "n \<le> (n + 15) div 16 * 16" by linarith
  ultimately show ?thesis by (simp add: keystream_def min_def)
qed

lemma length_gcm_crypt [simp]: "block_ok E \<Longrightarrow> length (gcm_crypt E nonce m) = length m"
  by (simp add: gcm_crypt_def length_keystream)

lemma length_gcm_tag [simp]: "block_ok E \<Longrightarrow> length (gcm_tag E nonce aad c) = 16"
  by (simp add: gcm_tag_def block_ok_def)

lemma map2_xor_twice:
  fixes xs ks :: "octet list"
  shows "length xs = length ks \<Longrightarrow> map2 (XOR) (map2 (XOR) xs ks) ks = xs"
  by (induction xs ks rule: list_induct2) (simp_all add: xor.assoc)

lemma gcm_crypt_twice: "block_ok E \<Longrightarrow> gcm_crypt E nonce (gcm_crypt E nonce m) = m"
  using map2_xor_twice[of m "keystream E nonce (length m)"]
  by (simp add: gcm_crypt_def length_keystream)

lemma length_gcm_seal: "block_ok E \<Longrightarrow> length (gcm_seal E nonce m) = length m + 16"
  by (simp add: gcm_seal_def Let_def)

lemma gcm_open_seal: "block_ok E \<Longrightarrow> gcm_open E nonce (gcm_seal E nonce m) = Some m"
  by (simp add: gcm_open_def gcm_seal_def Let_def gcm_crypt_twice)

lemma gcm_open_Some:
  assumes "block_ok E" "gcm_open E nonce s = Some m"
  shows "s = gcm_seal E nonce m"
proof -
  let ?n = "length s - 16"
  have s: "\<not> length s < 16" "drop ?n (octets s) = gcm_tag E (octets nonce) [] (take ?n (octets s))"
    "m = of_octets (gcm_crypt E (octets nonce) (take ?n (octets s)))"
    using assms(2) by (auto simp: gcm_open_def Let_def split: if_splits)
  then have "gcm_seal E nonce m = of_octets (take ?n (octets s) @ drop ?n (octets s))"
    by (simp add: gcm_seal_def Let_def gcm_crypt_twice assms(1))
  then show ?thesis by simp
qed

lemma gcm_open_iff: "block_ok E \<Longrightarrow> gcm_open E nonce s = Some m \<longleftrightarrow> s = gcm_seal E nonce m"
  using gcm_open_seal gcm_open_Some by blast

end
