(* ===== verification/Security.thy ===== *)
theory Security
  imports Complex_Main RecordPayload Crypto
begin

text \<open>
  \<open>gateway-service/internal/infrastructure/security\<close>: \<open>key_encryptor.go\<close> (the cipher of stored
  payloads and private keys), \<open>qr_payload_codec.go\<close> (the encrypted claims inside a QR token),
  \<open>ed25519_keys.go\<close> (the fingerprint), \<open>validator.go\<close> (the error messages) and
  \<open>bcrypt_hasher.go\<close>.  The JWT library, bcrypt and the validator are arguments.
\<close>

section \<open>Keys from secrets\<close>

definition bestEffortSecretBytes :: "string \<Rightarrow> bytes" where
  "bestEffortSecretBytes secret =
     (case hex_decode secret of Some decoded \<Rightarrow> decoded
      | None \<Rightarrow> (case std_decode secret of Some decoded \<Rightarrow> decoded | None \<Rightarrow> secret))"

definition decodeExactKey :: "string \<Rightarrow> bytes option" where
  "decodeExactKey secret =
     (case hex_decode secret of
        Some decoded \<Rightarrow>
          if length decoded = 32 then Some decoded
          else (case std_decode secret of
             Some decoded \<Rightarrow> if length decoded = 32 then Some decoded else None | None \<Rightarrow> None)
      | None \<Rightarrow> (case std_decode secret of
             Some decoded \<Rightarrow> if length decoded = 32 then Some decoded else None | None \<Rightarrow> None))"

definition deriveAES256Key :: "string \<Rightarrow> bytes res" where
  "deriveAES256Key secret =
     (let trimmed = TrimSpace secret
      in if trimmed = '''' then Inl (ErrText ''qr payload encryption secret must not be empty'')
         else case decodeExactKey trimmed of
           Some decoded \<Rightarrow> Inr decoded
         | None \<Rightarrow> Inr (Sum256 (bestEffortSecretBytes trimmed)))"

lemma length_deriveAES256Key: "deriveAES256Key secret = Inr key \<Longrightarrow> length key = 32"
  by (auto simp: deriveAES256Key_def decodeExactKey_def Let_def split: if_splits option.splits)

lemma deriveAES256Key_Inr: "(\<exists>key. deriveAES256Key secret = Inr key) \<longleftrightarrow> \<not> blank secret"
  by (auto simp: deriveAES256Key_def Let_def blank_def split: option.split)

section \<open>Sealing with a random nonce\<close>

text \<open>
  \<open>io.ReadFull(rand.Reader, nonce)\<close>: the bytes the random source yields, or its failure.
\<close>

definition ReadFull :: "nat \<Rightarrow> bytes option \<Rightarrow> bytes res" where
  "ReadFull n source = (case source of
     Some b \<Rightarrow> if length b < n then Inl (ErrText ''unexpected EOF'') else Inr (take n b)
   | None \<Rightarrow> Inl (ErrText ''rand''))"

definition aes_gcm :: "bytes \<Rightarrow> block_fun res" where
  "aes_gcm key = of_option (ErrText ''crypto/aes: invalid key size'') (NewCipher key)"

lemma aes_gcm_block_ok: "aes_gcm key = Inr E \<Longrightarrow> block_ok E"
  by (simp add: aes_gcm_def NewCipher_block_ok)

definition KeyEncryptor_Seal :: "bytes \<Rightarrow> bytes option \<Rightarrow> bytes \<Rightarrow> string res" where
  "KeyEncryptor_Seal key source plaintext =
     bind_res (aes_gcm key) (\<lambda>gcm.
     bind_res (ReadFull 12 source) (\<lambda>nonce.
       Inr (''v1:'' @ std_encode (nonce @ gcm_seal gcm nonce plaintext))))"

definition KeyEncryptor_Open :: "bytes \<Rightarrow> string \<Rightarrow> bytes res" where
  "KeyEncryptor_Open key value =
     (if \<not> HasPrefix value ''v1:'' then Inl (ErrText ''unsupported sealed payload version'')
      else bind_res (of_option (ErrText ''base64'') (std_decode (TrimPrefix value ''v1:''))) (\<lambda>raw.
           bind_res (aes_gcm key) (\<lambda>gcm.
             if length raw < 12 then Inl (ErrText ''sealed payload is too short'')
             else of_option (ErrText ''cipher: message authentication failed'')
                    (gcm_open gcm (take 12 raw) (drop 12 raw)))))"

definition NewKeyEncryptor :: "string \<Rightarrow> payload_cipher res" where
  "NewKeyEncryptor base64Key = bind_res (deriveAES256Key base64Key) (\<lambda>key.
     Inr \<lparr>cipher_Seal = KeyEncryptor_Seal key, cipher_Open = KeyEncryptor_Open key\<rparr>)"

lemma KeyEncryptor_open_seal:
  assumes "KeyEncryptor_Seal key source p = Inr v"
  shows "KeyEncryptor_Open key v = Inr p"
proof -
  obtain gcm nonce where g: "aes_gcm key = Inr gcm" "ReadFull 12 source = Inr nonce"
    "v = ''v1:'' @ std_encode (nonce @ gcm_seal gcm nonce p)"
    using assms by (auto simp: KeyEncryptor_Seal_def)
  have "length nonce = 12" using g(2) by (auto simp: ReadFull_def split: option.splits if_splits)
  then have "KeyEncryptor_Open key (''v1:'' @ std_encode (nonce @ gcm_seal gcm nonce p)) = Inr p"
    using g(1) gcm_open_seal[OF aes_gcm_block_ok[OF g(1)]]
    by (simp add: KeyEncryptor_Open_def del: append_Cons append.append_Cons)
  then show ?thesis using g(3) by simp
qed

lemma KeyEncryptor_seal_not_blank:
  assumes "KeyEncryptor_Seal key source p = Inr v"
  shows "\<not> blank v"
proof -
  obtain gcm nonce where g: "aes_gcm key = Inr gcm" "ReadFull 12 source = Inr nonce"
    "v = ''v1:'' @ std_encode (nonce @ gcm_seal gcm nonce p)"
    using assms by (auto simp: KeyEncryptor_Seal_def)
  let ?e = "std_encode (nonce @ gcm_seal gcm nonce p)"
  have ne: "?e \<noteq> []" using length_gcm_seal[OF aes_gcm_block_ok[OF g(1)], of nonce p] by auto
  have "last v = last ?e" unfolding g(3) using ne by (metis last_appendR)
  then have "graphic (last v)" using b64_encode_graphic[OF last_in_set[OF ne]] by simp
  then show ?thesis using g(3) by (intro not_blank_graphic) (simp_all add: graphic_def)
qed

text \<open>The contract of the repository's cipher, kept by the encryptor under every key.\<close>

definition KeyEncryptor :: "bytes \<Rightarrow> payload_cipher" where
  "KeyEncryptor key = \<lparr>cipher_Seal = KeyEncryptor_Seal key, cipher_Open = KeyEncryptor_Open key\<rparr>"

interpretation key_encryptor: record_payload_cipher "KeyEncryptor key" for key
  by unfold_locales
     (auto simp: KeyEncryptor_def dest: KeyEncryptor_open_seal KeyEncryptor_seal_not_blank)

lemma NewKeyEncryptor_Inr: "NewKeyEncryptor secret = Inr c \<longleftrightarrow> (\<exists>key. deriveAES256Key secret = Inr key \<and> c = KeyEncryptor key)"
  by (auto simp: NewKeyEncryptor_def KeyEncryptor_def)

section \<open>The claims inside a QR token\<close>

definition normalized :: "QRPayloadClaims \<Rightarrow> QRPayloadClaims" where
  "normalized c =
     (let c = c\<lparr>qpc_FullName := TrimSpace (qpc_FullName c), qpc_StudentName := TrimSpace (qpc_StudentName c)\<rparr>
      in if qpc_FullName c = '''' \<and> qpc_StudentName c \<noteq> '''' then c\<lparr>qpc_FullName := qpc_StudentName c\<rparr>
         else if qpc_StudentName c = '''' \<and> qpc_FullName c \<noteq> '''' then c\<lparr>qpc_StudentName := qpc_FullName c\<rparr>
         else c)"

definition claims_json :: "QRPayloadClaims \<Rightarrow> json" where
  "claims_json c = JObj
     ((if qpc_FullName c = '''' then [] else [(''full_name'', JStr (qpc_FullName c))]) @
      (if qpc_StudentName c = '''' then [] else [(''student_name'', JStr (qpc_StudentName c))]) @
      [(''diploma_number'', JStr (qpc_DiplomaNumber c)), (''specialty'', JStr (qpc_Specialty c)),
       (''degree'', JStr (qpc_Degree c)), (''faculty'', JStr (qpc_Faculty c)),
       (''year'', JNum (Itoa (qpc_Year c))), (''salt'', JStr (qpc_Salt c))])"

definition claims_fields :: "(string \<times> (json \<Rightarrow> QRPayloadClaims \<Rightarrow> QRPayloadClaims option)) list" where
  "claims_fields =
     [(''full_name'', set_string qpc_FullName_update), (''student_name'', set_string qpc_StudentName_update),
      (''diploma_number'', set_string qpc_DiplomaNumber_update),
      (''specialty'', set_string qpc_Specialty_update), (''degree'', set_string qpc_Degree_update),
      (''faculty'', set_string qpc_Faculty_update), (''year'', set_int qpc_Year_update),
      (''salt'', set_string qpc_Salt_update)]"

definition empty_claims :: QRPayloadClaims where
  "empty_claims = \<lparr>qpc_FullName = '''', qpc_StudentName = '''', qpc_DiplomaNumber = '''',
     qpc_Specialty = '''', qpc_Degree = '''', qpc_Faculty = '''', qpc_Year = 0, qpc_Salt = ''''\<rparr>"

text \<open>A codec is its key.\<close>

definition NewQRPayloadCodec :: "string \<Rightarrow> bytes res" where
  "NewQRPayloadCodec secret = bind_res (deriveAES256Key secret) (\<lambda>derived. Inr derived)"

definition QRPayloadCodec_Seal :: "bytes \<Rightarrow> bytes option \<Rightarrow> QRPayloadClaims \<Rightarrow> string res" where
  "QRPayloadCodec_Seal key source claims =
     (let plaintext = json_print (claims_json (normalized claims))
      in bind_res (aes_gcm key) (\<lambda>gcm. bind_res (ReadFull 12 source) (\<lambda>nonce.
           Inr (std_encode (nonce @ gcm_seal gcm nonce plaintext)))))"

definition QRPayloadCodec_Open :: "bytes \<Rightarrow> string \<Rightarrow> QRPayloadClaims res" where
  "QRPayloadCodec_Open key value =
     bind_res (of_option (ErrText ''base64'') (std_decode (TrimSpace value))) (\<lambda>raw.
     bind_res (aes_gcm key) (\<lambda>gcm.
       if length raw < 12 then Inl (ErrText ''encrypted qr payload is too short'')
       else bind_res (of_option (ErrText ''cipher: message authentication failed'')
              (gcm_open gcm (take 12 raw) (drop 12 raw))) (\<lambda>plaintext.
            bind_res (of_option (ErrText ''json'')
              (case json_parse plaintext of None \<Rightarrow> None
               | Some j \<Rightarrow> decode_struct claims_fields False empty_claims j)) (\<lambda>claims.
              Inr (normalized claims)))))"

text \<open>
  A claim of the JWT library's \<open>MapClaims\<close>: the dynamic types the code distinguishes.  A float
  is the rational it denotes.
\<close>

datatype claim_value =
    ClaimString string
  | ClaimFloat64 rat
  | ClaimInt64 int
  | ClaimInt int
  | ClaimNumber string
  | ClaimOther

definition claimString :: "claim_value option \<Rightarrow> string" where
  "claimString value = (case value of Some (ClaimString s) \<Rightarrow> s | _ \<Rightarrow> '''')"

text \<open>\<open>int64(x)\<close> truncates towards zero; what does not fit becomes the least value, as on amd64.\<close>

definition float_to_int64 :: "rat \<Rightarrow> int" where
  "float_to_int64 x =
     (let n = (if x < 0 then - \<lfloor>- x\<rfloor> else \<lfloor>x\<rfloor>)
      in if int_min \<le> n \<and> n \<le> int_max then n else int_min)"

definition claimInt64 :: "claim_value option \<Rightarrow> int res" where
  "claimInt64 value =
     (case value of
        Some (ClaimFloat64 x) \<Rightarrow> Inr (float_to_int64 x)
      | Some (ClaimInt64 n) \<Rightarrow> Inr n
      | Some (ClaimInt n) \<Rightarrow> Inr n
      | Some (ClaimNumber s) \<Rightarrow> of_option (ErrText ''strconv.ParseInt'') (Atoi s)
      | Some (ClaimString s) \<Rightarrow> of_option (ErrText ''strconv.ParseInt'') (Atoi s)
      | _ \<Rightarrow> Inl (ErrText ''unsupported numeric value''))"

record QRPayloadEnvelope =
  qpe_Subject :: string
  qpe_DiplomaHash :: string
  qpe_VUZID :: string
  qpe_Enc :: string
  qpe_IssuedAt :: int

type_synonym jwt_parser = "string \<Rightarrow> (string \<rightharpoonup> claim_value) res"

definition ParseUnverifiedEnvelope :: "jwt_parser \<Rightarrow> string \<Rightarrow> QRPayloadEnvelope res" where
  "ParseUnverifiedEnvelope parse_unverified tokenString =
     (if TrimSpace tokenString = '''' then Inl (ErrText ''qr payload is empty'')
      else bind_res (parse_unverified tokenString) (\<lambda>claims.
        let envelope = \<lparr>qpe_Subject = claimString (claims ''sub''),
              qpe_DiplomaHash = claimString (claims ''diploma_hash''),
              qpe_VUZID = claimString (claims ''vuz_id''), qpe_Enc = claimString (claims ''enc''),
              qpe_IssuedAt = (case claimInt64 (claims ''iat'') of Inr n \<Rightarrow> n | Inl _ \<Rightarrow> 0)\<rparr>
        in Inr (if TrimSpace (qpe_DiplomaHash envelope) = ''''
                then envelope\<lparr>qpe_DiplomaHash := qpe_Subject envelope\<rparr> else envelope)))"

definition QRPayloadCodec_Parse :: "bytes \<Rightarrow> jwt_parser \<Rightarrow> qr_decoder" where
  "QRPayloadCodec_Parse key parse_unverified tokenString =
     bind_res (ParseUnverifiedEnvelope parse_unverified tokenString) (\<lambda>envelope.
       if TrimSpace (qpe_Enc envelope) = '''' then Inl (ErrText ''qr payload does not contain enc claim'')
       else bind_res (QRPayloadCodec_Open key (qpe_Enc envelope)) (\<lambda>claims.
         Inr \<lparr>pqp_DiplomaHash = qpe_DiplomaHash envelope, pqp_VUZID = qpe_VUZID envelope,
              pqp_IssuedAt = qpe_IssuedAt envelope, pqp_Claims = claims\<rparr>))"


lemma normalized_idem [simp]: "normalized (normalized c) = normalized c"
  by (simp add: normalized_def Let_def)

lemma normalized_sel [simp]:
  "qpc_DiplomaNumber (normalized c) = qpc_DiplomaNumber c" "qpc_Specialty (normalized c) = qpc_Specialty c"
  "qpc_Degree (normalized c) = qpc_Degree c" "qpc_Faculty (normalized c) = qpc_Faculty c"
  "qpc_Year (normalized c) = qpc_Year c" "qpc_Salt (normalized c) = qpc_Salt c"
  by (simp_all add: normalized_def Let_def)

definition claims_utf8 :: "QRPayloadClaims \<Rightarrow> bool" where
  "claims_utf8 c \<longleftrightarrow> valid_utf8 (qpc_FullName c) \<and> valid_utf8 (qpc_StudentName c) \<and>
     valid_utf8 (qpc_DiplomaNumber c) \<and> valid_utf8 (qpc_Specialty c) \<and> valid_utf8 (qpc_Degree c) \<and>
     valid_utf8 (qpc_Faculty c) \<and> valid_utf8 (qpc_Salt c) \<and> int_min \<le> qpc_Year c \<and> qpc_Year c \<le> int_max"

lemma wf_claims_json: "claims_utf8 c \<Longrightarrow> wf_json (claims_json c)"
  by (auto simp: claims_utf8_def claims_json_def valid_utf8.simps)

lemma set_claims_field:
  "set_field claims_fields False ''full_name'' v c = set_string qpc_FullName_update v c"
  "set_field claims_fields False ''student_name'' v c = set_string qpc_StudentName_update v c"
  "set_field claims_fields False ''diploma_number'' v c = set_string qpc_DiplomaNumber_update v c"
  "set_field claims_fields False ''specialty'' v c = set_string qpc_Specialty_update v c"
  "set_field claims_fields False ''degree'' v c = set_string qpc_Degree_update v c"
  "set_field claims_fields False ''faculty'' v c = set_string qpc_Faculty_update v c"
  "set_field claims_fields False ''year'' v c = set_int qpc_Year_update v c"
  "set_field claims_fields False ''salt'' v c = set_string qpc_Salt_update v c"
  by (simp_all add: claims_fields_def ascii_lower_def)

lemma decode_claims_json:
  assumes "int_min \<le> qpc_Year c" "qpc_Year c \<le> int_max"
  shows "decode_struct claims_fields False empty_claims (claims_json c) = Some c"
  using Atoi_Itoa[OF assms]
  by (cases c) (simp add: decode_struct_def claims_json_def set_claims_field set_string_def set_int_def
      empty_claims_def)

lemma codec_open_seal:
  assumes "claims_utf8 (normalized c)" "QRPayloadCodec_Seal key source c = Inr v"
  shows "QRPayloadCodec_Open key v = Inr (normalized c)"
proof -
  obtain gcm nonce where g: "aes_gcm key = Inr gcm" "ReadFull 12 source = Inr nonce"
    "v = std_encode (nonce @ gcm_seal gcm nonce (json_print (claims_json (normalized c))))"
    using assms(2) by (auto simp: QRPayloadCodec_Seal_def Let_def)
  have n: "length nonce = 12" using g(2) by (auto simp: ReadFull_def split: option.splits if_splits)
  then have ne: "v \<noteq> []" using g(3) by auto
  have t: "TrimSpace v = v"
    using ne b64_encode_graphic[OF hd_in_set[OF ne[unfolded g(3)]]]
      b64_encode_graphic[OF last_in_set[OF ne[unfolded g(3)]]]
    unfolding g(3) by (rule TrimSpace_graphic)
  have j: "json_parse (json_print (claims_json (normalized c))) = Some (claims_json (normalized c))"
    by (rule json_parse_print[OF wf_claims_json[OF assms(1)]])
  show ?thesis
    using n g(1) gcm_open_seal[OF aes_gcm_block_ok[OF g(1)]] assms(1) decode_claims_json[of "normalized c"]
    unfolding QRPayloadCodec_Open_def t
    by (simp add: g(3) j claims_utf8_def del: bind_res_eq_Inr)
qed

section \<open>Fingerprints and messages\<close>

definition FingerprintEd25519PublicKey :: "bytes \<Rightarrow> string" where
  "FingerprintEd25519PublicKey publicKey = hex_encode (Sum256 publicKey)"

lemma length_Fingerprint: "length (FingerprintEd25519PublicKey k) = 64"
  by (simp add: FingerprintEd25519PublicKey_def)

text \<open>
  What the validator library reports: nothing, a misuse of the library, another error, or the
  failed fields as (field, tag, parameter).
\<close>

datatype validation =
    Valid
  | InvalidValidationError
  | OtherError
  | ValidationErrors "(string \<times> string \<times> string) list"

definition field_message :: "(string \<Rightarrow> string) \<Rightarrow> string \<times> string \<times> string \<Rightarrow> string" where
  "field_message lower e = (case e of (name, tag, param) \<Rightarrow>
     let field = ''field '' @ lower name
     in if tag = ''required'' then field @ '' is required''
        else if tag = ''email'' then field @ '' must be a valid email''
        else if tag = ''min'' then field @ '' must have at least '' @ param @ '' characters''
        else if tag = ''max'' then field @ '' must have at most '' @ param @ '' characters''
        else if tag = ''oneof'' then field @ '' must be one of: '' @ param
        else if tag = ''gte'' then field @ '' must be greater than or equal to '' @ param
        else if tag = ''lte'' then field @ '' must be less than or equal to '' @ param
        else if tag = ''len'' then field @ '' must contain exactly '' @ param @ '' characters''
        else field @ '' failed '' @ tag @ '' validation'')"

definition ValidateStruct :: "(string \<Rightarrow> string) \<Rightarrow> validation \<Rightarrow> unit res" where
  "ValidateStruct lower outcome = (case outcome of
     Valid \<Rightarrow> Inr ()
   | InvalidValidationError \<Rightarrow> Inl (ErrText ''internal validation error'')
   | OtherError \<Rightarrow> Inl (ErrText ''validation error'')
   | ValidationErrors es \<Rightarrow> Inl (ErrText (Join (map (field_message lower) es) ''; '')))"

end
