(* ===== verification/Token.thy ===== *)
theory Token
  imports Model
begin

text \<open>
  \<open>gateway-service/internal/infrastructure/token/jwt_manager.go\<close>: access and share tokens.  The
  JWT library is an argument: \<open>sign\<close> stands for \<open>NewWithClaims(HS256, ...).SignedString\<close>, \<open>parse\<close>
  for \<open>ParseWithClaims\<close>, which asks the key function for the key of the token's algorithm and
  returns the claims with the flag \<open>Valid\<close>.  Numeric dates are whole seconds.
\<close>

record RegisteredClaims =
  rc_Subject :: string
  rc_IssuedAt :: int
  rc_ExpiresAt :: int

record AccessClaims =
  ac_VUZID :: string
  ac_Email :: string
  ac_Role :: string
  ac_Status :: string
  ac_Registered :: RegisteredClaims

record ShareClaims =
  sc_DiplomaHash :: string
  sc_Type :: string
  sc_Registered :: RegisteredClaims

text \<open>A library for claims of type \<open>'c\<close>; \<open>parse\<close> reads the clock for the expiry.\<close>

record 'c jwt_lib =
  jwt_sign :: "bytes \<Rightarrow> 'c \<Rightarrow> string res"
  jwt_parse :: "(string \<Rightarrow> bytes res) \<Rightarrow> time \<Rightarrow> string \<Rightarrow> ('c \<times> bool) res"

record Manager =
  tm_accessSecret :: bytes
  tm_shareSecret :: bytes
  tm_accessTTL :: duration
  tm_shareTTL :: duration

definition second :: duration where
  "second = 1000000000"

definition NewNumericDate :: "time \<Rightarrow> int" where
  "NewNumericDate t = t div second"

definition NewManager :: "string \<Rightarrow> string \<Rightarrow> duration \<Rightarrow> duration \<Rightarrow> Manager" where
  "NewManager accessSecret shareSecret accessTTL shareTTL =
     \<lparr>tm_accessSecret = accessSecret, tm_shareSecret = shareSecret, tm_accessTTL = accessTTL,
      tm_shareTTL = shareTTL\<rparr>"

definition hs256_key :: "bytes \<Rightarrow> string \<Rightarrow> bytes res" where
  "hs256_key secret alg =
     (if alg \<noteq> ''HS256'' then Inl (ErrText ''unexpected signing method'') else Inr secret)"

definition IssueAccessToken ::
  "AccessClaims jwt_lib \<Rightarrow> Manager \<Rightarrow> time \<Rightarrow> string \<Rightarrow> string \<Rightarrow> string \<Rightarrow> string \<Rightarrow> string
     \<Rightarrow> (string \<times> time) res" where
  "IssueAccessToken lib m now subject vuzID email role status =
     (let expiresAt = now + tm_accessTTL m;
          claims = \<lparr>ac_VUZID = vuzID, ac_Email = email, ac_Role = role, ac_Status = status,
            ac_Registered = \<lparr>rc_Subject = subject, rc_IssuedAt = NewNumericDate now,
              rc_ExpiresAt = NewNumericDate expiresAt\<rparr>\<rparr>
      in bind_res (jwt_sign lib (tm_accessSecret m) claims) (\<lambda>signed. Inr (signed, expiresAt)))"

definition ParseAccessToken ::
  "AccessClaims jwt_lib \<Rightarrow> Manager \<Rightarrow> time \<Rightarrow> string \<Rightarrow> AccessClaims res" where
  "ParseAccessToken lib m now tokenString =
     bind_res (jwt_parse lib (hs256_key (tm_accessSecret m)) now tokenString) (\<lambda>(claims, valid).
       if \<not> valid then Inl (ErrText ''invalid access token'') else Inr claims)"

definition IssueShareToken ::
  "ShareClaims jwt_lib \<Rightarrow> Manager \<Rightarrow> time \<Rightarrow> string \<Rightarrow> duration \<Rightarrow> (string \<times> time) res" where
  "IssueShareToken lib m now diplomaHash ttl =
     (let ttl = (if ttl \<le> 0 then tm_shareTTL m else ttl);
          expiresAt = now + ttl;
          claims = \<lparr>sc_DiplomaHash = diplomaHash, sc_Type = ''share_link'',
            sc_Registered = \<lparr>rc_Subject = diplomaHash, rc_IssuedAt = NewNumericDate now,
              rc_ExpiresAt = NewNumericDate expiresAt\<rparr>\<rparr>
      in bind_res (jwt_sign lib (tm_shareSecret m) claims) (\<lambda>signed. Inr (signed, expiresAt)))"

definition ParseShareToken ::
  "ShareClaims jwt_lib \<Rightarrow> Manager \<Rightarrow> time \<Rightarrow> string \<Rightarrow> ShareClaims res" where
  "ParseShareToken lib m now tokenString =
     bind_res (jwt_parse lib (hs256_key (tm_shareSecret m)) now tokenString) (\<lambda>(claims, valid).
       if \<not> valid then Inl (ErrText ''invalid share token'') else Inr claims)"

text \<open>
  What the code relies on: a token the library signed parses under the same HMAC key to the same
  claims as long as it has not expired, and only a token with a key from the key function parses.
\<close>

definition jwt_roundtrip :: "('c \<Rightarrow> RegisteredClaims) \<Rightarrow> 'c jwt_lib \<Rightarrow> bool" where
  "jwt_roundtrip registered lib \<longleftrightarrow>
     (\<forall>key claims tok now. jwt_sign lib key claims = Inr tok \<longrightarrow>
        now < rc_ExpiresAt (registered claims) * second \<longrightarrow>
        jwt_parse lib (hs256_key key) now tok = Inr (claims, True))"


lemma parse_issued_share:
  assumes "jwt_roundtrip sc_Registered lib" "IssueShareToken lib m now h ttl = Inr (tok, expires)"
    "later < NewNumericDate expires * second"
  shows "\<exists>c. ParseShareToken lib m later tok = Inr c \<and> sc_DiplomaHash c = h"
proof -
  obtain c where c: "jwt_sign lib (tm_shareSecret m) c = Inr tok" "sc_DiplomaHash c = h"
    "rc_ExpiresAt (sc_Registered c) = NewNumericDate expires"
    using assms(2) by (auto simp: IssueShareToken_def Let_def)
  then have "jwt_parse lib (hs256_key (tm_shareSecret m)) later tok = Inr (c, True)"
    using assms(1,3) by (simp add: jwt_roundtrip_def)
  then show ?thesis using c(2) by (simp add: ParseShareToken_def)
qed

lemma parse_issued_access:
  assumes "jwt_roundtrip ac_Registered lib"
    "IssueAccessToken lib m now subject vuz email role status = Inr (tok, expires)"
    "later < NewNumericDate expires * second"
  shows "\<exists>c. ParseAccessToken lib m later tok = Inr c \<and> rc_Subject (ac_Registered c) = subject \<and>
    ac_VUZID c = vuz \<and> ac_Email c = email \<and> ac_Role c = role \<and> ac_Status c = status"
proof -
  obtain c where c: "jwt_sign lib (tm_accessSecret m) c = Inr tok"
    "rc_ExpiresAt (ac_Registered c) = NewNumericDate expires" "rc_Subject (ac_Registered c) = subject"
    "ac_VUZID c = vuz" "ac_Email c = email" "ac_Role c = role" "ac_Status c = status"
    using assms(2) by (auto simp: IssueAccessToken_def Let_def)
  then have "jwt_parse lib (hs256_key (tm_accessSecret m)) later tok = Inr (c, True)"
    using assms(1,3) by (simp add: jwt_roundtrip_def)
  then show ?thesis using c(3-) by (simp add: ParseAccessToken_def)
qed

end
