(* ===== verification/Services.thy ===== *)
theory Services
  imports UniversityInv Security Token
begin

text \<open>
  \<open>gateway-service/internal/service\<close>: accounts, API keys, signing keys, the cabinet, diplomas and
  students.  A service method is a database program; the identifiers and times the database draws
  (\<open>new_id\<close>, \<open>now\<close>), random bytes and the libraries are arguments.
\<close>

section \<open>auth.go\<close>

text \<open>The interface \<open>PasswordHasher\<close>; the salt of a hash is its first argument.\<close>

record password_hasher =
  ph_Hash :: "bytes option \<Rightarrow> string \<Rightarrow> string res"
  ph_Compare :: "string \<Rightarrow> string \<Rightarrow> bool"

definition Register ::
  "password_hasher \<Rightarrow> bytes option \<Rightarrow> string \<Rightarrow> time \<Rightarrow> RegisterUniversityRequest
     \<Rightarrow> RegisterUniversityResponse dbm" where
  "Register hasher salt new_id now request =
     (case ph_Hash hasher salt (rur_Password request) of
        Inl e \<Rightarrow> fail e
      | Inr passwordHash \<Rightarrow>
          attempt (University_Create new_id now request passwordHash) (\<lambda>r. case r of
             Inl e \<Rightarrow> if e = PqError ''23505'' then fail ErrDuplicateEntity else fail e
           | Inr u \<Rightarrow> ret \<lparr>rus_ID = u_ID u, rus_Status = u_Status u, rus_CreatedAt = u_CreatedAt u\<rparr>))"

definition admin_login ::
  "password_hasher \<Rightarrow> AccessClaims jwt_lib \<Rightarrow> Manager \<Rightarrow> time \<Rightarrow> LoginRequest \<Rightarrow> PlatformAdmin
     \<Rightarrow> AuthResponse res" where
  "admin_login hasher lib tokens now request admin =
     (if \<not> ph_Compare hasher (lr_Password request) (pa_PasswordHash admin)
      then Inl ErrInvalidCredentials
      else bind_res (IssueAccessToken lib tokens now (pa_ID admin) '''' (pa_Email admin) RoleAdmin
             UniversityStatusActive) (\<lambda>(tokenValue, expiresAt).
           Inr \<lparr>ar_AccessToken = tokenValue, ar_TokenType = ''Bearer'', ar_ExpiresAt = expiresAt,
             ar_Role = RoleAdmin, ar_Status = UniversityStatusActive, ar_VUZID = '''',
             ar_Email = pa_Email admin\<rparr>))"

definition university_login ::
  "password_hasher \<Rightarrow> AccessClaims jwt_lib \<Rightarrow> Manager \<Rightarrow> time \<Rightarrow> LoginRequest \<Rightarrow> University
     \<Rightarrow> AuthResponse res" where
  "university_login hasher lib tokens now request u =
     (if \<not> ph_Compare hasher (lr_Password request) (u_PasswordHash u) then Inl ErrInvalidCredentials
      else if u_Status u = UniversityStatusPending then Inl ErrUniversityPending
      else if u_Status u = UniversityStatusBlocked then Inl ErrUniversityBlocked
      else if u_Status u \<noteq> UniversityStatusActive then Inl ErrUniversityInactive
      else bind_res (IssueAccessToken lib tokens now (u_ID u) (u_ID u) (u_Email u) RoleUniversity
             (u_Status u)) (\<lambda>(tokenValue, expiresAt).
           Inr \<lparr>ar_AccessToken = tokenValue, ar_TokenType = ''Bearer'', ar_ExpiresAt = expiresAt,
             ar_Role = RoleUniversity, ar_Status = u_Status u, ar_VUZID = u_ID u,
             ar_Email = u_Email u\<rparr>))"

text \<open>A pure result returned from a database program.\<close>

definition give :: "'a res \<Rightarrow> 'a dbm" where
  "give r = (case r of Inl e \<Rightarrow> fail e | Inr x \<Rightarrow> ret x)"

lemma give_simps [simp]: "give (Inl e) = fail e" "give (Inr x) = ret x"
  by (simp_all add: give_def)

lemma give_eq [run_simps]: "give r s = (r', t) \<longleftrightarrow> r' = r \<and> t = s"
  by (cases r) (auto simp: run_simps)

definition Login ::
  "password_hasher \<Rightarrow> AccessClaims jwt_lib \<Rightarrow> Manager \<Rightarrow> time \<Rightarrow> LoginRequest \<Rightarrow> AuthResponse dbm" where
  "Login hasher lib tokens now request =
     attempt (Admin_FindByEmail (lr_Email request)) (\<lambda>r. case r of
        Inr admin \<Rightarrow> give (admin_login hasher lib tokens now request admin)
      | Inl e \<Rightarrow>
          if e \<noteq> ErrNoRows then fail e
          else attempt (University_FindByEmail (lr_Email request)) (\<lambda>r. case r of
             Inl e \<Rightarrow> if e = ErrNoRows then fail ErrInvalidCredentials else fail e
           | Inr u \<Rightarrow> give (university_login hasher lib tokens now request u)))"

section \<open>admin.go, university.go\<close>

definition EnsureBootstrapAdmin ::
  "password_hasher \<Rightarrow> bytes option \<Rightarrow> string \<Rightarrow> time \<Rightarrow> string \<Rightarrow> string \<Rightarrow> unit dbm" where
  "EnsureBootstrapAdmin hasher salt new_id now email password =
     (if email = '''' \<or> password = '''' then ret ()
      else case ph_Hash hasher salt password of
        Inl e \<Rightarrow> fail e
      | Inr passwordHash \<Rightarrow> Admin_UpsertBootstrap new_id now email passwordHash)"

definition ApproveUniversity :: "string \<Rightarrow> University dbm" where
  "ApproveUniversity i = University_Activate i"

definition GetUniversity :: "string \<Rightarrow> University dbm" where
  "GetUniversity i = University_FindByID i"

definition ListUniversities :: "University list dbm" where
  "ListUniversities = University_List"

definition UpdateUniversityStatus :: "string \<Rightarrow> string \<Rightarrow> University dbm" where
  "UpdateUniversityStatus i status = University_UpdateStatus i status"

definition DeleteUniversity :: "string \<Rightarrow> unit dbm" where
  "DeleteUniversity i = University_DeleteCascade i"

definition Stats :: "AdminStats dbm" where
  "Stats = Admin_Stats"

definition Profile :: "string \<Rightarrow> University dbm" where
  "Profile vuzID = University_FindByID vuzID"

definition Cabinet_ListBatches :: "string \<Rightarrow> int \<Rightarrow> Batch list dbm" where
  "Cabinet_ListBatches vuzID limit =
     ListBatches vuzID (if limit \<le> 0 \<or> limit > 100 then 20 else limit)"

section \<open>api_keys.go\<close>

definition generateAPIKey :: "bytes option \<Rightarrow> string res" where
  "generateAPIKey source = bind_res (ReadFull 24 source) (\<lambda>buffer. Inr (''vuz_'' @ hex_encode buffer))"

definition hashAPIKey :: "string \<Rightarrow> string" where
  "hashAPIKey v = hex_encode (Sum256 v)"

definition CreateAPIKey ::
  "bytes option \<Rightarrow> string \<Rightarrow> time \<Rightarrow> string \<Rightarrow> string option \<Rightarrow> CreateAPIKeyResponse dbm" where
  "CreateAPIKey source new_id now vuzID name =
     (case generateAPIKey source of
        Inl e \<Rightarrow> fail e
      | Inr rawKey \<Rightarrow>
          and_then (APIKey_Create new_id now vuzID name (hashAPIKey rawKey)) (\<lambda>item.
            ret \<lparr>cak_ID = ak_ID item, cak_Name = ak_Name item, cak_APIKey = rawKey,
                 cak_CreatedAt = ak_CreatedAt item\<rparr>))"

definition ListAPIKeys :: "string \<Rightarrow> APIKeySummary list dbm" where
  "ListAPIKeys vuzID = APIKey_ListActiveByVUZ vuzID"

definition ResolveActiveUniversity :: "string \<Rightarrow> (University \<times> APIKey) dbm" where
  "ResolveActiveUniversity plainKey = APIKey_FindActiveUniversityByHash (hashAPIKey plainKey)"

section \<open>signing_keys.go\<close>

text \<open>
  The parts of \<open>crypto/ed25519\<close>, \<open>crypto/x509\<close> and \<open>encoding/pem\<close> behind \<open>ed25519_keys.go\<close>: parsing
  a PKCS 8 private key, its public key, and the PEM form of a public key.
\<close>

record ed25519_pem =
  parse_private_pem :: "string \<Rightarrow> bytes res"
  public_of :: "bytes \<Rightarrow> bytes"
  marshal_public_pem :: "bytes \<Rightarrow> string res"
  parse_public_pem :: "string \<Rightarrow> bytes res"

definition SigningKeyAlgorithmEd25519 :: string where
  "SigningKeyAlgorithmEd25519 = ''ed25519''"

definition SigningKeyEncryptionAESGCM :: string where
  "SigningKeyEncryptionAESGCM = ''aes-256-gcm''"

definition toSigningKeyStatusResponse :: "UniversitySigningKey \<Rightarrow> SigningKeyStatusResponse" where
  "toSigningKeyStatusResponse item =
     \<lparr>sks_Configured = True, sks_KeyAlgorithm = usk_KeyAlgorithm item,
      sks_EncryptionAlgorithm = usk_EncryptionAlgorithm item,
      sks_PublicKeyFingerprint = usk_PublicKeyFingerprint item, sks_UpdatedAt = usk_UpdatedAt item\<rparr>"

text \<open>The stored public key must be the derived one; a missing one is stored.\<close>

definition match_public_key :: "ed25519_pem \<Rightarrow> string \<Rightarrow> University \<Rightarrow> bytes \<Rightarrow> string \<Rightarrow> unit dbm" where
  "match_public_key lib vuzID university derivedPublic derivedPublicPEM =
     (case u_PublicKey university of
        None \<Rightarrow> University_UpdatePublicKey vuzID derivedPublicPEM
      | Some pem \<Rightarrow>
          if TrimSpace pem = '''' then University_UpdatePublicKey vuzID derivedPublicPEM
          else case parse_public_pem lib pem of
            Inl _ \<Rightarrow> fail ErrSigningKeyMismatch
          | Inr storedPublic \<Rightarrow>
              if storedPublic \<noteq> derivedPublic then fail ErrSigningKeyMismatch else ret ())"

definition SigningKeyService_Upsert ::
  "ed25519_pem \<Rightarrow> payload_cipher \<Rightarrow> bytes option \<Rightarrow> time \<Rightarrow> string \<Rightarrow> string
     \<Rightarrow> SigningKeyStatusResponse dbm" where
  "SigningKeyService_Upsert lib encryptor source now vuzID privateKeyPEM =
     (case parse_private_pem lib privateKeyPEM of
        Inl _ \<Rightarrow> fail ErrInvalidSigningKey
      | Inr privateKey \<Rightarrow>
          (let derivedPublic = public_of lib privateKey
           in case marshal_public_pem lib derivedPublic of
             Inl e \<Rightarrow> fail e
           | Inr derivedPublicPEM \<Rightarrow>
               and_then (University_FindByID vuzID) (\<lambda>university.
               and_then (match_public_key lib vuzID university derivedPublic derivedPublicPEM) (\<lambda>_.
               and_then (give (cipher_Seal encryptor source privateKeyPEM)) (\<lambda>encryptedPrivateKey.
               and_then (SigningKey_Upsert now vuzID encryptedPrivateKey SigningKeyAlgorithmEd25519
                  SigningKeyEncryptionAESGCM (FingerprintEd25519PublicKey derivedPublic)) (\<lambda>item.
               ret (toSigningKeyStatusResponse item)))))))"

definition SigningKeyService_Status :: "string \<Rightarrow> SigningKeyStatusResponse dbm" where
  "SigningKeyService_Status vuzID =
     attempt (SigningKey_FindByVUZID vuzID) (\<lambda>r. case r of
        Inl e \<Rightarrow> if e = ErrNoRows then fail ErrSigningKeyNotFound else fail e
      | Inr item \<Rightarrow> ret (toSigningKeyStatusResponse item))"

section \<open>student.go\<close>

definition Search :: "qr_decoder option \<Rightarrow> (string \<Rightarrow> string) \<Rightarrow> string \<Rightarrow> string \<Rightarrow> StudentSearchResult list dbm" where
  "Search decoder lower diplomaNumber fullName = SearchStudents decoder lower diplomaNumber fullName"

text \<open>The service's fields beside the repository; \<open>NewStudentService\<close> trims the base URL.\<close>

record student_service =
  ss_tokens :: Manager
  ss_publicBaseURL :: string
  ss_defaultTTL :: duration

definition NewStudentService :: "Manager \<Rightarrow> string \<Rightarrow> duration \<Rightarrow> student_service" where
  "NewStudentService tokens publicBaseURL defaultTTL =
     \<lparr>ss_tokens = tokens, ss_publicBaseURL = TrimRight publicBaseURL (CHR ''/''),
      ss_defaultTTL = defaultTTL\<rparr>"

definition Student_CreateShareLink ::
  "qr_decoder option \<Rightarrow> ShareClaims jwt_lib \<Rightarrow> student_service \<Rightarrow> string \<Rightarrow> time \<Rightarrow> string \<Rightarrow> duration
     \<Rightarrow> ShareLinkResponse dbm" where
  "Student_CreateShareLink decoder lib s new_id now diplomaHash ttl =
     attempt (FindStudentByHash decoder diplomaHash) (\<lambda>r. case r of
        Inl e \<Rightarrow> if e = ErrNoRows then fail ErrDiplomaNotFound else fail e
      | Inr _ \<Rightarrow>
          (let ttl = (if ttl \<le> 0 then ss_defaultTTL s else ttl)
           in and_then (give (IssueShareToken lib (ss_tokens s) now diplomaHash ttl)) (\<lambda>(tokenValue, expiresAt).
              and_then (CreateShareLink new_id now diplomaHash tokenValue expiresAt) (\<lambda>_.
              ret \<lparr>slr_ShareURL = ss_publicBaseURL s @ ''/share/'' @ tokenValue, slr_Token = tokenValue,
                   slr_ExpiresAt = expiresAt\<rparr>))))"

text \<open>The drawing of the code is an argument: \<open>png content size\<close>, \<open>svg content moduleSize\<close>.\<close>

record qr_generator =
  qr_PNG :: "string \<Rightarrow> int \<Rightarrow> bytes res"
  qr_SVG :: "string \<Rightarrow> int \<Rightarrow> bytes res"

definition RenderShareQR ::
  "qr_decoder option \<Rightarrow> ShareClaims jwt_lib \<Rightarrow> student_service \<Rightarrow> qr_generator \<Rightarrow> (string \<Rightarrow> string)
     \<Rightarrow> string \<Rightarrow> time \<Rightarrow> string \<Rightarrow> string \<Rightarrow> duration \<Rightarrow> (bytes \<times> string) dbm" where
  "RenderShareQR decoder lib s qr lower new_id now diplomaHash format ttl =
     and_then (Student_CreateShareLink decoder lib s new_id now diplomaHash ttl) (\<lambda>link.
       if lower format = ''svg''
       then and_then (give (qr_SVG qr (slr_ShareURL link) 8)) (\<lambda>payload. ret (payload, ''image/svg+xml''))
       else and_then (give (qr_PNG qr (slr_ShareURL link) 220)) (\<lambda>payload. ret (payload, ''image/png'')))"

definition shared_diploma :: "StudentSearchResult \<Rightarrow> ShareLink \<Rightarrow> SharedDiplomaResponse" where
  "shared_diploma student link =
     \<lparr>sdr_DiplomaHash = ssr_DiplomaHash student, sdr_DiplomaNumber = ssr_DiplomaNumber student,
      sdr_FullName = ssr_FullName student, sdr_Specialty = ssr_Specialty student,
      sdr_Degree = ssr_Degree student, sdr_Faculty = ssr_Faculty student, sdr_Year = ssr_Year student,
      sdr_UniversityID = ssr_UniversityID student, sdr_UniversityName = ssr_UniversityName student,
      sdr_Status = ssr_Status student, sdr_ExpiresAt = sl_ExpiresAt link\<rparr>"

definition ResolveShareLink ::
  "qr_decoder option \<Rightarrow> ShareClaims jwt_lib \<Rightarrow> student_service \<Rightarrow> time \<Rightarrow> string
     \<Rightarrow> SharedDiplomaResponse dbm" where
  "ResolveShareLink decoder lib s now tokenValue =
     (case ParseShareToken lib (ss_tokens s) now tokenValue of
        Inl _ \<Rightarrow> fail ErrInvalidShareToken
      | Inr claims \<Rightarrow>
          attempt (FindShareLink tokenValue) (\<lambda>r. case r of
             Inl e \<Rightarrow> if e = ErrNoRows then fail ErrInvalidShareToken else fail e
           | Inr link \<Rightarrow>
               if sl_ExpiresAt link < now then fail ErrShareLinkExpired
               else if sl_DiplomaHash link \<noteq> sc_DiplomaHash claims then fail ErrInvalidShareToken
               else attempt (FindStudentByHash decoder (sc_DiplomaHash claims)) (\<lambda>r. case r of
                    Inl e \<Rightarrow> if e = ErrNoRows then fail ErrDiplomaNotFound else fail e
                  | Inr student \<Rightarrow>
                      and_then (IncrementShareLinkUsage tokenValue) (\<lambda>_.
                      ret (shared_diploma student link)))))"

end
