(* ===== verification/Kafka.thy ===== *)
theory Kafka
  imports DiplomaProps Services
begin

text \<open>
  The upload path and the result path of the gateway: \<open>service/diplomas.go\<close> with the producer and
  the consumer of \<open>internal/infrastructure/kafka\<close>.  The topic of raw tasks is the list of the
  messages the brokers accepted; what they accept and report is an argument.  A run of the consumer
  is a run over the outcomes of its calls to \<open>FetchMessage\<close>.
\<close>

section \<open>Messages\<close>

definition raw_task_json :: "KafkaRawTask \<Rightarrow> json" where
  "raw_task_json t = (let s = krt_Student t in JObj
     [(''batch_id'', JStr (krt_BatchID t)), (''vuz_id'', JStr (krt_VUZID t)),
      (''record_index'', JNum (Itoa (int (krt_RecordIndex t)))),
      (''total_in_batch'', JNum (Itoa (int (krt_TotalInBatch t)))),
      (''student'', JObj
        ([(''full_name'', JStr (ds_FullName s)), (''diploma_number'', JStr (ds_DiplomaNumber s)),
          (''specialty'', JStr (ds_Specialty s)), (''degree'', JStr (ds_Degree s)),
          (''year'', JNum (Itoa (ds_Year s))), (''faculty'', JStr (ds_Faculty s))] @
         (if ds_RawCSVRow s = '''' then [] else [(''raw_csv_row'', JStr (ds_RawCSVRow s))]))),
      (''created_at'', JStr (krt_CreatedAt t))])"

definition result_fields ::
  "(string \<times> (json \<Rightarrow> KafkaProcessingResult \<Rightarrow> KafkaProcessingResult option)) list" where
  "result_fields =
     [(''batch_id'', set_string kpr_BatchID_update), (''vuz_id'', set_string kpr_VUZID_update),
      (''record_index'', set_int kpr_RecordIndex_update),
      (''diploma_hash'', set_string kpr_DiplomaHash_update),
      (''qr_payload'', set_string_ptr kpr_QRPayload_update), (''status'', set_string kpr_Status_update),
      (''error'', set_string_ptr kpr_Error_update), (''processed_at'', set_string kpr_ProcessedAt_update)]"

definition empty_result :: KafkaProcessingResult where
  "empty_result = \<lparr>kpr_BatchID = '''', kpr_VUZID = '''', kpr_RecordIndex = 0, kpr_DiplomaHash = '''',
     kpr_QRPayload = None, kpr_Status = '''', kpr_Error = None, kpr_ProcessedAt = ''''\<rparr>"

definition decode_result :: "string \<Rightarrow> KafkaProcessingResult option" where
  "decode_result v = (case json_parse v of
     None \<Rightarrow> None | Some j \<Rightarrow> decode_struct result_fields False empty_result j)"

section \<open>The producer\<close>

type_synonym message = "string \<times> string"

text \<open>What \<open>WriteMessages\<close> does: which messages the brokers took, and the error it returns.\<close>

record write_outcome =
  wo_delivered :: "bool list"
  wo_error :: "err option"

definition write_messages :: "write_outcome \<Rightarrow> message list \<Rightarrow> message list \<Rightarrow> unit res \<times> message list" where
  "write_messages w messages topic =
     (case wo_error w of None \<Rightarrow> Inr () | Some e \<Rightarrow> Inl e,
      topic @ map snd (filter fst (zip (wo_delivered w) messages)))"

text \<open>The writer's promise: without an error every message was taken.\<close>

definition writer_ok :: "write_outcome \<Rightarrow> nat \<Rightarrow> bool" where
  "writer_ok w n \<longleftrightarrow> (wo_error w = None \<longrightarrow> wo_delivered w = replicate n True)"

definition PublishRawTasks :: "write_outcome \<Rightarrow> KafkaRawTask list \<Rightarrow> message list \<Rightarrow> unit res \<times> message list" where
  "PublishRawTasks w tasks topic =
     write_messages w (map (\<lambda>t. (krt_BatchID t, json_print (raw_task_json t))) tasks) topic"

section \<open>Service diplomas.go\<close>

definition raw_task ::
  "string \<Rightarrow> string \<Rightarrow> string \<Rightarrow> nat \<Rightarrow> nat \<Rightarrow> DiplomaUploadRecord \<Rightarrow> KafkaRawTask" where
  "raw_task batchID vuzID now n index r =
     \<lparr>krt_BatchID = batchID, krt_VUZID = vuzID, krt_RecordIndex = index, krt_TotalInBatch = n,
      krt_Student = \<lparr>ds_FullName = dur_FullName r, ds_DiplomaNumber = dur_DiplomaNumber r,
        ds_Specialty = dur_Specialty r, ds_Degree = dur_Degree r, ds_Year = dur_Year r,
        ds_Faculty = dur_Faculty r, ds_RawCSVRow = dur_RawCSVRow r\<rparr>,
      krt_CreatedAt = now\<rparr>"

definition raw_tasks :: "string \<Rightarrow> string \<Rightarrow> string \<Rightarrow> DiplomaUploadRecord list \<Rightarrow> KafkaRawTask list" where
  "raw_tasks batchID vuzID now records =
     map2 (raw_task batchID vuzID now (length records)) [0..<length records] records"

text \<open>
  \<open>Upload\<close> on the session and the topic: \<open>stamp\<close> is the formatted time of the tasks, \<open>fail_now\<close>
  the time of the compensating update, whose own error is ignored.
\<close>

definition Upload ::
  "payload_cipher option \<Rightarrow> (nat \<Rightarrow> bytes option) \<Rightarrow> string \<Rightarrow> time \<Rightarrow> string \<Rightarrow> write_outcome \<Rightarrow> time
     \<Rightarrow> string \<Rightarrow> DiplomaUploadRecord list \<Rightarrow> sess \<times> message list
     \<Rightarrow> BatchUploadResponse res \<times> sess \<times> message list" where
  "Upload cipher nonces new_id now stamp w fail_now vuzID records world =
     (case world of (s, topic) \<Rightarrow>
        (case CreateBatchWithRecords cipher nonces new_id now vuzID records s of
           (Inl e, s) \<Rightarrow> (Inl e, s, topic)
         | (Inr batch, s) \<Rightarrow>
             (case PublishRawTasks w (raw_tasks (b_ID batch) vuzID stamp records) topic of
                (Inl e, topic) \<Rightarrow> (Inl e, snd (FailBatch fail_now (b_ID batch) s), topic)
              | (Inr _, topic) \<Rightarrow> (Inr \<lparr>bur_BatchID = b_ID batch, bur_Status = b_Status batch\<rparr>, s, topic))))"

definition Diploma_GetBatch :: "string \<Rightarrow> string \<Rightarrow> Batch dbm" where
  "Diploma_GetBatch batchID vuzID = GetBatch batchID vuzID"

definition DownloadBatch ::
  "(BatchDownloadRow list \<Rightarrow> bytes res) \<Rightarrow> qr_decoder option \<Rightarrow> payload_cipher option \<Rightarrow> string \<Rightarrow> string
     \<Rightarrow> bytes dbm" where
  "DownloadBatch build_excel decoder cipher batchID vuzID =
     and_then (GetBatchDownloadRows decoder cipher batchID vuzID) (\<lambda>rows. give (build_excel rows))"

definition Revoke :: "time \<Rightarrow> string \<Rightarrow> string \<Rightarrow> unit dbm" where
  "Revoke now vuzID hash = MarkDiplomaRevoked now vuzID hash"

definition HandleProcessingResult :: "qr_decoder option \<Rightarrow> time \<Rightarrow> KafkaProcessingResult \<Rightarrow> unit dbm" where
  "HandleProcessingResult decoder now result = ApplyProcessingResult decoder now result"

section \<open>The consumer\<close>

text \<open>
  A message is known by its partition and offset; the same message may be fetched again, after a
  rebalance or a restart.  One iteration of the loop: the fetch fails because the context was
  cancelled, or otherwise, or yields a message, with what a commit of it would report and the time of
  handling.
\<close>

record kafka_message =
  km_Partition :: int
  km_Offset :: int
  km_Key :: string
  km_Value :: string

datatype fetch =
    Cancelled
  | FetchFailed
  | Fetched kafka_message "err option" time

text \<open>
  The loop's log, without the lines on receipt and decoding, and its calls of \<open>CommitMessages\<close>: a
  call that reports an error counts as well, since the broker may have taken it.
\<close>

datatype consumer_log =
    LogStopping
  | LogFetchFailed
  | LogDecodeFailed kafka_message
  | LogApplyFailed kafka_message
  | LogApplied kafka_message
  | LogCommitFailed kafka_message
  | LogCommitted kafka_message

record consumer =
  co_sess :: sess
  co_commits :: "kafka_message list"
  co_log :: "consumer_log list"

definition consumer_logs :: "consumer_log \<Rightarrow> consumer \<Rightarrow> consumer" where
  "consumer_logs entry c = c\<lparr>co_log := co_log c @ [entry]\<rparr>"

definition CommitMessages :: "err option \<Rightarrow> kafka_message \<Rightarrow> consumer \<Rightarrow> consumer" where
  "CommitMessages outcome message c =
     consumer_logs (case outcome of None \<Rightarrow> LogCommitted message | Some _ \<Rightarrow> LogCommitFailed message)
       (c\<lparr>co_commits := co_commits c @ [message]\<rparr>)"

definition consume ::
  "(time \<Rightarrow> KafkaProcessingResult \<Rightarrow> unit dbm) \<Rightarrow> kafka_message \<Rightarrow> err option \<Rightarrow> time \<Rightarrow> consumer \<Rightarrow> consumer" where
  "consume handler message commit now c =
     (case decode_result (km_Value message) of
        None \<Rightarrow> CommitMessages commit message (consumer_logs (LogDecodeFailed message) c)
      | Some result \<Rightarrow>
          (case handler now result (co_sess c) of
             (Inl _, s) \<Rightarrow> consumer_logs (LogApplyFailed message) (c\<lparr>co_sess := s\<rparr>)
           | (Inr _, s) \<Rightarrow>
               CommitMessages commit message (consumer_logs (LogApplied message) (c\<lparr>co_sess := s\<rparr>))))"

primrec Start :: "(time \<Rightarrow> KafkaProcessingResult \<Rightarrow> unit dbm) \<Rightarrow> fetch list \<Rightarrow> consumer \<Rightarrow> consumer" where
  "Start handler [] c = c"
| "Start handler (f # fs) c =
     (case f of
        Cancelled \<Rightarrow> consumer_logs LogStopping c
      | FetchFailed \<Rightarrow> Start handler fs (consumer_logs LogFetchFailed c)
      | Fetched message commit now \<Rightarrow> Start handler fs (consume handler message commit now c))"

text \<open>The messages a run receives: what is fetched before the context is cancelled.\<close>

primrec received :: "fetch list \<Rightarrow> kafka_message list" where
  "received [] = []"
| "received (f # fs) =
     (case f of Cancelled \<Rightarrow> [] | FetchFailed \<Rightarrow> received fs | Fetched message _ _ \<Rightarrow> message # received fs)"

text \<open>
  How far the broker's offset of a partition can get by these calls: a committed offset covers every
  earlier message of its partition, whether that was committed or not.
\<close>

definition group_offset :: "int \<Rightarrow> kafka_message list \<Rightarrow> int" where
  "group_offset p commits =
     fold max (map (\<lambda>m. km_Offset m + 1) (filter (\<lambda>m. km_Partition m = p) commits)) 0"

section \<open>Contract of a result handler\<close>

text \<open>
  What the consumer needs of its handler: a state invariant it keeps, and a notion of a message
  having been handled that success establishes and that later messages do not undo.
\<close>

locale result_handler =
  fixes handler :: "time \<Rightarrow> KafkaProcessingResult \<Rightarrow> unit dbm"
    and inv :: "db \<Rightarrow> bool"
    and handled :: "db \<Rightarrow> KafkaProcessingResult \<Rightarrow> bool"
  assumes keeps_inv: "inv (tables s) \<Longrightarrow> inv (tables (snd (handler now r s)))"
    and success_handled: "inv (tables s) \<Longrightarrow> fst (handler now r s) = Inr () \<Longrightarrow>
      handled (tables (snd (handler now r s))) r"
    and stays_handled: "inv (tables s) \<Longrightarrow> handled (tables s) r \<Longrightarrow> handled (tables (snd (handler now r' s))) r"
begin

lemma consumer_fields [simp]:
  "co_sess (consumer_logs x c) = co_sess c" "co_commits (consumer_logs x c) = co_commits c"
  "co_log (consumer_logs x c) = co_log c @ [x]" "co_sess (CommitMessages e m c) = co_sess c"
  "co_commits (CommitMessages e m c) = co_commits c @ [m]"
  by (simp_all add: consumer_logs_def CommitMessages_def)

lemma consume_sess:
  "co_sess (consume handler m e now c) =
     (case decode_result (km_Value m) of None \<Rightarrow> co_sess c | Some r \<Rightarrow> snd (handler now r (co_sess c)))"
  by (auto simp: consume_def split: option.split prod.split sum.split)

lemma consume_inv: "inv (tables (co_sess c)) \<Longrightarrow> inv (tables (co_sess (consume handler m e now c)))"
  by (simp add: consume_sess keeps_inv split: option.split)

lemma consume_handled:
  "inv (tables (co_sess c)) \<Longrightarrow> handled (tables (co_sess c)) r \<Longrightarrow>
   handled (tables (co_sess (consume handler m e now c))) r"
  by (simp add: consume_sess stays_handled split: option.split)

lemma Start_inv: "inv (tables (co_sess c)) \<Longrightarrow> inv (tables (co_sess (Start handler fs c)))"
  by (induction fs arbitrary: c) (auto split: fetch.split intro: consume_inv)

lemma Start_handled:
  "inv (tables (co_sess c)) \<Longrightarrow> handled (tables (co_sess c)) r \<Longrightarrow>
   handled (tables (co_sess (Start handler fs c))) r"
  by (induction fs arbitrary: c) (auto split: fetch.split intro: consume_inv consume_handled)

text \<open>One message: it is malformed, its failure is logged and it is not committed, or it is handled.\<close>

lemma consume_outcome:
  assumes "inv (tables (co_sess c))"
  shows "\<exists>cs log. co_commits (consume handler m e now c) = co_commits c @ cs \<and>
    co_log (consume handler m e now c) = co_log c @ log \<and> set cs \<subseteq> {m} \<and>
    (\<forall>r. decode_result (km_Value m) = Some r \<longrightarrow>
       handled (tables (co_sess (consume handler m e now c))) r \<or> LogApplyFailed m \<in> set log \<and> cs = [])"
proof (cases "decode_result (km_Value m)")
  case (Some r)
  obtain x s where h: "handler now r (co_sess c) = (x, s)" by force
  show ?thesis
    using Some h success_handled[OF assms, of now r] by (cases x) (simp_all add: consume_def CommitMessages_def)
qed (simp add: consume_def CommitMessages_def)

text \<open>
  A run commits only messages it received, and only malformed or handled ones; whatever it received is
  malformed, handled in the final state, or its failure is logged.
\<close>

lemma Start_outcome:
  assumes "inv (tables (co_sess c))"
  shows "\<exists>cs log. co_commits (Start handler fs c) = co_commits c @ cs \<and> co_log (Start handler fs c) = co_log c @ log \<and>
    set cs \<subseteq> set (received fs) \<and>
    (\<forall>m \<in> set cs. \<forall>r. decode_result (km_Value m) = Some r \<longrightarrow> handled (tables (co_sess (Start handler fs c))) r) \<and>
    (\<forall>m \<in> set (received fs). \<forall>r. decode_result (km_Value m) = Some r \<longrightarrow>
       handled (tables (co_sess (Start handler fs c))) r \<or> LogApplyFailed m \<in> set log)"
  using assms
proof (induction fs arbitrary: c)
  case (Cons f fs)
  show ?case
  proof (cases f)
    case FetchFailed
    have "inv (tables (co_sess (consumer_logs LogFetchFailed c)))" using Cons.prems by simp
    from Cons.IH[OF this] show ?thesis using FetchFailed by force
  next
    case (Fetched m e now)
    let ?c = "consume handler m e now c"
    have i: "inv (tables (co_sess ?c))" by (rule consume_inv[OF Cons.prems])
    obtain cs1 log1 where 1: "co_commits ?c = co_commits c @ cs1" "co_log ?c = co_log c @ log1" "set cs1 \<subseteq> {m}"
      "\<forall>r. decode_result (km_Value m) = Some r \<longrightarrow>
         handled (tables (co_sess ?c)) r \<or> LogApplyFailed m \<in> set log1 \<and> cs1 = []"
      using consume_outcome[OF Cons.prems] by blast
    have later: "handled (tables (co_sess ?c)) r \<Longrightarrow> handled (tables (co_sess (Start handler fs ?c))) r" for r
      by (rule Start_handled[OF i])
    obtain cs2 log2 where 2: "co_commits (Start handler fs ?c) = co_commits ?c @ cs2"
      "co_log (Start handler fs ?c) = co_log ?c @ log2" "set cs2 \<subseteq> set (received fs)"
      "\<forall>m \<in> set cs2. \<forall>r. decode_result (km_Value m) = Some r \<longrightarrow> handled (tables (co_sess (Start handler fs ?c))) r"
      "\<forall>m \<in> set (received fs). \<forall>r. decode_result (km_Value m) = Some r \<longrightarrow>
         handled (tables (co_sess (Start handler fs ?c))) r \<or> LogApplyFailed m \<in> set log2"
      using Cons.IH[OF i] by blast
    have "\<forall>m' \<in> set cs1. \<forall>r. decode_result (km_Value m') = Some r \<longrightarrow>
        handled (tables (co_sess (Start handler fs ?c))) r"
      using 1(3,4) later by fastforce
    then show ?thesis
      using 1 2 later Fetched
      by (intro exI[of _ "cs1 @ cs2"] exI[of _ "log1 @ log2"]) auto
  qed simp
qed simp

end


section \<open>The service keeps the contract\<close>

definition stored :: "db \<Rightarrow> KafkaProcessingResult \<Rightarrow> bool" where
  "stored d r \<longleftrightarrow> result_taken d (kpr_BatchID r) (kpr_RecordIndex r)"

lemma apply_spec_keeps_taken:
  assumes "db_ok d" "result_taken d i n" "apply_spec decoder now r d = (Inr u, d')"
  shows "result_taken d' i n"
proof (cases "result_taken d (kpr_BatchID r) (kpr_RecordIndex r)")
  case True
  then show ?thesis using assms by (simp add: apply_spec_taken)
next
  case False
  obtain row d0 hs where b: "book now row d0 = (Inr (), d')"
    "d0 = d\<lparr>diploma_hashes := diploma_hashes d @ hs\<rparr>"
    by (rule apply_spec_booked[OF assms(3) False])
  have "result_taken d0 i n" using assms(2) b(2) by (simp add: result_taken_def)
  then show ?thesis unfolding book_InrD(1)[OF b(1)] by simp
qed

interpretation processing: result_handler "HandleProcessingResult decoder" db_ok stored for decoder
proof
  fix s now r r'
  let ?run = "HandleProcessingResult decoder now r s"
  assume ok: "db_ok (tables s)"
  then show "db_ok (tables (snd ?run))"
    unfolding HandleProcessingResult_def by (rule preservesD[OF preserves_Apply])
  obtain x s' where a: "ApplyProcessingResult decoder now r s = (x, s')" by force
  show "stored (tables (snd ?run)) r" if "fst ?run = Inr ()"
    using ok a
    by (cases rule: apply_cases)
       (use a that in \<open>auto simp: HandleProcessingResult_def stored_def dest: apply_spec_Inr_taken\<close>)
  show "stored (tables (snd ?run)) r'" if "stored (tables s) r'"
    using ok a
    by (cases rule: apply_cases)
       (use ok a that in \<open>auto simp: HandleProcessingResult_def stored_def intro: apply_spec_keeps_taken\<close>)
qed

end
