(* ===== verification/Gateway.thy ===== *)
theory Gateway
  imports Kafka
begin

text \<open>
  The gateway as a transition system.  A call is one of the operations that change its state, with
  everything the environment decides: identifiers, times, random bytes, what the brokers take.  A
  run starts from the empty database and the empty topic; every database call of a step may fail as
  its fault schedule says.
\<close>

section \<open>Calls\<close>

text \<open>What is fixed when the process starts: libraries, keys, the student service.\<close>

record env =
  e_hasher :: password_hasher
  e_share :: "ShareClaims jwt_lib"
  e_service :: student_service
  e_qr :: qr_generator
  e_lower :: "string \<Rightarrow> string"
  e_decoder :: "qr_decoder option"
  e_cipher :: "payload_cipher option"
  e_pem :: ed25519_pem
  e_encryptor :: payload_cipher

datatype call =
    BootstrapAdmin "bytes option" string time string string
  | SeedUniversity string time RegisterUniversityRequest string string
  | RegisterCall "bytes option" string time RegisterUniversityRequest
  | Approve string
  | SetStatus string string
  | Delete string
  | NewAPIKey "bytes option" string time string "string option"
  | PutSigningKey "bytes option" time string string
  | UploadCall "nat \<Rightarrow> bytes option" string time string write_outcome time string "DiplomaUploadRecord list"
  | RevokeCall time string string
  | ResultCall time KafkaProcessingResult
  | Share string time string duration
  | ShareQR string time string string duration
  | OpenShare time string

record system =
  sys_db :: db
  sys_topic :: "message list"

text \<open>The calls that only use the database, and the session they leave.\<close>

definition after :: "'a dbm \<Rightarrow> sess \<Rightarrow> sess" where
  "after m s = snd (m s)"

definition exec :: "env \<Rightarrow> call \<Rightarrow> sess \<times> message list \<Rightarrow> sess \<times> message list" where
  "exec e c world = (case world of (s, topic) \<Rightarrow> (case c of
     BootstrapAdmin salt i now email password \<Rightarrow>
       (after (EnsureBootstrapAdmin (e_hasher e) salt i now email password) s, topic)
   | SeedUniversity i now r hash status \<Rightarrow> (after (University_UpsertDemo i now r hash status) s, topic)
   | RegisterCall salt i now r \<Rightarrow> (after (Register (e_hasher e) salt i now r) s, topic)
   | Approve i \<Rightarrow> (after (ApproveUniversity i) s, topic)
   | SetStatus i status \<Rightarrow> (after (UpdateUniversityStatus i status) s, topic)
   | Delete i \<Rightarrow> (after (DeleteUniversity i) s, topic)
   | NewAPIKey source i now v name \<Rightarrow> (after (CreateAPIKey source i now v name) s, topic)
   | PutSigningKey source now v pem \<Rightarrow>
       (after (SigningKeyService_Upsert (e_pem e) (e_encryptor e) source now v pem) s, topic)
   | UploadCall nonces i now stamp w later v records \<Rightarrow>
       snd (Upload (e_cipher e) nonces i now stamp w later v records (s, topic))
   | RevokeCall now v hash \<Rightarrow> (after (Revoke now v hash) s, topic)
   | ResultCall now result \<Rightarrow> (after (HandleProcessingResult (e_decoder e) now result) s, topic)
   | Share i now hash ttl \<Rightarrow>
       (after (Student_CreateShareLink (e_decoder e) (e_share e) (e_service e) i now hash ttl) s, topic)
   | ShareQR i now hash format ttl \<Rightarrow>
       (after (RenderShareQR (e_decoder e) (e_share e) (e_service e) (e_qr e) (e_lower e) i now hash format ttl) s,
        topic)
   | OpenShare now token \<Rightarrow>
       (after (ResolveShareLink (e_decoder e) (e_share e) (e_service e) now token) s, topic)))"

inductive gateway_step :: "env \<Rightarrow> system \<Rightarrow> call \<Rightarrow> system \<Rightarrow> bool" where
  gateway_step: "exec e c (\<lparr>tables = sys_db x, faults = fs\<rparr>, sys_topic x) = (s, topic) \<Longrightarrow>
    gateway_step e x c \<lparr>sys_db = tables s, sys_topic = topic\<rparr>"

inductive gateway_run :: "env \<Rightarrow> system \<Rightarrow> call list \<Rightarrow> system \<Rightarrow> bool" where
  run_none: "gateway_run e x [] x"
| run_more: "gateway_step e x c y \<Longrightarrow> gateway_run e y cs z \<Longrightarrow> gateway_run e x (c # cs) z"

definition init_system :: system where
  "init_system = \<lparr>sys_db = empty_db, sys_topic = []\<rparr>"

inductive_cases gateway_stepE: "gateway_step e x c y"
inductive_cases gateway_runE: "gateway_run e x (c # cs) z"
inductive_simps gateway_run_Nil [simp]: "gateway_run e x [] z"
inductive_simps gateway_run_Cons: "gateway_run e x (c # cs) z"

section \<open>Assertions the repositories keep\<close>

text \<open>
  An assertion about the tables that every operation of the repositories keeps, the deletion of
  some universities excepted.  The services build on these operations alone, so that every call
  keeps it too.
\<close>

locale repository_invariant =
  fixes inv :: "db \<Rightarrow> bool" and deletable :: "string \<Rightarrow> bool"
  assumes keep_create: "preserves inv (University_Create i now r h)"
    and keep_demo: "preserves inv (University_UpsertDemo i now r h status)"
    and keep_status: "preserves inv (University_UpdateStatus i status)"
    and keep_public_key: "preserves inv (University_UpdatePublicKey i k)"
    and keep_delete: "deletable i \<Longrightarrow> preserves inv (University_DeleteCascade i)"
    and keep_admin: "preserves inv (Admin_UpsertBootstrap i now email h)"
    and keep_api_key: "preserves inv (APIKey_Create i now v name h)"
    and keep_signing_key: "preserves inv (SigningKey_Upsert now v x ka ea f)"
    and keep_batch: "preserves inv (CreateBatchWithRecords cipher nonces i now v rs)"
    and keep_fail: "preserves inv (FailBatch now i)"
    and keep_apply: "preserves inv (ApplyProcessingResult decoder now result)"
    and keep_revoke: "preserves inv (MarkDiplomaRevoked now v hash)"
    and keep_share: "preserves inv (CreateShareLink i now hash token expires)"
    and keep_use: "preserves inv (IncrementShareLinkUsage token)"
begin

lemma keep_give: "preserves inv (give r)"
  by (auto simp: give_def intro: preserves_ret preserves_fail split: sum.split)

lemma keep_services:
  "preserves inv (EnsureBootstrapAdmin hasher salt i now email password)"
  "preserves inv (Register hasher salt i now r)"
  "preserves inv (ApproveUniversity i)"
  "preserves inv (UpdateUniversityStatus i status)"
  "preserves inv (CreateAPIKey source i now v name)"
  by (auto simp: EnsureBootstrapAdmin_def Register_def ApproveUniversity_def University_Activate_def
      UpdateUniversityStatus_def CreateAPIKey_def split: sum.split
      intro!: preserves_ret preserves_fail preserves_attempt preserves_and_then
        keep_admin keep_create keep_status keep_api_key)

lemma keep_match_public_key: "preserves inv (match_public_key lib v u k pem)"
  by (auto simp: match_public_key_def split: option.split sum.split
      intro!: preserves_ret preserves_fail keep_public_key)

lemma keep_signing: "preserves inv (SigningKeyService_Upsert lib enc source now v pem)"
  by (auto simp: SigningKeyService_Upsert_def Let_def split: sum.split
      intro!: preserves_ret preserves_fail preserves_and_then preserves_account_reads keep_match_public_key
        keep_give keep_signing_key)

lemma keep_link: "preserves inv (Student_CreateShareLink decoder lib s i now hash ttl)"
  by (auto simp: Student_CreateShareLink_def Let_def split: sum.split prod.split
      intro!: preserves_ret preserves_fail preserves_attempt preserves_and_then preserves_diploma_reads
        keep_give keep_share)

lemma keep_students:
  "preserves inv (RenderShareQR decoder lib s qr lower i now hash format ttl)"
  "preserves inv (ResolveShareLink decoder lib s now token)"
  by (auto simp: RenderShareQR_def ResolveShareLink_def split: sum.split
      intro!: preserves_ret preserves_fail preserves_attempt preserves_and_then preserves_diploma_reads
        keep_link keep_give keep_use)

lemma keep_Upload:
  assumes "inv (tables s)"
  shows "inv (tables (fst (snd (Upload cipher nonces i now stamp w later v rs (s, topic)))))"
proof -
  obtain r s1 where b: "CreateBatchWithRecords cipher nonces i now v rs s = (r, s1)" by force
  have s1: "inv (tables s1)" using preservesD[OF keep_batch assms, of cipher nonces i now v rs] b by simp
  then have "inv (tables (snd (FailBatch later j s1)))" for j by (rule preservesD[OF keep_fail])
  then show ?thesis using b s1 by (auto simp: Upload_def split: sum.split prod.split)
qed

lemma exec_keeps:
  assumes "inv (tables s)" "\<And>i. c = Delete i \<Longrightarrow> deletable i"
  shows "inv (tables (fst (exec e c (s, topic))))"
  using assms
  by (cases c)
     (auto simp: exec_def after_def DeleteUniversity_def Revoke_def HandleProcessingResult_def
       intro: keep_services[THEN preservesD] keep_signing[THEN preservesD] keep_students[THEN preservesD]
         keep_link[THEN preservesD] keep_Upload keep_demo[THEN preservesD] keep_delete[THEN preservesD]
         keep_revoke[THEN preservesD] keep_apply[THEN preservesD])

lemma step_keeps:
  assumes "gateway_step e x c y" "inv (sys_db x)" "\<And>i. c = Delete i \<Longrightarrow> deletable i"
  shows "inv (sys_db y)"
proof -
  obtain fs s topic where "exec e c (\<lparr>tables = sys_db x, faults = fs\<rparr>, sys_topic x) = (s, topic)"
    "y = \<lparr>sys_db = tables s, sys_topic = topic\<rparr>"
    using assms(1) by (auto elim: gateway_stepE)
  then show ?thesis
    using exec_keeps[of "\<lparr>tables = sys_db x, faults = fs\<rparr>" c e "sys_topic x"] assms(2,3) by simp
qed

lemma run_keeps:
  assumes "gateway_run e x cs y" "inv (sys_db x)" "\<And>i. Delete i \<in> set cs \<Longrightarrow> deletable i"
  shows "inv (sys_db y)"
  using assms by (induction rule: gateway_run.induct) (auto intro: step_keeps)

end

section \<open>The invariant of the registry\<close>

interpretation registry: repository_invariant db_ok "\<lambda>_. True"
  by unfold_locales (rule inv_intros)+

text \<open>Every state a run reaches satisfies it.\<close>

lemma reachable_ok:
  assumes "gateway_run e init_system cs x"
  shows "db_ok (sys_db x)"
  using assms by (rule registry.run_keeps) (simp_all add: init_system_def db_ok_empty)

section \<open>Revocation is for good\<close>

text \<open>The diploma with hash \<open>h\<close> of university \<open>v\<close> is registered and revoked.\<close>

definition revoked :: "string \<Rightarrow> string \<Rightarrow> db \<Rightarrow> bool" where
  "revoked h v d \<longleftrightarrow> (\<exists>row \<in> set (diploma_hashes d). hr_hash row = h \<and> hr_vuz_id row = v \<and>
     hr_status row = DiplomaStatusRevoked \<and> hr_revoked_at row \<noteq> None)"

lemma revoked_same: "diploma_hashes d' = diploma_hashes d \<Longrightarrow> revoked h v d \<Longrightarrow> revoked h v d'"
  by (simp add: revoked_def)

lemma revoked_stmt:
  "(\<And>d. diploma_hashes (snd (q d)) = diploma_hashes d) \<Longrightarrow> preserves (revoked h v) (run_stmt q)"
  by (rule preserves_run_stmt) (rule revoked_same)

lemma revoked_insert_hash: "preserves (revoked h v) (run_stmt (insert_hash now hash w number))"
  by (rule preserves_run_stmt) (auto simp: insert_hash_def revoked_def)

lemma revoked_book: "preserves (revoked h v) (book_row now row)"
  by (auto simp: book_row_def count_and_finalize_def incrementBatchProcessedTx_def
      finalizeBatchIfCompleteTx_def Let_def insert_result_def select_progress_def update_batch_def
      split: prod.split intro!: preserves_and_then preserves_ret revoked_stmt)

lemma revoked_apply: "preserves (revoked h v) (ApplyProcessingResult decoder now result)"
  unfolding ApplyProcessingResult_def
proof (rule preserves_with_tx_body)
  show "preserves (revoked h v) (apply_body decoder now result)"
    unfolding apply_body_def Let_def record_error_book record_ok_book
    by (auto simp: select_result_status_def select_hash_def split: sum.split option.split
        intro!: preserves_attempt preserves_and_then preserves_ret preserves_fail revoked_book
          revoked_insert_hash revoked_stmt)
qed rule

lemma revoked_create_batch: "preserves (revoked h v) (CreateBatchWithRecords cipher nonces i now w rs)"
  unfolding CreateBatchWithRecords_def
proof (rule preserves_with_tx_body)
  have p: "preserves (revoked h v) (insert_payloads cipher nonces b n rs)" for b n
    by (induction rs arbitrary: n)
       (auto simp: insert_payload_def split: sum.split
         intro!: preserves_and_then preserves_ret preserves_fail revoked_stmt)
  show "preserves (revoked h v) (create_batch_body cipher nonces i now w rs)"
    unfolding create_batch_body_def
    by (intro preserves_and_then revoked_stmt p preserves_ret) (simp add: insert_batch_def)
qed rule

lemma revoked_without: "w \<noteq> v \<Longrightarrow> revoked h v d \<Longrightarrow> revoked h v (without_university w d)"
  by (auto simp: revoked_def without_university_def)

lemma revoked_delete: "w \<noteq> v \<Longrightarrow> preserves (revoked h v) (University_DeleteCascade w)"
  unfolding University_DeleteCascade_def
  by (rule preserves_with_tx[OF transparent_delete_cascade])
     (simp add: tx_effect_def pure_delete_cascade revoked_without)

lemma revoked_demo: "preserves (revoked h v) (University_UpsertDemo i now r p status)"
  unfolding University_UpsertDemo_def
proof (rule preserves_with_tx_body)
  show "preserves (revoked h v) (upsert_demo_body i now r p status)"
    unfolding upsert_demo_body_def
    by (auto simp: select_demo_def insert_university_def update_demo_def Let_def split: sum.split
        intro!: preserves_attempt preserves_fail revoked_stmt)
qed rule

lemma revoked_revoke: "preserves (revoked h v) (MarkDiplomaRevoked now w hash)"
  unfolding MarkDiplomaRevoked_def
proof (rule preserves_run_stmt, unfold snd_conv)
  fix d assume "revoked h v d"
  then obtain row where r: "row \<in> set (diploma_hashes d)" "hr_hash row = h" "hr_vuz_id row = v"
    "hr_status row = DiplomaStatusRevoked" "hr_revoked_at row \<noteq> None" by (auto simp: revoked_def)
  let ?f = "\<lambda>h. if hr_hash h = hash \<and> hr_vuz_id h = w
      then h\<lparr>hr_status := DiplomaStatusRevoked, hr_revoked_at := Some now\<rparr> else h"
  have "?f row \<in> set (map ?f (diploma_hashes d))" using r(1) by simp
  moreover have "hr_hash (?f row) = h" "hr_vuz_id (?f row) = v" "hr_status (?f row) = DiplomaStatusRevoked"
    "hr_revoked_at (?f row) \<noteq> None" using r by simp_all
  ultimately show "revoked h v (d\<lparr>diploma_hashes := map ?f (diploma_hashes d)\<rparr>)"
    by (auto simp: revoked_def simp del: set_map)
qed

lemma revoked_statements:
  "preserves (revoked h v) (University_Create i now r p)"
  "preserves (revoked h v) (University_UpdateStatus i status)"
  "preserves (revoked h v) (University_UpdatePublicKey i k)"
  "preserves (revoked h v) (Admin_UpsertBootstrap i now email p)"
  "preserves (revoked h v) (APIKey_Create i now w name p)"
  "preserves (revoked h v) (SigningKey_Upsert now w x ka ea f)"
  "preserves (revoked h v) (FailBatch now i)"
  "preserves (revoked h v) (CreateShareLink i now hash token expires)"
  "preserves (revoked h v) (IncrementShareLinkUsage token)"
  by (auto simp: University_Create_def University_UpdateStatus_def University_UpdatePublicKey_def
      Admin_UpsertBootstrap_def APIKey_Create_def SigningKey_Upsert_def FailBatch_def update_batch_def
      CreateShareLink_def IncrementShareLinkUsage_def insert_university_def Let_def
      split: option.split intro!: revoked_stmt)

interpretation revocation: repository_invariant "revoked h v" "\<lambda>i. i \<noteq> v" for h v
  by unfold_locales
     (rule revoked_statements revoked_demo revoked_create_batch revoked_apply revoked_revoke
       | erule revoked_delete)+

end
