(* ===== verification/KafkaProps.thy ===== *)
theory KafkaProps
  imports Kafka
begin

text \<open>
  Properties of the upload path and of the consumer: what an accepted upload leaves behind, what a
  committed offset guarantees and what it does not.
\<close>

section \<open>Creating a batch\<close>

text \<open>The payload rows of an upload: one per record, in order, each an encryption of its record.\<close>

definition uploaded_payloads ::
  "payload_cipher option \<Rightarrow> (nat \<Rightarrow> bytes option) \<Rightarrow> string \<Rightarrow> nat \<Rightarrow> DiplomaUploadRecord list \<Rightarrow> payload_row list \<Rightarrow> bool" where
  "uploaded_payloads cipher nonces i n records ps \<longleftrightarrow> length ps = length records \<and>
     (\<forall>k < length records. pr_batch_id (ps ! k) = i \<and> pr_index (ps ! k) = int (n + k) \<and>
        encodeBatchRecordPayload cipher (nonces (n + k)) (records ! k) = Inr (pr_payload (ps ! k)))"

lemma uploaded_payloads_Cons:
  "encodeBatchRecordPayload cipher (nonces n) r = Inr v \<Longrightarrow>
   uploaded_payloads cipher nonces i (Suc n) rs ps \<Longrightarrow>
   uploaded_payloads cipher nonces i n (r # rs) (\<lparr>pr_batch_id = i, pr_index = int n, pr_payload = v\<rparr> # ps)"
  by (auto simp: uploaded_payloads_def nth_Cons split: nat.split)

lemma pure_insert_payloads:
  assumes "pure (insert_payloads cipher nonces i n rs) d = (Inr u, d')"
  shows "\<exists>ps. uploaded_payloads cipher nonces i n rs ps \<and>
    d' = d\<lparr>batch_record_payloads := batch_record_payloads d @ ps\<rparr>"
  using assms
proof (induction rs arbitrary: n d)
  case Nil
  then show ?case by (auto simp: uploaded_payloads_def)
next
  case (Cons r rs)
  obtain v where v: "encodeBatchRecordPayload cipher (nonces n) r = Inr v"
    using Cons.prems by (auto split: sum.splits)
  let ?p = "\<lparr>pr_batch_id = i, pr_index = int n, pr_payload = v\<rparr>"
  let ?d = "d\<lparr>batch_record_payloads := batch_record_payloads d @ [?p]\<rparr>"
  have "pure (insert_payloads cipher nonces i (Suc n) rs) ?d = (Inr u, d')"
    using Cons.prems v
    by (auto simp: pure_and_then fault_transparent insert_payload_def split: if_splits)
  from Cons.IH[OF this] obtain ps where p: "uploaded_payloads cipher nonces i (Suc n) rs ps"
    "d' = ?d\<lparr>batch_record_payloads := batch_record_payloads ?d @ ps\<rparr>" by blast
  show ?case
    by (rule exI[of _ "?p # ps"]) (use p uploaded_payloads_Cons[OF v p(1)] in simp)
qed

definition new_batch_row :: "string \<Rightarrow> time \<Rightarrow> string \<Rightarrow> nat \<Rightarrow> batch_row" where
  "new_batch_row i now v n = \<lparr>br_id = i, br_vuz_id = v, br_status = BatchStatusProcessing, br_total = n,
     br_processed = 0, br_created_at = now, br_completed_at = None\<rparr>"

lemma create_batch_pure:
  assumes "pure (create_batch_body cipher nonces i now v rs) d = (Inr b, d')"
  obtains ps where "uploaded_payloads cipher nonces i 0 rs ps" "b_ID b = i" "b_Status b = BatchStatusProcessing"
    "d' = d\<lparr>batches := batches d @ [new_batch_row i now v (length rs)],
       batch_record_payloads := batch_record_payloads d @ ps\<rparr>"
    "\<not> has_batch d i" "has_university d v"
proof -
  have q: "\<not> has_batch d i" "has_university d v" "b_ID b = i" "b_Status b = BatchStatusProcessing"
      "\<exists>u. pure (insert_payloads cipher nonces i 0 rs)
        (d\<lparr>batches := batches d @ [new_batch_row i now v (length rs)]\<rparr>) = (Inr u, d')"
    using assms
    by (auto simp: create_batch_body_def pure_and_then fault_transparent insert_batch_def new_batch_row_def
        split: if_splits sum.splits prod.splits)
  then obtain u where "pure (insert_payloads cipher nonces i 0 rs)
      (d\<lparr>batches := batches d @ [new_batch_row i now v (length rs)]\<rparr>) = (Inr u, d')"
    by blast
  from pure_insert_payloads[OF this] q that show thesis by auto
qed

lemma CreateBatch_Inr:
  assumes "CreateBatchWithRecords cipher nonces i now v rs s = (Inr b, t)"
  obtains ps where "uploaded_payloads cipher nonces i 0 rs ps" "b_ID b = i" "b_Status b = BatchStatusProcessing"
    "tables t = tables s\<lparr>batches := batches (tables s) @ [new_batch_row i now v (length rs)],
       batch_record_payloads := batch_record_payloads (tables s) @ ps\<rparr>"
    "\<not> has_batch (tables s) i" "has_university (tables s) v"
proof -
  have "pure (create_batch_body cipher nonces i now v rs) (tables s) = (Inr b, tables t)"
    using assms unfolding CreateBatchWithRecords_def
    by (cases rule: with_tx_cases[OF transparent_create_batch_body]) auto
  then show thesis by (rule create_batch_pure) (rule that)
qed

section \<open>Publishing\<close>

lemma zip_True: "map snd (filter fst (zip (replicate (length xs) True) xs)) = xs"
  by (induction xs) auto

lemma PublishRawTasks_Inr:
  assumes "writer_ok w (length tasks)" "PublishRawTasks w tasks topic = (Inr u, topic')"
  shows "topic' = topic @ map (\<lambda>t. (krt_BatchID t, json_print (raw_task_json t))) tasks"
  using assms zip_True[of "map (\<lambda>t. (krt_BatchID t, json_print (raw_task_json t))) tasks"]
  by (auto simp: PublishRawTasks_def write_messages_def writer_ok_def split: option.splits)

lemma length_raw_tasks [simp]: "length (raw_tasks i v now rs) = length rs"
  by (simp add: raw_tasks_def)

lemma nth_raw_tasks: "k < length rs \<Longrightarrow> raw_tasks i v now rs ! k = raw_task i v now (length rs) k (rs ! k)"
  by (simp add: raw_tasks_def)

section \<open>A sample upload\<close>

text \<open>A cipher that seals nothing, and one uploaded record.\<close>

definition plain_cipher :: payload_cipher where
  "plain_cipher = \<lparr>cipher_Seal = (\<lambda>_ p. Inr p), cipher_Open = Inr\<rparr>"

definition sample_record :: DiplomaUploadRecord where
  "sample_record = \<lparr>dur_FullName = ''Ann Lee'', dur_DiplomaNumber = ''n0'', dur_Specialty = ''Maths'',
     dur_Degree = ''BSc'', dur_Faculty = ''Science'', dur_Year = 2024, dur_RawCSVRow = ''''\<rparr>"

lemma sample_create:
  "\<exists>b t. CreateBatchWithRecords (Some plain_cipher) (\<lambda>_. None) ''b2'' 3 ''u1'' [sample_record]
     \<lparr>tables = sample_db, faults = []\<rparr> = (Inr b, t) \<and> faults t = [] \<and> b_ID b = ''b2''"
  by (simp add: CreateBatchWithRecords_def with_tx_def create_batch_body_def and_then_def insert_batch_def
      insert_payload_def encodeBatchRecordPayload_def plain_cipher_def ret_def has_batch_def
      has_university_def sample_db_def sample_batch_def sample_university_def empty_db_def Let_def)

section \<open>Properties of an upload\<close>

text \<open>
  C10: an accepted upload.  If \<open>Upload\<close> answers with a batch identifier and the writer reports no
  message it did not deliver, then the database has gained exactly one batch in state processing
  that counts all records and, for the k-th record, an encryption of it under index k; and the topic
  has gained exactly one task per record, in order, keyed by the batch.  Nothing else has changed.
\<close>

theorem upload_accepted:
  assumes "Upload cipher nonces i now stamp w later v records (s, topic) = (Inr resp, s', topic')"
    "writer_ok w (length records)"
  shows "\<exists>ps tasks. bur_BatchID resp = i \<and> bur_Status resp = BatchStatusProcessing \<and>
    uploaded_payloads cipher nonces i 0 records ps \<and>
    tables s' = tables s\<lparr>batches := batches (tables s) @ [new_batch_row i now v (length records)],
      batch_record_payloads := batch_record_payloads (tables s) @ ps\<rparr> \<and>
    topic' = topic @ map (\<lambda>t. (i, json_print (raw_task_json t))) tasks \<and> length tasks = length records \<and>
    (\<forall>k < length records. tasks ! k = raw_task i v stamp (length records) k (records ! k))"
proof -
  obtain b s1 where c: "CreateBatchWithRecords cipher nonces i now v records s = (Inr b, s1)"
    using assms(1) by (auto simp: Upload_def split: sum.splits prod.splits)
  from CreateBatch_Inr[OF c] obtain ps where p: "uploaded_payloads cipher nonces i 0 records ps" "b_ID b = i"
    "b_Status b = BatchStatusProcessing"
    "tables s1 = tables s\<lparr>batches := batches (tables s) @ [new_batch_row i now v (length records)],
       batch_record_payloads := batch_record_payloads (tables s) @ ps\<rparr>" by blast
  let ?tasks = "raw_tasks i v stamp records"
  have u: "PublishRawTasks w ?tasks topic = (Inr (), topic')" "s' = s1"
      "resp = \<lparr>bur_BatchID = i, bur_Status = BatchStatusProcessing\<rparr>"
    using assms(1) c p(2,3) by (auto simp: Upload_def split: sum.splits prod.splits)
  have "krt_BatchID t = i" if "t \<in> set ?tasks" for t
    using that by (auto simp: in_set_conv_nth nth_raw_tasks raw_task_def)
  then have "map (\<lambda>t. (krt_BatchID t, json_print (raw_task_json t))) ?tasks =
      map (\<lambda>t. (i, json_print (raw_task_json t))) ?tasks" by simp
  then have "topic' = topic @ map (\<lambda>t. (i, json_print (raw_task_json t))) ?tasks"
    using PublishRawTasks_Inr[OF _ u(1)] assms(2) by simp
  then show ?thesis using p u by (intro exI[of _ ps] exI[of _ ?tasks]) (simp add: nth_raw_tasks)
qed

lemma upload_accepted_witness:
  "\<exists>s' m. Upload (Some plain_cipher) (\<lambda>_. None) ''b2'' 3 ''now'' \<lparr>wo_delivered = [True], wo_error = None\<rparr> 4
       ''u1'' [sample_record] (\<lparr>tables = sample_db, faults = []\<rparr>, []) =
     (Inr \<lparr>bur_BatchID = ''b2'', bur_Status = BatchStatusProcessing\<rparr>, s', [(''b2'', m)]) \<and>
     length (batches (tables s')) = 2 \<and> length (batch_record_payloads (tables s')) = 1"
proof -
  let ?w = "\<lparr>wo_delivered = [True], wo_error = None\<rparr>"
  let ?s = "\<lparr>tables = sample_db, faults = []\<rparr>"
  obtain resp s' topic' where u: "Upload (Some plain_cipher) (\<lambda>_. None) ''b2'' 3 ''now'' ?w 4 ''u1''
      [sample_record] (?s, []) = (Inr resp, s', topic')"
    using sample_create
    by (auto simp: Upload_def PublishRawTasks_def write_messages_def split: sum.splits prod.splits)
  have "writer_ok ?w (length [sample_record])" by (simp add: writer_ok_def)
  from upload_accepted[OF u this] obtain ps tasks where
    p: "bur_BatchID resp = ''b2''" "bur_Status resp = BatchStatusProcessing"
    "uploaded_payloads (Some plain_cipher) (\<lambda>_. None) ''b2'' 0 [sample_record] ps"
    "tables s' = sample_db\<lparr>batches := batches sample_db @ [new_batch_row ''b2'' 3 ''u1'' 1],
      batch_record_payloads := batch_record_payloads sample_db @ ps\<rparr>"
    "topic' = map (\<lambda>t. (''b2'', json_print (raw_task_json t))) tasks" "length tasks = 1"
    by auto
  have "resp = \<lparr>bur_BatchID = ''b2'', bur_Status = BatchStatusProcessing\<rparr>"
    using p(1,2) by (cases resp) simp
  moreover have "length ps = 1" using p(3) by (simp add: uploaded_payloads_def)
  moreover obtain t0 where "tasks = [t0]" using p(6) by (auto simp: length_Suc_conv)
  ultimately show ?thesis using u p by (auto simp: sample_db_def empty_db_def)
qed

text \<open>The tables with a new batch and its payloads.\<close>

definition with_batch :: "batch_row \<Rightarrow> payload_row list \<Rightarrow> db \<Rightarrow> db" where
  "with_batch row ps d = d\<lparr>batches := batches d @ [row], batch_record_payloads := batch_record_payloads d @ ps\<rparr>"

lemma CreateBatch_Inl:
  assumes "CreateBatchWithRecords cipher nonces i now v rs s = (Inl e, t)"
  shows "tables t = tables s \<or> (\<exists>ps. uploaded_payloads cipher nonces i 0 rs ps \<and>
    tables t = with_batch (new_batch_row i now v (length rs)) ps (tables s))"
  using transparent_create_batch_body assms[unfolded CreateBatchWithRecords_def]
proof (cases rule: with_tx_cases)
  case (2 b)
  from 2(1) show ?thesis by (rule create_batch_pure) (auto simp: with_batch_def)
qed simp

lemma FailBatch_new:
  assumes "tables s1 = with_batch (new_batch_row i now v n) ps d" "\<not> has_batch d i"
  shows "tables (snd (FailBatch later i s1)) =
      with_batch ((new_batch_row i now v n)\<lparr>br_status := BatchStatusFailed, br_completed_at := Some later\<rparr>) ps d \<or>
    (\<exists>e. fst (FailBatch later i s1) = Inl e) \<and> tables (snd (FailBatch later i s1)) = tables s1"
proof -
  let ?f = "\<lambda>b. b\<lparr>br_status := BatchStatusFailed, br_completed_at := Some later\<rparr>"
  let ?q = "\<lambda>d. (Inr () :: unit res, update_batch i ?f d)"
  have "map (\<lambda>b. if br_id b = i then ?f b else b) (batches d) = batches d"
    using assms(2) by (intro map_idI) (auto simp: has_batch_def)
  then have "update_batch i ?f (tables s1) = with_batch (?f (new_batch_row i now v n)) ps d"
    unfolding assms(1) by (simp add: update_batch_def with_batch_def new_batch_row_def)
  then show ?thesis unfolding FailBatch_def by (cases rule: run_stmt_cases[of ?q s1]) auto
qed

text \<open>
  C20: a failing upload, all three ways.  An upload that reports an error failed while the batch was
  created: nothing was published, and the tables are as before or, when the commit broke after it took
  effect, hold the new batch.  Or the batch was created and publishing failed: some of the tasks may
  have been taken, and the new batch is marked failed by the compensating update; it is left
  processing only if that update reported an error too, which the service ignores.
\<close>

theorem upload_failed:
  assumes "Upload cipher nonces i now stamp w later v records (s, topic) = (Inl e, s', topic')"
  shows "let row = new_batch_row i now v (length records);
      failed = row\<lparr>br_status := BatchStatusFailed, br_completed_at := Some later\<rparr>;
      messages = map (\<lambda>t. (i, json_print (raw_task_json t))) (raw_tasks i v stamp records)
    in (fst (CreateBatchWithRecords cipher nonces i now v records s) = Inl e \<and> topic' = topic \<and>
         (tables s' = tables s \<or>
          (\<exists>ps. uploaded_payloads cipher nonces i 0 records ps \<and> tables s' = with_batch row ps (tables s)))) \<or>
       (\<exists>b s1 ps. CreateBatchWithRecords cipher nonces i now v records s = (Inr b, s1) \<and>
         uploaded_payloads cipher nonces i 0 records ps \<and> wo_error w = Some e \<and>
         topic' = topic @ map snd (filter fst (zip (wo_delivered w) messages)) \<and>
         (tables s' = with_batch failed ps (tables s) \<or>
          (\<exists>e'. fst (FailBatch later i s1) = Inl e') \<and> tables s' = with_batch row ps (tables s)))"
proof -
  obtain r s1 where c: "CreateBatchWithRecords cipher nonces i now v records s = (r, s1)" by force
  show ?thesis
  proof (cases r)
    case (Inl e')
    then have "e' = e" "s' = s1" "topic' = topic" using assms c by (auto simp: Upload_def)
    then show ?thesis unfolding Let_def using CreateBatch_Inl[OF c[unfolded Inl]] c Inl by simp
  next
    case (Inr b)
    obtain ps where p: "uploaded_payloads cipher nonces i 0 records ps" "b_ID b = i"
      "tables s1 = with_batch (new_batch_row i now v (length records)) ps (tables s)" "\<not> has_batch (tables s) i"
      using CreateBatch_Inr[OF c[unfolded Inr]] unfolding with_batch_def by metis
    have ids: "map (\<lambda>t. (krt_BatchID t, json_print (raw_task_json t))) (raw_tasks i v stamp records) =
        map (\<lambda>t. (i, json_print (raw_task_json t))) (raw_tasks i v stamp records)"
      by (rule map_cong[OF refl]) (auto simp: in_set_conv_nth nth_raw_tasks raw_task_def)
    have f: "wo_error w = Some e" "s' = snd (FailBatch later i s1)"
      "topic' = topic @ map snd (filter fst (zip (wo_delivered w)
         (map (\<lambda>t. (i, json_print (raw_task_json t))) (raw_tasks i v stamp records))))"
      using assms c Inr p(2) ids
      by (auto simp: Upload_def PublishRawTasks_def write_messages_def split: option.splits)
    show ?thesis
      unfolding Let_def using FailBatch_new[OF p(3,4), of later] p(1,3) c Inr f
      by (intro disjI2 exI[of _ b] exI[of _ s1] exI[of _ ps]) simp
  qed
qed

lemma upload_failed_witness:
  "\<exists>s' topic'. Upload (Some plain_cipher) (\<lambda>_. None) ''b2'' 3 ''now''
       \<lparr>wo_delivered = [True], wo_error = Some (ErrText ''broker'')\<rparr> 4
       ''u1'' [sample_record] (\<lparr>tables = sample_db, faults = []\<rparr>, []) = (Inl (ErrText ''broker''), s', topic') \<and>
     (\<exists>row \<in> set (batches (tables s')). br_id row = ''b2'' \<and> br_status row = BatchStatusFailed)"
proof -
  let ?w = "\<lparr>wo_delivered = [True], wo_error = Some (ErrText ''broker'')\<rparr>"
  let ?s = "\<lparr>tables = sample_db, faults = []\<rparr>"
  obtain b t where c: "CreateBatchWithRecords (Some plain_cipher) (\<lambda>_. None) ''b2'' 3 ''u1'' [sample_record]
      ?s = (Inr b, t)" "faults t = []" "b_ID b = ''b2''"
    using sample_create by blast
  obtain s' topic' where u: "Upload (Some plain_cipher) (\<lambda>_. None) ''b2'' 3 ''now'' ?w 4 ''u1''
      [sample_record] (?s, []) = (Inl (ErrText ''broker''), s', topic')"
    using c by (auto simp: Upload_def PublishRawTasks_def write_messages_def)
  have "fst (FailBatch 4 ''b2'' t) = Inr ()" using c(2) by (simp add: FailBatch_def run_stmt_def)
  then show ?thesis using upload_failed[OF u] c u by (auto simp: with_batch_def new_batch_row_def)
qed

section \<open>The consumer\<close>

text \<open>
  C9: what a run of the consumer settles.  In any run from a consistent database, over any partitions,
  with messages fetched again and whatever fails on the way: the consumer asks for the commit of
  messages it received only, and each of them is malformed or stored in the tables the run ends with;
  and every message it received is malformed, stored, or its failure is in the log.  So the only
  results a group offset can skip, since it covers all earlier messages of its partition, are those
  whose handling failed.
\<close>

theorem consumer_commits_only_stored:
  assumes "db_ok (tables (co_sess c))" "Start (HandleProcessingResult decoder) fs c = c'"
  shows "\<exists>cs log. co_commits c' = co_commits c @ cs \<and> co_log c' = co_log c @ log \<and> set cs \<subseteq> set (received fs) \<and>
    (\<forall>m \<in> set cs. \<forall>r. decode_result (km_Value m) = Some r \<longrightarrow> stored (tables (co_sess c')) r) \<and>
    (\<forall>m \<in> set (received fs). \<forall>r. decode_result (km_Value m) = Some r \<longrightarrow>
       stored (tables (co_sess c')) r \<or> LogApplyFailed m \<in> set log) \<and>
    (\<forall>m \<in> set (received fs). \<forall>r. decode_result (km_Value m) = Some r \<and>
       km_Offset m < group_offset (km_Partition m) cs \<and> \<not> stored (tables (co_sess c')) r \<longrightarrow>
       m \<notin> set cs \<and> LogApplyFailed m \<in> set log)"
  using processing.Start_outcome[OF assms(1), of decoder fs] unfolding assms(2) by blast

text \<open>A result as the engine prints it.\<close>

definition result_json :: "KafkaProcessingResult \<Rightarrow> json" where
  "result_json r = JObj
     ([(''batch_id'', JStr (kpr_BatchID r)), (''vuz_id'', JStr (kpr_VUZID r)),
       (''record_index'', JNum (Itoa (kpr_RecordIndex r))), (''diploma_hash'', JStr (kpr_DiplomaHash r)),
       (''qr_payload'', case kpr_QRPayload r of None \<Rightarrow> JNull | Some q \<Rightarrow> JStr q),
       (''status'', JStr (kpr_Status r)), (''error'', case kpr_Error r of None \<Rightarrow> JNull | Some m \<Rightarrow> JStr m),
       (''processed_at'', JStr (kpr_ProcessedAt r))])"

definition result_utf8 :: "KafkaProcessingResult \<Rightarrow> bool" where
  "result_utf8 r \<longleftrightarrow> valid_utf8 (kpr_BatchID r) \<and> valid_utf8 (kpr_VUZID r) \<and> valid_utf8 (kpr_DiplomaHash r) \<and>
     valid_utf8 (kpr_Status r) \<and> valid_utf8 (kpr_ProcessedAt r) \<and>
     (\<forall>q. kpr_QRPayload r = Some q \<longrightarrow> valid_utf8 q) \<and> (\<forall>m. kpr_Error r = Some m \<longrightarrow> valid_utf8 m) \<and>
     int_min \<le> kpr_RecordIndex r \<and> kpr_RecordIndex r \<le> int_max"

lemma set_result_field:
  "set_field result_fields False ''batch_id'' v r = set_string kpr_BatchID_update v r"
  "set_field result_fields False ''vuz_id'' v r = set_string kpr_VUZID_update v r"
  "set_field result_fields False ''record_index'' v r = set_int kpr_RecordIndex_update v r"
  "set_field result_fields False ''diploma_hash'' v r = set_string kpr_DiplomaHash_update v r"
  "set_field result_fields False ''qr_payload'' v r = set_string_ptr kpr_QRPayload_update v r"
  "set_field result_fields False ''status'' v r = set_string kpr_Status_update v r"
  "set_field result_fields False ''error'' v r = set_string_ptr kpr_Error_update v r"
  "set_field result_fields False ''processed_at'' v r = set_string kpr_ProcessedAt_update v r"
  by (simp_all add: result_fields_def ascii_lower_def)

lemma decode_result_print:
  assumes "result_utf8 r"
  shows "decode_result (json_print (result_json r)) = Some r"
proof -
  have "wf_json (result_json r)"
    using assms by (auto simp: result_utf8_def result_json_def valid_utf8.simps split: option.split)
  then have "json_parse (json_print (result_json r)) = Some (result_json r)" by (rule json_parse_print)
  moreover have "decode_struct result_fields False empty_result (result_json r) = Some r"
    using assms Atoi_Itoa[of "kpr_RecordIndex r"]
    by (cases r) (auto simp: decode_struct_def result_json_def set_result_field set_string_def set_int_def
        set_string_ptr_def empty_result_def result_utf8_def split: option.split)
  ultimately show ?thesis by (simp add: decode_result_def)
qed

definition sample_message :: "int \<Rightarrow> string \<Rightarrow> string \<Rightarrow> string" where
  "sample_message n h number = json_print (result_json (sample_result n h number))"

lemma decode_sample_message:
  "decode_result (sample_message 0 ''h0'' ''n0'') = Some (sample_result 0 ''h0'' ''n0'')"
  "decode_result (sample_message 1 ''h1'' ''n1'') = Some (sample_result 1 ''h1'' ''n1'')"
  by (simp_all add: sample_message_def decode_result_print result_utf8_def sample_result_def
      valid_utf8.simps int_min_def int_max_def)

lemma sample_Apply_ok:
  assumes "db_ok d" "apply_spec decoder now r d = (Inr (), d')"
  shows "HandleProcessingResult decoder now r \<lparr>tables = d, faults = []\<rparr> = (Inr (), \<lparr>tables = d', faults = []\<rparr>)"
  using with_tx_pure[OF transparent_apply_body, of decoder now r d] assms(2)
    pure_apply_body[OF db_ok_batch_ids[OF assms(1)], of decoder now r]
  by (simp add: HandleProcessingResult_def ApplyProcessingResult_def tx_effect_def)

definition sample_consumer :: "fault list \<Rightarrow> consumer" where
  "sample_consumer fs = \<lparr>co_sess = \<lparr>tables = sample_db, faults = fs\<rparr>, co_commits = [], co_log = []\<rparr>"

definition sample_kafka :: "int \<Rightarrow> string \<Rightarrow> string \<Rightarrow> kafka_message" where
  "sample_kafka n h number = \<lparr>km_Partition = 0, km_Offset = n, km_Key = ''b1'', km_Value = sample_message n h number\<rparr>"

lemma consumer_commits_only_stored_witness:
  "\<exists>c. Start (HandleProcessingResult (Some sample_decoder)) [Fetched (sample_kafka 0 ''h0'' ''n0'') None 5]
       (sample_consumer []) = c \<and> co_commits c = [sample_kafka 0 ''h0'' ''n0''] \<and>
     stored (tables (co_sess c)) (sample_result 0 ''h0'' ''n0'')"
proof -
  let ?m = "sample_kafka 0 ''h0'' ''n0''"
  obtain c where c: "Start (HandleProcessingResult (Some sample_decoder)) [Fetched ?m None 5] (sample_consumer []) = c"
    by simp
  have "db_ok (tables (co_sess (sample_consumer [])))" by (simp add: sample_consumer_def sample_db_ok)
  from consumer_commits_only_stored[OF this c] obtain cs where
    "co_commits c = co_commits (sample_consumer []) @ cs"
    "\<forall>m \<in> set cs. \<forall>r. decode_result (km_Value m) = Some r \<longrightarrow> stored (tables (co_sess c)) r" by blast
  moreover have "co_commits c = [?m]" using c
    by (auto simp: consume_def sample_kafka_def decode_sample_message sample_consumer_def CommitMessages_def
        consumer_logs_def sample_Apply_ok[OF sample_db_ok sample_apply_0])
  moreover have "decode_result (km_Value ?m) = Some (sample_result 0 ''h0'' ''n0'')"
    by (simp add: sample_kafka_def decode_sample_message)
  ultimately show ?thesis using c by (auto simp: sample_consumer_def)
qed

text \<open>
  What a commit does not guarantee.  The first message fails on a lost connection and is left
  uncommitted, the second is stored and committed: the group offset is past both, so that the first
  one is never fetched again, and its record is not stored.
\<close>

definition sample_db_second :: db where
  "sample_db_second = sample_db\<lparr>batches := [sample_batch\<lparr>br_processed := 1\<rparr>],
     diploma_hashes := [\<lparr>hr_hash = ''h1'', hr_vuz_id = ''u1'', hr_number = Some ''n1'',
       hr_status = DiplomaStatusActive, hr_created_at = 6, hr_revoked_at = None\<rparr>],
     batch_results := [\<lparr>rr_batch_id = ''b1'', rr_index = 1, rr_hash = Some ''h1'', rr_qr = Some ''n1'',
       rr_status = ''ok'', rr_error = None, rr_created_at = 6\<rparr>]\<rparr>"

lemma sample_apply_second:
  "apply_spec (Some sample_decoder) 6 (sample_result 1 ''h1'' ''n1'') sample_db = (Inr (), sample_db_second)"
  by (simp add: apply_eval judge_sample sample_simps sample_db_second_def)

lemma consumer_skips_failed_message:
  "let c = Start (HandleProcessingResult (Some sample_decoder))
       [Fetched (sample_kafka 0 ''h0'' ''n0'') None 5, Fetched (sample_kafka 1 ''h1'' ''n1'') None 6]
       (sample_consumer [FailBefore ''08006''])
   in group_offset 0 (co_commits c) = 2 \<and> \<not> stored (tables (co_sess c)) (sample_result 0 ''h0'' ''n0'') \<and>
      stored (tables (co_sess c)) (sample_result 1 ''h1'' ''n1'')"
proof -
  have f: "HandleProcessingResult (Some sample_decoder) 5 r \<lparr>tables = sample_db, faults = [FailBefore ''08006'']\<rparr> =
      (Inl (PqError ''08006''), \<lparr>tables = sample_db, faults = []\<rparr>)" for r
    by (simp add: HandleProcessingResult_def ApplyProcessingResult_def with_tx_def run_stmt_def)
  show ?thesis
    by (simp add: consume_def sample_kafka_def decode_sample_message sample_consumer_def f CommitMessages_def
        consumer_logs_def sample_Apply_ok[OF sample_db_ok sample_apply_second] group_offset_def stored_def
        result_taken_def sample_db_second_def)
qed

text \<open>A batch the upload has marked failed becomes completed when its results arrive after all.\<close>

lemma failed_batch_completes:
  "\<exists>d d'. pure (FailBatch 3 ''b1'') sample_db = (Inr (), d) \<and>
     (\<forall>b \<in> set (batches d). br_status b = BatchStatusFailed) \<and>
     pure (ApplyAll (Some sample_decoder)
        [(5, sample_result 0 ''h0'' ''n0''), (6, sample_result 1 ''h1'' ''n1'')]) d = (Inr (), d') \<and>
     (\<forall>b \<in> set (batches d'). br_id b = ''b1'' \<longrightarrow> br_status b = BatchStatusCompleted)"
proof -
  let ?d = "sample_db\<lparr>batches := [sample_batch\<lparr>br_status := BatchStatusFailed, br_completed_at := Some 3\<rparr>]\<rparr>"
  have p: "pure (FailBatch 3 ''b1'') sample_db = (Inr (), ?d)"
    by (simp add: FailBatch_def update_batch_def sample_db_def sample_batch_def empty_db_def)
  have ok: "db_ok ?d"
    using preservesD[OF preserves_FailBatch[of 3 "''b1''"], of "\<lparr>tables = sample_db, faults = []\<rparr>"] p sample_db_ok
    by (simp add: pure_def split: prod.splits)
  have v: "verdict (Some sample_decoder) (sample_result 0 ''h0'' ''n0'') (\<lambda>_. None) = Fresh ''n0'' ''n0''"
    "verdict (Some sample_decoder) (sample_result 1 ''h1'' ''n1'') (\<lambda>_. None) = Fresh ''n1'' ''n1''"
    by (simp_all add: judge_sample sample_simps)
  have a: "acceptable (Some sample_decoder) ?d ''b1'' ''u1''
      [(5, sample_result 0 ''h0'' ''n0''), (6, sample_result 1 ''h1'' ''n1'')]"
    by (simp add: acceptable_def accepts_new_def v result_taken_def has_hash_def registered_def
        sample_db_def empty_db_def)
  have "awaiting ?d ''b1'' 0 2" "has_university ?d ''u1''"
    by (simp_all add: awaiting_def errors_of_def results_of_def has_university_def sample_db_def
        sample_batch_def sample_university_def empty_db_def)
  with ApplyAll_completes[OF ok _ _ a] obtain d' where "pure (ApplyAll (Some sample_decoder)
        [(5, sample_result 0 ''h0'' ''n0''), (6, sample_result 1 ''h1'' ''n1'')]) ?d = (Inr (), d')"
     "\<forall>b \<in> set (batches d'). br_id b = ''b1'' \<longrightarrow> br_status b = BatchStatusCompleted"
    by (auto simp: numeral_2_eq_2)
  then show ?thesis using p by (intro exI[of _ ?d] exI[of _ d']) simp
qed

end
