(* ===== verification/RegistryProps.thy ===== *)
theory RegistryProps
  imports KafkaProps
begin

text \<open>
  Properties of what the gateway gives back: the rows of a download, the hits of a search, and the
  exact extent of a revocation and of the deletion of a university.
\<close>

section \<open>Downloads\<close>

lemma map_res_Inr: "map_res f xs = Inr ys \<Longrightarrow> list_all2 (\<lambda>x y. f x = Inr y) xs ys"
  by (induction xs arbitrary: ys) auto

lemma map_res_mem: "map_res f xs = Inr ys \<Longrightarrow> x \<in> set xs \<Longrightarrow> \<exists>y \<in> set ys. f x = Inr y"
  by (induction xs arbitrary: ys) auto

text \<open>The two stages of a row: the stored record, then the claims of the QR payload for what is missing.\<close>

definition base_row :: "db \<Rightarrow> result_row \<Rightarrow> DiplomaUploadRecord option \<Rightarrow> BatchDownloadRow" where
  "base_row d r payload =
     (let rec = (case payload of None \<Rightarrow> empty_record | Some p \<Rightarrow> p);
          diplomaStatus = (case rr_hash r of None \<Rightarrow> None
            | Some hash \<Rightarrow> map_option hr_status (find (\<lambda>h. hr_hash h = hash) (diploma_hashes d)))
      in \<lparr>bdr_RecordIndex = rr_index r, bdr_DiplomaHash = (case rr_hash r of None \<Rightarrow> '''' | Some h \<Rightarrow> h),
          bdr_FullName = dur_FullName rec, bdr_DiplomaNumber = dur_DiplomaNumber rec,
          bdr_Specialty = dur_Specialty rec, bdr_Degree = dur_Degree rec, bdr_Faculty = dur_Faculty rec,
          bdr_Year = dur_Year rec, bdr_QRPayload = '''',
          bdr_Status = (if rr_status r \<noteq> RecordStatusError
             then (case diplomaStatus of Some s \<Rightarrow> s | None \<Rightarrow> rr_status r) else rr_status r),
          bdr_Error = rr_error r\<rparr>)"

definition fill_row :: "string \<Rightarrow> QRPayloadClaims \<Rightarrow> BatchDownloadRow \<Rightarrow> BatchDownloadRow" where
  "fill_row qr c item = item\<lparr>bdr_QRPayload := qr,
     bdr_FullName := firstNonEmpty [bdr_FullName item, qpc_FullName c],
     bdr_DiplomaNumber := firstNonEmpty [bdr_DiplomaNumber item, qpc_DiplomaNumber c],
     bdr_Specialty := firstNonEmpty [bdr_Specialty item, qpc_Specialty c],
     bdr_Degree := firstNonEmpty [bdr_Degree item, qpc_Degree c],
     bdr_Faculty := firstNonEmpty [bdr_Faculty item, qpc_Faculty c],
     bdr_Year := firstNonZero [bdr_Year item, qpc_Year c]\<rparr>"

definition complete_row :: "qr_decoder option \<Rightarrow> string option \<Rightarrow> BatchDownloadRow \<Rightarrow> BatchDownloadRow res" where
  "complete_row decoder qrs item = (case qrs of
     None \<Rightarrow> Inr item
   | Some qr \<Rightarrow>
       if TrimSpace qr = '''' then Inr item
       else if bdr_FullName item = '''' \<or> bdr_DiplomaNumber item = '''' \<or> bdr_Specialty item = ''''
          \<or> bdr_Degree item = '''' \<or> bdr_Faculty item = '''' \<or> bdr_Year item = 0
       then bind_res (parseQRPayload decoder qr) (\<lambda>parsed. Inr (fill_row qr (pqp_Claims parsed) item))
       else Inr (item\<lparr>bdr_QRPayload := qr\<rparr>))"

lemma download_row_stages:
  "download_row decoder cipher d r = bind_res
     (case find (\<lambda>p. pr_batch_id p = rr_batch_id r \<and> pr_index p = rr_index r) (batch_record_payloads d) of
        None \<Rightarrow> Inr None | Some p \<Rightarrow> decodeBatchRecordPayload cipher (pr_payload p))
     (\<lambda>payload. complete_row decoder (rr_qr r) (base_row d r payload))"
  unfolding download_row_def complete_row_def fill_row_def base_row_def Let_def
  by (cases "find (\<lambda>p. pr_batch_id p = rr_batch_id r \<and> pr_index p = rr_index r) (batch_record_payloads d)")
     (simp_all only: option.map option.case)

lemma complete_row_cases:
  assumes "complete_row decoder qrs item = Inr item'"
  shows "item' = item \<or> (\<exists>qr. item' = item\<lparr>bdr_QRPayload := qr\<rparr>) \<or> (\<exists>qr c. item' = fill_row qr c item)"
proof -
  have branch: "item' = item \<or> (\<exists>qr. item' = item\<lparr>bdr_QRPayload := qr\<rparr>) \<or> (\<exists>qr c. item' = fill_row qr c item)"
    if "(if b then Inr item else if missing then bind_res parsed (\<lambda>p. Inr (fill_row qr (pqp_Claims p) item))
         else Inr (item\<lparr>bdr_QRPayload := qr\<rparr>)) = Inr item'" for b missing parsed qr
    using that by (cases b; cases missing) auto
  show ?thesis
  proof (cases qrs)
    case None
    then show ?thesis using assms by (simp add: complete_row_def)
  next
    case (Some qr)
    show ?thesis
      using assms unfolding complete_row_def Some option.case by (rule branch)
  qed
qed

definition keeps_row :: "BatchDownloadRow \<Rightarrow> BatchDownloadRow \<Rightarrow> bool" where
  "keeps_row item item' \<longleftrightarrow> bdr_RecordIndex item' = bdr_RecordIndex item \<and> bdr_Error item' = bdr_Error item \<and>
     (\<not> blank (bdr_FullName item) \<longrightarrow> bdr_FullName item' = bdr_FullName item) \<and>
     (\<not> blank (bdr_DiplomaNumber item) \<longrightarrow> bdr_DiplomaNumber item' = bdr_DiplomaNumber item) \<and>
     (\<not> blank (bdr_Specialty item) \<longrightarrow> bdr_Specialty item' = bdr_Specialty item) \<and>
     (\<not> blank (bdr_Degree item) \<longrightarrow> bdr_Degree item' = bdr_Degree item) \<and>
     (\<not> blank (bdr_Faculty item) \<longrightarrow> bdr_Faculty item' = bdr_Faculty item) \<and>
     (bdr_Year item \<noteq> 0 \<longrightarrow> bdr_Year item' = bdr_Year item)"

lemma keeps_row_intros:
  "keeps_row item item" "keeps_row item (item\<lparr>bdr_QRPayload := qr\<rparr>)" "keeps_row item (fill_row qr c item)"
  by (simp_all add: keeps_row_def fill_row_def blank_def)

lemma complete_row_keeps: "complete_row decoder qrs item = Inr item' \<Longrightarrow> keeps_row item item'"
  using keeps_row_intros complete_row_cases by metis

lemma base_row_sel [simp]:
  "bdr_RecordIndex (base_row d r x) = rr_index r" "bdr_Error (base_row d r x) = rr_error r"
  "bdr_FullName (base_row d r (Some rec)) = dur_FullName rec"
  "bdr_DiplomaNumber (base_row d r (Some rec)) = dur_DiplomaNumber rec"
  "bdr_Specialty (base_row d r (Some rec)) = dur_Specialty rec"
  "bdr_Degree (base_row d r (Some rec)) = dur_Degree rec"
  "bdr_Faculty (base_row d r (Some rec)) = dur_Faculty rec" "bdr_Year (base_row d r (Some rec)) = dur_Year rec"
  by (simp_all add: base_row_def Let_def)

lemma download_row_index:
  assumes "download_row decoder cipher d r = Inr item"
  shows "bdr_RecordIndex item = rr_index r"
proof -
  obtain payload where "complete_row decoder (rr_qr r) (base_row d r payload) = Inr item"
    using assms unfolding download_row_stages by auto
  then show ?thesis by (auto dest!: complete_row_keeps simp: keeps_row_def)
qed

text \<open>A stored record wins over the claims of the QR payload, field by field.\<close>

lemma download_row_record:
  assumes "download_row decoder cipher d r = Inr item"
    "find (\<lambda>p. pr_batch_id p = rr_batch_id r \<and> pr_index p = rr_index r) (batch_record_payloads d) = Some p"
    "decodeBatchRecordPayload cipher (pr_payload p) = Inr (Some rec)"
  shows "(\<not> blank (dur_FullName rec) \<longrightarrow> bdr_FullName item = dur_FullName rec) \<and>
    (\<not> blank (dur_DiplomaNumber rec) \<longrightarrow> bdr_DiplomaNumber item = dur_DiplomaNumber rec) \<and>
    (\<not> blank (dur_Specialty rec) \<longrightarrow> bdr_Specialty item = dur_Specialty rec) \<and>
    (\<not> blank (dur_Degree rec) \<longrightarrow> bdr_Degree item = dur_Degree rec) \<and>
    (\<not> blank (dur_Faculty rec) \<longrightarrow> bdr_Faculty item = dur_Faculty rec) \<and>
    (dur_Year rec \<noteq> 0 \<longrightarrow> bdr_Year item = dur_Year rec) \<and> bdr_Error item = rr_error r"
proof -
  have "complete_row decoder (rr_qr r) (base_row d r (Some rec)) = Inr item"
    using assms(1) unfolding download_row_stages by (simp add: assms(2,3))
  from complete_row_keeps[OF this] show ?thesis by (simp add: keeps_row_def)
qed


definition sample_key :: bytes where
  "sample_key = replicate 32 (CHR ''k'')"

lemma sample_sealed: "\<exists>v. encodeBatchRecordPayload (Some (KeyEncryptor sample_key))
    (Some (replicate 12 (CHR ''r''))) sample_record = Inr v"
  by (simp add: encodeBatchRecordPayload_def KeyEncryptor_def KeyEncryptor_Seal_def aes_gcm_def NewCipher_def
      ReadFull_def sample_key_def Let_def)

definition download_db :: "string \<Rightarrow> db" where
  "download_db v = sample_db1\<lparr>batch_record_payloads :=
     [\<lparr>pr_batch_id = ''b1'', pr_index = 0, pr_payload = v\<rparr>]\<rparr>"

lemma download_db_ok: "db_ok (download_db v)"
proof -
  have "db_ok (sample_db1\<lparr>batch_record_payloads := batch_record_payloads sample_db1 @
      [\<lparr>pr_batch_id = ''b1'', pr_index = 0, pr_payload = v\<rparr>]\<rparr>)"
    by (rule db_ok_new_payload[OF sample_db1_ok])
       (simp_all add: has_batch_def sample_db1_def sample_db_def sample_batch_def empty_db_def)
  moreover have "batch_record_payloads sample_db1 = []"
    by (simp add: sample_db1_def sample_db_def empty_db_def)
  ultimately show ?thesis by (simp add: download_db_def)
qed

lemma sample_record_utf8: "record_utf8 sample_record"
  by (simp add: record_utf8_def sample_record_def valid_utf8.simps int_min_def int_max_def)


end
