(* ===== verification/StudentProps.thy ===== *)
theory StudentProps
  imports RegistryProps
begin

text \<open>
  Properties of the student side of the gateway: search returns registered diplomas that match, a
  share link opens the diploma it was made for until it expires, and nothing else opens.
\<close>

section \<open>Reads\<close>

lemma read_InrD:
  assumes "run_stmt (\<lambda>d. (q d, d)) s = (Inr x, t)"
  shows "q (tables s) = Inr x" "tables t = tables s"
  using arg_cong[OF run_stmt_InrD[OF assms], of fst] arg_cong[OF run_stmt_InrD[OF assms], of snd]
  by simp_all

lemma student_rows_mem:
  "(h, qr, u) \<in> set (student_rows d hs) \<Longrightarrow>
   h \<in> set hs \<and> u \<in> set (universities d) \<and> u_ID u = hr_vuz_id h"
  by (auto simp: student_rows_def split: option.splits)

lemma student_item_sel [simp]:
  "ssr_DiplomaHash (student_item h u p) = hr_hash h" "ssr_Status (student_item h u p) = hr_status h"
  "ssr_UniversityID (student_item h u p) = u_ID u" "ssr_UniversityName (student_item h u p) = u_Name u"
  "ssr_FullName (student_item h u p) = qpc_FullName (pqp_Claims p)"
  by (simp_all add: student_item_def Let_def)

text \<open>An item made of a row of the result set whose name contains the needle.\<close>

definition hit :: "(string \<Rightarrow> string) \<Rightarrow> string \<Rightarrow> student_row list \<Rightarrow> StudentSearchResult \<Rightarrow> bool" where
  "hit lower name rows item \<longleftrightarrow> (\<exists>h qr u p. (h, qr, u) \<in> set rows \<and> item = student_item h u p \<and>
     (name \<noteq> '''' \<longrightarrow> Contains (lower (qpc_FullName (pqp_Claims p))) name))"

lemma hit_tail: "hit lower name rows item \<Longrightarrow> hit lower name (row # rows) item"
  by (auto simp: hit_def)

lemma hit_head:
  "\<not> (name \<noteq> '''' \<and> \<not> Contains (lower (qpc_FullName (pqp_Claims p))) name) \<Longrightarrow>
   hit lower name ((h, qr, u) # rows) (student_item h u p)"
  unfolding hit_def by (intro exI[of _ h] exI[of _ qr] exI[of _ u] exI[of _ p]) auto

lemma scan_students_sound:
  assumes "scan_students decoder lower name room rows = Inr items" "0 < room"
  shows "length items \<le> room \<and> list_all (hit lower name rows) items"
  using assms
proof (induction decoder lower name room rows arbitrary: items rule: scan_students.induct)
  case (2 decoder lower name room h qr u rows)
  obtain p where p: "bind_res (scan_text qr) (parseQRPayload decoder) = Inr p"
    using "2.prems"(1) by auto
  let ?skip = "name \<noteq> '''' \<and> \<not> Contains (lower (qpc_FullName (pqp_Claims p))) name"
  have eq: "(if ?skip then scan_students decoder lower name room rows
      else if room \<le> 1 then Inr [student_item h u p]
      else bind_res (scan_students decoder lower name (room - 1) rows) (\<lambda>items. Inr (student_item h u p # items)))
      = Inr items"
    using "2.prems"(1) unfolding scan_students.simps p bind_res_simps .
  have hd: "hit lower name ((h, qr, u) # rows) (student_item h u p)" if "\<not> ?skip"
    using that by (rule hit_head)
  have tail: "list_all (hit lower name rows) xs \<Longrightarrow> list_all (hit lower name ((h, qr, u) # rows)) xs" for xs
    by (auto simp: list_all_iff hit_tail)
  consider (skip) "?skip" | (only) "\<not> ?skip" "room \<le> 1" | (more) "\<not> ?skip" "\<not> room \<le> 1" by blast
  then show ?case
  proof cases
    case skip
    then have "scan_students decoder lower name room rows = Inr items"
      using eq by (simp only: if_True simp_thms)
    from "2.IH"(1)[OF skip this "2.prems"(2)] show ?thesis by (simp add: tail)
  next
    case only
    then have "items = [student_item h u p]" using eq by (simp only: if_True if_False simp_thms sum.inject)
    then show ?thesis using hd[OF only(1)] "2.prems"(2) by simp
  next
    case more
    obtain rest where r: "scan_students decoder lower name (room - 1) rows = Inr rest"
      "items = student_item h u p # rest"
      using eq more by (cases "scan_students decoder lower name (room - 1) rows")
        (simp_all only: if_False simp_thms bind_res_simps sum.inject sum.simps)
    from "2.IH"(2)[OF more r(1)] more have "length rest \<le> room - 1" "list_all (hit lower name rows) rest"
      by simp_all
    then show ?thesis unfolding r(2) using hd[OF more(1)] more(2) tail by simp
  qed
qed simp

section \<open>Properties\<close>

text \<open>
  C21: a search returns at most fifty hits, and every hit is a registered diploma with its current
  status and its university; if a number was asked for it is the registered number, and if a name
  was asked for the name on the diploma contains it without regard to case.
\<close>

theorem search_sound:
  assumes "Search decoder lower number name s = (Inr items, t)"
  shows "length items \<le> 50 \<and> tables t = tables s \<and> (\<forall>item \<in> set items.
    \<exists>row \<in> set (diploma_hashes (tables s)). \<exists>u \<in> set (universities (tables s)).
      ssr_DiplomaHash item = hr_hash row \<and> ssr_Status item = hr_status row \<and> u_ID u = hr_vuz_id row \<and>
      ssr_UniversityID item = u_ID u \<and> ssr_UniversityName item = u_Name u \<and>
      (TrimSpace number \<noteq> '''' \<longrightarrow> hr_number row = Some number) \<and>
      (lower (TrimSpace name) \<noteq> '''' \<longrightarrow> Contains (lower (ssr_FullName item)) (lower (TrimSpace name))))"
proof -
  let ?hs = "sort_key (\<lambda>h. - hr_created_at h) (if TrimSpace number \<noteq> ''''
      then filter (\<lambda>h. hr_number h = Some number) (diploma_hashes (tables s)) else diploma_hashes (tables s))"
  note r = read_InrD[OF assms[unfolded Search_def SearchStudents_def]]
  note sound = scan_students_sound[OF r(1)]
  have "\<exists>row \<in> set (diploma_hashes (tables s)). \<exists>u \<in> set (universities (tables s)).
      ssr_DiplomaHash item = hr_hash row \<and> ssr_Status item = hr_status row \<and> u_ID u = hr_vuz_id row \<and>
      ssr_UniversityID item = u_ID u \<and> ssr_UniversityName item = u_Name u \<and>
      (TrimSpace number \<noteq> '''' \<longrightarrow> hr_number row = Some number) \<and>
      (lower (TrimSpace name) \<noteq> '''' \<longrightarrow> Contains (lower (ssr_FullName item)) (lower (TrimSpace name)))"
    if "item \<in> set items" for item
  proof -
    have "hit lower (lower (TrimSpace name)) (student_rows (tables s) ?hs) item"
      using sound that by (simp add: list_all_iff)
    then obtain h qr u p where i: "(h, qr, u) \<in> set (student_rows (tables s) ?hs)" "item = student_item h u p"
      "lower (TrimSpace name) \<noteq> '''' \<longrightarrow> Contains (lower (qpc_FullName (pqp_Claims p))) (lower (TrimSpace name))"
      unfolding hit_def by blast
    from student_rows_mem[OF i(1)]
    have m: "h \<in> set (diploma_hashes (tables s))" "TrimSpace number \<noteq> '''' \<longrightarrow> hr_number h = Some number"
      "u \<in> set (universities (tables s))" "u_ID u = hr_vuz_id h"
      by (auto split: if_splits)
    show ?thesis by (rule bexI[OF _ m(1)], rule bexI[OF _ m(3)]) (use m i(2,3) in simp)
  qed
  then show ?thesis using sound r(2) by simp
qed

lemma sample_student_rows:
  "student_rows sample_db1 (diploma_hashes sample_db1) =
     [(hd (diploma_hashes sample_db1), Some ''n0'', sample_university)]"
  by (simp add: student_rows_def latest_ok_def sample_db1_def sample_db_def sample_university_def empty_db_def)

lemma sample_search:
  "Search (Some sample_decoder) id ''n0'' ''Lee'' \<lparr>tables = sample_db1, faults = []\<rparr> =
     (Inr [student_item (hd (diploma_hashes sample_db1)) sample_university
        \<lparr>pqp_DiplomaHash = '''', pqp_VUZID = ''u1'', pqp_IssuedAt = 0, pqp_Claims = sample_claims ''n0''\<rparr>],
      \<lparr>tables = sample_db1, faults = []\<rparr>)"
proof -
  have t: "TrimSpace ''n0'' = ''n0''" "TrimSpace ''Lee'' = ''Lee''"
    by (rule TrimSpace_graphic; simp add: graphic_def)+
  have f: "sort_key (\<lambda>h. - hr_created_at h) (filter (\<lambda>h. hr_number h = Some ''n0'') (diploma_hashes sample_db1))
      = diploma_hashes sample_db1"
    by (simp add: sample_db1_def)
  have c: "Contains (qpc_FullName (sample_claims ''n0'')) ''Lee''"
    by (simp add: sample_claims_def HasPrefix_def)
  show ?thesis
    by (simp add: Search_def SearchStudents_def t f sample_student_rows scan_text_def parseQRPayload_def
        sample_decoder_def c del: bind_res_eq_Inr)
qed

lemma search_sound_witness:
  "\<exists>items. fst (Search (Some sample_decoder) id ''n0'' ''Lee'' \<lparr>tables = sample_db1, faults = []\<rparr>) = Inr items \<and>
     (\<forall>item \<in> set items. ssr_DiplomaHash item \<in> hr_hash ` set (diploma_hashes sample_db1)) \<and> items \<noteq> []"
  using search_sound[OF sample_search] sample_search by auto

section \<open>Share links\<close>

text \<open>A call whose missing row is reported by another error.\<close>

lemma attempt_mapped:
  "attempt m (\<lambda>r. case r of Inl e \<Rightarrow> if e = e0 then fail e1 else fail e | Inr x \<Rightarrow> g x) s = (Inr y, t) \<longleftrightarrow>
     (\<exists>x u. m s = (Inr x, u) \<and> g x u = (Inr y, t))"
  by (auto simp: attempt_def fail_def split: prod.split sum.splits)

lemmas success_simps = attempt_mapped fail_eq ret_eq give_eq and_then_Inr

lemma FindStudentByHash_Inr:
  assumes "FindStudentByHash decoder h s = (Inr student, t)"
  obtains row u p where "row \<in> set (diploma_hashes (tables s))" "hr_hash row = h"
    "u \<in> set (universities (tables s))" "u_ID u = hr_vuz_id row" "student = student_item row u p"
    "tables t = tables s"
proof -
  let ?hs = "filter (\<lambda>r. hr_hash r = h) (diploma_hashes (tables s))"
  note r = read_InrD[OF assms[unfolded FindStudentByHash_def]]
  obtain row qr u p where f: "first_row (student_rows (tables s) ?hs) = Inr (row, qr, u)"
    "student = student_item row u p"
    using r(1) by auto
  then have "(row, qr, u) \<in> set (student_rows (tables s) ?hs)" by (auto simp: first_row_eq_Inr)
  from student_rows_mem[OF this] that f(2) r(2) show thesis by auto
qed

text \<open>The search for a diploma does not look at the share links.\<close>

lemma FindStudentByHash_links:
  assumes "FindStudentByHash decoder h s = (Inr student, t)" "d = tables s\<lparr>share_links := ls\<rparr>"
  shows "FindStudentByHash decoder h \<lparr>tables = d, faults = []\<rparr> = (Inr student, \<lparr>tables = d, faults = []\<rparr>)"
proof -
  have "latest_ok d = latest_ok (tables s)" by (simp add: fun_eq_iff latest_ok_def assms(2))
  moreover have "universities d = universities (tables s)" by (simp add: assms(2))
  ultimately have e: "student_rows d = student_rows (tables s)" by (simp only: fun_eq_iff student_rows_def simp_thms refl)
  have h: "diploma_hashes d = diploma_hashes (tables s)" by (simp add: assms(2))
  from read_InrD(1)[OF assms(1)[unfolded FindStudentByHash_def]] show ?thesis
    by (simp only: FindStudentByHash_def run_stmt_pure fst_conv snd_conv e h)
qed

lemma FindShareLink_Inr:
  assumes "FindShareLink token s = (Inr link, t)"
  shows "link \<in> set (share_links (tables s)) \<and> sl_Token link = token \<and> tables t = tables s"
  using read_InrD[OF assms[unfolded FindShareLink_def]] first_row_filterD by fastforce

text \<open>
  C13: what a share link opens.  If a token opens, then it is a share token of this service that
  parses now, a stored link carries it and has not expired, the token and the link name the same
  diploma, and that diploma is registered: the answer is about it, with its current status and the
  expiry of the link; the only change is the use counted on the link.
\<close>

theorem share_resolve_sound:
  assumes "ResolveShareLink decoder lib s now token st = (Inr resp, t)"
  shows "\<exists>claims link row u. ParseShareToken lib (ss_tokens s) now token = Inr claims \<and>
    link \<in> set (share_links (tables st)) \<and> sl_Token link = token \<and> now \<le> sl_ExpiresAt link \<and>
    sc_DiplomaHash claims = sl_DiplomaHash link \<and> row \<in> set (diploma_hashes (tables st)) \<and>
    hr_hash row = sl_DiplomaHash link \<and> u \<in> set (universities (tables st)) \<and> u_ID u = hr_vuz_id row \<and>
    sdr_DiplomaHash resp = hr_hash row \<and> sdr_Status resp = hr_status row \<and>
    sdr_UniversityName resp = u_Name u \<and> sdr_ExpiresAt resp = sl_ExpiresAt link \<and>
    tables t = tables st\<lparr>share_links := map (\<lambda>l. if sl_Token l = token
      then l\<lparr>sl_UsedCount := sl_UsedCount l + 1\<rparr> else l) (share_links (tables st))\<rparr>"
proof -
  obtain claims where c: "ParseShareToken lib (ss_tokens s) now token = Inr claims"
    using assms by (auto simp: ResolveShareLink_def run_simps split: sum.splits)
  obtain link s1 where l: "FindShareLink token st = (Inr link, s1)" "\<not> sl_ExpiresAt link < now"
      "sl_DiplomaHash link = sc_DiplomaHash claims"
    using assms c by (auto simp: ResolveShareLink_def success_simps split: if_splits)
  obtain student s2 where f: "FindStudentByHash decoder (sc_DiplomaHash claims) s1 = (Inr student, s2)"
      "IncrementShareLinkUsage token s2 = (Inr (), t)" "resp = shared_diploma student link"
    using assms c l by (auto simp: ResolveShareLink_def success_simps split: if_splits)
  note m = FindShareLink_Inr[OF l(1)]
  from FindStudentByHash_Inr[OF f(1)] obtain row u p where r:
    "row \<in> set (diploma_hashes (tables s1))" "hr_hash row = sc_DiplomaHash claims"
    "u \<in> set (universities (tables s1))" "u_ID u = hr_vuz_id row" "student = student_item row u p"
    "tables s2 = tables s1" .
  have "tables t = tables st\<lparr>share_links := map (\<lambda>l. if sl_Token l = token
      then l\<lparr>sl_UsedCount := sl_UsedCount l + 1\<rparr> else l) (share_links (tables st))\<rparr>"
    using run_stmt_InrD[OF f(2)[unfolded IncrementShareLinkUsage_def]] r(6) m by simp
  then show ?thesis
    using c l m r(1-5) f(3) by (intro exI[of _ claims] exI[of _ link] exI[of _ row] exI[of _ u])
      (simp add: shared_diploma_def)
qed

text \<open>
  C14: a share link opens.  A link created for a registered diploma, with a token library that parses
  what it signed, opens at any time before its expiry to the second, and shows that diploma.
\<close>

theorem share_link_opens:
  assumes "jwt_roundtrip sc_Registered lib" "db_ok (tables st)"
    "Student_CreateShareLink decoder lib s i now hash ttl st = (Inr resp, t)"
    "later < NewNumericDate (slr_ExpiresAt resp) * second"
  shows "slr_ShareURL resp = ss_publicBaseURL s @ ''/share/'' @ slr_Token resp \<and>
    (\<exists>diploma. fst (ResolveShareLink decoder lib s later (slr_Token resp)
        \<lparr>tables = tables t, faults = []\<rparr>) = Inr diploma \<and> sdr_DiplomaHash diploma = hash)"
proof -
  define ttl' where "ttl' = (if ttl \<le> 0 then ss_defaultTTL s else ttl)"
  obtain student s1 where f: "FindStudentByHash decoder hash st = (Inr student, s1)"
    using assms(3) by (auto simp: Student_CreateShareLink_def success_simps)
  obtain tok e s2 where k': "Inr (tok, e) = IssueShareToken lib (ss_tokens s) now hash ttl'"
    "CreateShareLink i now hash tok e s1 = (Inr (), s2)" "t = s2"
    "resp = \<lparr>slr_ShareURL = ss_publicBaseURL s @ ''/share/'' @ tok, slr_Token = tok, slr_ExpiresAt = e\<rparr>"
    using assms(3) f
    by (auto simp: Student_CreateShareLink_def success_simps Let_def ttl'_def split: prod.splits)
  note k = k'(1)[symmetric] k'(2-)
  from FindStudentByHash_Inr[OF f] obtain row u p where row: "hr_hash row = hash"
    "student = student_item row u p" "tables s1 = tables st" by metis
  let ?link = "\<lparr>sl_ID = i, sl_DiplomaHash = hash, sl_Token = tok, sl_ExpiresAt = e, sl_UsedCount = 0,
      sl_CreatedAt = now\<rparr>"
  have t: "tables t = tables st\<lparr>share_links := share_links (tables st) @ [?link]\<rparr>"
    "tok \<notin> sl_Token ` set (share_links (tables st))"
    using run_stmt_InrD[OF k(2)[unfolded CreateShareLink_def]] k(3) row(3) by (auto split: if_splits)
  have later: "later < NewNumericDate e * second" using assms(4) k(4) by simp
  obtain c where c: "ParseShareToken lib (ss_tokens s) later tok = Inr c" "sc_DiplomaHash c = hash"
    using parse_issued_share[OF assms(1) k(1) later] by blast
  have "NewNumericDate e * second \<le> e" by (simp add: NewNumericDate_def second_def)
  then have ne: "\<not> e < later" using later by simp
  have "filter (\<lambda>l. sl_Token l = tok) (share_links (tables t)) = [?link]"
    using t by (auto simp: filter_empty_conv)
  then have l: "FindShareLink tok \<lparr>tables = tables t, faults = []\<rparr> = (Inr ?link, \<lparr>tables = tables t, faults = []\<rparr>)"
    by (simp add: FindShareLink_def)
  note g = FindStudentByHash_links[OF f t(1)]
  have "fst (ResolveShareLink decoder lib s later tok \<lparr>tables = tables t, faults = []\<rparr>) =
      Inr (shared_diploma student ?link)"
    using c l g ne by (simp add: ResolveShareLink_def attempt_def and_then_def IncrementShareLinkUsage_def
        fail_def ret_def)
  then show ?thesis using k(4) row(1,2) by (simp add: shared_diploma_def)
qed

section \<open>A concrete share link\<close>

text \<open>A token library that knows one token.\<close>

definition single_jwt :: "('c \<Rightarrow> RegisteredClaims) \<Rightarrow> bytes \<Rightarrow> 'c \<Rightarrow> string \<Rightarrow> 'c jwt_lib" where
  "single_jwt regd k c tok = \<lparr>
     jwt_sign = (\<lambda>key claims. if key = k \<and> claims = c then Inr tok else Inl (ErrText ''sign'')),
     jwt_parse = (\<lambda>keyfunc now v. if v = tok \<and> keyfunc ''HS256'' = Inr k \<and> now < rc_ExpiresAt (regd c) * second
        then Inr (c, True) else Inl (ErrText ''parse''))\<rparr>"

lemma single_jwt_roundtrip: "jwt_roundtrip regd (single_jwt regd k c tok)"
  by (simp add: jwt_roundtrip_def single_jwt_def hs256_key_def)

definition sample_service :: student_service where
  "sample_service = NewStudentService (NewManager ''a'' ''b'' second (5 * second)) ''http://x/'' (5 * second)"

definition sample_share_claims :: ShareClaims where
  "sample_share_claims = \<lparr>sc_DiplomaHash = ''h0'', sc_Type = ''share_link'',
     sc_Registered = \<lparr>rc_Subject = ''h0'', rc_IssuedAt = 0, rc_ExpiresAt = 5\<rparr>\<rparr>"

definition sample_jwt :: "ShareClaims jwt_lib" where
  "sample_jwt = single_jwt sc_Registered ''b'' sample_share_claims ''tok''"

definition sample_link :: ShareLink where
  "sample_link = \<lparr>sl_ID = ''l1'', sl_DiplomaHash = ''h0'', sl_Token = ''tok'', sl_ExpiresAt = 5 * second,
     sl_UsedCount = 0, sl_CreatedAt = 0\<rparr>"

lemma sample_find:
  "FindStudentByHash (Some sample_decoder) ''h0'' \<lparr>tables = sample_db1, faults = []\<rparr> =
     (Inr (student_item (hd (diploma_hashes sample_db1)) sample_university
        \<lparr>pqp_DiplomaHash = '''', pqp_VUZID = ''u1'', pqp_IssuedAt = 0, pqp_Claims = sample_claims ''n0''\<rparr>),
      \<lparr>tables = sample_db1, faults = []\<rparr>)"
proof -
  have f: "filter (\<lambda>h. hr_hash h = ''h0'') (diploma_hashes sample_db1) = diploma_hashes sample_db1"
    by (simp add: sample_db1_def)
  show ?thesis
    by (simp add: FindStudentByHash_def f sample_student_rows scan_text_def parseQRPayload_def
        sample_decoder_def del: bind_res_eq_Inr)
qed

lemma sample_share:
  "Student_CreateShareLink (Some sample_decoder) sample_jwt sample_service ''l1'' 0 ''h0'' 0
     \<lparr>tables = sample_db1, faults = []\<rparr> =
   (Inr \<lparr>slr_ShareURL = ''http://x/share/tok'', slr_Token = ''tok'', slr_ExpiresAt = 5 * second\<rparr>,
    \<lparr>tables = sample_db1\<lparr>share_links := [sample_link]\<rparr>, faults = []\<rparr>)"
proof -
  have i: "IssueShareToken sample_jwt (ss_tokens sample_service) 0 ''h0'' (5 * second) = Inr (''tok'', 5 * second)"
    by (simp add: IssueShareToken_def sample_jwt_def single_jwt_def sample_service_def NewStudentService_def
        NewManager_def sample_share_claims_def NewNumericDate_def second_def Let_def)
  have c: "CreateShareLink ''l1'' 0 ''h0'' ''tok'' (5 * second) \<lparr>tables = sample_db1, faults = []\<rparr> =
      (Inr (), \<lparr>tables = sample_db1\<lparr>share_links := [sample_link]\<rparr>, faults = []\<rparr>)"
    by (simp add: CreateShareLink_def has_hash_def sample_db1_def sample_db_def empty_db_def sample_link_def)
  have b: "ss_defaultTTL sample_service = 5 * second" "ss_publicBaseURL sample_service = ''http://x''"
    by (simp_all add: sample_service_def NewStudentService_def TrimRight_def)
  show ?thesis
    using i b by (simp add: Student_CreateShareLink_def attempt_def and_then_def sample_find c ret_def Let_def)
qed

lemma share_link_opens_witness:
  "\<exists>diploma. fst (ResolveShareLink (Some sample_decoder) sample_jwt sample_service 3 ''tok''
     \<lparr>tables = sample_db1\<lparr>share_links := [sample_link]\<rparr>, faults = []\<rparr>) = Inr diploma \<and>
     sdr_DiplomaHash diploma = ''h0''"
proof -
  have "jwt_roundtrip sc_Registered sample_jwt" unfolding sample_jwt_def by (rule single_jwt_roundtrip)
  from share_link_opens[OF this _ sample_share, of 3] sample_db1_ok show ?thesis
    by (simp add: second_def NewNumericDate_def)
qed

lemma share_resolve_sound_witness:
  "\<exists>t. tables t = sample_db1\<lparr>share_links := [sample_link\<lparr>sl_UsedCount := 1\<rparr>]\<rparr> \<and>
     snd (ResolveShareLink (Some sample_decoder) sample_jwt sample_service 3 ''tok''
       \<lparr>tables = sample_db1\<lparr>share_links := [sample_link]\<rparr>, faults = []\<rparr>) = t"
proof -
  let ?s = "\<lparr>tables = sample_db1\<lparr>share_links := [sample_link]\<rparr>, faults = []\<rparr>"
  note f = FindStudentByHash_links[OF sample_find, of "sample_db1\<lparr>share_links := [sample_link]\<rparr>" "[sample_link]"]
  have p: "ParseShareToken sample_jwt (ss_tokens sample_service) 3 ''tok'' = Inr sample_share_claims"
    by (simp add: ParseShareToken_def sample_jwt_def single_jwt_def sample_service_def NewStudentService_def
        NewManager_def hs256_key_def sample_share_claims_def second_def)
  have l: "FindShareLink ''tok'' ?s = (Inr sample_link, ?s)" by (simp add: FindShareLink_def sample_link_def)
  obtain resp t where r: "ResolveShareLink (Some sample_decoder) sample_jwt sample_service 3 ''tok'' ?s = (Inr resp, t)"
    using p l f by (simp add: ResolveShareLink_def attempt_def and_then_def IncrementShareLinkUsage_def ret_def
        sample_link_def second_def sample_share_claims_def)
  from share_resolve_sound[OF r] have "tables t = sample_db1\<lparr>share_links := [sample_link\<lparr>sl_UsedCount := 1\<rparr>]\<rparr>"
    by (auto simp: sample_link_def)
  then show ?thesis using r by simp
qed

end
