(* ===== verification/AccountProps.thy ===== *)
theory AccountProps
  imports StudentProps
begin

text \<open>
  Properties of the accounts: who gets a token, the way of a university from registration to its
  first login, API keys, signing keys, and the deletion of a university.
\<close>

section \<open>Login\<close>

lemma University_FindByEmail_Inr:
  "University_FindByEmail e s = (Inr u, t) \<Longrightarrow> u \<in> set (universities (tables s)) \<and> u_Email u = e \<and> tables t = tables s"
  unfolding University_FindByEmail_def using first_row_filterD by (fastforce dest: read_InrD)

lemma University_FindByID_Inr:
  "University_FindByID i s = (Inr u, t) \<Longrightarrow> u \<in> set (universities (tables s)) \<and> u_ID u = i \<and> tables t = tables s"
  unfolding University_FindByID_def using first_row_filterD by (fastforce dest: read_InrD)

lemma Admin_FindByEmail_Inr:
  "Admin_FindByEmail e s = (Inr a, t) \<Longrightarrow> a \<in> set (platform_admins (tables s)) \<and> pa_Email a = e \<and> tables t = tables s"
  unfolding Admin_FindByEmail_def using first_row_filterD by (fastforce dest: read_InrD)

lemma read_no_row:
  assumes "run_stmt (\<lambda>d. (first_row (q d), d)) s = (Inl ErrNoRows, t)"
  shows "q (tables s) = [] \<and> tables t = tables s"
  using assms by (cases rule: run_stmt_cases[of "\<lambda>d. (first_row (q d), d)" s]) auto

text \<open>
  C12: who gets a token.  A successful login is that of the administrator with this e-mail or, when
  there is none, of an active university with this e-mail, and the password compares to the stored
  hash; the answer names that account and the token, until it expires, parses to its identity and
  role.  Nothing is written.
\<close>

theorem login_sound:
  assumes "jwt_roundtrip ac_Registered lib" "Login hasher lib tokens now request s = (Inr resp, t)"
    "later < NewNumericDate (ar_ExpiresAt resp) * second"
  shows "tables t = tables s \<and>
    ((\<exists>a \<in> set (platform_admins (tables s)). pa_Email a = lr_Email request \<and>
        ph_Compare hasher (lr_Password request) (pa_PasswordHash a) \<and> ar_Role resp = RoleAdmin \<and>
        (\<exists>c. ParseAccessToken lib tokens later (ar_AccessToken resp) = Inr c \<and> ac_Role c = RoleAdmin \<and>
          rc_Subject (ac_Registered c) = pa_ID a)) \<or>
     (lr_Email request \<notin> pa_Email ` set (platform_admins (tables s)) \<and>
      (\<exists>u \<in> set (universities (tables s)). u_Email u = lr_Email request \<and>
        ph_Compare hasher (lr_Password request) (u_PasswordHash u) \<and> u_Status u = UniversityStatusActive \<and>
        ar_Role resp = RoleUniversity \<and> ar_VUZID resp = u_ID u \<and>
        (\<exists>c. ParseAccessToken lib tokens later (ar_AccessToken resp) = Inr c \<and> ac_Role c = RoleUniversity \<and>
          ac_Status c = UniversityStatusActive \<and> ac_VUZID c = u_ID u))))"
proof -
  obtain r s1 where a: "Admin_FindByEmail (lr_Email request) s = (r, s1)" by force
  show ?thesis
  proof (cases r)
    case (Inr admin)
    note f = Admin_FindByEmail_Inr[OF a[unfolded Inr]]
    have g: "admin_login hasher lib tokens now request admin = Inr resp" "t = s1"
      using assms(2) a Inr by (auto simp: Login_def run_simps)
    obtain tok e where i: "ph_Compare hasher (lr_Password request) (pa_PasswordHash admin)"
      "IssueAccessToken lib tokens now (pa_ID admin) '''' (pa_Email admin) RoleAdmin UniversityStatusActive = Inr (tok, e)"
      "ar_AccessToken resp = tok" "ar_ExpiresAt resp = e" "ar_Role resp = RoleAdmin"
      using g(1) by (auto simp: admin_login_def split: if_splits)
    from parse_issued_access[OF assms(1) i(2), of later] assms(3) i(4) obtain c where
      "ParseAccessToken lib tokens later tok = Inr c" "rc_Subject (ac_Registered c) = pa_ID admin"
      "ac_Role c = RoleAdmin" by auto
    then show ?thesis using f g(2) i by auto
  next
    case (Inl e0)
    then have e0: "e0 = ErrNoRows" using assms(2) a by (auto simp: Login_def run_simps split: if_splits)
    from read_no_row[OF a[unfolded Inl e0 Admin_FindByEmail_def]]
    have n: "lr_Email request \<notin> pa_Email ` set (platform_admins (tables s))" "tables s1 = tables s"
      by (auto simp: filter_empty_conv)
    obtain u where u: "University_FindByEmail (lr_Email request) s1 = (Inr u, t)"
      "university_login hasher lib tokens now request u = Inr resp"
      using assms(2) a Inl e0
      unfolding Login_def attempt_def[of "Admin_FindByEmail (lr_Email request)"]
      by (auto simp: success_simps)
    note f = University_FindByEmail_Inr[OF u(1)]
    obtain tok e where i: "ph_Compare hasher (lr_Password request) (u_PasswordHash u)"
      "u_Status u = UniversityStatusActive"
      "IssueAccessToken lib tokens now (u_ID u) (u_ID u) (u_Email u) RoleUniversity (u_Status u) = Inr (tok, e)"
      "ar_AccessToken resp = tok" "ar_ExpiresAt resp = e" "ar_Role resp = RoleUniversity" "ar_VUZID resp = u_ID u"
      using u(2) by (auto simp: university_login_def split: if_splits)
    from parse_issued_access[OF assms(1) i(3), of later] assms(3) i(5) obtain c where
      "ParseAccessToken lib tokens later tok = Inr c" "ac_VUZID c = u_ID u"
      "ac_Role c = RoleUniversity" "ac_Status c = u_Status u" by auto
    then show ?thesis using f n i by auto
  qed
qed

text \<open>A hasher that compares to 0 only the password itself.\<close>

definition plain_hasher :: password_hasher where
  "plain_hasher = \<lparr>ph_Hash = (\<lambda>_ p. Inr p), ph_Compare = (=)\<rparr>"

definition sample_access_claims :: AccessClaims where
  "sample_access_claims = \<lparr>ac_VUZID = ''u1'', ac_Email = ''a@u1'', ac_Role = RoleUniversity,
     ac_Status = UniversityStatusActive,
     ac_Registered = \<lparr>rc_Subject = ''u1'', rc_IssuedAt = 0, rc_ExpiresAt = 1\<rparr>\<rparr>"

definition sample_access_jwt :: "AccessClaims jwt_lib" where
  "sample_access_jwt = single_jwt ac_Registered ''a'' sample_access_claims ''tok''"

definition sample_manager :: Manager where
  "sample_manager = NewManager ''a'' ''b'' second (5 * second)"

lemma sample_access_roundtrip: "jwt_roundtrip ac_Registered sample_access_jwt"
  unfolding sample_access_jwt_def by (rule single_jwt_roundtrip)

lemma sample_login:
  "Login plain_hasher sample_access_jwt sample_manager 0 \<lparr>lr_Email = ''a@u1'', lr_Password = ''h1''\<rparr>
     \<lparr>tables = sample_db, faults = []\<rparr> =
   (Inr \<lparr>ar_AccessToken = ''tok'', ar_TokenType = ''Bearer'', ar_ExpiresAt = second,
      ar_Role = RoleUniversity, ar_Status = UniversityStatusActive, ar_VUZID = ''u1'', ar_Email = ''a@u1''\<rparr>,
    \<lparr>tables = sample_db, faults = []\<rparr>)"
  by (simp add: Login_def attempt_def Admin_FindByEmail_def University_FindByEmail_def university_login_def
      plain_hasher_def sample_db_def sample_university_def empty_db_def IssueAccessToken_def sample_access_jwt_def
      single_jwt_def sample_access_claims_def sample_manager_def NewManager_def NewNumericDate_def second_def
      status_defs ret_def Let_def)

lemma login_sound_witness:
  "\<exists>u \<in> set (universities sample_db). u_Email u = ''a@u1'' \<and> u_Status u = UniversityStatusActive \<and>
     (\<exists>c. ParseAccessToken sample_access_jwt sample_manager 5 ''tok'' = Inr c \<and> ac_VUZID c = u_ID u)"
  using login_sound[OF sample_access_roundtrip sample_login, of 5]
  by (auto simp: second_def NewNumericDate_def sample_db_def sample_university_def empty_db_def)

section \<open>From registration to the first login\<close>

definition hashes_compare :: "password_hasher \<Rightarrow> bool" where
  "hashes_compare hasher \<longleftrightarrow> (\<forall>salt p h. ph_Hash hasher salt p = Inr h \<longrightarrow> ph_Compare hasher p h)"

lemma Register_Inr:
  assumes "Register hasher salt i now r s = (Inr resp, t)"
  obtains h where "ph_Hash hasher salt (rur_Password r) = Inr h"
    "tables t = tables s\<lparr>universities := universities (tables s) @
       [new_university i now r h UniversityStatusPending]\<rparr>"
    "\<not> has_university (tables s) i" "\<not> university_clash (tables s) None r"
    "rus_ID resp = i" "rus_Status resp = UniversityStatusPending"
proof -
  obtain h where h: "ph_Hash hasher salt (rur_Password r) = Inr h"
    using assms by (auto simp: Register_def run_simps split: sum.splits)
  obtain u where u: "University_Create i now r h s = (Inr u, t)"
      "resp = \<lparr>rus_ID = u_ID u, rus_Status = u_Status u, rus_CreatedAt = u_CreatedAt u\<rparr>"
    using assms h by (cases "fst (University_Create i now r h s)")
      (auto simp: Register_def run_simps split: if_splits)
  have "insert_university i now r h UniversityStatusPending (tables s) = (Inr u, tables t)"
    by (rule run_stmt_InrD[OF u(1)[unfolded University_Create_def]])
  then show thesis using that[OF h] u(2)
    by (auto simp: insert_university_def Let_def new_university_def split: if_splits)
qed

lemma filter_email_new:
  "\<not> university_clash d None r \<Longrightarrow> filter (\<lambda>u. u_Email u = rur_Email r) (universities d) = []"
  by (auto simp: university_clash_def filter_empty_conv)

lemma filter_id_new: "\<not> has_university d i \<Longrightarrow> filter (\<lambda>u. u_ID u = i) (universities d) = []"
  by (auto simp: has_university_def filter_empty_conv)

lemma map_if_new: "\<not> has_university d i \<Longrightarrow> map (\<lambda>u. if u_ID u = i then f u else u) (universities d) = universities d"
  by (rule map_if_absent) (auto simp: has_university_def)


definition sample_request :: RegisterUniversityRequest where
  "sample_request = \<lparr>rur_Name = ''Second'', rur_VuzCode = ''V2'', rur_INN = ''7700000002'',
     rur_OGRN = ''1027700000002'', rur_Email = ''b@u2'', rur_Password = ''secret''\<rparr>"

definition signing_jwt :: "AccessClaims jwt_lib" where
  "signing_jwt = \<lparr>jwt_sign = (\<lambda>_ _. Inr ''tok''), jwt_parse = (\<lambda>_ _ _. Inl (ErrText ''parse''))\<rparr>"

lemma sample_register:
  "\<exists>resp t. Register plain_hasher None ''u2'' 3 sample_request \<lparr>tables = sample_db, faults = []\<rparr> = (Inr resp, t)"
  by (simp add: Register_def attempt_def plain_hasher_def University_Create_def insert_university_def Let_def
      university_status_def has_university_def university_clash_def sample_request_def sample_db_def
      sample_university_def empty_db_def new_university_def ret_def)


section \<open>API keys\<close>

lemma CreateAPIKey_Inr:
  assumes "CreateAPIKey source i now v name s = (Inr resp, t)"
  obtains buffer where "length buffer = 24" "cak_APIKey resp = ''vuz_'' @ hex_encode buffer" "cak_ID resp = i"
    "tables t = tables s\<lparr>api_keys := api_keys (tables s) @ [\<lparr>ak_ID = i, ak_VUZID = v, ak_Name = name,
       ak_KeyHash = hashAPIKey (cak_APIKey resp), ak_IsActive = True, ak_CreatedAt = now\<rparr>]\<rparr>"
    "hashAPIKey (cak_APIKey resp) \<notin> ak_KeyHash ` set (api_keys (tables s))" "has_university (tables s) v"
proof -
  obtain buffer where b: "ReadFull 24 source = Inr buffer" "generateAPIKey source = Inr (''vuz_'' @ hex_encode buffer)"
    using assms by (auto simp: CreateAPIKey_def run_simps generateAPIKey_def bind_res_def split: sum.splits)
  let ?k = "''vuz_'' @ hex_encode buffer"
  obtain item where c: "APIKey_Create i now v name (hashAPIKey ?k) s = (Inr item, t)"
    "resp = \<lparr>cak_ID = ak_ID item, cak_Name = ak_Name item, cak_APIKey = ?k, cak_CreatedAt = ak_CreatedAt item\<rparr>"
    using assms b(2) by (auto simp: CreateAPIKey_def run_simps)
  have "length buffer = 24" using b(1) by (auto simp: ReadFull_def split: option.splits if_splits)
  then show thesis
    using that c(2) run_stmt_InrD[OF c(1)[unfolded APIKey_Create_def]]
    by (auto simp: Let_def split: if_splits)
qed

text \<open>What a stored key resolves to in a consistent database: its university exactly if that is active.\<close>

lemma resolve_api_key:
  assumes "db_ok d" "k \<in> set (api_keys d)" "ak_IsActive k" "u \<in> set (universities d)" "u_ID u = ak_VUZID k"
    "ak_KeyHash k = hashAPIKey key"
  shows "fst (ResolveActiveUniversity key \<lparr>tables = d, faults = []\<rparr>) =
    (if u_Status u = UniversityStatusActive then Inr (u\<lparr>u_VuzCode := ''''\<rparr>, k) else Inl ErrNoRows)"
proof -
  have du: "distinct (map u_ID (universities d))" and dk: "distinct (map ak_KeyHash (api_keys d))"
    using assms(1) by (simp_all add: db_ok_defs)
  have "filter (\<lambda>x. ak_KeyHash x = hashAPIKey key) (api_keys d) = [k]"
    using filter_key_unique[OF dk assms(2)] assms(6) by simp
  moreover have "filter (\<lambda>x. ak_KeyHash x = hashAPIKey key \<and> ak_IsActive x) (api_keys d) =
      filter ak_IsActive (filter (\<lambda>x. ak_KeyHash x = hashAPIKey key) (api_keys d))"
    by (simp add: conj_commute)
  ultimately have f: "filter (\<lambda>x. ak_KeyHash x = hashAPIKey key \<and> ak_IsActive x) (api_keys d) = [k]"
    using assms(3) by (simp only: filter.simps if_True)
  have "filter (\<lambda>x. u_ID x = ak_VUZID k) (universities d) = [u]"
    using filter_key_unique[OF du assms(4)] assms(5) by simp
  moreover have "filter (\<lambda>x. u_ID x = ak_VUZID k \<and> u_Status x = UniversityStatusActive) (universities d) =
      filter (\<lambda>x. u_Status x = UniversityStatusActive) (filter (\<lambda>x. u_ID x = ak_VUZID k) (universities d))"
    by simp
  ultimately have "filter (\<lambda>x. u_ID x = ak_VUZID k \<and> u_Status x = UniversityStatusActive) (universities d) =
      (if u_Status u = UniversityStatusActive then [u] else [])"
    by (simp only: filter.simps split: if_split)
  then show ?thesis
    using f by (simp add: ResolveActiveUniversity_def APIKey_FindActiveUniversityByHash_def)
qed

lemma sample_api_key:
  "\<exists>resp t. CreateAPIKey (Some (replicate 24 (CHR ''r''))) ''k1'' 3 ''u1'' None \<lparr>tables = sample_db, faults = []\<rparr>
     = (Inr resp, t)"
  by (simp add: CreateAPIKey_def generateAPIKey_def ReadFull_def APIKey_Create_def and_then_def ret_def Let_def
      has_university_def sample_db_def sample_university_def empty_db_def)

section \<open>Signing keys\<close>

lemma match_public_key_Inr:
  assumes "match_public_key lib v u k pem s = (Inr x, t)" "u \<in> set (universities (tables s))" "u_ID u = v"
  shows "\<exists>u' \<in> set (universities (tables t)). \<exists>p. u_ID u' = v \<and> u_PublicKey u' = Some p \<and>
    (p = pem \<or> parse_public_pem lib p = Inr k \<and>
       (\<exists>u0 \<in> set (universities (tables s)). u_ID u0 = v \<and> u_PublicKey u0 = Some p))"
proof (cases "\<exists>p. u_PublicKey u = Some p \<and> TrimSpace p \<noteq> ''''")
  case True
  then have "\<exists>p. u_PublicKey u = Some p \<and> parse_public_pem lib p = Inr k" "t = s"
    using assms(1) by (auto simp: match_public_key_def run_simps split: sum.splits if_splits)
  then show ?thesis using assms(2,3) by blast
next
  case False
  then have "University_UpdatePublicKey v pem s = (Inr x, t)"
    using assms(1) by (auto simp: match_public_key_def split: option.splits if_splits)
  then have "tables t = tables s\<lparr>universities := map (\<lambda>u. if u_ID u = v then u\<lparr>u_PublicKey := Some pem\<rparr> else u)
      (universities (tables s))\<rparr>"
    unfolding University_UpdatePublicKey_def by (auto dest: run_stmt_InrD)
  then show ?thesis
    using assms(2,3) by (intro bexI[of _ "u\<lparr>u_PublicKey := Some pem\<rparr>"] exI[of _ pem]) auto
qed

lemma find_SomeD: "find P xs = Some x \<Longrightarrow> x \<in> set xs \<and> P x"
  by (auto simp: find_Some_iff)

lemma SigningKey_Upsert_Inr:
  assumes "SigningKey_Upsert now v x ka ea f s = (Inr k, t)"
  shows "k \<in> set (university_signing_keys (tables t)) \<and> usk_VUZID k = v \<and> usk_EncryptedPrivateKey k = x \<and>
    usk_PublicKeyFingerprint k = f \<and> universities (tables t) = universities (tables s)"
proof -
  obtain d where d: "tables t = d" by simp
  from run_stmt_InrD[OF assms[unfolded SigningKey_Upsert_def]] show ?thesis
    unfolding d by (auto simp: Let_def image_iff split: if_splits option.splits dest!: find_SomeD)
qed

lemma SigningKeyService_Upsert_Inr:
  assumes "SigningKeyService_Upsert lib (KeyEncryptor key) source now v pem s = (Inr resp, t)"
  shows "\<exists>priv derived k u p. parse_private_pem lib pem = Inr priv \<and>
    marshal_public_pem lib (public_of lib priv) = Inr derived \<and>
    k \<in> set (university_signing_keys (tables t)) \<and> usk_VUZID k = v \<and>
    KeyEncryptor_Open key (usk_EncryptedPrivateKey k) = Inr pem \<and>
    usk_PublicKeyFingerprint k = hex_encode (Sum256 (public_of lib priv)) \<and>
    u \<in> set (universities (tables t)) \<and> u_ID u = v \<and> u_PublicKey u = Some p \<and>
    (p = derived \<or> parse_public_pem lib p = Inr (public_of lib priv) \<and>
       (\<exists>u0 \<in> set (universities (tables s)). u_ID u0 = v \<and> u_PublicKey u0 = Some p)) \<and>
    resp = toSigningKeyStatusResponse k"
proof -
  obtain priv derived where a: "parse_private_pem lib pem = Inr priv"
    "marshal_public_pem lib (public_of lib priv) = Inr derived"
    using assms by (auto simp: SigningKeyService_Upsert_def run_simps Let_def split: sum.splits)
  obtain u s1 s2 x k where b: "University_FindByID v s = (Inr u, s1)"
    "match_public_key lib v u (public_of lib priv) derived s1 = (Inr (), s2)"
    "cipher_Seal (KeyEncryptor key) source pem = Inr x"
    "SigningKey_Upsert now v x SigningKeyAlgorithmEd25519 SigningKeyEncryptionAESGCM
       (FingerprintEd25519PublicKey (public_of lib priv)) s2 = (Inr k, t)"
    "resp = toSigningKeyStatusResponse k"
    using assms a by (auto simp: SigningKeyService_Upsert_def run_simps Let_def dest: sym)
  note f = University_FindByID_Inr[OF b(1)]
  obtain u' p where u': "u' \<in> set (universities (tables s2))" "u_ID u' = v" "u_PublicKey u' = Some p"
    "p = derived \<or> parse_public_pem lib p = Inr (public_of lib priv) \<and>
       (\<exists>u0 \<in> set (universities (tables s)). u_ID u0 = v \<and> u_PublicKey u0 = Some p)"
    using match_public_key_Inr[OF b(2)] f by auto
  have o: "KeyEncryptor_Open key x = Inr pem"
    using b(3) KeyEncryptor_open_seal[of key source pem x] by (simp add: KeyEncryptor_def)
  note g = SigningKey_Upsert_Inr[OF b(4)]
  show ?thesis
    by (rule exI[of _ priv], rule exI[of _ derived], rule exI[of _ k], rule exI[of _ u'], rule exI[of _ p])
       (use a u' o g b(5) in \<open>simp add: FingerprintEd25519PublicKey_def\<close>)
qed

text \<open>
  C16: a stored signing key belongs to its university.  When the service accepts a private key, the
  stored ciphertext opens under the master key to exactly that PEM text, its fingerprint is the
  SHA-256 of the derived public key, and the public key of the university is the derived one: its
  stored PEM parses to it, or it is the PEM just derived because there was none.
\<close>

theorem signing_key_matches:
  assumes "SigningKeyService_Upsert lib (KeyEncryptor key) source now v pem s = (Inr resp, t)"
  shows "\<exists>priv derived k u p. parse_private_pem lib pem = Inr priv \<and>
    marshal_public_pem lib (public_of lib priv) = Inr derived \<and>
    k \<in> set (university_signing_keys (tables t)) \<and> usk_VUZID k = v \<and>
    KeyEncryptor_Open key (usk_EncryptedPrivateKey k) = Inr pem \<and>
    usk_PublicKeyFingerprint k = hex_encode (Sum256 (public_of lib priv)) \<and>
    u \<in> set (universities (tables t)) \<and> u_ID u = v \<and> u_PublicKey u = Some p \<and>
    (p = derived \<or> parse_public_pem lib p = Inr (public_of lib priv)) \<and>
    resp = toSigningKeyStatusResponse k"
  using SigningKeyService_Upsert_Inr[OF assms] by (elim exE conjE) (intro exI conjI, assumption+, blast)

text \<open>A key format in which the private key, the public key and its PEM are the same text.\<close>

definition plain_pem :: ed25519_pem where
  "plain_pem = \<lparr>parse_private_pem = Inr, public_of = id, marshal_public_pem = Inr, parse_public_pem = Inr\<rparr>"

lemma sample_signing_key:
  "\<exists>resp t. SigningKeyService_Upsert plain_pem (KeyEncryptor sample_key) (Some (replicate 12 (CHR ''r''))) 3 ''u1''
     ''pem'' \<lparr>tables = sample_db, faults = []\<rparr> = (Inr resp, t)"
  by (simp add: SigningKeyService_Upsert_def plain_pem_def and_then_def University_FindByID_def
      match_public_key_def University_UpdatePublicKey_def KeyEncryptor_def KeyEncryptor_Seal_def aes_gcm_def
      NewCipher_def ReadFull_def sample_key_def SigningKey_Upsert_def SigningKeyAlgorithmEd25519_def Let_def ret_def
      has_university_def sample_db_def sample_university_def empty_db_def)

lemma signing_key_matches_witness:
  "\<exists>resp t k. SigningKeyService_Upsert plain_pem (KeyEncryptor sample_key) (Some (replicate 12 (CHR ''r''))) 3 ''u1''
     ''pem'' \<lparr>tables = sample_db, faults = []\<rparr> = (Inr resp, t) \<and>
     k \<in> set (university_signing_keys (tables t)) \<and>
     KeyEncryptor_Open sample_key (usk_EncryptedPrivateKey k) = Inr ''pem''"
proof -
  obtain resp t where r: "SigningKeyService_Upsert plain_pem (KeyEncryptor sample_key)
      (Some (replicate 12 (CHR ''r''))) 3 ''u1'' ''pem'' \<lparr>tables = sample_db, faults = []\<rparr> = (Inr resp, t)"
    using sample_signing_key by blast
  from signing_key_matches[OF r] r show ?thesis by blast
qed

section \<open>Deleting a university\<close>

text \<open>
  C17: the deletion of a university is exact and atomic.  A successful call removes the university,
  its keys, its batches with their payloads and results, its diplomas and the share links to them,
  and nothing else; a failing one has changed nothing or, when only the report of the commit was
  lost, has deleted everything.
\<close>

theorem delete_exact:
  assumes "DeleteUniversity i s = (r, t)"
  shows "(r = Inr () \<longrightarrow> has_university (tables s) i \<and> tables t = without_university i (tables s)) \<and>
    (tables t = tables s \<or> (has_university (tables s) i \<and> tables t = without_university i (tables s))) \<and>
    (tables t = without_university i (tables s) \<longrightarrow> \<not> has_university (tables t) i \<and>
       (\<forall>k \<in> set (api_keys (tables t)). ak_VUZID k \<noteq> i) \<and> (\<forall>h \<in> set (diploma_hashes (tables t)). hr_vuz_id h \<noteq> i) \<and>
       (\<forall>b \<in> set (batches (tables t)). br_vuz_id b \<noteq> i))"
proof -
  have "(r = Inr () \<longrightarrow> has_university (tables s) i \<and> tables t = without_university i (tables s)) \<and>
    (tables t = tables s \<or> (has_university (tables s) i \<and> tables t = without_university i (tables s)))"
    using transparent_delete_cascade assms[unfolded DeleteUniversity_def University_DeleteCascade_def]
  proof (cases rule: with_tx_cases)
    case (2 x)
    then show ?thesis by (auto simp: pure_delete_cascade split: if_splits)
  qed simp
  then show ?thesis by (auto simp: without_university_def has_university_def)
qed

lemma delete_exact_witness:
  "\<exists>t. DeleteUniversity ''u1'' \<lparr>tables = sample_db1, faults = []\<rparr> = (Inr (), t) \<and> diploma_hashes (tables t) = []"
proof -
  obtain r t where d: "DeleteUniversity ''u1'' \<lparr>tables = sample_db1, faults = []\<rparr> = (r, t)" by force
  have "has_university sample_db1 ''u1''"
    by (simp add: has_university_def sample_db1_def sample_db_def sample_university_def empty_db_def)
  then have "r = Inr ()"
    using d with_tx_pure[OF transparent_delete_cascade, of "''u1''" sample_db1]
    by (simp add: DeleteUniversity_def University_DeleteCascade_def pure_delete_cascade)
  then have "tables t = without_university ''u1'' sample_db1" using delete_exact[OF d] by simp
  moreover have "diploma_hashes (without_university ''u1'' sample_db1) = []"
    by (simp add: without_university_def sample_db1_def)
  ultimately show ?thesis using d \<open>r = Inr ()\<close> by auto
qed

end
