(* ===== verification/GatewayProps.thy ===== *)
theory GatewayProps
  imports Gateway AccountProps
begin

text \<open>
  Properties of whole runs of the gateway: the invariant of the registry holds in every reachable
  state, and a revoked diploma stays revoked.
\<close>

lemma revoked_by_Revoke:
  assumes "Revoke now v h s0 = (Inr (), s)"
  shows "revoked h v (tables s)"
proof -
  let ?f = "\<lambda>r. if hr_hash r = h \<and> hr_vuz_id r = v
      then r\<lparr>hr_status := DiplomaStatusRevoked, hr_revoked_at := Some now\<rparr> else r"
  obtain row where row: "row \<in> set (diploma_hashes (tables s0))" "hr_hash row = h" "hr_vuz_id row = v"
    "diploma_hashes (tables s) = map ?f (diploma_hashes (tables s0))"
    using arg_cong[OF run_stmt_InrD[OF assms[unfolded Revoke_def MarkDiplomaRevoked_def]], of fst]
      arg_cong[OF run_stmt_InrD[OF assms[unfolded Revoke_def MarkDiplomaRevoked_def]], of "diploma_hashes \<circ> snd"]
    by (auto split: if_splits)
  have "?f row \<in> set (diploma_hashes (tables s))" using row(1,4) by simp
  then show ?thesis
    unfolding revoked_def by (rule bexI[rotated]) (simp add: row(2,3))
qed

definition sample_env :: env where
  "sample_env = \<lparr>e_hasher = plain_hasher, e_share = sample_jwt, e_service = sample_service,
     e_qr = \<lparr>qr_PNG = (\<lambda>_ _. Inr ''''), qr_SVG = (\<lambda>_ _. Inr '''')\<rparr>, e_lower = id,
     e_decoder = Some sample_decoder, e_cipher = Some (KeyEncryptor sample_key), e_pem = plain_pem,
     e_encryptor = KeyEncryptor sample_key\<rparr>"

text \<open>A run of two calls: a seeded university, and its first batch.\<close>

definition seeded_db :: db where
  "seeded_db = empty_db\<lparr>universities :=
     [new_university ''u1'' 1 sample_request ''h1'' UniversityStatusActive]\<rparr>"

lemma sample_seed:
  "gateway_step sample_env init_system (SeedUniversity ''u1'' 1 sample_request ''h1'' UniversityStatusActive)
     \<lparr>sys_db = seeded_db, sys_topic = []\<rparr>"
proof -
  have "exec sample_env (SeedUniversity ''u1'' 1 sample_request ''h1'' UniversityStatusActive)
      (\<lparr>tables = sys_db init_system, faults = []\<rparr>, sys_topic init_system) =
      (\<lparr>tables = seeded_db, faults = []\<rparr>, [])"
    by (simp add: exec_def after_def University_UpsertDemo_def with_tx_def upsert_demo_body_def attempt_def
        select_demo_def insert_university_def university_status_def has_university_def university_clash_def
        init_system_def empty_db_def seeded_db_def Let_def)
  from gateway_step[OF this] show ?thesis by simp
qed

text \<open>
  C4: the invariant of the registry.  In every state a run of the gateway reaches from the empty
  database, under any faults, arguments and order of calls: the keys of all tables are unique, no
  row refers to a missing one, the checked columns hold checked values, every result is a complete
  success or a complete error, a diploma is active or revoked with a date, and the counter and the
  status of every batch agree with its stored results.
\<close>

theorem reachable_registry_ok:
  assumes "gateway_run e init_system cs x"
  shows "db_ok (sys_db x)"
  by (rule reachable_ok[OF assms])

lemma sample_run: "gateway_run sample_env init_system
    [SeedUniversity ''u1'' 1 sample_request ''h1'' UniversityStatusActive] \<lparr>sys_db = seeded_db, sys_topic = []\<rparr>"
  by (rule run_more[OF sample_seed run_none])

lemma reachable_registry_ok_witness: "db_ok seeded_db"
  using reachable_registry_ok[OF sample_run] by simp

text \<open>
  C6: revocation is for good.  Once \<open>Revoke\<close> has reported success for a diploma of a university, the
  diploma is revoked with a date in every later state of the gateway, whatever is uploaded, processed
  or redelivered, until that university itself is deleted.
\<close>

theorem revocation_is_final:
  assumes "Revoke now v h \<lparr>tables = sys_db x, faults = fs\<rparr> = (Inr (), s)"
    "gateway_run e \<lparr>sys_db = tables s, sys_topic = topic\<rparr> cs y" "Delete v \<notin> set cs"
  shows "\<exists>row \<in> set (diploma_hashes (sys_db y)). hr_hash row = h \<and> hr_vuz_id row = v \<and>
    hr_status row = DiplomaStatusRevoked \<and> hr_revoked_at row \<noteq> None"
proof -
  have "revoked h v (sys_db y)"
    using revocation.run_keeps[OF assms(2)] revoked_by_Revoke[OF assms(1)] assms(3) by fastforce
  then show ?thesis by (simp add: revoked_def)
qed

lemma revocation_is_final_witness:
  "\<exists>s. Revoke 9 ''u1'' ''h0'' \<lparr>tables = sample_db1, faults = []\<rparr> = (Inr (), s) \<and>
     (\<exists>row \<in> set (diploma_hashes (tables s)). hr_hash row = ''h0'' \<and> hr_status row = DiplomaStatusRevoked)"
proof -
  obtain s where r: "Revoke 9 ''u1'' ''h0'' \<lparr>tables = sample_db1, faults = []\<rparr> = (Inr (), s)"
    by (simp add: Revoke_def MarkDiplomaRevoked_def sample_db1_def)
  from revocation_is_final[of 9 "''u1''" "''h0''" "\<lparr>sys_db = sample_db1, sys_topic = []\<rparr>" "[]" s sample_env "[]" "[]"
      "\<lparr>sys_db = tables s, sys_topic = []\<rparr>"] r
  show ?thesis by auto
qed

end
