(* ===== verification/VerifyHash.thy ===== *)
theory VerifyHash
  imports Security
begin

text \<open>
  \<open>pubver/pkg/verifyhash\<close>: the raw string of a diploma and its hash (\<open>hash.go\<close>), the decryption of
  the diploma inside a token (\<open>a256gcm.go\<close>), the check of the token's Ed25519 signature
  (\<open>ed25519.go\<close>) and the claims of the unverified token (\<open>qr_jwt.go\<close>); with the errors of
  \<open>pubver/internal/domain/errors.go\<close>.
\<close>

section \<open>Errors\<close>

datatype verr =
    ErrInvalidPayload
  | ErrInvalidInput
  | ErrDiplomaHashClaimMismatch
  | ErrSubClaimMismatch
  | ErrDiplomaRecordNotFound
  | ErrUniversityVerificationKeyNotFound
  | Errorf string
  | ErrDriver err
  | Joined "verr list"

text \<open>\<open>errors.Is\<close> looks into joined errors.\<close>

fun errors_Is :: "verr \<Rightarrow> verr \<Rightarrow> bool" where
  "errors_Is (Joined es) target = (Joined es = target \<or> (\<exists>e \<in> set es. errors_Is e target))"
| "errors_Is e target = (e = target)"

type_synonym 'a vres = "verr + 'a"

section \<open>hash.go\<close>

record DiplomaHashInput =
  dhi_FullName :: string
  dhi_DiplomaNumber :: string
  dhi_Specialty :: string
  dhi_Degree :: string
  dhi_Faculty :: string
  dhi_Year :: int
  dhi_VUZID :: string
  dhi_Salt :: string

definition validateDiplomaCoreFields :: "string \<Rightarrow> string \<Rightarrow> string \<Rightarrow> int \<Rightarrow> unit vres" where
  "validateDiplomaCoreFields fullName diplomaNumber specialty year =
     (if TrimSpace fullName = '''' then Inl (Errorf ''full_name must not be empty'')
      else if TrimSpace diplomaNumber = '''' then Inl (Errorf ''diploma_number must not be empty'')
      else if TrimSpace specialty = '''' then Inl (Errorf ''specialty must not be empty'')
      else if year \<le> 0 then Inl (Errorf ''year must be a positive integer'')
      else Inr ())"

definition DiplomaHashInput_Validate :: "DiplomaHashInput \<Rightarrow> unit vres" where
  "DiplomaHashInput_Validate i =
     bind_res (validateDiplomaCoreFields (dhi_FullName i) (dhi_DiplomaNumber i) (dhi_Specialty i) (dhi_Year i))
       (\<lambda>_. if TrimSpace (dhi_VUZID i) = '''' then Inl (Errorf ''vuz_id must not be empty'')
            else if TrimSpace (dhi_Salt i) = '''' then Inl (Errorf ''salt must not be empty'')
            else Inr ())"

definition raw_parts :: "DiplomaHashInput \<Rightarrow> string list" where
  "raw_parts i = [TrimSpace (dhi_DiplomaNumber i), TrimSpace (dhi_FullName i), TrimSpace (dhi_Specialty i),
     TrimSpace (dhi_Degree i), TrimSpace (dhi_Faculty i), Itoa (dhi_Year i), TrimSpace (dhi_VUZID i),
     TrimSpace (dhi_Salt i)]"

definition BuildRawDiplomaString :: "DiplomaHashInput \<Rightarrow> string vres" where
  "BuildRawDiplomaString i = bind_res (DiplomaHashInput_Validate i) (\<lambda>_. Inr (Join (raw_parts i) ''|''))"

definition HashDiplomaInput :: "DiplomaHashInput \<Rightarrow> string vres" where
  "HashDiplomaInput i = bind_res (BuildRawDiplomaString i) (\<lambda>raw. Inr (hex_encode (Sum256 raw)))"

section \<open>a256gcm.go\<close>

record EncryptedDiplomaPayload =
  edp_FullName :: string
  edp_StudentName :: string
  edp_DiplomaNumber :: string
  edp_Specialty :: string
  edp_Degree :: string
  edp_Faculty :: string
  edp_Year :: int
  edp_Salt :: string

definition payload_fields ::
  "(string \<times> (json \<Rightarrow> EncryptedDiplomaPayload \<Rightarrow> EncryptedDiplomaPayload option)) list" where
  "payload_fields =
     [(''full_name'', set_string edp_FullName_update), (''student_name'', set_string edp_StudentName_update),
      (''diploma_number'', set_string edp_DiplomaNumber_update),
      (''specialty'', set_string edp_Specialty_update), (''degree'', set_string edp_Degree_update),
      (''faculty'', set_string edp_Faculty_update), (''year'', set_int edp_Year_update),
      (''salt'', set_string edp_Salt_update)]"

definition empty_payload :: EncryptedDiplomaPayload where
  "empty_payload = \<lparr>edp_FullName = '''', edp_StudentName = '''', edp_DiplomaNumber = '''',
     edp_Specialty = '''', edp_Degree = '''', edp_Faculty = '''', edp_Year = 0, edp_Salt = ''''\<rparr>"

definition normalize :: "EncryptedDiplomaPayload \<Rightarrow> EncryptedDiplomaPayload vres" where
  "normalize p =
     (let p = p\<lparr>edp_FullName := TrimSpace (edp_FullName p), edp_StudentName := TrimSpace (edp_StudentName p)\<rparr>
      in if edp_FullName p = '''' \<and> edp_StudentName p \<noteq> ''''
         then Inr (p\<lparr>edp_FullName := edp_StudentName p\<rparr>)
         else if edp_FullName p \<noteq> '''' \<and> edp_StudentName p \<noteq> '''' \<and> edp_FullName p \<noteq> edp_StudentName p
         then Inl (Errorf ''full_name and student_name must match when both are present'')
         else Inr p)"

definition EncryptedDiplomaPayload_Validate :: "EncryptedDiplomaPayload \<Rightarrow> unit vres" where
  "EncryptedDiplomaPayload_Validate p =
     bind_res (validateDiplomaCoreFields (edp_FullName p) (edp_DiplomaNumber p) (edp_Specialty p) (edp_Year p))
       (\<lambda>_. if TrimSpace (edp_Salt p) = '''' then Inl (Errorf ''salt must not be empty'') else Inr ())"

definition HashInput :: "EncryptedDiplomaPayload \<Rightarrow> string \<Rightarrow> DiplomaHashInput" where
  "HashInput p vuzID = \<lparr>dhi_FullName = edp_FullName p, dhi_DiplomaNumber = edp_DiplomaNumber p,
     dhi_Specialty = edp_Specialty p, dhi_Degree = edp_Degree p, dhi_Faculty = edp_Faculty p,
     dhi_Year = edp_Year p, dhi_VUZID = vuzID, dhi_Salt = edp_Salt p\<rparr>"

definition decodeEncryptedValue :: "string \<Rightarrow> bytes vres" where
  "decodeEncryptedValue v =
     (let trimmed = TrimSpace v
      in if trimmed = '''' then Inl (Errorf ''enc must not be empty'')
         else of_option (Errorf ''decode enc base64'') (std_decode trimmed))"

text \<open>The decoder refuses unknown fields and reads the first JSON value of the plaintext.\<close>

definition decode_payload :: "bytes \<Rightarrow> EncryptedDiplomaPayload option" where
  "decode_payload plaintext = (case json_decode_first plaintext of
     None \<Rightarrow> None | Some j \<Rightarrow> decode_struct payload_fields True empty_payload j)"

definition DecryptEncryptedDiplomaPayload :: "string \<Rightarrow> bytes \<Rightarrow> EncryptedDiplomaPayload vres" where
  "DecryptEncryptedDiplomaPayload encValue key =
     bind_res (decodeEncryptedValue encValue) (\<lambda>rawCiphertext.
     bind_res (of_option (Errorf ''init aes cipher'') (NewCipher key)) (\<lambda>gcm.
       if length rawCiphertext < 12 + 16 then Inl (Errorf ''enc must contain nonce and ciphertext'')
       else bind_res (of_option (Errorf ''decrypt enc with A256GCM'')
              (gcm_open gcm (take 12 rawCiphertext) (drop 12 rawCiphertext))) (\<lambda>plaintext.
            bind_res (of_option (Errorf ''decode decrypted enc payload'') (decode_payload plaintext)) (\<lambda>payload.
            bind_res (normalize payload) (\<lambda>payload.
            bind_res (EncryptedDiplomaPayload_Validate payload) (\<lambda>_. Inr payload))))))"

section \<open>qr_jwt.go\<close>

definition splitJWT :: "string \<Rightarrow> (string \<times> string \<times> string) vres" where
  "splitJWT token = (case Split (CHR ''.'') token of
     [a, b, c] \<Rightarrow> Inr (a, b, c) | _ \<Rightarrow> Inl (Errorf ''token must have 3 segments''))"

record JWTHeader =
  jh_Alg :: string
  jh_Typ :: string
  jh_Kid :: string

definition header_fields :: "(string \<times> (json \<Rightarrow> JWTHeader \<Rightarrow> JWTHeader option)) list" where
  "header_fields = [(''alg'', set_string jh_Alg_update), (''typ'', set_string jh_Typ_update),
     (''kid'', set_string jh_Kid_update)]"

definition DecodeUnverifiedJWTHeader :: "string \<Rightarrow> JWTHeader vres" where
  "DecodeUnverifiedJWTHeader token =
     bind_res (splitJWT token) (\<lambda>(a, b, c).
     bind_res (of_option (Errorf ''decode jwt header'') (raw_url_decode a)) (\<lambda>headerBytes.
       of_option (Errorf ''unmarshal jwt header'')
         (case json_parse headerBytes of None \<Rightarrow> None
          | Some j \<Rightarrow> decode_struct header_fields False
              \<lparr>jh_Alg = '''', jh_Typ = '''', jh_Kid = ''''\<rparr> j)))"

text \<open>A decoded object as a map: the last binding of a key wins, \<open>null\<close> is the nil map.\<close>

definition object_map :: "json \<Rightarrow> (string \<rightharpoonup> json) option" where
  "object_map j = (case j of JObj kvs \<Rightarrow> Some (map_of (rev kvs)) | JNull \<Rightarrow> Some Map.empty | _ \<Rightarrow> None)"

definition DecodeUnverifiedJWT :: "string \<Rightarrow> (string \<rightharpoonup> json) vres" where
  "DecodeUnverifiedJWT token =
     bind_res (splitJWT token) (\<lambda>(a, b, c).
     bind_res (of_option (Errorf ''decode jwt payload'') (raw_url_decode b)) (\<lambda>payload.
       of_option (Errorf ''unmarshal jwt payload'')
         (case json_decode_first payload of None \<Rightarrow> None | Some j \<Rightarrow> object_map j)))"

definition decodeJWTForVerification :: "string \<Rightarrow> (JWTHeader \<times> string \<times> bytes) vres" where
  "decodeJWTForVerification token =
     bind_res (splitJWT token) (\<lambda>(a, b, c).
     bind_res (DecodeUnverifiedJWTHeader token) (\<lambda>header.
     bind_res (of_option (Errorf ''decode jwt signature'') (raw_url_decode c)) (\<lambda>signature.
       Inr (header, a @ ''.'' @ b, signature))))"

definition extractStringClaim :: "(string \<rightharpoonup> json) \<Rightarrow> string \<Rightarrow> string vres" where
  "extractStringClaim claims key =
     (case claims key of
        None \<Rightarrow> Inl (Errorf ''claim is missing'')
      | Some (JStr v) \<Rightarrow>
          if TrimSpace v = '''' then Inl (Errorf ''claim must be a non-empty string'') else Inr (TrimSpace v)
      | Some _ \<Rightarrow> Inl (Errorf ''claim must be a non-empty string''))"

definition optionalStringClaim :: "(string \<rightharpoonup> json) \<Rightarrow> string \<Rightarrow> string" where
  "optionalStringClaim claims key = (case claims key of Some (JStr v) \<Rightarrow> TrimSpace v | _ \<Rightarrow> '''')"

text \<open>The decoder keeps numbers as \<open>json.Number\<close>, the only numeric type that occurs.\<close>

definition extractInt64Claim :: "(string \<rightharpoonup> json) \<Rightarrow> string \<Rightarrow> int vres" where
  "extractInt64Claim claims key =
     (case claims key of
        None \<Rightarrow> Inl (Errorf ''claim is missing'')
      | Some (JNum n) \<Rightarrow> of_option (Errorf ''claim must be an integer'') (Atoi n)
      | Some _ \<Rightarrow> Inl (Errorf ''claim must be an integer''))"

record OuterQRClaims =
  oqc_Sub :: string
  oqc_DiplomaHash :: string
  oqc_VUZID :: string
  oqc_Enc :: string
  oqc_IssuedAt :: int

definition ExtractVUZIDFromMap :: "(string \<rightharpoonup> json) \<Rightarrow> string vres" where
  "ExtractVUZIDFromMap claims = extractStringClaim claims ''vuz_id''"

definition ExtractVUZID :: "string \<Rightarrow> string vres" where
  "ExtractVUZID token = bind_res (DecodeUnverifiedJWT token) ExtractVUZIDFromMap"

definition ExtractOuterQRClaimsFromMap :: "(string \<rightharpoonup> json) \<Rightarrow> OuterQRClaims vres" where
  "ExtractOuterQRClaimsFromMap claims =
     bind_res (ExtractVUZIDFromMap claims) (\<lambda>vuzID.
     bind_res (extractInt64Claim claims ''iat'') (\<lambda>issuedAt.
     bind_res (extractStringClaim claims ''sub'') (\<lambda>sub.
       let diplomaHash = optionalStringClaim claims ''diploma_hash'';
           diplomaHash = (if diplomaHash = '''' then sub else diplomaHash)
       in bind_res (extractStringClaim claims ''enc'') (\<lambda>enc.
            Inr \<lparr>oqc_Sub = sub, oqc_DiplomaHash = diplomaHash, oqc_VUZID = vuzID, oqc_Enc = enc,
                 oqc_IssuedAt = issuedAt\<rparr>))))"

definition ExtractOuterQRClaims :: "string \<Rightarrow> OuterQRClaims vres" where
  "ExtractOuterQRClaims token = bind_res (DecodeUnverifiedJWT token) ExtractOuterQRClaimsFromMap"

section \<open>ed25519.go\<close>

text \<open>
  The curve and the DER and PEM formats: \<open>ed25519.Verify\<close> of a 32-byte key, the block of
  \<open>pem.Decode\<close>, and the Ed25519 key \<open>x509.ParsePKIXPublicKey\<close> finds, if it finds one.
\<close>

record ed25519_lib =
  ed_Verify :: "bytes \<Rightarrow> bytes \<Rightarrow> bytes \<Rightarrow> bool"
  ed_PemDecode :: "string \<Rightarrow> bytes option"
  ed_ParsePKIX :: "bytes \<Rightarrow> bytes option"

definition looksLikeHex :: "string \<Rightarrow> bool" where
  "looksLikeHex v \<longleftrightarrow> v \<noteq> [] \<and> length v mod 2 = 0 \<and>
     list_all (\<lambda>c. (48 \<le> code c \<and> code c \<le> 57) \<or> (97 \<le> code c \<and> code c \<le> 102) \<or>
       (65 \<le> code c \<and> code c \<le> 70)) v"

definition parseEd25519PublicKeyBytes :: "ed25519_lib \<Rightarrow> bytes \<Rightarrow> bytes vres" where
  "parseEd25519PublicKeyBytes lib raw =
     (if length raw = 32 then Inr raw
      else of_option (Errorf ''failed to parse ed25519 public key'') (ed_ParsePKIX lib raw))"

definition parseEd25519PublicKey :: "ed25519_lib \<Rightarrow> string \<Rightarrow> bytes vres" where
  "parseEd25519PublicKey lib v =
     (let trimmed = TrimSpace v;
          base64 = (case std_decode trimmed of
             Some decoded \<Rightarrow> parseEd25519PublicKeyBytes lib decoded
           | None \<Rightarrow> (case raw_std_decode trimmed of
               Some decoded \<Rightarrow> parseEd25519PublicKeyBytes lib decoded
             | None \<Rightarrow> Inl (Errorf ''unsupported ed25519 public key format'')))
      in if trimmed = '''' then Inl (Errorf ''public key is empty'')
         else case ed_PemDecode lib trimmed of
           Some block \<Rightarrow> parseEd25519PublicKeyBytes lib block
         | None \<Rightarrow>
             if looksLikeHex trimmed
             then (case hex_decode trimmed of
                     Some decoded \<Rightarrow> parseEd25519PublicKeyBytes lib decoded | None \<Rightarrow> base64)
             else base64)"

definition VerifyEd25519JWT :: "ed25519_lib \<Rightarrow> string \<Rightarrow> string \<Rightarrow> unit vres" where
  "VerifyEd25519JWT lib token publicKeyValue =
     bind_res (decodeJWTForVerification token) (\<lambda>(header, signingInput, signature).
       if jh_Alg header \<noteq> ''EdDSA'' then Inl (Errorf ''unsupported jwt alg'')
       else bind_res (parseEd25519PublicKey lib publicKeyValue) (\<lambda>publicKey.
         if \<not> ed_Verify lib publicKey signingInput signature
         then Inl (Errorf ''verify ed25519 jwt: signature is invalid'') else Inr ()))"

end
