(* ===== verification/PubVerify.thy ===== *)
theory PubVerify
  imports VerifyHash UniversityInv
begin

text \<open>
  The public verification service: \<open>pubver/internal/domain/model.go\<close>,
  \<open>pubver/internal/repository/postgres/verification_repository.go\<close> (read-only queries on the
  gateway's database) and \<open>pubver/internal/service/verification_service.go\<close>.
\<close>

section \<open>Domain\<close>

definition DiplomaStatusNotFound :: string where
  "DiplomaStatusNotFound = ''not_found''"

record VerificationUniversity =
  vu_Code :: string
  vu_Name :: string

record DiplomaRecord =
  dr_Hash :: string
  dr_DiplomaNumber :: string
  dr_Status :: string
  dr_University :: VerificationUniversity
  dr_GraduateYear :: "int option"
  dr_Specialty :: "string option"
  dr_Degree :: "string option"
  dr_Faculty :: "string option"
  dr_QRPayload :: "string option"
  dr_RevokedAt :: "time option"

record VerifyResponse =
  vr_Valid :: bool
  vr_Status :: string
  vr_Hash :: string
  vr_DiplomaNumber :: string
  vr_University :: string
  vr_VUZCode :: string
  vr_Year :: "int option"
  vr_Specialty :: "string option"
  vr_Degree :: "string option"
  vr_Faculty :: "string option"
  vr_RevokedAt :: "time option"

record SearchResponse =
  sr_Valid :: bool
  sr_Status :: string
  sr_University :: string
  sr_VUZCode :: string
  sr_Year :: "int option"
  sr_Specialty :: "string option"
  sr_Degree :: "string option"
  sr_Faculty :: "string option"

section \<open>Repository\<close>

text \<open>The rows of \<open>baseVerificationQuery\<close>: a hash, its university, its newest stored QR if any.\<close>

definition verification_rows :: "db \<Rightarrow> (hash_row \<times> University \<times> string option) list" where
  "verification_rows d = concat (map (\<lambda>h. map (\<lambda>u.
      (h, u, case latest_ok d (hr_hash h) of None \<Rightarrow> None | Some r \<Rightarrow> rr_qr r))
      (filter (\<lambda>u. u_ID u = hr_vuz_id h) (universities d))) (diploma_hashes d))"

text \<open>The scan into the record; \<open>diploma_number\<close> is scanned into a Go string, which refuses NULL.\<close>

definition scan_record :: "hash_row \<times> University \<times> string option \<Rightarrow> DiplomaRecord res" where
  "scan_record row = (case row of (h, u, qr) \<Rightarrow>
     bind_res (scan_text (hr_number h)) (\<lambda>number.
       Inr \<lparr>dr_Hash = hr_hash h, dr_DiplomaNumber = number, dr_Status = hr_status h,
         dr_University = \<lparr>vu_Code = u_VuzCode u, vu_Name = u_Name u\<rparr>, dr_GraduateYear = None,
         dr_Specialty = None, dr_Degree = None, dr_Faculty = None, dr_QRPayload = qr,
         dr_RevokedAt = hr_revoked_at h\<rparr>))"

type_synonym 'a vdm = "sess \<Rightarrow> 'a vres \<times> sess"

definition lift_err :: "(err \<Rightarrow> verr) \<Rightarrow> 'a dbm \<Rightarrow> 'a vdm" where
  "lift_err f m s = (case m s of (Inl e, t) \<Rightarrow> (Inl (f e), t) | (Inr x, t) \<Rightarrow> (Inr x, t))"

definition fetchOne :: "(hash_row \<times> University \<times> string option \<Rightarrow> bool) \<Rightarrow> DiplomaRecord vdm" where
  "fetchOne P = lift_err (\<lambda>e. if e = ErrNoRows then ErrDiplomaRecordNotFound else ErrDriver e)
     (run_stmt (\<lambda>d. (bind_res (first_row (filter P (verification_rows d))) scan_record, d)))"

definition FindByHash :: "string \<Rightarrow> DiplomaRecord vdm" where
  "FindByHash hash = fetchOne (\<lambda>(h, u, qr). hr_hash h = hash)"

definition FindByDiplomaNumber :: "string \<Rightarrow> string \<Rightarrow> DiplomaRecord vdm" where
  "FindByDiplomaNumber vuzCode diplomaNumber =
     fetchOne (\<lambda>(h, u, qr). u_VuzCode u = vuzCode \<and> hr_number h = Some diplomaNumber)"

definition FindUniversityVerificationKeyByID :: "string \<Rightarrow> string vdm" where
  "FindUniversityVerificationKeyByID vuzID s =
     (case run_stmt (\<lambda>d. (bind_res (first_row (filter (\<lambda>u. u_ID u = vuzID) (universities d)))
             (\<lambda>u. Inr (u_PublicKey u)), d)) s of
        (Inl e, t) \<Rightarrow>
          (Inl (if e = ErrNoRows then ErrUniversityVerificationKeyNotFound else ErrDriver e), t)
      | (Inr None, t) \<Rightarrow> (Inl ErrUniversityVerificationKeyNotFound, t)
      | (Inr (Some k), t) \<Rightarrow> (if k = '''' then Inl ErrUniversityVerificationKeyNotFound else Inr k, t))"

section \<open>Service\<close>

definition fill_text :: "string option \<Rightarrow> string \<Rightarrow> string option" where
  "fill_text old v = (if old = None \<and> TrimSpace v \<noteq> '''' then Some v else old)"

definition applyEncryptedPayload :: "DiplomaRecord \<Rightarrow> EncryptedDiplomaPayload \<Rightarrow> DiplomaRecord" where
  "applyEncryptedPayload r p = r\<lparr>
     dr_DiplomaNumber := (if TrimSpace (dr_DiplomaNumber r) = '''' then edp_DiplomaNumber p else dr_DiplomaNumber r),
     dr_GraduateYear := (if dr_GraduateYear r = None \<and> edp_Year p \<noteq> 0 then Some (edp_Year p) else dr_GraduateYear r),
     dr_Specialty := fill_text (dr_Specialty r) (edp_Specialty p),
     dr_Degree := fill_text (dr_Degree r) (edp_Degree p),
     dr_Faculty := fill_text (dr_Faculty r) (edp_Faculty p)\<rparr>"

definition toVerifyResponse :: "DiplomaRecord \<Rightarrow> VerifyResponse" where
  "toVerifyResponse r =
     \<lparr>vr_Valid = (dr_Status r = DiplomaStatusActive), vr_Status = dr_Status r, vr_Hash = dr_Hash r,
      vr_DiplomaNumber = dr_DiplomaNumber r, vr_University = vu_Name (dr_University r),
      vr_VUZCode = vu_Code (dr_University r), vr_Year = dr_GraduateYear r,
      vr_Specialty = dr_Specialty r, vr_Degree = dr_Degree r, vr_Faculty = dr_Faculty r,
      vr_RevokedAt = dr_RevokedAt r\<rparr>"

definition not_found_response :: "string \<Rightarrow> VerifyResponse" where
  "not_found_response hash =
     \<lparr>vr_Valid = False, vr_Status = DiplomaStatusNotFound, vr_Hash = hash, vr_DiplomaNumber = '''',
      vr_University = '''', vr_VUZCode = '''', vr_Year = None, vr_Specialty = None, vr_Degree = None,
      vr_Faculty = None, vr_RevokedAt = None\<rparr>"

text \<open>\<open>errors.Join(domain.ErrInvalidPayload, err)\<close> on the failing steps.\<close>

definition invalid :: "'a vres \<Rightarrow> 'a vres" where
  "invalid r = (case r of Inl e \<Rightarrow> Inl (Joined [ErrInvalidPayload, e]) | Inr x \<Rightarrow> Inr x)"

text \<open>What follows the signature check: the claims, the diploma inside them and its hash.\<close>

definition checked_hash :: "bytes \<Rightarrow> (string \<rightharpoonup> json) \<Rightarrow> (EncryptedDiplomaPayload \<times> string) vres" where
  "checked_hash encKey claimsMap =
     bind_res (invalid (ExtractOuterQRClaimsFromMap claimsMap)) (\<lambda>outerClaims.
     bind_res (invalid (DecryptEncryptedDiplomaPayload (oqc_Enc outerClaims) encKey)) (\<lambda>diplomaPayload.
     bind_res (invalid (HashDiplomaInput (HashInput diplomaPayload (oqc_VUZID outerClaims)))) (\<lambda>hash.
       if \<not> EqualFold (oqc_DiplomaHash outerClaims) hash
       then Inl (Joined [ErrInvalidPayload, ErrDiplomaHashClaimMismatch])
       else if \<not> EqualFold (oqc_Sub outerClaims) hash
       then Inl (Joined [ErrInvalidPayload, ErrSubClaimMismatch])
       else Inr (diplomaPayload, hash))))"

definition lookup_hash :: "EncryptedDiplomaPayload \<Rightarrow> string \<Rightarrow> VerifyResponse vdm" where
  "lookup_hash diplomaPayload hash s =
     (case FindByHash hash s of
        (Inl e, t) \<Rightarrow>
          (if errors_Is e ErrDiplomaRecordNotFound then Inr (not_found_response hash) else Inl e, t)
      | (Inr record, t) \<Rightarrow> (Inr (toVerifyResponse (applyEncryptedPayload record diplomaPayload)), t))"

definition VerifyPayload :: "ed25519_lib \<Rightarrow> bytes \<Rightarrow> string \<Rightarrow> VerifyResponse vdm" where
  "VerifyPayload lib encKey token s =
     (let token = TrimSpace token
      in if token = '''' then (Inl ErrInvalidInput, s)
         else case bind_res (invalid (DecodeUnverifiedJWT token)) (\<lambda>claimsMap.
                bind_res (invalid (ExtractVUZIDFromMap claimsMap)) (\<lambda>vuzID. Inr (claimsMap, vuzID))) of
           Inl e \<Rightarrow> (Inl e, s)
         | Inr (claimsMap, vuzID) \<Rightarrow>
             (case FindUniversityVerificationKeyByID vuzID s of
                (Inl e, t) \<Rightarrow>
                  (Inl (if errors_Is e ErrUniversityVerificationKeyNotFound then ErrInvalidPayload else e), t)
              | (Inr publicKey, t) \<Rightarrow>
                  (case invalid (VerifyEd25519JWT lib token publicKey) of
                     Inl e \<Rightarrow> (Inl e, t)
                   | Inr _ \<Rightarrow>
                       (case checked_hash encKey claimsMap of
                          Inl e \<Rightarrow> (Inl e, t)
                        | Inr (diplomaPayload, hash) \<Rightarrow> lookup_hash diplomaPayload hash t))))"

definition enrichRecordFromStoredQR :: "bytes \<Rightarrow> DiplomaRecord \<Rightarrow> DiplomaRecord vres" where
  "enrichRecordFromStoredQR encKey r =
     (case dr_QRPayload r of
        None \<Rightarrow> Inr r
      | Some qr \<Rightarrow>
          if TrimSpace qr = '''' then Inr r
          else if dr_GraduateYear r \<noteq> None \<and> dr_Specialty r \<noteq> None \<and> dr_Degree r \<noteq> None \<and> dr_Faculty r \<noteq> None
          then Inr r
          else bind_res (ExtractOuterQRClaims qr) (\<lambda>outerClaims.
               bind_res (DecryptEncryptedDiplomaPayload (oqc_Enc outerClaims) encKey) (\<lambda>payload.
               Inr (applyEncryptedPayload r payload))))"

definition PubSearch :: "bytes \<Rightarrow> string \<Rightarrow> string \<Rightarrow> SearchResponse vdm" where
  "PubSearch encKey vuzCode diplomaNumber s =
     (let vuzCode = TrimSpace vuzCode; diplomaNumber = TrimSpace diplomaNumber
      in if vuzCode = '''' \<or> diplomaNumber = '''' then (Inl ErrInvalidInput, s)
         else case FindByDiplomaNumber vuzCode diplomaNumber s of
           (Inl e, t) \<Rightarrow>
             (if errors_Is e ErrDiplomaRecordNotFound
              then Inr \<lparr>sr_Valid = False, sr_Status = DiplomaStatusNotFound, sr_University = '''',
                     sr_VUZCode = '''', sr_Year = None, sr_Specialty = None, sr_Degree = None,
                     sr_Faculty = None\<rparr>
              else Inl e, t)
         | (Inr record, t) \<Rightarrow>
             (case enrichRecordFromStoredQR encKey record of
                Inl e \<Rightarrow> (Inl e, t)
              | Inr r \<Rightarrow>
                  (Inr \<lparr>sr_Valid = (dr_Status r = DiplomaStatusActive), sr_Status = dr_Status r,
                     sr_University = vu_Name (dr_University r), sr_VUZCode = vu_Code (dr_University r),
                     sr_Year = dr_GraduateYear r, sr_Specialty = dr_Specialty r,
                     sr_Degree = dr_Degree r, sr_Faculty = dr_Faculty r\<rparr>, t)))"

end
