(* ===== verification/PubFacts.thy ===== *)
theory PubFacts
  imports PubVerify
begin

text \<open>
  Lemmas behind the properties of the public service: the two services agree on the claims inside
  a token, the raw string of a diploma determines its fields, and what a positive answer rests on.
\<close>

section \<open>The gateway seals what the public service opens\<close>

definition payload_of :: "QRPayloadClaims \<Rightarrow> EncryptedDiplomaPayload" where
  "payload_of c = \<lparr>edp_FullName = qpc_FullName c, edp_StudentName = qpc_StudentName c,
     edp_DiplomaNumber = qpc_DiplomaNumber c, edp_Specialty = qpc_Specialty c,
     edp_Degree = qpc_Degree c, edp_Faculty = qpc_Faculty c, edp_Year = qpc_Year c, edp_Salt = qpc_Salt c\<rparr>"

text \<open>The claims the public service accepts.\<close>

definition claims_complete :: "QRPayloadClaims \<Rightarrow> bool" where
  "claims_complete c \<longleftrightarrow> claims_utf8 c \<and> \<not> blank (qpc_FullName c) \<and> qpc_StudentName c = qpc_FullName c \<and>
     \<not> blank (qpc_DiplomaNumber c) \<and> \<not> blank (qpc_Specialty c) \<and> 0 < qpc_Year c \<and> \<not> blank (qpc_Salt c)"

lemma set_payload_field:
  "set_field payload_fields True ''full_name'' v c = set_string edp_FullName_update v c"
  "set_field payload_fields True ''student_name'' v c = set_string edp_StudentName_update v c"
  "set_field payload_fields True ''diploma_number'' v c = set_string edp_DiplomaNumber_update v c"
  "set_field payload_fields True ''specialty'' v c = set_string edp_Specialty_update v c"
  "set_field payload_fields True ''degree'' v c = set_string edp_Degree_update v c"
  "set_field payload_fields True ''faculty'' v c = set_string edp_Faculty_update v c"
  "set_field payload_fields True ''year'' v c = set_int edp_Year_update v c"
  "set_field payload_fields True ''salt'' v c = set_string edp_Salt_update v c"
  by (simp_all add: payload_fields_def ascii_lower_def)

lemma decode_payload_claims:
  assumes "int_min \<le> qpc_Year c" "qpc_Year c \<le> int_max"
  shows "decode_struct payload_fields True empty_payload (claims_json c) = Some (payload_of c)"
  using Atoi_Itoa[OF assms]
  by (simp add: decode_struct_def claims_json_def set_payload_field set_string_def set_int_def
      empty_payload_def payload_of_def)

lemma json_decode_first_print: "wf_json j \<Longrightarrow> json_decode_first (json_print j) = Some j"
  using json_parse_print[of j]
  by (auto simp: json_parse_def json_decode_first_def split: option.splits prod.splits if_splits)

lemma TrimSpace_normalized:
  "TrimSpace (qpc_FullName (normalized c)) = qpc_FullName (normalized c)"
  "TrimSpace (qpc_StudentName (normalized c)) = qpc_StudentName (normalized c)"
  by (auto simp: normalized_def Let_def)

lemma normalize_payload_of:
  assumes "qpc_StudentName (normalized c) = qpc_FullName (normalized c)"
  shows "normalize (payload_of (normalized c)) = Inr (payload_of (normalized c))"
  using assms TrimSpace_normalized[of c]
  by (simp add: normalize_def payload_of_def Let_def)

text \<open>What the public service makes of a message sealed behind its nonce and encoded.\<close>

lemma decrypt_std:
  assumes "NewCipher key = Some gcm" "block_ok gcm" "length nonce = 12"
  shows "DecryptEncryptedDiplomaPayload (std_encode (nonce @ gcm_seal gcm nonce m)) key =
    bind_res (of_option (Errorf ''decode decrypted enc payload'') (decode_payload m)) (\<lambda>payload.
    bind_res (normalize payload) (\<lambda>payload.
    bind_res (EncryptedDiplomaPayload_Validate payload) (\<lambda>_. Inr payload)))"
proof -
  let ?raw = "nonce @ gcm_seal gcm nonce m"
  have ne: "std_encode ?raw \<noteq> []" using assms(3) by auto
  have t: "TrimSpace (std_encode ?raw) = std_encode ?raw"
    using ne b64_encode_graphic[OF hd_in_set[OF ne]] b64_encode_graphic[OF last_in_set[OF ne]]
    by (rule TrimSpace_graphic)
  have e: "decodeEncryptedValue (std_encode ?raw) = Inr ?raw"
    using ne unfolding decodeEncryptedValue_def t Let_def by simp
  have l: "\<not> length ?raw < 12 + 16" using assms(3) length_gcm_seal[OF assms(2)] by simp
  have o: "gcm_open gcm (take 12 ?raw) (drop 12 ?raw) = Some m"
    using assms(3) by (simp add: gcm_open_seal[OF assms(2)])
  show ?thesis
    unfolding DecryptEncryptedDiplomaPayload_def e assms(1)
    by (simp only: bind_res_simps of_option_simps l o if_False)
qed

lemma decrypt_sealed:
  assumes "claims_complete (normalized c)" "QRPayloadCodec_Seal key source c = Inr enc"
  shows "DecryptEncryptedDiplomaPayload enc key = Inr (payload_of (normalized c))"
proof -
  obtain gcm nonce where g: "aes_gcm key = Inr gcm" "ReadFull 12 source = Inr nonce"
    "enc = std_encode (nonce @ gcm_seal gcm nonce (json_print (claims_json (normalized c))))"
    using assms(2) by (auto simp: QRPayloadCodec_Seal_def Let_def)
  have n: "length nonce = 12" using g(2) by (auto simp: ReadFull_def split: option.splits if_splits)
  have k: "NewCipher key = Some gcm" using g(1) by (simp add: aes_gcm_def)
  have c: "claims_utf8 (normalized c)" using assms(1) by (simp add: claims_complete_def)
  have d: "decode_payload (json_print (claims_json (normalized c))) = Some (payload_of (normalized c))"
    using json_decode_first_print[OF wf_claims_json[OF c]] decode_payload_claims[of "normalized c"] c
    by (simp add: decode_payload_def claims_utf8_def)
  have v: "EncryptedDiplomaPayload_Validate (payload_of (normalized c)) = Inr ()"
    using assms(1)
    by (simp add: EncryptedDiplomaPayload_Validate_def validateDiplomaCoreFields_def payload_of_def
        claims_complete_def blank_def)
  have m: "normalize (payload_of (normalized c)) = Inr (payload_of (normalized c))"
    using assms(1) by (intro normalize_payload_of) (simp add: claims_complete_def)
  show ?thesis
    unfolding g(3) decrypt_std[OF k aes_gcm_block_ok[OF g(1)] n]
    by (simp only: bind_res_simps of_option_simps d m v)
qed

section \<open>The raw string determines the fields\<close>

definition bar_free :: "DiplomaHashInput \<Rightarrow> bool" where
  "bar_free i \<longleftrightarrow> (\<forall>p \<in> set (raw_parts i). CHR ''|'' \<notin> set p)"

lemma Itoa_inject: "int_min \<le> a \<Longrightarrow> a \<le> int_max \<Longrightarrow> int_min \<le> b \<Longrightarrow> b \<le> int_max \<Longrightarrow> Itoa a = Itoa b \<Longrightarrow> a = b"
  using Atoi_Itoa by (metis option.inject)

lemma raw_string_inject:
  assumes "BuildRawDiplomaString i = Inr raw" "BuildRawDiplomaString j = Inr raw" "bar_free i" "bar_free j"
  shows "raw_parts i = raw_parts j"
proof -
  have "Join (raw_parts i) ''|'' = Join (raw_parts j) ''|''"
    using assms(1,2) by (auto simp: BuildRawDiplomaString_def)
  moreover have "raw_parts i \<noteq> []" "raw_parts j \<noteq> []" by (simp_all add: raw_parts_def)
  ultimately show ?thesis
    using assms(3,4) Join_inject[of "raw_parts i" "CHR ''|''" "raw_parts j"] by (auto simp: bar_free_def)
qed

section \<open>Reads\<close>

lemma lift_err_read:
  assumes "lift_err f (run_stmt (\<lambda>d. (q d, d))) s = (r, t)"
  shows "tables t = tables s \<and> (\<forall>x. r = Inr x \<longrightarrow> q (tables s) = Inr x)"
  using assms
  by (cases rule: run_stmt_cases[of "\<lambda>d. (q d, d)" s])
     (auto simp: lift_err_def split: sum.splits prod.splits)

lemma FindByHash_read:
  assumes "FindByHash h s = (r, t)"
  shows "tables t = tables s"
    "r = Inr x \<Longrightarrow> \<exists>row \<in> set (diploma_hashes (tables s)). hr_hash row = h \<and> dr_Hash x = h \<and>
       dr_Status x = hr_status row \<and> dr_RevokedAt x = hr_revoked_at row"
proof -
  note l = lift_err_read[OF assms[unfolded FindByHash_def fetchOne_def]]
  show "tables t = tables s" using l by blast
  assume "r = Inr x"
  then have "bind_res (first_row (filter (\<lambda>(h', u, qr). hr_hash h' = h)
      (verification_rows (tables s)))) scan_record = Inr x" using l by blast
  then obtain row u qr where "first_row (filter (\<lambda>(h', u, qr). hr_hash h' = h)
      (verification_rows (tables s))) = Inr (row, u, qr)" "scan_record (row, u, qr) = Inr x"
    by auto
  moreover from first_row_filterD[OF this(1)]
  have "hr_hash row = h" "row \<in> set (diploma_hashes (tables s))"
    by (auto simp: verification_rows_def)
  ultimately show "\<exists>row \<in> set (diploma_hashes (tables s)). hr_hash row = h \<and> dr_Hash x = h \<and>
       dr_Status x = hr_status row \<and> dr_RevokedAt x = hr_revoked_at row"
    by (auto simp: scan_record_def)
qed

lemma FindKey_read:
  assumes "FindUniversityVerificationKeyByID v s = (r, t)"
  shows "tables t = tables s"
    "r = Inr k \<Longrightarrow> \<exists>u \<in> set (universities (tables s)). u_ID u = v \<and> u_PublicKey u = Some k \<and> k \<noteq> ''''"
proof -
  let ?q = "\<lambda>d. (bind_res (first_row (filter (\<lambda>u. u_ID u = v) (universities d))) (\<lambda>u. Inr (u_PublicKey u)), d)"
  obtain r' t' where q: "run_stmt ?q s = (r', t')" by force
  have t: "tables t' = tables s"
    using run_stmt_tables[of ?q s] q by simp
  then show "tables t = tables s"
    using assms q by (auto simp: FindUniversityVerificationKeyByID_def split: sum.splits option.splits)
  assume "r = Inr k"
  then have "r' = Inr (Some k)" "k \<noteq> ''''"
    using assms q by (auto simp: FindUniversityVerificationKeyByID_def split: sum.splits option.splits if_splits)
  then have "?q (tables s) = (Inr (Some k), tables t')" using run_stmt_InrD[of ?q s] q by (simp only:)
  then obtain u where u: "first_row (filter (\<lambda>u. u_ID u = v) (universities (tables s))) = Inr u"
    "u_PublicKey u = Some k" using t by auto
  show "\<exists>u \<in> set (universities (tables s)). u_ID u = v \<and> u_PublicKey u = Some k \<and> k \<noteq> ''''"
    using first_row_filterD[OF u(1)] u(2) \<open>k \<noteq> ''''\<close> by blast
qed

section \<open>What a positive answer rests on\<close>

lemma applyEncryptedPayload_sel [simp]:
  "dr_Status (applyEncryptedPayload r p) = dr_Status r" "dr_Hash (applyEncryptedPayload r p) = dr_Hash r"
  "dr_RevokedAt (applyEncryptedPayload r p) = dr_RevokedAt r"
  "dr_University (applyEncryptedPayload r p) = dr_University r"
  by (simp_all add: applyEncryptedPayload_def)

lemma invalid_eq_Inr [simp]: "invalid r = Inr x \<longleftrightarrow> r = Inr x"
  by (auto simp: invalid_def split: sum.splits)

lemma checked_hash_Inr:
  assumes "checked_hash encKey claims = Inr (payload, h)"
  obtains c where "ExtractOuterQRClaimsFromMap claims = Inr c"
    "DecryptEncryptedDiplomaPayload (oqc_Enc c) encKey = Inr payload"
    "HashDiplomaInput (HashInput payload (oqc_VUZID c)) = Inr h"
    "EqualFold (oqc_DiplomaHash c) h" "EqualFold (oqc_Sub c) h"
  using assms by (auto simp: checked_hash_def split: if_splits)

lemma VerifyPayload_Inr:
  assumes "VerifyPayload lib encKey token s = (Inr resp, t)"
  obtains claims vuz u k payload h where
    "DecodeUnverifiedJWT (TrimSpace token) = Inr claims" "ExtractVUZIDFromMap claims = Inr vuz"
    "u \<in> set (universities (tables s))" "u_ID u = vuz" "u_PublicKey u = Some k"
    "VerifyEd25519JWT lib (TrimSpace token) k = Inr ()" "checked_hash encKey claims = Inr (payload, h)"
    "tables t = tables s" "vr_Hash resp = h"
    "vr_Valid resp \<longrightarrow> (\<exists>row \<in> set (diploma_hashes (tables s)). hr_hash row = h \<and>
       hr_status row = DiplomaStatusActive)"
proof -
  obtain claims vuz where c: "DecodeUnverifiedJWT (TrimSpace token) = Inr claims"
    "ExtractVUZIDFromMap claims = Inr vuz"
    using assms by (auto simp: VerifyPayload_def Let_def split: if_splits sum.splits)
  obtain k s1 where k: "FindUniversityVerificationKeyByID vuz s = (Inr k, s1)"
    using assms c by (auto simp: VerifyPayload_def Let_def invalid_def split: if_splits sum.splits prod.splits)
  obtain payload h where p: "VerifyEd25519JWT lib (TrimSpace token) k = Inr ()"
    "checked_hash encKey claims = Inr (payload, h)" "lookup_hash payload h s1 = (Inr resp, t)"
    using assms c k by (auto simp: VerifyPayload_def Let_def invalid_def split: if_splits sum.splits prod.splits)
  obtain u where u: "u \<in> set (universities (tables s))" "u_ID u = vuz" "u_PublicKey u = Some k"
    using FindKey_read(2)[OF k] by auto
  have s1: "tables s1 = tables s" by (rule FindKey_read(1)[OF k])
  obtain r s2 where r: "FindByHash h s1 = (r, s2)" by force
  have t: "t = s2" using p(3) r by (auto simp: lookup_hash_def split: sum.splits if_splits)
  have "vr_Hash resp = h \<and> (vr_Valid resp \<longrightarrow> (\<exists>row \<in> set (diploma_hashes (tables s)). hr_hash row = h \<and>
       hr_status row = DiplomaStatusActive))"
  proof (cases r)
    case (Inl e)
    then show ?thesis using p(3) r by (auto simp: lookup_hash_def not_found_response_def split: if_splits)
  next
    case (Inr x)
    then show ?thesis
      using p(3) r FindByHash_read(2)[OF r Inr] s1
      by (auto simp: lookup_hash_def toVerifyResponse_def)
  qed
  then show thesis using that[OF c u p(1,2)] FindByHash_read(1)[OF r] s1 t by simp
qed

end
