(* ===== verification/EngineToken.thy ===== *)
theory EngineToken
  imports PubFacts Samples "HOL-Library.List_Lexorder" "HOL-Library.Char_ord" "HOL-Library.Multiset"
begin

text \<open>
  Tokens as the engine issues them, after \<open>pubver/internal/testutil/crypto.go\<close>, and the way the
  public service reads one back: the lemmas behind the completeness of the verification.
  The signature scheme is a parameter \<open>sign\<close>.
\<close>

section \<open>testutil\<close>

definition jwt_header :: json where
  "jwt_header = JObj [(''alg'', JStr ''EdDSA''), (''typ'', JStr ''JWT'')]"

text \<open>\<open>json.Marshal\<close> of a map prints the keys in order.\<close>

definition marshal_map :: "(string \<times> json) list \<Rightarrow> string" where
  "marshal_map claims = json_print (JObj (sort_key fst claims))"

definition signingInput :: "(string \<times> json) list \<Rightarrow> string" where
  "signingInput claims = raw_url_encode (json_print jwt_header) @ ''.'' @ raw_url_encode (marshal_map claims)"

definition MustSignJWT :: "('k \<Rightarrow> bytes \<Rightarrow> bytes) \<Rightarrow> (string \<times> json) list \<Rightarrow> 'k \<Rightarrow> string" where
  "MustSignJWT sign claims privateKey =
     signingInput claims @ ''.'' @ raw_url_encode (sign privateKey (signingInput claims))"

text \<open>
  The key pair, from what the library's generator returns, and the encryption of a claim: the payload
  is the JSON value its Go value stands for, and \<open>None\<close> is the failure of the test.
\<close>

record 'k Ed25519KeyPair =
  kp_PublicKey :: bytes
  kp_PrivateKey :: 'k
  kp_PublicKeyHex :: string

definition MustGenerateEd25519KeyPair :: "(bytes \<times> 'k) option \<Rightarrow> 'k Ed25519KeyPair option" where
  "MustGenerateEd25519KeyPair generated =
     map_option (\<lambda>(publicKey, privateKey).
       \<lparr>kp_PublicKey = publicKey, kp_PrivateKey = privateKey, kp_PublicKeyHex = hex_encode publicKey\<rparr>) generated"

definition MustEncryptA256GCM :: "bytes \<Rightarrow> bytes option \<Rightarrow> json \<Rightarrow> string option" where
  "MustEncryptA256GCM key source payload =
     (let plaintext = json_print payload
      in case NewCipher key of
           None \<Rightarrow> None
         | Some gcm \<Rightarrow>
             (case ReadFull 12 source of
                Inl _ \<Rightarrow> None
              | Inr nonce \<Rightarrow> Some (std_encode (nonce @ gcm_seal gcm nonce plaintext))))"

text \<open>
  The public service decrypts what the helper encrypts, and the codec of the gateway makes the same
  ciphertexts.
\<close>

lemma MustEncrypt_decrypts:
  assumes "MustEncryptA256GCM key source j = Some enc" "wf_json j"
  shows "DecryptEncryptedDiplomaPayload enc key =
    bind_res (of_option (Errorf ''decode decrypted enc payload'') (decode_struct payload_fields True empty_payload j))
      (\<lambda>p. bind_res (normalize p) (\<lambda>p. bind_res (EncryptedDiplomaPayload_Validate p) (\<lambda>_. Inr p)))"
proof -
  obtain gcm nonce where g: "NewCipher key = Some gcm" "ReadFull 12 source = Inr nonce"
    "enc = std_encode (nonce @ gcm_seal gcm nonce (json_print j))"
    using assms(1) by (auto simp: MustEncryptA256GCM_def Let_def split: option.splits sum.splits)
  have n: "length nonce = 12" using g(2) by (auto simp: ReadFull_def split: option.splits if_splits)
  have ok: "block_ok gcm" using aes_gcm_block_ok[of key gcm] g(1) by (simp add: aes_gcm_def)
  show ?thesis
    unfolding g(3) decrypt_std[OF g(1) ok n] decode_payload_def json_decode_first_print[OF assms(2)] option.case ..
qed

lemma Seal_MustEncrypt:
  "QRPayloadCodec_Seal key source c = Inr enc \<longleftrightarrow>
     MustEncryptA256GCM key source (claims_json (normalized c)) = Some enc"
  by (cases "NewCipher key"; cases "ReadFull 12 source")
     (simp_all add: QRPayloadCodec_Seal_def MustEncryptA256GCM_def aes_gcm_def Let_def del: bind_res_eq_Inr)

section \<open>Reading a token\<close>

lemma TrimSpace_token:
  assumes "s \<noteq> []" "\<And>c. c \<in> set s \<Longrightarrow> graphic c"
  shows "TrimSpace s = s"
  using assms by (intro TrimSpace_graphic) simp_all

lemma splitJWT_sign:
  "splitJWT (MustSignJWT sign claims k) = Inr (raw_url_encode (json_print jwt_header),
     raw_url_encode (marshal_map claims), raw_url_encode (sign k (signingInput claims)))"
  by (simp add: splitJWT_def MustSignJWT_def signingInput_def Split_append_sep Split_no_sep)

lemma TrimSpace_sign: "TrimSpace (MustSignJWT sign claims k) = MustSignJWT sign claims k"
  by (rule TrimSpace_token)
     (auto simp: MustSignJWT_def signingInput_def graphic_def[of "CHR ''.''"] dest: b64_encode_graphic)

lemma wf_jwt_header: "wf_json jwt_header"
  by (simp add: jwt_header_def valid_utf8.simps)

lemma decode_header_sign:
  "DecodeUnverifiedJWTHeader (MustSignJWT sign claims k) =
     Inr \<lparr>jh_Alg = ''EdDSA'', jh_Typ = ''JWT'', jh_Kid = ''''\<rparr>"
proof -
  have p: "json_parse (json_print jwt_header) = Some jwt_header"
    by (rule json_parse_print[OF wf_jwt_header])
  have "set_field header_fields False ''alg'' v h = set_string jh_Alg_update v h"
    "set_field header_fields False ''typ'' v h = set_string jh_Typ_update v h" for v h
    by (simp_all add: header_fields_def ascii_lower_def)
  then have "decode_struct header_fields False \<lparr>jh_Alg = '''', jh_Typ = '''', jh_Kid = ''''\<rparr> jwt_header =
      Some \<lparr>jh_Alg = ''EdDSA'', jh_Typ = ''JWT'', jh_Kid = ''''\<rparr>"
    by (simp add: decode_struct_def jwt_header_def set_string_def)
  then show ?thesis by (simp add: DecodeUnverifiedJWTHeader_def splitJWT_sign p)
qed

lemma decodeJWTForVerification_sign:
  "decodeJWTForVerification (MustSignJWT sign claims k) =
     Inr (\<lparr>jh_Alg = ''EdDSA'', jh_Typ = ''JWT'', jh_Kid = ''''\<rparr>, signingInput claims,
       sign k (signingInput claims))"
  by (simp add: decodeJWTForVerification_def splitJWT_sign decode_header_sign signingInput_def)

lemma map_of_sorted:
  assumes "distinct (map fst kvs)"
  shows "map_of (rev (sort_key fst kvs)) = map_of kvs"
proof -
  have "mset (map fst (rev (sort_key fst kvs))) = mset (map fst kvs)" by simp
  then have "distinct (map fst (rev (sort_key fst kvs)))"
    using assms by (metis mset_eq_imp_distinct_iff)
  then show ?thesis using assms by (subst map_of_inject_set) auto
qed

lemma decode_sign:
  assumes "distinct (map fst claims)" "wf_json (JObj claims)"
  shows "DecodeUnverifiedJWT (MustSignJWT sign claims k) = Inr (map_of claims)"
proof -
  have "wf_json (JObj (sort_key fst claims))" using assms(2) by auto
  then have "json_decode_first (marshal_map claims) = Some (JObj (sort_key fst claims))"
    unfolding marshal_map_def by (rule json_decode_first_print)
  then show ?thesis
    by (simp add: DecodeUnverifiedJWT_def splitJWT_sign object_map_def map_of_sorted[OF assms(1)])
qed

section \<open>The claims of the engine\<close>

definition engine_claims :: "string \<Rightarrow> string \<Rightarrow> int \<Rightarrow> string \<Rightarrow> (string \<times> json) list" where
  "engine_claims h vuz iat enc = [(''sub'', JStr h), (''diploma_hash'', JStr h), (''vuz_id'', JStr vuz),
     (''iat'', JNum (Itoa iat)), (''enc'', JStr enc)]"

lemma hex_encode_graphic: "c \<in> set (hex_encode bs) \<Longrightarrow> graphic c"
proof (induction bs)
  case (Cons b bs)
  have "graphic (hex_char d)" if "d < 16" for d using that by (auto simp: hex_char_def graphic_def)
  then show ?case using Cons by auto
qed simp

lemma graphic_valid_utf8: "(\<And>c. c \<in> set s \<Longrightarrow> graphic c) \<Longrightarrow> valid_utf8 s"
proof (induction s)
  case (Cons c s)
  then have "graphic c" "valid_utf8 s" by simp_all
  then show ?case by (subst valid_utf8.simps) (simp add: graphic_def)
qed (simp add: valid_utf8.simps)

lemma hash_of_complete:
  assumes "HashDiplomaInput i = Inr h"
  shows "TrimSpace h = h" "h \<noteq> []" "valid_utf8 h"
proof -
  obtain raw where h: "h = hex_encode (Sum256 raw)"
    using assms by (auto simp: HashDiplomaInput_def BuildRawDiplomaString_def)
  have "length h \<noteq> 0" unfolding h by simp
  then show n: "h \<noteq> []" by auto
  show "TrimSpace h = h" using n unfolding h by (rule TrimSpace_token) (rule hex_encode_graphic)
  show "valid_utf8 h" unfolding h by (rule graphic_valid_utf8) (rule hex_encode_graphic)
qed

lemma sealed_plain:
  assumes "QRPayloadCodec_Seal key source c = Inr enc"
  shows "TrimSpace enc = enc" "enc \<noteq> []" "valid_utf8 enc"
proof -
  obtain gcm nonce where g: "ReadFull 12 source = Inr nonce"
    "enc = std_encode (nonce @ gcm_seal gcm nonce (json_print (claims_json (normalized c))))"
    using assms by (auto simp: QRPayloadCodec_Seal_def Let_def)
  define raw where "raw = nonce @ gcm_seal gcm nonce (json_print (claims_json (normalized c)))"
  have e: "enc = std_encode raw" using g(2) by (simp only: raw_def)
  have "length nonce = 12" using g(1) by (auto simp: ReadFull_def split: option.splits if_splits)
  then have "raw \<noteq> []" by (auto simp: raw_def)
  then show n: "enc \<noteq> []" unfolding e by simp
  show "TrimSpace enc = enc" using n unfolding e by (rule TrimSpace_token) (rule b64_encode_graphic)
  show "valid_utf8 enc" unfolding e by (rule graphic_valid_utf8) (rule b64_encode_graphic)
qed

lemma checked_hash_engine:
  assumes "claims_complete (normalized c)" "QRPayloadCodec_Seal key source c = Inr enc"
    "HashDiplomaInput (HashInput (payload_of (normalized c)) vuz) = Inr h"
    "TrimSpace vuz = vuz" "int_min \<le> iat" "iat \<le> int_max"
  shows "checked_hash key (map_of (engine_claims h vuz iat enc)) = Inr (payload_of (normalized c), h)"
    "ExtractVUZIDFromMap (map_of (engine_claims h vuz iat enc)) = Inr vuz"
proof -
  have v: "vuz \<noteq> []"
    using assms(3,4) by (auto simp: HashDiplomaInput_def BuildRawDiplomaString_def
        DiplomaHashInput_Validate_def HashInput_def split: if_splits)
  show x: "ExtractVUZIDFromMap (map_of (engine_claims h vuz iat enc)) = Inr vuz"
    using v assms(4) by (simp add: ExtractVUZIDFromMap_def extractStringClaim_def engine_claims_def)
  have "ExtractOuterQRClaimsFromMap (map_of (engine_claims h vuz iat enc)) =
      Inr \<lparr>oqc_Sub = h, oqc_DiplomaHash = h, oqc_VUZID = vuz, oqc_Enc = enc, oqc_IssuedAt = iat\<rparr>"
    using x Atoi_Itoa[OF assms(5,6)] hash_of_complete[OF assms(3)] sealed_plain[OF assms(2)]
    by (simp add: ExtractOuterQRClaimsFromMap_def extractInt64Claim_def extractStringClaim_def
        optionalStringClaim_def engine_claims_def Let_def del: bind_res_eq_Inr)
  then show "checked_hash key (map_of (engine_claims h vuz iat enc)) = Inr (payload_of (normalized c), h)"
    using decrypt_sealed[OF assms(1,2)] assms(3)
    by (simp add: checked_hash_def EqualFold_refl_ascii invalid_def del: bind_res_eq_Inr invalid_eq_Inr)
qed

end
