(* ===== verification/VerifyProps.thy ===== *)
theory VerifyProps
  imports EngineToken
begin

text \<open>
  What the public verification promises: a positive answer rests on a signature of the university,
  on claims that decrypt to the hashed diploma and on an active registry row; a token the engine
  issued for a registered diploma is answered with that row; search answers from the registry.
\<close>

section \<open>Lookups without faults\<close>

lemma filter_concat_key:
  assumes "distinct (map k xs)" "x \<in> set xs" "\<And>y. y \<in> set xs \<Longrightarrow> k y \<noteq> k x \<Longrightarrow> filter P (f y) = []"
  shows "filter P (concat (map f xs)) = filter P (f x)"
  using assms
proof (induction xs)
  case (Cons z zs)
  show ?case
  proof (cases "z = x")
    case True
    then have "filter P (f y) = []" if "y \<in> set zs" for y
      using Cons.prems(1,3) that by (auto simp: image_iff)
    then have "filter P (concat (map f zs)) = []" by (auto simp: filter_empty_conv)
    then show ?thesis using True by simp
  next
    case False
    then have "k z \<noteq> k x" "x \<in> set zs" using Cons.prems(1,2) by auto
    then show ?thesis using Cons.IH Cons.prems by simp
  qed
qed simp

definition registry_record :: "db \<Rightarrow> hash_row \<Rightarrow> string \<Rightarrow> University \<Rightarrow> DiplomaRecord" where
  "registry_record d row number u = \<lparr>dr_Hash = hr_hash row, dr_DiplomaNumber = number,
     dr_Status = hr_status row, dr_University = \<lparr>vu_Code = u_VuzCode u, vu_Name = u_Name u\<rparr>,
     dr_GraduateYear = None, dr_Specialty = None, dr_Degree = None, dr_Faculty = None,
     dr_QRPayload = (case latest_ok d (hr_hash row) of None \<Rightarrow> None | Some r \<Rightarrow> rr_qr r),
     dr_RevokedAt = hr_revoked_at row\<rparr>"

lemma FindByHash_pure:
  assumes "db_ok d" "row \<in> set (diploma_hashes d)" "hr_number row = Some number"
    "u \<in> set (universities d)" "u_ID u = hr_vuz_id row"
  shows "FindByHash (hr_hash row) \<lparr>tables = d, faults = []\<rparr> =
    (Inr (registry_record d row number u), \<lparr>tables = d, faults = []\<rparr>)"
proof -
  have k: "distinct (map hr_hash (diploma_hashes d))" "distinct (map u_ID (universities d))"
    using assms(1) by (simp_all add: db_ok_defs)
  have "filter (\<lambda>v. u_ID v = hr_vuz_id row) (universities d) = [u]"
    using filter_key_unique[OF k(2) assms(4)] assms(5) by simp
  then have "filter (\<lambda>(h, u, qr). hr_hash h = hr_hash row) (verification_rows d) =
      [(row, u, case latest_ok d (hr_hash row) of None \<Rightarrow> None | Some r \<Rightarrow> rr_qr r)]"
    unfolding verification_rows_def by (subst filter_concat_key[OF k(1) assms(2)]) (simp_all add: filter_empty_conv)
  then show ?thesis
    using assms(3)
    by (simp add: FindByHash_def fetchOne_def lift_err_def scan_record_def registry_record_def scan_text_def
        del: bind_res_eq_Inr)
qed

lemma FindKey_pure:
  assumes "db_ok d" "u \<in> set (universities d)" "u_PublicKey u = Some k" "k \<noteq> []"
  shows "FindUniversityVerificationKeyByID (u_ID u) \<lparr>tables = d, faults = []\<rparr> =
    (Inr k, \<lparr>tables = d, faults = []\<rparr>)"
proof -
  have "distinct (map u_ID (universities d))" using assms(1) by (simp add: db_ok_defs)
  then have "filter (\<lambda>v. u_ID v = u_ID u) (universities d) = [u]"
    using assms(2) by (rule filter_key_unique)
  then show ?thesis using assms(3,4) by (simp add: FindUniversityVerificationKeyByID_def)
qed

section \<open>A token of the engine is answered with its registry row\<close>

definition issued_response :: "QRPayloadClaims \<Rightarrow> hash_row \<Rightarrow> string \<Rightarrow> University \<Rightarrow> VerifyResponse" where
  "issued_response c row number u = \<lparr>vr_Valid = (hr_status row = DiplomaStatusActive),
     vr_Status = hr_status row, vr_Hash = hr_hash row, vr_DiplomaNumber = number,
     vr_University = u_Name u, vr_VUZCode = u_VuzCode u, vr_Year = Some (qpc_Year c),
     vr_Specialty = Some (qpc_Specialty c),
     vr_Degree = (if blank (qpc_Degree c) then None else Some (qpc_Degree c)),
     vr_Faculty = (if blank (qpc_Faculty c) then None else Some (qpc_Faculty c)),
     vr_RevokedAt = hr_revoked_at row\<rparr>"

definition key_pair :: "ed25519_lib \<Rightarrow> string \<Rightarrow> ('k \<Rightarrow> bytes \<Rightarrow> bytes) \<Rightarrow> 'k \<Rightarrow> bool" where
  "key_pair lib publicKey sign priv \<longleftrightarrow>
     (\<exists>pk. parseEd25519PublicKey lib publicKey = Inr pk \<and> (\<forall>m. ed_Verify lib pk m (sign priv m)))"

lemma VerifyEd25519JWT_sign:
  "key_pair lib k sign priv \<Longrightarrow> VerifyEd25519JWT lib (MustSignJWT sign claims priv) k = Inr ()"
  by (auto simp: VerifyEd25519JWT_def decodeJWTForVerification_sign key_pair_def simp del: bind_res_eq_Inr)

lemma engine_token_answer:
  assumes c: "claims_complete (normalized c)" "QRPayloadCodec_Seal key source c = Inr enc"
      "HashDiplomaInput (HashInput (payload_of (normalized c)) (u_ID u)) = Inr (hr_hash row)"
    and v: "TrimSpace (u_ID u) = u_ID u" "valid_utf8 (u_ID u)" "int_min \<le> iat" "iat \<le> int_max"
    and d: "db_ok d" "u \<in> set (universities d)" "u_PublicKey u = Some k" "k \<noteq> []"
      "key_pair lib k sign priv" "row \<in> set (diploma_hashes d)" "hr_vuz_id row = u_ID u"
      "hr_number row = Some number" "\<not> blank number"
  shows "VerifyPayload lib key (MustSignJWT sign (engine_claims (hr_hash row) (u_ID u) iat enc) priv)
      \<lparr>tables = d, faults = []\<rparr> = (Inr (issued_response c row number u), \<lparr>tables = d, faults = []\<rparr>)"
proof -
  let ?claims = "engine_claims (hr_hash row) (u_ID u) iat enc"
  let ?token = "MustSignJWT sign ?claims priv"
  have "wf_json (JObj ?claims)"
    using v(2) hash_of_complete(3)[OF c(3)] sealed_plain(3)[OF c(2)]
    by (auto simp: engine_claims_def valid_utf8.simps)
  then have t: "DecodeUnverifiedJWT ?token = Inr (map_of ?claims)"
    by (intro decode_sign) (simp_all add: engine_claims_def)
  note h = checked_hash_engine[OF c v(1,3,4)]
  have n: "?token \<noteq> []" by (simp add: MustSignJWT_def)
  note f = FindByHash_pure[OF d(1,6,8,2) d(7)[symmetric]]
  have r: "toVerifyResponse (applyEncryptedPayload (registry_record d row number u) (payload_of (normalized c)))
      = issued_response c row number u"
    using c(1) d(9) by (simp add: toVerifyResponse_def applyEncryptedPayload_def registry_record_def
        issued_response_def payload_of_def fill_text_def claims_complete_def blank_def)
  show ?thesis
    using n t h FindKey_pure[OF d(1-4)] VerifyEd25519JWT_sign[OF d(5), of ?claims] f r
    by (simp add: VerifyPayload_def TrimSpace_sign invalid_def lookup_hash_def
        del: bind_res_eq_Inr invalid_eq_Inr)
qed

section \<open>A concrete token\<close>

lemma looksLikeHex_encode: "bs \<noteq> [] \<Longrightarrow> looksLikeHex (hex_encode bs)"
proof -
  have h: "(48 \<le> code c \<and> code c \<le> 57) \<or> (97 \<le> code c \<and> code c \<le> 102) \<or> (65 \<le> code c \<and> code c \<le> 70)"
    if "c \<in> set (hex_encode bs)" for c using that
  proof (induction bs)
    case (Cons b bs)
    have "(48 \<le> code (hex_char d) \<and> code (hex_char d) \<le> 57) \<or>
        (97 \<le> code (hex_char d) \<and> code (hex_char d) \<le> 102)" if "d < 16" for d
      using that by (auto simp: hex_char_def)
    from this[of "code b div 16"] this[of "code b mod 16"] show ?case using Cons by auto
  qed simp
  assume "bs \<noteq> []"
  then have "hex_encode bs \<noteq> []" by (cases bs) simp_all
  then show ?thesis using h by (auto simp: looksLikeHex_def list_all_iff)
qed

lemma parse_hex_key:
  assumes "length bs = 32" "ed_PemDecode lib (hex_encode bs) = None"
  shows "parseEd25519PublicKey lib (hex_encode bs) = Inr bs"
proof -
  have n: "bs \<noteq> []" using assms(1) by auto
  then have e: "hex_encode bs \<noteq> []" by (cases bs) simp_all
  then have "TrimSpace (hex_encode bs) = hex_encode bs"
    by (rule TrimSpace_token) (rule hex_encode_graphic)
  then show ?thesis
    using assms e looksLikeHex_encode[OF n]
    by (simp add: parseEd25519PublicKey_def parseEd25519PublicKeyBytes_def)
qed

text \<open>The hexadecimal form of a generated key pair reads back as its public key.\<close>

lemma generated_key_reads_back:
  assumes "MustGenerateEd25519KeyPair g = Some kp" "length (kp_PublicKey kp) = 32"
    "ed_PemDecode lib (kp_PublicKeyHex kp) = None"
  shows "parseEd25519PublicKey lib (kp_PublicKeyHex kp) = Inr (kp_PublicKey kp)"
proof -
  have "kp_PublicKeyHex kp = hex_encode (kp_PublicKey kp)"
    using assms(1) by (auto simp: MustGenerateEd25519KeyPair_def)
  then show ?thesis using parse_hex_key[OF assms(2)] assms(3) by simp
qed

text \<open>A toy signature scheme: the signature is the key followed by the message.\<close>

definition toy_ed25519 :: ed25519_lib where
  "toy_ed25519 = \<lparr>ed_Verify = (\<lambda>pk m s. s = pk @ m), ed_PemDecode = (\<lambda>_. None), ed_ParsePKIX = (\<lambda>_. None)\<rparr>"

definition toy_key :: bytes where
  "toy_key = replicate 32 (CHR ''k'')"

lemma hex_toy_key: "hex_encode toy_key \<noteq> []"
proof
  assume "hex_encode toy_key = []"
  then have "length (hex_encode toy_key) = 0" by (simp only: list.size)
  then show False by (simp add: toy_key_def)
qed

lemma toy_key_pair: "key_pair toy_ed25519 (hex_encode toy_key) (@) toy_key"
  using parse_hex_key[of toy_key toy_ed25519] by (simp add: key_pair_def toy_key_def toy_ed25519_def)

lemma TrimSpace_samples:
  "TrimSpace ''Ann Lee'' = ''Ann Lee''" "TrimSpace ''Maths'' = ''Maths''" "TrimSpace ''BSc'' = ''BSc''"
  "TrimSpace ''Science'' = ''Science''" "TrimSpace ''s'' = ''s''" "TrimSpace ''n0'' = ''n0''"
  "TrimSpace ''u1'' = ''u1''"
  by (rule TrimSpace_graphic; simp add: graphic_def)+

lemma sample_claims_complete:
  "normalized (sample_claims ''n0'') = sample_claims ''n0''" "claims_complete (sample_claims ''n0'')"
proof -
  show n: "normalized (sample_claims ''n0'') = sample_claims ''n0''"
    by (simp add: normalized_def sample_claims_def TrimSpace_samples)
  have "valid_utf8 ''Ann Lee''" "valid_utf8 ''n0''" "valid_utf8 ''Maths''" "valid_utf8 ''BSc''"
    "valid_utf8 ''Science''" "valid_utf8 ''s''"
    by (simp_all add: valid_utf8.simps)
  then show "claims_complete (sample_claims ''n0'')"
    by (simp add: claims_complete_def claims_utf8_def sample_claims_def blank_def TrimSpace_samples
        int_min_def int_max_def)
qed

definition sample_hash :: string where
  "sample_hash = hex_encode (Sum256 (Join (raw_parts (HashInput (payload_of (sample_claims ''n0'')) ''u1'')) ''|''))"

lemma sample_HashDiplomaInput:
  "HashDiplomaInput (HashInput (payload_of (sample_claims ''n0'')) ''u1'') = Inr sample_hash"
proof -
  have "DiplomaHashInput_Validate (HashInput (payload_of (sample_claims ''n0'')) ''u1'') = Inr ()"
    by (simp add: DiplomaHashInput_Validate_def validateDiplomaCoreFields_def HashInput_def payload_of_def
        sample_claims_def TrimSpace_samples)
  then show ?thesis
    by (simp add: HashDiplomaInput_def BuildRawDiplomaString_def sample_hash_def)
qed

definition sample_enc :: string where
  "sample_enc = std_encode (replicate 12 (CHR ''r'') @ gcm_seal (aes_encrypt (octets toy_key))
     (replicate 12 (CHR ''r'')) (json_print (claims_json (sample_claims ''n0''))))"

lemma sample_seal: "QRPayloadCodec_Seal toy_key (Some (replicate 12 (CHR ''r''))) (sample_claims ''n0'') = Inr sample_enc"
  by (simp add: QRPayloadCodec_Seal_def sample_claims_complete(1) aes_gcm_def NewCipher_def ReadFull_def
      sample_enc_def toy_key_def del: bind_res_eq_Inr)

definition keyed_university :: University where
  "keyed_university = sample_university\<lparr>u_PublicKey := Some (hex_encode toy_key)\<rparr>"

definition sample_row :: hash_row where
  "sample_row = \<lparr>hr_hash = sample_hash, hr_vuz_id = ''u1'', hr_number = Some ''n0'',
     hr_status = DiplomaStatusActive, hr_created_at = 5, hr_revoked_at = None\<rparr>"

definition registry_db :: db where
  "registry_db = empty_db\<lparr>universities := [keyed_university], diploma_hashes := [sample_row]\<rparr>"

lemma registry_db_ok: "db_ok registry_db"
  by (simp add: db_ok_defs registry_db_def empty_db_def keyed_university_def sample_university_def
      sample_row_def has_university_def university_status_def hash_row_ok_def)

definition sample_token :: string where
  "sample_token = MustSignJWT (@) (engine_claims sample_hash ''u1'' 0 sample_enc) toy_key"

lemma sample_verifies:
  "VerifyPayload toy_ed25519 toy_key sample_token \<lparr>tables = registry_db, faults = []\<rparr> =
     (Inr (issued_response (sample_claims ''n0'') sample_row ''n0'' keyed_university),
      \<lparr>tables = registry_db, faults = []\<rparr>)"
proof -
  have v: "valid_utf8 ''u1''" by (simp add: valid_utf8.simps)
  have k: "hex_encode toy_key \<noteq> []" by (rule hex_toy_key)
  show ?thesis
    using engine_token_answer[of "sample_claims ''n0''" toy_key "Some (replicate 12 (CHR ''r''))" sample_enc
        keyed_university sample_row 0 registry_db "hex_encode toy_key" toy_ed25519 "(@)" toy_key "''n0''"]
      sample_claims_complete sample_seal sample_HashDiplomaInput registry_db_ok toy_key_pair v k
    by (simp add: keyed_university_def sample_university_def sample_row_def registry_db_def TrimSpace_samples
        blank_def int_min_def int_max_def sample_token_def)
qed

section \<open>Properties\<close>

text \<open>
  C1: soundness of the verification.  If the service answers and says the diploma is valid, then
  the token is a JWT whose EdDSA signature verifies under the stored key of the university it names,
  its claims decrypt under the service's key to a diploma whose recomputed SHA-256 is, up to the case
  of its hexadecimal digits, both the subject and the diploma hash of the token, and the registry
  holds that hash as active.  The answer is about that hash, and nothing is written.
\<close>

theorem verify_sound:
  assumes "VerifyPayload lib encKey token s = (Inr resp, t)" "vr_Valid resp"
  shows "\<exists>claims u k header input signature pk outer payload row.
    DecodeUnverifiedJWT (TrimSpace token) = Inr claims \<and>
    u \<in> set (universities (tables s)) \<and> u_PublicKey u = Some k \<and>
    decodeJWTForVerification (TrimSpace token) = Inr (header, input, signature) \<and>
    jh_Alg header = ''EdDSA'' \<and> parseEd25519PublicKey lib k = Inr pk \<and> ed_Verify lib pk input signature \<and>
    ExtractOuterQRClaimsFromMap claims = Inr outer \<and> oqc_VUZID outer = u_ID u \<and>
    DecryptEncryptedDiplomaPayload (oqc_Enc outer) encKey = Inr payload \<and>
    HashDiplomaInput (HashInput payload (u_ID u)) = Inr (vr_Hash resp) \<and>
    EqualFold (oqc_Sub outer) (vr_Hash resp) \<and> EqualFold (oqc_DiplomaHash outer) (vr_Hash resp) \<and>
    row \<in> set (diploma_hashes (tables s)) \<and> hr_hash row = vr_Hash resp \<and>
    hr_status row = DiplomaStatusActive \<and> tables t = tables s"
proof -
  from VerifyPayload_Inr[OF assms(1)] obtain claims vuz u k payload h where f:
    "DecodeUnverifiedJWT (TrimSpace token) = Inr claims" "ExtractVUZIDFromMap claims = Inr vuz"
    "u \<in> set (universities (tables s))" "u_ID u = vuz" "u_PublicKey u = Some k"
    "VerifyEd25519JWT lib (TrimSpace token) k = Inr ()" "checked_hash encKey claims = Inr (payload, h)"
    "tables t = tables s" "vr_Hash resp = h"
    "vr_Valid resp \<longrightarrow> (\<exists>row \<in> set (diploma_hashes (tables s)). hr_hash row = h \<and>
       hr_status row = DiplomaStatusActive)" .
  obtain header input signature pk where g:
    "decodeJWTForVerification (TrimSpace token) = Inr (header, input, signature)"
    "jh_Alg header = ''EdDSA''" "parseEd25519PublicKey lib k = Inr pk" "ed_Verify lib pk input signature"
    using f(6) by (auto simp: VerifyEd25519JWT_def split: if_splits)
  obtain outer where o: "ExtractOuterQRClaimsFromMap claims = Inr outer"
    "DecryptEncryptedDiplomaPayload (oqc_Enc outer) encKey = Inr payload"
    "HashDiplomaInput (HashInput payload (oqc_VUZID outer)) = Inr h"
    "EqualFold (oqc_DiplomaHash outer) h" "EqualFold (oqc_Sub outer) h"
    by (rule checked_hash_Inr[OF f(7)])
  have v: "oqc_VUZID outer = u_ID u"
    using o(1) f(2,4) by (auto simp: ExtractOuterQRClaimsFromMap_def Let_def)
  obtain row where r: "row \<in> set (diploma_hashes (tables s))" "hr_hash row = vr_Hash resp"
    "hr_status row = DiplomaStatusActive" using f(9,10) assms(2) by auto
  show ?thesis
    by (rule exI[of _ claims], rule exI[of _ u], rule exI[of _ k], rule exI[of _ header],
        rule exI[of _ input], rule exI[of _ signature], rule exI[of _ pk], rule exI[of _ outer],
        rule exI[of _ payload], rule exI[of _ row])
       (use f(1,3,5,8,9) g o v r in simp)
qed

lemma verify_sound_witness:
  "\<exists>pk input signature. parseEd25519PublicKey toy_ed25519 (hex_encode toy_key) = Inr pk \<and>
     ed_Verify toy_ed25519 pk input signature"
  using verify_sound[OF sample_verifies]
  by (fastforce simp: issued_response_def sample_row_def registry_db_def keyed_university_def)

text \<open>
  C8: completeness of the verification.  Take a diploma whose claims are complete, sealed by the
  gateway's codec under the service's key, hashed for a university with a stored key that matches
  its signer, issued as a token and registered under its hash: the public service answers with
  exactly the registered row and the claims of the token, valid if and only if the row is active.
\<close>

theorem issued_diploma_verifies:
  assumes "claims_complete (normalized c)" "QRPayloadCodec_Seal key source c = Inr enc"
      "HashDiplomaInput (HashInput (payload_of (normalized c)) (u_ID u)) = Inr (hr_hash row)"
    and "TrimSpace (u_ID u) = u_ID u" "valid_utf8 (u_ID u)" "int_min \<le> iat" "iat \<le> int_max"
    and "db_ok d" "u \<in> set (universities d)" "u_PublicKey u = Some k" "k \<noteq> []"
      "key_pair lib k sign priv" "row \<in> set (diploma_hashes d)" "hr_vuz_id row = u_ID u"
      "hr_number row = Some number" "\<not> blank number"
  shows "VerifyPayload lib key (MustSignJWT sign (engine_claims (hr_hash row) (u_ID u) iat enc) priv)
      \<lparr>tables = d, faults = []\<rparr> = (Inr (issued_response c row number u), \<lparr>tables = d, faults = []\<rparr>)"
  by (rule engine_token_answer[OF assms])

lemma issued_diploma_verifies_witness:
  "fst (VerifyPayload toy_ed25519 toy_key sample_token \<lparr>tables = registry_db, faults = []\<rparr>) =
     Inr (issued_response (sample_claims ''n0'') sample_row ''n0'' keyed_university)"
proof -
  have v: "valid_utf8 ''u1''" by (simp add: valid_utf8.simps)
  have k: "hex_encode toy_key \<noteq> []" by (rule hex_toy_key)
  show ?thesis
    using issued_diploma_verifies[of "sample_claims ''n0''" toy_key "Some (replicate 12 (CHR ''r''))" sample_enc
        keyed_university sample_row 0 registry_db "hex_encode toy_key" toy_ed25519 "(@)" toy_key "''n0''"]
      sample_claims_complete sample_seal sample_HashDiplomaInput registry_db_ok toy_key_pair v k
    by (simp add: keyed_university_def sample_university_def sample_row_def registry_db_def TrimSpace_samples
        blank_def int_min_def int_max_def sample_token_def)
qed

text \<open>
  C22: the hash input is unambiguous for fields without a bar: two diplomas with the same raw
  string agree in every trimmed field, the year and the university.
\<close>

theorem raw_string_determines_diploma:
  assumes "BuildRawDiplomaString i = Inr raw" "BuildRawDiplomaString j = Inr raw"
    "bar_free i" "bar_free j" "int_min \<le> dhi_Year i" "dhi_Year i \<le> int_max"
    "int_min \<le> dhi_Year j" "dhi_Year j \<le> int_max"
  shows "TrimSpace (dhi_DiplomaNumber i) = TrimSpace (dhi_DiplomaNumber j) \<and>
    TrimSpace (dhi_FullName i) = TrimSpace (dhi_FullName j) \<and>
    TrimSpace (dhi_Specialty i) = TrimSpace (dhi_Specialty j) \<and>
    TrimSpace (dhi_Degree i) = TrimSpace (dhi_Degree j) \<and>
    TrimSpace (dhi_Faculty i) = TrimSpace (dhi_Faculty j) \<and> dhi_Year i = dhi_Year j \<and>
    TrimSpace (dhi_VUZID i) = TrimSpace (dhi_VUZID j) \<and> TrimSpace (dhi_Salt i) = TrimSpace (dhi_Salt j)"
  using raw_string_inject[OF assms(1-4)] Itoa_inject[OF assms(5-8)] by (simp add: raw_parts_def)

definition sample_input :: DiplomaHashInput where
  "sample_input = HashInput (payload_of (sample_claims ''n0'')) ''u1''"

lemma sample_bar_free: "bar_free sample_input"
  by (simp add: bar_free_def raw_parts_def sample_input_def HashInput_def payload_of_def sample_claims_def
      TrimSpace_samples Itoa_def nat_string.simps digit_char_def char_eq_byte)

lemma raw_string_determines_diploma_witness:
  "\<exists>raw. BuildRawDiplomaString sample_input = Inr raw \<and> bar_free sample_input \<and>
     dhi_Year sample_input = dhi_Year (sample_input\<lparr>dhi_Salt := ''s ''\<rparr>)"
proof -
  obtain raw where "BuildRawDiplomaString sample_input = Inr raw"
    using sample_HashDiplomaInput by (auto simp: HashDiplomaInput_def sample_input_def)
  then show ?thesis
    using raw_string_determines_diploma[of sample_input raw sample_input] sample_bar_free
    by (simp add: sample_input_def HashInput_def payload_of_def sample_claims_def int_min_def int_max_def)
qed

text \<open>
  Without that condition it is ambiguous: a bar inside a field moves the boundary to the next one,
  and both inputs pass validation.
\<close>

lemma raw_string_bar_ambiguous:
  "BuildRawDiplomaString (sample_input\<lparr>dhi_Degree := ''a|b'', dhi_Faculty := ''c''\<rparr>) =
     BuildRawDiplomaString (sample_input\<lparr>dhi_Degree := ''a'', dhi_Faculty := ''b|c''\<rparr>)"
  "DiplomaHashInput_Validate (sample_input\<lparr>dhi_Degree := ''a|b'', dhi_Faculty := ''c''\<rparr>) = Inr ()"
proof -
  have t: "TrimSpace ''a|b'' = ''a|b''" "TrimSpace ''c'' = ''c''" "TrimSpace ''a'' = ''a''"
    "TrimSpace ''b|c'' = ''b|c''"
    by (rule TrimSpace_graphic; simp add: graphic_def)+
  show v: "DiplomaHashInput_Validate (sample_input\<lparr>dhi_Degree := ''a|b'', dhi_Faculty := ''c''\<rparr>) = Inr ()"
    by (simp add: DiplomaHashInput_Validate_def validateDiplomaCoreFields_def sample_input_def HashInput_def
        payload_of_def sample_claims_def TrimSpace_samples)
  have "DiplomaHashInput_Validate (sample_input\<lparr>dhi_Degree := ''a'', dhi_Faculty := ''b|c''\<rparr>) = Inr ()"
    by (simp add: DiplomaHashInput_Validate_def validateDiplomaCoreFields_def sample_input_def HashInput_def
        payload_of_def sample_claims_def TrimSpace_samples)
  then show "BuildRawDiplomaString (sample_input\<lparr>dhi_Degree := ''a|b'', dhi_Faculty := ''c''\<rparr>) =
     BuildRawDiplomaString (sample_input\<lparr>dhi_Degree := ''a'', dhi_Faculty := ''b|c''\<rparr>)"
    using v t by (simp add: BuildRawDiplomaString_def raw_parts_def del: bind_res_eq_Inr)
qed

end
