(* ===== verification/Access.thy ===== *)
theory Access
  imports Kafka
begin

text \<open>
  \<open>gateway-service/internal/authctx/context.go\<close> and
  \<open>internal/transport/http/middleware/middleware.go\<close>: who a request acts for.

  A handler is a function of the request's context, the request and the state of the service (the
  database session and the topic of raw tasks) to a response and the new state.  Of the request the
  code reads headers and query parameters by name (absent ones are empty), the URL parameters the
  router has matched, the body and its length.  The body of a response is the text of
  \<open>http.Error\<close>, raw bytes, or the value handed to the JSON encoder.
\<close>

section \<open>Requests and responses\<close>

record http_request =
  rq_header :: "string \<Rightarrow> string"
  rq_query :: "string \<Rightarrow> string"
  rq_url_param :: "string \<Rightarrow> string"
  rq_body :: string
  rq_ContentLength :: int

datatype payload =
    ErrorBody string
  | FieldsBody "(string \<times> string) list"
  | RegisteredBody RegisterUniversityResponse
  | AuthBody AuthResponse
  | UniversityBody UniversityAdminResponse
  | UniversitiesBody "UniversityAdminResponse list"
  | StatsBody AdminStats
  | APIKeyBody CreateAPIKeyResponse
  | APIKeysBody "APIKeySummary list"
  | SigningKeyBody SigningKeyStatusResponse
  | UploadBody BatchUploadResponse
  | BatchBody Batch
  | BatchesBody "Batch list"
  | StudentsBody "StudentSearchResult list"
  | ShareLinkBody ShareLinkResponse
  | SharedBody SharedDiplomaResponse

datatype body = TextBody string | RawBody bytes | JSONBody payload

record response =
  rs_status :: nat
  rs_headers :: "(string \<times> string) list"
  rs_body :: body

type_synonym world = "sess \<times> message list"

definition StatusOK :: nat where "StatusOK = 200"
definition StatusCreated :: nat where "StatusCreated = 201"
definition StatusAccepted :: nat where "StatusAccepted = 202"
definition StatusBadRequest :: nat where "StatusBadRequest = 400"
definition StatusUnauthorized :: nat where "StatusUnauthorized = 401"
definition StatusForbidden :: nat where "StatusForbidden = 403"
definition StatusNotFound :: nat where "StatusNotFound = 404"
definition StatusConflict :: nat where "StatusConflict = 409"
definition StatusGone :: nat where "StatusGone = 410"
definition StatusInternalServerError :: nat where "StatusInternalServerError = 500"

lemmas http_status_defs = StatusOK_def StatusCreated_def StatusAccepted_def StatusBadRequest_def
  StatusUnauthorized_def StatusForbidden_def StatusNotFound_def StatusConflict_def StatusGone_def
  StatusInternalServerError_def

text \<open>\<open>http.Error\<close>.\<close>

definition http_Error :: "string \<Rightarrow> nat \<Rightarrow> response" where
  "http_Error message status =
     \<lparr>rs_status = status,
      rs_headers = [(''Content-Type'', ''text/plain; charset=utf-8''), (''X-Content-Type-Options'', ''nosniff'')],
      rs_body = TextBody message\<rparr>"

lemma http_Error_status [simp]: "rs_status (http_Error m n) = n"
  by (simp add: http_Error_def)

section \<open>The context of a request\<close>

datatype ctxKey = roleKey | universityIDKey | adminIDKey | emailKey | apiKeyIDKey

type_synonym ctx = "ctxKey \<rightharpoonup> string"

definition WithUniversity :: "ctx \<Rightarrow> string \<Rightarrow> string \<Rightarrow> ctx" where
  "WithUniversity c universityID email =
     (let c = c(roleKey \<mapsto> ''university'');
          c = c(universityIDKey \<mapsto> universityID)
      in c(emailKey \<mapsto> email))"

definition WithAdmin :: "ctx \<Rightarrow> string \<Rightarrow> string \<Rightarrow> ctx" where
  "WithAdmin c adminID email =
     (let c = c(roleKey \<mapsto> ''admin'');
          c = c(adminIDKey \<mapsto> adminID)
      in c(emailKey \<mapsto> email))"

definition WithAPIKeyID :: "ctx \<Rightarrow> string \<Rightarrow> ctx" where
  "WithAPIKeyID c apiKeyID = c(apiKeyIDKey \<mapsto> apiKeyID)"

definition RoleFromContext :: "ctx \<Rightarrow> string option" where
  "RoleFromContext c = c roleKey"

definition UniversityIDFromContext :: "ctx \<Rightarrow> string option" where
  "UniversityIDFromContext c = c universityIDKey"

definition AdminIDFromContext :: "ctx \<Rightarrow> string option" where
  "AdminIDFromContext c = c adminIDKey"

definition EmailFromContext :: "ctx \<Rightarrow> string option" where
  "EmailFromContext c = c emailKey"

definition APIKeyIDFromContext :: "ctx \<Rightarrow> string option" where
  "APIKeyIDFromContext c = c apiKeyIDKey"

definition IsUniversity :: "ctx \<Rightarrow> bool" where
  "IsUniversity c = (case RoleFromContext c of None \<Rightarrow> False | Some role \<Rightarrow> role = ''university'')"

definition IsAdmin :: "ctx \<Rightarrow> bool" where
  "IsAdmin c = (case RoleFromContext c of None \<Rightarrow> False | Some role \<Rightarrow> role = ''admin'')"

lemma context_simps [simp]:
  "UniversityIDFromContext (WithUniversity c u e) = Some u"
  "UniversityIDFromContext (WithAPIKeyID c k) = UniversityIDFromContext c"
  "UniversityIDFromContext (WithAdmin c a e) = UniversityIDFromContext c"
  "AdminIDFromContext (WithAdmin c a e) = Some a"
  "IsUniversity (WithUniversity c u e)" "\<not> IsUniversity (WithAdmin c a e)"
  "IsAdmin (WithAdmin c a e)" "\<not> IsAdmin (WithUniversity c u e)"
  "IsUniversity (WithAPIKeyID c k) = IsUniversity c"
  by (simp_all add: WithUniversity_def WithAPIKeyID_def WithAdmin_def UniversityIDFromContext_def
      AdminIDFromContext_def IsUniversity_def IsAdmin_def RoleFromContext_def Let_def)

section \<open>The middleware\<close>

type_synonym handler = "ctx \<Rightarrow> http_request \<Rightarrow> world \<Rightarrow> response \<times> world"

text \<open>The three interfaces of the middleware; the last one may be nil.\<close>

record Middleware =
  mw_tokens :: "string \<Rightarrow> AccessClaims res"
  mw_apiKeys :: "string \<Rightarrow> (University \<times> APIKey) dbm"
  mw_universities :: "(string \<Rightarrow> University dbm) option"

definition reply :: "response \<Rightarrow> world \<Rightarrow> response \<times> world" where
  "reply r w = (r, w)"

text \<open>A database program within a handler: its result decides how the handler goes on.\<close>

definition query :: "'a dbm \<Rightarrow> ('a res \<Rightarrow> world \<Rightarrow> 'b \<times> world) \<Rightarrow> world \<Rightarrow> 'b \<times> world" where
  "query m k w = (case w of (s, topic) \<Rightarrow> (case m s of (r, s) \<Rightarrow> k r (s, topic)))"

definition extractBearerToken :: "http_request \<Rightarrow> string option" where
  "extractBearerToken r =
     (let header = rq_header r ''Authorization''
      in if header = '''' then None
         else case Split2 (CHR '' '') header of
             [scheme, token] \<Rightarrow> if EqualFold scheme ''Bearer'' then Some token else None
           | _ \<Rightarrow> None)"

definition extractAPIKey :: "http_request \<Rightarrow> string" where
  "extractAPIKey r =
     (let v = TrimSpace (rq_header r ''X-API-Key'')
      in if v \<noteq> '''' then v
         else let header = rq_header r ''Authorization''
         in if header = '''' then ''''
            else case Split2 (CHR '' '') header of
                [scheme, key] \<Rightarrow> if EqualFold scheme ''ApiKey'' then key else ''''
              | _ \<Rightarrow> '''')"

text \<open>\<open>ensureUniversityIsActive\<close>: the refusal it writes, or none.\<close>

definition ensureUniversityIsActive :: "Middleware \<Rightarrow> string \<Rightarrow> world \<Rightarrow> response option \<times> world" where
  "ensureUniversityIsActive m universityID w =
     (case mw_universities m of
        None \<Rightarrow> (None, w)
      | Some FindByID \<Rightarrow>
          query (FindByID universityID) (\<lambda>r w.
            (case r of
               Inl e \<Rightarrow>
                 if e = ErrNoRows then Some (http_Error ''university not found'' StatusUnauthorized)
                 else Some (http_Error ''failed to resolve university'' StatusInternalServerError)
             | Inr university \<Rightarrow>
                 if u_Status university \<noteq> UniversityStatusActive
                 then Some (http_Error ''university account is not active'' StatusForbidden)
                 else None, w)) w)"

definition token_university :: "AccessClaims \<Rightarrow> string" where
  "token_university claims =
     (if ac_VUZID claims = '''' then rc_Subject (ac_Registered claims) else ac_VUZID claims)"

text \<open>What both university paths do with accepted claims.\<close>

definition serve_university :: "Middleware \<Rightarrow> AccessClaims \<Rightarrow> handler \<Rightarrow> handler" where
  "serve_university m claims next_handler c r w =
     (case ensureUniversityIsActive m (token_university claims) w of
        (Some refusal, w) \<Rightarrow> reply refusal w
      | (None, w) \<Rightarrow> next_handler (WithUniversity c (token_university claims) (ac_Email claims)) r w)"

definition JWT :: "Middleware \<Rightarrow> handler \<Rightarrow> handler" where
  "JWT m next_handler c r w =
     (case extractBearerToken r of
        None \<Rightarrow> reply (http_Error ''missing bearer token'' StatusUnauthorized) w
      | Some bearerToken \<Rightarrow>
          (case mw_tokens m bearerToken of
             Inl _ \<Rightarrow> reply (http_Error ''invalid token'' StatusUnauthorized) w
           | Inr claims \<Rightarrow>
               if ac_Role claims = RoleAdmin
               then next_handler (WithAdmin c (rc_Subject (ac_Registered claims)) (ac_Email claims)) r w
               else if ac_Role claims = RoleUniversity
               then if ac_Status claims \<noteq> UniversityStatusActive
                    then reply (http_Error ''university account is not active'' StatusForbidden) w
                    else serve_university m claims next_handler c r w
               else reply (http_Error ''unsupported token role'' StatusUnauthorized) w))"

definition Admin :: "handler \<Rightarrow> handler" where
  "Admin next_handler c r w =
     (if \<not> IsAdmin c then reply (http_Error ''admin access required'' StatusForbidden) w
      else next_handler c r w)"

definition University_only :: "handler \<Rightarrow> handler" where
  "University_only next_handler c r w =
     (if \<not> IsUniversity c then reply (http_Error ''university access required'' StatusForbidden) w
      else next_handler c r w)"

definition serve_api_key :: "Middleware \<Rightarrow> handler \<Rightarrow> handler" where
  "serve_api_key m next_handler c r w =
     (let apiKeyValue = extractAPIKey r
      in if apiKeyValue = '''' then reply (http_Error ''missing credentials'' StatusUnauthorized) w
         else query (mw_apiKeys m apiKeyValue) (\<lambda>x. case x of
             Inl e \<Rightarrow>
               if e = ErrNoRows then reply (http_Error ''invalid api key'' StatusUnauthorized)
               else reply (http_Error ''failed to resolve api key'' StatusInternalServerError)
           | Inr (university, apiKey) \<Rightarrow>
               (let c = WithUniversity c (u_ID university) (u_Email university);
                    c = WithAPIKeyID c (ak_ID apiKey)
                in next_handler c r)) w)"

definition UniversityOrAPIKey :: "Middleware \<Rightarrow> handler \<Rightarrow> handler" where
  "UniversityOrAPIKey m next_handler c r w =
     (case extractBearerToken r of
        Some bearerToken \<Rightarrow>
          (case mw_tokens m bearerToken of
             Inr claims \<Rightarrow>
               if ac_Role claims = RoleUniversity \<and> ac_Status claims = UniversityStatusActive
               then serve_university m claims next_handler c r w
               else serve_api_key m next_handler c r w
           | Inl _ \<Rightarrow> serve_api_key m next_handler c r w)
      | None \<Rightarrow> serve_api_key m next_handler c r w)"

end
