(* ===== verification/Csv.thy ===== *)
theory Csv
  imports GoStd Model
begin

text \<open>
  CSV uploads: \<open>parseCSV\<close> of \<open>handler/diplomas.go\<close>, with the reader of \<open>encoding/csv\<close> as the code
  configures it (comma, no comments, strict quotes, \<open>TrimLeadingSpace\<close>, the number of fields fixed
  by the first record).
\<close>

section \<open>Package encoding/csv\<close>

text \<open>
  \<open>readLine\<close>: the lines with their newline, \<open>\r\n\<close> normalised to \<open>\n\<close>, and a final \<open>\r\<close> dropped
  before the end of the input.
\<close>

abbreviation nl :: char where "nl \<equiv> CHR 0x0A"
abbreviation cr :: char where "cr \<equiv> CHR 0x0D"

definition normal_line :: "string \<Rightarrow> string" where
  "normal_line l = (if 2 \<le> length l \<and> drop (length l - 2) l = [cr, nl] then take (length l - 2) l @ [nl] else l)"

fun raw_lines :: "string \<Rightarrow> string list" where
  "raw_lines [] = []"
| "raw_lines (c # cs) =
     (if c = nl then [nl] # raw_lines cs
      else case raw_lines cs of [] \<Rightarrow> [[c]] | l # ls \<Rightarrow> (c # l) # ls)"

definition last_line :: "string \<Rightarrow> string" where
  "last_line l = (if l \<noteq> [] \<and> last l = cr then butlast l else l)"

definition csv_lines :: "string \<Rightarrow> string list" where
  "csv_lines s = map (normal_line \<circ> last_line) (raw_lines s)"

definition lengthNL :: "string \<Rightarrow> nat" where
  "lengthNL l = (if l \<noteq> [] \<and> last l = nl then 1 else 0)"

definition drop_nl :: "string \<Rightarrow> string" where
  "drop_nl l = take (length l - lengthNL l) l"

text \<open>\<open>bytes.IndexByte\<close>.\<close>

fun index_byte :: "char \<Rightarrow> string \<Rightarrow> nat option" where
  "index_byte c [] = None"
| "index_byte c (x # xs) = (if x = c then Some 0 else map_option Suc (index_byte c xs))"

datatype csv_error = ErrBareQuote | ErrQuote | ErrFieldCount

abbreviation comma :: char where "comma \<equiv> CHR '',''"
abbreviation dquote :: char where "dquote \<equiv> CHR 0x22"

text \<open>
  \<open>readRecord\<close> after its first line: the current line, the lines still to be read, the fields so
  far, and the text of the open quoted field, if any.
\<close>

lemma index_byte_length: "index_byte c s = Some i \<Longrightarrow> i < length s"
  by (induction s arbitrary: i) (auto split: if_splits)

lemma trim_left_shorter:
  assumes "x # xs = trim_left s"
  shows "length xs < length s" "length (trim_left s) - Suc n < length s"
proof -
  have "length (trim_left s) \<le> length s" by (simp add: trim_left_def length_trim_with)
  moreover have "length (trim_left s) = Suc (length xs)" by (simp flip: assms)
  ultimately show "length xs < length s" "length (trim_left s) - Suc n < length s" by linarith+
qed

lemma drop_shorter: "x # xs = drop (Suc i) s \<Longrightarrow> length xs < length s"
  by (metis diff_le_self length_Cons length_drop less_eq_Suc_le)

function parse_fields ::
  "string option \<Rightarrow> string \<Rightarrow> string list \<Rightarrow> string list \<Rightarrow> csv_error + string list \<times> string list" where
  "parse_fields None line rest acc =
     (let line = trim_left line
      in case line of
           [] \<Rightarrow> Inr (acc @ [[]], rest)
         | c # cs \<Rightarrow>
             if c = dquote then parse_fields (Some []) cs rest acc
             else (let i = index_byte comma line;
                       field = (case i of Some i \<Rightarrow> take i line | None \<Rightarrow> drop_nl line)
                   in if dquote \<in> set field then Inl ErrBareQuote
                      else case i of
                          Some i \<Rightarrow> parse_fields None (drop (i + 1) line) rest (acc @ [field])
                        | None \<Rightarrow> Inr (acc @ [field], rest)))"
| "parse_fields (Some buf) line rest acc =
     (case index_byte dquote line of
        Some i \<Rightarrow>
          (let buf = buf @ take i line; line = drop (i + 1) line
           in case line of
                [] \<Rightarrow> Inr (acc @ [buf], rest)
              | c # cs \<Rightarrow>
                  if c = dquote then parse_fields (Some (buf @ [dquote])) cs rest acc
                  else if c = comma then parse_fields None cs rest (acc @ [buf])
                  else if lengthNL line = length line then Inr (acc @ [buf], rest)
                  else Inl ErrQuote)
      | None \<Rightarrow>
          (case line of
             [] \<Rightarrow> Inl ErrQuote
           | _ # _ \<Rightarrow>
               (case rest of
                  [] \<Rightarrow> parse_fields (Some (buf @ line)) [] [] acc
                | l # ls \<Rightarrow> parse_fields (Some (buf @ line)) l ls acc)))"
  by pat_completeness auto

termination
  by (relation "measure (\<lambda>(q, line, rest, acc). length line + sum_list (map (Suc \<circ> length) rest))")
     (auto simp: Let_def trim_left_shorter split: if_splits dest: drop_shorter)

declare parse_fields.simps [simp del]

lemma parse_fields_rest:
  "parse_fields q line rest acc = Inr (row, rest') \<Longrightarrow> length rest' \<le> length rest"
proof (induction q line rest acc arbitrary: row rest' rule: parse_fields.induct)
  case (1 line rest acc)
  note run = trans[OF parse_fields.simps(1)[symmetric] "1.prems", unfolded Let_def]
  show ?case
  proof (cases "trim_left line")
    case Nil
    then show ?thesis using run by simp
  next
    case (Cons c cs)
    show ?thesis
    proof (cases "c = dquote")
      case True
      then show ?thesis using run Cons "1.IH"(1)[OF refl Cons True] by simp
    next
      case False
      then show ?thesis
        using run Cons "1.IH"(2)[OF refl Cons False refl refl]
        by (cases "index_byte comma (trim_left line)") (simp_all split: if_splits)
    qed
  qed
next
  case (2 buf line rest acc)
  note run = trans[OF parse_fields.simps(2)[symmetric] "2.prems", unfolded Let_def]
  show ?case
  proof (cases "index_byte dquote line")
    case None
    show ?thesis
    proof (cases line)
      case (Cons c cs)
      then show ?thesis
        using run None "2.IH"(1)[OF None Cons] "2.IH"(2)[OF None Cons]
        by (cases rest) (simp_all, fastforce)
    qed (use run in simp)
  next
    case (Some i)
    show ?thesis
    proof (cases "drop (i + 1) line")
      case (Cons c cs)
      then show ?thesis
        using run Some "2.IH"(3)[OF Some refl refl Cons] "2.IH"(4)[OF Some refl refl Cons]
        by (simp split: if_splits)
    qed (use run Some in simp)
  qed
qed

text \<open>\<open>ReadAll\<close>: blank lines are skipped; every record has as many fields as the first.\<close>

function ReadAll_from :: "nat option \<Rightarrow> string list \<Rightarrow> csv_error + string list list" where
  "ReadAll_from expected [] = Inr []"
| "ReadAll_from expected (line # rest) =
     (if length line = lengthNL line then ReadAll_from expected rest
      else case parse_fields None line rest [] of
          Inl e \<Rightarrow> Inl e
        | Inr (row, rest) \<Rightarrow>
            if expected \<noteq> None \<and> expected \<noteq> Some (length row) then Inl ErrFieldCount
            else bind_res (ReadAll_from (Some (length row)) rest) (\<lambda>rows. Inr (row # rows)))"
  by pat_completeness auto

termination
  by (relation "measure (\<lambda>(expected, ls). length ls)")
     (auto dest: parse_fields_rest)

definition ReadAll :: "string \<Rightarrow> csv_error + string list list" where
  "ReadAll text = ReadAll_from None (csv_lines text)"

section \<open>Uploads\<close>

definition normalizeCSVHeader :: "string \<Rightarrow> string" where
  "normalizeCSVHeader header =
     (let normalized = TrimSpace header in TrimPrefix normalized (map byte [239, 187, 191]))"

text \<open>The map \<open>headerIndex\<close>: a later column of the same name wins.\<close>

definition headerIndex :: "string list \<Rightarrow> string \<rightharpoonup> nat" where
  "headerIndex headers =
     fold (\<lambda>(index, header) m. m(normalizeCSVHeader header \<mapsto> index)) (zip [0..<length headers] headers) Map.empty"

definition requiredHeaders :: "string list" where
  "requiredHeaders = [''full_name'', ''diploma_number'', ''specialty'', ''degree'', ''faculty'', ''year'']"

fun missing_header :: "(string \<rightharpoonup> nat) \<Rightarrow> string list \<Rightarrow> string option" where
  "missing_header index [] = None"
| "missing_header index (h # hs) = (if index h = None then Some h else missing_header index hs)"

definition column :: "(string \<rightharpoonup> nat) \<Rightarrow> string list \<Rightarrow> string \<Rightarrow> string" where
  "column index row header = row ! the (index header)"

definition csv_record :: "(string \<rightharpoonup> nat) \<Rightarrow> string list \<Rightarrow> DiplomaUploadRecord res" where
  "csv_record index row =
     (if \<exists>header \<in> set requiredHeaders. length row \<le> the (index header)
      then Inl (ErrText ''csv row has missing values'')
      else case Atoi (TrimSpace (column index row ''year'')) of
          None \<Rightarrow> Inl (ErrText ''invalid year in csv'')
        | Some yearValue \<Rightarrow>
            Inr \<lparr>dur_FullName = TrimSpace (column index row ''full_name''),
              dur_DiplomaNumber = TrimSpace (column index row ''diploma_number''),
              dur_Specialty = TrimSpace (column index row ''specialty''),
              dur_Degree = TrimSpace (column index row ''degree''),
              dur_Faculty = TrimSpace (column index row ''faculty''),
              dur_Year = yearValue, dur_RawCSVRow = Join row '',''\<rparr>)"

fun csv_records :: "(string \<rightharpoonup> nat) \<Rightarrow> string list list \<Rightarrow> DiplomaUploadRecord list res" where
  "csv_records index [] = Inr []"
| "csv_records index (row # rows) =
     bind_res (csv_record index row) (\<lambda>r. bind_res (csv_records index rows) (\<lambda>rs. Inr (r # rs)))"

definition parseCSV :: "string \<Rightarrow> DiplomaUploadRecord list res" where
  "parseCSV text =
     (case ReadAll text of
        Inl _ \<Rightarrow> Inl (ErrText ''failed to read csv'')
      | Inr rows \<Rightarrow>
          if length rows < 2 then Inl (ErrText ''csv must contain header and at least one row'')
          else let index = headerIndex (hd rows)
               in case missing_header index requiredHeaders of
                    Some header \<Rightarrow> Inl (ErrText (''csv header is missing required column: '' @ header))
                  | None \<Rightarrow> csv_records index (tl rows))"

end
