(* ===== verification/Handlers.thy ===== *)
theory Handlers
  imports Access Csv
begin

text \<open>
  \<open>gateway-service/internal/transport/http/handler\<close>: every handler, with the use case it calls and
  the validation of its request as arguments.  A use case is a database program; only the upload
  also writes to the topic.  \<open>mime.ParseMediaType\<close> and the reading of multipart forms are
  arguments of the upload handler, as is the URL escaping the router has undone.
\<close>

section \<open>common.go, errors.go\<close>

definition writeJSON :: "nat \<Rightarrow> payload \<Rightarrow> response" where
  "writeJSON status v =
     \<lparr>rs_status = status, rs_headers = [(''Content-Type'', ''application/json'')], rs_body = JSONBody v\<rparr>"

definition writeError :: "nat \<Rightarrow> string \<Rightarrow> response" where
  "writeError status message = writeJSON status (ErrorBody message)"

lemma write_status [simp]: "rs_status (writeJSON n v) = n" "rs_status (writeError n m) = n"
  by (simp_all add: writeJSON_def writeError_def)

text \<open>\<open>err.Error()\<close>.\<close>

fun errText :: "err \<Rightarrow> string" where
  "errText ErrNoRows = ''sql: no rows in result set''"
| "errText (PqError c) = ''pq: '' @ c"
| "errText (ErrText m) = m"
| "errText ErrInvalidCredentials = ''invalid credentials''"
| "errText ErrDuplicateEntity = ''entity already exists''"
| "errText ErrUniversityPending = ''university account is pending approval''"
| "errText ErrUniversityBlocked = ''university account is blocked''"
| "errText ErrUniversityInactive = ''university account is not active''"
| "errText ErrDiplomaNotFound = ''diploma not found''"
| "errText ErrShareLinkExpired = ''share link expired''"
| "errText ErrInvalidShareToken = ''invalid share token''"
| "errText ErrInvalidSigningKey = ''invalid Ed25519 private key''"
| "errText ErrSigningKeyMismatch = ''private key does not match university public key''"
| "errText ErrSigningKeyNotFound = ''signing key is not configured''"

text \<open>\<open>json.NewDecoder(r.Body).Decode\<close> into a fresh struct, and the strict \<open>decodeJSON\<close>.\<close>

type_synonym 'a json_fields = "(string \<times> (json \<Rightarrow> 'a \<Rightarrow> 'a option)) list"

definition decode_body :: "bool \<Rightarrow> 'a json_fields \<Rightarrow> 'a \<Rightarrow> http_request \<Rightarrow> 'a option" where
  "decode_body strict fs zero r = (case json_decode_first (rq_body r) of
     None \<Rightarrow> None | Some j \<Rightarrow> decode_struct fs strict zero j)"

definition decodeJSON :: "'a json_fields \<Rightarrow> 'a \<Rightarrow> http_request \<Rightarrow> 'a option" where
  "decodeJSON fs zero r = decode_body True fs zero r"

text \<open>A handler that decodes and validates a request body before going on.\<close>

definition with_request ::
  "'a json_fields \<Rightarrow> 'a \<Rightarrow> ('a \<Rightarrow> unit res) \<Rightarrow> ('a \<Rightarrow> world \<Rightarrow> response \<times> world) \<Rightarrow> http_request
     \<Rightarrow> world \<Rightarrow> response \<times> world" where
  "with_request fs zero validate go r =
     (case decode_body False fs zero r of
        None \<Rightarrow> reply (writeError StatusBadRequest ''invalid request body'')
      | Some request \<Rightarrow>
          (case validate request of
             Inl e \<Rightarrow> reply (writeError StatusBadRequest (errText e))
           | Inr _ \<Rightarrow> go request))"

text \<open>A handler that first reads the university of its context.\<close>

definition with_university :: "(string \<Rightarrow> world \<Rightarrow> response \<times> world) \<Rightarrow> ctx \<Rightarrow> world \<Rightarrow> response \<times> world" where
  "with_university go c =
     (case UniversityIDFromContext c of
        None \<Rightarrow> reply (writeError StatusUnauthorized ''unauthorized'')
      | Some vuzID \<Rightarrow> go vuzID)"

definition with_param :: "http_request \<Rightarrow> string \<Rightarrow> string \<Rightarrow> (string \<Rightarrow> world \<Rightarrow> response \<times> world)
    \<Rightarrow> world \<Rightarrow> response \<times> world" where
  "with_param r name missing go =
     (let v = rq_url_param r name
      in if v = '''' then reply (writeError StatusBadRequest missing) else go v)"

section \<open>auth.go\<close>

definition register_fields :: "RegisterUniversityRequest json_fields" where
  "register_fields =
     [(''name'', set_string rur_Name_update), (''vuz_code'', set_string rur_VuzCode_update),
      (''inn'', set_string rur_INN_update), (''ogrn'', set_string rur_OGRN_update),
      (''email'', set_string rur_Email_update), (''password'', set_string rur_Password_update)]"

definition empty_register :: RegisterUniversityRequest where
  "empty_register = \<lparr>rur_Name = '''', rur_VuzCode = '''', rur_INN = '''', rur_OGRN = '''', rur_Email = '''',
     rur_Password = ''''\<rparr>"

definition AuthHandler_Register ::
  "(RegisterUniversityRequest \<Rightarrow> unit res) \<Rightarrow> (RegisterUniversityRequest \<Rightarrow> RegisterUniversityResponse dbm)
     \<Rightarrow> handler" where
  "AuthHandler_Register validate register c r =
     with_request register_fields empty_register validate (\<lambda>request.
       query (register request) (\<lambda>x. case x of
          Inl e \<Rightarrow>
            if e = ErrDuplicateEntity then reply (writeError StatusConflict (errText e))
            else reply (writeError StatusInternalServerError ''failed to register university'')
        | Inr answer \<Rightarrow> reply (writeJSON StatusCreated (RegisteredBody answer)))) r"

definition login_fields :: "LoginRequest json_fields" where
  "login_fields = [(''email'', set_string lr_Email_update), (''password'', set_string lr_Password_update)]"

definition AuthHandler_Login ::
  "(LoginRequest \<Rightarrow> unit res) \<Rightarrow> (LoginRequest \<Rightarrow> AuthResponse dbm) \<Rightarrow> handler" where
  "AuthHandler_Login validate login c r =
     with_request login_fields \<lparr>lr_Email = '''', lr_Password = ''''\<rparr> validate (\<lambda>request.
       query (login request) (\<lambda>x. case x of
          Inl e \<Rightarrow>
            if e = ErrInvalidCredentials then reply (writeError StatusUnauthorized (errText e))
            else if e \<in> {ErrUniversityPending, ErrUniversityBlocked, ErrUniversityInactive}
            then reply (writeError StatusForbidden (errText e))
            else reply (writeError StatusInternalServerError ''failed to authenticate'')
        | Inr answer \<Rightarrow> reply (writeJSON StatusOK (AuthBody answer)))) r"

section \<open>admin.go\<close>

definition toUniversityAdminResponse :: "University \<Rightarrow> UniversityAdminResponse" where
  "toUniversityAdminResponse u =
     \<lparr>uar_ID = u_ID u, uar_VuzCode = u_VuzCode u, uar_Name = u_Name u, uar_INN = u_INN u,
      uar_OGRN = u_OGRN u, uar_Email = u_Email u, uar_Status = u_Status u,
      uar_HasPublicKey = (u_PublicKey u \<noteq> None \<and> u_PublicKey u \<noteq> Some ''''),
      uar_CreatedAt = u_CreatedAt u\<rparr>"

text \<open>The four handlers that act on one university: not found, another failure, or its result.\<close>

definition answer_university :: "string \<Rightarrow> ('a \<Rightarrow> payload) \<Rightarrow> 'a res \<Rightarrow> world \<Rightarrow> response \<times> world" where
  "answer_university failure body x = (case x of
     Inl e \<Rightarrow>
       if e = ErrNoRows then reply (writeError StatusNotFound ''university not found'')
       else reply (writeError StatusInternalServerError failure)
   | Inr v \<Rightarrow> reply (writeJSON StatusOK (body v)))"

definition AdminHandler_ListUniversities :: "University list dbm \<Rightarrow> handler" where
  "AdminHandler_ListUniversities list c r =
     query list (\<lambda>x. case x of
        Inl _ \<Rightarrow> reply (writeError StatusInternalServerError ''failed to load universities'')
      | Inr us \<Rightarrow>
          reply (writeJSON StatusOK (UniversitiesBody (map toUniversityAdminResponse us))))"

definition AdminHandler_GetUniversity :: "(string \<Rightarrow> University dbm) \<Rightarrow> handler" where
  "AdminHandler_GetUniversity get c r =
     with_param r ''id'' ''missing university id'' (\<lambda>i.
       query (get i) (answer_university ''failed to load university''
         (UniversityBody \<circ> toUniversityAdminResponse)))"

definition AdminHandler_ApproveUniversity :: "(string \<Rightarrow> University dbm) \<Rightarrow> handler" where
  "AdminHandler_ApproveUniversity approve c r =
     with_param r ''id'' ''missing university id'' (\<lambda>i.
       query (approve i) (answer_university ''failed to approve university''
         (UniversityBody \<circ> toUniversityAdminResponse)))"

text \<open>The body of \<open>UpdateUniversityStatusRequest\<close> is its one field.\<close>

definition AdminHandler_UpdateUniversityStatus :: "(string \<Rightarrow> string \<Rightarrow> University dbm) \<Rightarrow> handler" where
  "AdminHandler_UpdateUniversityStatus update c r =
     with_param r ''id'' ''missing university id'' (\<lambda>i.
       case decodeJSON [(''status'', set_string (\<lambda>f. f))] '''' r of
         None \<Rightarrow> reply (writeError StatusBadRequest ''invalid json payload'')
       | Some status \<Rightarrow>
           query (update i status) (answer_university ''failed to update university status''
             (UniversityBody \<circ> toUniversityAdminResponse)))"

definition AdminHandler_DeleteUniversity :: "(string \<Rightarrow> unit dbm) \<Rightarrow> handler" where
  "AdminHandler_DeleteUniversity delete c r =
     with_param r ''id'' ''missing university id'' (\<lambda>i.
       query (delete i) (answer_university ''failed to delete university''
         (\<lambda>_. FieldsBody [(''id'', i), (''status'', ''deleted'')])))"

definition AdminHandler_Stats :: "AdminStats dbm \<Rightarrow> handler" where
  "AdminHandler_Stats stats c r =
     query stats (\<lambda>x. case x of
        Inl _ \<Rightarrow> reply (writeError StatusInternalServerError ''failed to load stats'')
      | Inr v \<Rightarrow> reply (writeJSON StatusOK (StatsBody v)))"

section \<open>api_keys.go\<close>

text \<open>The body of \<open>CreateAPIKeyRequest\<close> is its one optional field.\<close>

definition APIKeyHandler_Create ::
  "(string option \<Rightarrow> unit res) \<Rightarrow> (string \<Rightarrow> string option \<Rightarrow> CreateAPIKeyResponse dbm) \<Rightarrow> handler" where
  "APIKeyHandler_Create validate create c r =
     with_university (\<lambda>vuzID.
       let request = (if 0 < rq_ContentLength r
             then decode_body False [(''name'', set_string_ptr (\<lambda>f. f))] None r else Some None)
       in case request of
            None \<Rightarrow> reply (writeError StatusBadRequest ''invalid request body'')
          | Some name \<Rightarrow>
              (case validate name of
                 Inl e \<Rightarrow> reply (writeError StatusBadRequest (errText e))
               | Inr _ \<Rightarrow>
                   query (create vuzID name) (\<lambda>x. case x of
                      Inl _ \<Rightarrow> reply (writeError StatusInternalServerError ''failed to create api key'')
                    | Inr v \<Rightarrow> reply (writeJSON StatusCreated (APIKeyBody v))))) c"

definition APIKeyHandler_List :: "(string \<Rightarrow> APIKeySummary list dbm) \<Rightarrow> handler" where
  "APIKeyHandler_List list c r =
     with_university (\<lambda>vuzID.
       query (list vuzID) (\<lambda>x. case x of
          Inl _ \<Rightarrow> reply (writeError StatusInternalServerError ''failed to load api keys'')
        | Inr items \<Rightarrow> reply (writeJSON StatusOK (APIKeysBody items)))) c"

section \<open>signing_keys.go\<close>

text \<open>The body of \<open>UpsertSigningKeyRequest\<close> is its one field.\<close>

definition SigningKeyHandler_Upsert ::
  "(string \<Rightarrow> unit res) \<Rightarrow> (string \<Rightarrow> string \<Rightarrow> SigningKeyStatusResponse dbm) \<Rightarrow> handler" where
  "SigningKeyHandler_Upsert validate upsert c r =
     with_university (\<lambda>vuzID.
       with_request [(''private_key_pem'', set_string (\<lambda>f. f))] '''' validate (\<lambda>pem.
         query (upsert vuzID pem) (\<lambda>x. case x of
            Inl e \<Rightarrow>
              if e = ErrInvalidSigningKey \<or> e = ErrSigningKeyMismatch
              then reply (writeError StatusBadRequest (errText e))
              else if e = ErrNoRows then reply (writeError StatusNotFound ''university not found'')
              else reply (writeError StatusInternalServerError ''failed to save signing key'')
          | Inr v \<Rightarrow> reply (writeJSON StatusCreated (SigningKeyBody v)))) r) c"

definition SigningKeyHandler_Status :: "(string \<Rightarrow> SigningKeyStatusResponse dbm) \<Rightarrow> handler" where
  "SigningKeyHandler_Status status c r =
     with_university (\<lambda>vuzID.
       query (status vuzID) (\<lambda>x. case x of
          Inl e \<Rightarrow>
            if e = ErrSigningKeyNotFound then reply (writeError StatusNotFound (errText e))
            else reply (writeError StatusInternalServerError ''failed to load signing key status'')
        | Inr v \<Rightarrow> reply (writeJSON StatusOK (SigningKeyBody v)))) c"

section \<open>student.go\<close>

definition Hour :: duration where
  "Hour = 3600 * second"

text \<open>The product of two \<open>int64\<close> values.\<close>

definition int64_times :: "int \<Rightarrow> int \<Rightarrow> int" where
  "int64_times a b = sint (word_of_int a * word_of_int b :: 64 word)"

definition hoursToDuration :: "int option \<Rightarrow> duration" where
  "hoursToDuration hours =
     (case hours of None \<Rightarrow> 0 | Some h \<Rightarrow> if h \<le> 0 then 0 else int64_times h Hour)"

definition parseOptionalHours :: "string \<Rightarrow> duration" where
  "parseOptionalHours v =
     (if v = '''' then 0
      else case Atoi v of
          None \<Rightarrow> 0
        | Some hours \<Rightarrow> if hours \<le> 0 then 0 else int64_times hours Hour)"

definition StudentHandler_Search :: "(string \<Rightarrow> string \<Rightarrow> StudentSearchResult list dbm) \<Rightarrow> handler" where
  "StudentHandler_Search search c r =
     (let diplomaNumber = rq_query r ''diploma_number''; fullName = rq_query r ''full_name''
      in if diplomaNumber = '''' \<and> fullName = ''''
         then reply (writeError StatusBadRequest ''at least one search parameter is required'')
         else query (search diplomaNumber fullName) (\<lambda>x. case x of
             Inl _ \<Rightarrow> reply (writeError StatusInternalServerError ''failed to search students'')
           | Inr items \<Rightarrow> reply (writeJSON StatusOK (StudentsBody items))))"

record CreateShareLinkRequest =
  csl_DiplomaHash :: string
  csl_TTLHours :: "int option"

definition share_fields :: "CreateShareLinkRequest json_fields" where
  "share_fields = [(''diploma_hash'', set_string csl_DiplomaHash_update),
     (''ttl_hours'', set_int_ptr csl_TTLHours_update)]"

definition StudentHandler_Share ::
  "(CreateShareLinkRequest \<Rightarrow> unit res) \<Rightarrow> (string \<Rightarrow> duration \<Rightarrow> ShareLinkResponse dbm) \<Rightarrow> handler" where
  "StudentHandler_Share validate share c r =
     with_request share_fields \<lparr>csl_DiplomaHash = '''', csl_TTLHours = None\<rparr> validate (\<lambda>request.
       query (share (csl_DiplomaHash request) (hoursToDuration (csl_TTLHours request))) (\<lambda>x. case x of
          Inl e \<Rightarrow>
            if e = ErrDiplomaNotFound then reply (writeError StatusNotFound (errText e))
            else reply (writeError StatusInternalServerError ''failed to create share link'')
        | Inr link \<Rightarrow> reply (writeJSON StatusCreated (ShareLinkBody link)))) r"

definition StudentHandler_QR :: "(string \<Rightarrow> string \<Rightarrow> duration \<Rightarrow> (bytes \<times> string) dbm) \<Rightarrow> handler" where
  "StudentHandler_QR render c r =
     (let diplomaHash = rq_query r ''diploma_hash''
      in if diplomaHash = '''' then reply (writeError StatusBadRequest ''missing diploma_hash'')
         else let format = rq_query r ''format''; ttlHours = parseOptionalHours (rq_query r ''ttl_hours'')
         in query (render diplomaHash format ttlHours) (\<lambda>x. case x of
             Inl e \<Rightarrow>
               if e = ErrDiplomaNotFound then reply (writeError StatusNotFound (errText e))
               else reply (writeError StatusInternalServerError ''failed to generate qr code'')
           | Inr (png, contentType) \<Rightarrow>
               reply \<lparr>rs_status = StatusOK, rs_headers = [(''Content-Type'', contentType)],
                 rs_body = RawBody png\<rparr>))"

definition StudentHandler_SharedDiploma :: "(string \<Rightarrow> SharedDiplomaResponse dbm) \<Rightarrow> handler" where
  "StudentHandler_SharedDiploma resolve c r =
     with_param r ''token'' ''missing share token'' (\<lambda>tokenValue.
       query (resolve tokenValue) (\<lambda>x. case x of
          Inl e \<Rightarrow>
            if e = ErrInvalidShareToken then reply (writeError StatusUnauthorized (errText e))
            else if e = ErrShareLinkExpired then reply (writeError StatusGone (errText e))
            else if e = ErrDiplomaNotFound then reply (writeError StatusNotFound (errText e))
            else reply (writeError StatusInternalServerError ''failed to resolve share link'')
        | Inr v \<Rightarrow> reply (writeJSON StatusOK (SharedBody v))))"

section \<open>university.go\<close>

definition UniversityHandler_Profile :: "(string \<Rightarrow> University dbm) \<Rightarrow> handler" where
  "UniversityHandler_Profile profile c r =
     with_university (\<lambda>vuzID.
       query (profile vuzID) (answer_university ''failed to load university profile''
         (UniversityBody \<circ> toUniversityAdminResponse))) c"

definition no_cache :: "response \<Rightarrow> response" where
  "no_cache v = v\<lparr>rs_headers :=
     [(''Cache-Control'', ''no-store, no-cache, must-revalidate''), (''Pragma'', ''no-cache''),
      (''Expires'', ''0'')] @ rs_headers v\<rparr>"

definition UniversityHandler_ListBatches :: "(string \<Rightarrow> int \<Rightarrow> Batch list dbm) \<Rightarrow> handler" where
  "UniversityHandler_ListBatches list c r =
     with_university (\<lambda>vuzID.
       let rawLimit = TrimSpace (rq_query r ''limit'')
       in case (if rawLimit = '''' then Some 20 else Atoi rawLimit) of
            None \<Rightarrow> reply (writeError StatusBadRequest ''limit must be an integer'')
          | Some limit \<Rightarrow>
              query (list vuzID limit) (\<lambda>x. case x of
                 Inl _ \<Rightarrow> reply (writeError StatusInternalServerError ''failed to load university batches'')
               | Inr items \<Rightarrow> reply (no_cache (writeJSON StatusOK (BatchesBody items))))) c"

section \<open>diplomas.go\<close>

definition record_fields :: "DiplomaUploadRecord json_fields" where
  "record_fields =
     [(''full_name'', set_string dur_FullName_update), (''diploma_number'', set_string dur_DiplomaNumber_update),
      (''specialty'', set_string dur_Specialty_update), (''degree'', set_string dur_Degree_update),
      (''faculty'', set_string dur_Faculty_update), (''year'', set_int dur_Year_update)]"

definition empty_record :: DiplomaUploadRecord where
  "empty_record = \<lparr>dur_FullName = '''', dur_DiplomaNumber = '''', dur_Specialty = '''', dur_Degree = '''',
     dur_Faculty = '''', dur_Year = 0, dur_RawCSVRow = ''''\<rparr>"

text \<open>
  The slice of \<open>DiplomaUploadRequest\<close>: the decoder fills the elements it already has (a key may be
  given twice) and appends zero values beyond them.
\<close>

fun decode_elements :: "DiplomaUploadRecord list \<Rightarrow> json list \<Rightarrow> DiplomaUploadRecord list option" where
  "decode_elements old [] = Some []"
| "decode_elements old (j # js) =
     (case decode_struct record_fields False (case old of [] \<Rightarrow> empty_record | x # _ \<Rightarrow> x) j of
        None \<Rightarrow> None
      | Some x \<Rightarrow> map_option ((#) x) (decode_elements (tl old) js))"

definition set_records :: "json \<Rightarrow> DiplomaUploadRecord list \<Rightarrow> DiplomaUploadRecord list option" where
  "set_records j old = (case j of JArr js \<Rightarrow> decode_elements old js | JNull \<Rightarrow> Some [] | _ \<Rightarrow> None)"

text \<open>
  \<open>ParseMediaType\<close> yields the media type (empty on an error), \<open>form\<close> what \<open>ParseMultipartForm\<close> and
  \<open>FormFile\<close> make of the request: no form, a form without the file, or the file.
\<close>

definition parseRecords ::
  "(string \<Rightarrow> string) \<Rightarrow> (http_request \<Rightarrow> string option option) \<Rightarrow> http_request
     \<Rightarrow> DiplomaUploadRecord list res" where
  "parseRecords ParseMediaType form r =
     (let mediaType = ParseMediaType (rq_header r ''Content-Type'')
      in if mediaType = '''' \<or> mediaType = ''application/json''
         then (case decode_body False [(''diplomas'', set_records)] [] r of
             None \<Rightarrow> Inl (ErrText ''invalid json payload'')
           | Some diplomas \<Rightarrow>
               if diplomas = [] then Inl (ErrText ''diplomas payload is empty'') else Inr diplomas)
         else if mediaType = ''multipart/form-data''
         then (case form r of
             None \<Rightarrow> Inl (ErrText ''failed to parse multipart form'')
           | Some None \<Rightarrow> Inl (ErrText (''csv file is required in form field '' @ [CHR 0x27] @ ''file'' @ [CHR 0x27]))
           | Some (Some file) \<Rightarrow> parseCSV file)
         else if mediaType \<in> {''text/csv'', ''application/csv'', ''application/vnd.ms-excel''}
         then parseCSV (rq_body r)
         else if Contains mediaType ''csv'' then parseCSV (rq_body r)
         else Inl (ErrText ''unsupported content type''))"

fun validate_records :: "(DiplomaUploadRecord \<Rightarrow> unit res) \<Rightarrow> DiplomaUploadRecord list \<Rightarrow> unit res" where
  "validate_records validate [] = Inr ()"
| "validate_records validate (x # xs) = bind_res (validate x) (\<lambda>_. validate_records validate xs)"

definition DiplomaHandler_Upload ::
  "(http_request \<Rightarrow> DiplomaUploadRecord list res) \<Rightarrow> (DiplomaUploadRecord \<Rightarrow> unit res)
     \<Rightarrow> (string \<Rightarrow> DiplomaUploadRecord list \<Rightarrow> world \<Rightarrow> BatchUploadResponse res \<times> world) \<Rightarrow> handler" where
  "DiplomaHandler_Upload parse validate upload c r =
     with_university (\<lambda>vuzID.
       case parse r of
         Inl e \<Rightarrow> reply (writeError StatusBadRequest (errText e))
       | Inr records \<Rightarrow>
           (case validate_records validate records of
              Inl e \<Rightarrow> reply (writeError StatusBadRequest (errText e))
            | Inr _ \<Rightarrow> (\<lambda>w. case upload vuzID records w of
                (Inl _, w) \<Rightarrow> reply (writeError StatusInternalServerError ''failed to upload diplomas'') w
              | (Inr answer, w) \<Rightarrow> reply (writeJSON StatusAccepted (UploadBody answer)) w))) c"

definition DiplomaHandler_BatchStatus :: "(string \<Rightarrow> string \<Rightarrow> Batch dbm) \<Rightarrow> handler" where
  "DiplomaHandler_BatchStatus get c r =
     with_university (\<lambda>vuzID.
       with_param r ''batch_id'' ''missing batch id'' (\<lambda>batchID.
         query (get batchID vuzID) (\<lambda>x. case x of
            Inl _ \<Rightarrow> reply (writeError StatusNotFound ''batch not found'')
          | Inr batch \<Rightarrow> reply (no_cache (writeJSON StatusOK (BatchBody batch)))))) c"

definition DiplomaHandler_Download :: "(string \<Rightarrow> string \<Rightarrow> bytes dbm) \<Rightarrow> handler" where
  "DiplomaHandler_Download download c r =
     with_university (\<lambda>vuzID.
       with_param r ''batch_id'' ''missing batch id'' (\<lambda>batchID.
         query (download batchID vuzID) (\<lambda>x. case x of
            Inl _ \<Rightarrow> reply (writeError StatusInternalServerError ''failed to build excel file'')
          | Inr fileBytes \<Rightarrow> reply (no_cache \<lparr>rs_status = StatusOK,
              rs_headers = [(''X-Batch-ID'', batchID),
                (''Content-Type'', ''application/vnd.openxmlformats-officedocument.spreadsheetml.sheet''),
                (''Content-Disposition'', ''attachment; filename='' @ [dquote] @ ''batch_'' @ batchID @ ''.xlsx'' @ [dquote])],
              rs_body = RawBody fileBytes\<rparr>)))) c"

definition DiplomaHandler_Revoke :: "(string \<Rightarrow> string \<Rightarrow> unit dbm) \<Rightarrow> handler" where
  "DiplomaHandler_Revoke revoke c r =
     with_university (\<lambda>vuzID.
       with_param r ''diploma_hash'' ''missing diploma hash'' (\<lambda>diplomaHash.
         query (revoke vuzID diplomaHash) (\<lambda>x. case x of
            Inl _ \<Rightarrow> reply (writeError StatusNotFound ''diploma not found'')
          | Inr _ \<Rightarrow> reply (writeJSON StatusOK
              (FieldsBody [(''diploma_hash'', diplomaHash), (''status'', DiplomaStatusRevoked)]))))) c"

end
