(* ===== verification/Server.thy ===== *)
theory Server
  imports Handlers
begin

text \<open>
  \<open>gateway-service/internal/app/apiserver\<close> and \<open>cmd/apiserver/main.go\<close>: the configuration, the
  wiring of the services, the start-up of the accounts, and the routes with their middleware.
  Opening the pool, listening and shutting down are I/O; the router's matching of a path to a route
  is the library's.
\<close>

section \<open>Configuration\<close>

record KafkaConfig =
  kc_Brokers :: "string list"
  kc_RawTasksTopic :: string
  kc_ProcessingResultsTopic :: string
  kc_ConsumerGroup :: string
  kc_ClientID :: string

definition kafka_NewConfig :: KafkaConfig where
  "kafka_NewConfig = \<lparr>kc_Brokers = [''localhost:9092''], kc_RawTasksTopic = ''diplomas.raw_tasks'',
     kc_ProcessingResultsTopic = ''diplomas.processing_results'', kc_ConsumerGroup = ''gateway-service'',
     kc_ClientID = ''gateway-service''\<rparr>"

text \<open>The configuration of the database is the one field \<open>DatabaseURL\<close>.\<close>

record Config =
  cf_BindAddr :: string
  cf_LogLevel :: string
  cf_PublicBaseURL :: string
  cf_JWTSecret :: string
  cf_ShareJWTSecret :: string
  cf_SigningKeysMasterKey :: string
  cf_QRPayloadEncryptionSecret :: string
  cf_AccessTokenTTL :: duration
  cf_ShareTokenTTL :: duration
  cf_BootstrapAdminEmail :: string
  cf_BootstrapAdminPassword :: string
  cf_DemoUniversityName :: string
  cf_DemoUniversityVUZCode :: string
  cf_DemoUniversityINN :: string
  cf_DemoUniversityOGRN :: string
  cf_DemoUniversityEmail :: string
  cf_DemoUniversityPassword :: string
  cf_DemoUniversityPrivateKey :: string
  cf_DatabaseURL :: string
  cf_Kafka :: KafkaConfig

text \<open>The two words of the default name in UTF-8.\<close>

definition demo_name :: string where
  "demo_name = map byte [208, 148, 208, 181, 208, 188, 208, 190, 32, 208, 163, 208, 189, 208, 184,
     208, 178, 208, 181, 209, 128, 209, 129, 208, 184, 209, 130, 208, 181, 209, 130]"

definition NewConfig :: Config where
  "NewConfig =
     \<lparr>cf_BindAddr = '':8080'', cf_LogLevel = ''debug'', cf_PublicBaseURL = ''http://localhost:3000'',
      cf_JWTSecret = ''gateway-access-secret'', cf_ShareJWTSecret = ''gateway-share-secret'',
      cf_SigningKeysMasterKey = ''MDEyMzQ1Njc4OWFiY2RlZjAxMjM0NTY3ODlhYmNkZWY='',
      cf_QRPayloadEncryptionSecret = ''XpMcu0eI/4SrmsO99dYLUPAwgyarZbrS92RzFmUjTPI='',
      cf_AccessTokenTTL = 24 * Hour, cf_ShareTokenTTL = 72 * Hour,
      cf_BootstrapAdminEmail = ''admin@platform.local'', cf_BootstrapAdminPassword = ''Admin12345!'',
      cf_DemoUniversityName = demo_name, cf_DemoUniversityVUZCode = ''DEMO2026'',
      cf_DemoUniversityINN = ''7701234567'', cf_DemoUniversityOGRN = ''1027700123456'',
      cf_DemoUniversityEmail = ''demo.vuz@platform.local'', cf_DemoUniversityPassword = ''University123!'',
      cf_DemoUniversityPrivateKey = '''', cf_DatabaseURL = '''', cf_Kafka = kafka_NewConfig\<rparr>"

definition splitAndTrim :: "string \<Rightarrow> string list" where
  "splitAndTrim v = filter (\<lambda>part. part \<noteq> '''') (map TrimSpace (Split (CHR '','') v))"

text \<open>\<open>env\<close> is \<open>os.Getenv\<close>: an unset variable is empty.\<close>

definition override :: "(string \<Rightarrow> string) \<Rightarrow> string \<Rightarrow> (string \<Rightarrow> 'c \<Rightarrow> 'c) \<Rightarrow> 'c \<Rightarrow> 'c" where
  "override env name set_to config = (let v = env name in if v \<noteq> '''' then set_to v config else config)"

definition string_overrides :: "(string \<times> ((string \<Rightarrow> string) \<Rightarrow> Config \<Rightarrow> Config)) list" where
  "string_overrides =
     [(''BIND_ADDR'', cf_BindAddr_update), (''LOG_LEVEL'', cf_LogLevel_update),
      (''DATABASE_URL'', cf_DatabaseURL_update), (''JWT_SECRET'', cf_JWTSecret_update),
      (''SHARE_JWT_SECRET'', cf_ShareJWTSecret_update),
      (''SIGNING_KEYS_MASTER_KEY'', cf_SigningKeysMasterKey_update),
      (''QR_PAYLOAD_ENCRYPTION_SECRET'', cf_QRPayloadEncryptionSecret_update),
      (''PUBLIC_BASE_URL'', cf_PublicBaseURL_update),
      (''BOOTSTRAP_ADMIN_EMAIL'', cf_BootstrapAdminEmail_update),
      (''BOOTSTRAP_ADMIN_PASSWORD'', cf_BootstrapAdminPassword_update),
      (''DEMO_UNIVERSITY_NAME'', cf_DemoUniversityName_update),
      (''DEMO_UNIVERSITY_VUZ_CODE'', cf_DemoUniversityVUZCode_update),
      (''DEMO_UNIVERSITY_INN'', cf_DemoUniversityINN_update),
      (''DEMO_UNIVERSITY_OGRN'', cf_DemoUniversityOGRN_update),
      (''DEMO_UNIVERSITY_EMAIL'', cf_DemoUniversityEmail_update),
      (''DEMO_UNIVERSITY_PASSWORD'', cf_DemoUniversityPassword_update),
      (''DEMO_UNIVERSITY_PRIVATE_KEY_PATH'', cf_DemoUniversityPrivateKey_update)]"

definition kafka_overrides :: "(string \<times> (string \<Rightarrow> KafkaConfig \<Rightarrow> KafkaConfig)) list" where
  "kafka_overrides =
     [(''KAFKA_BROKERS'', \<lambda>v. kc_Brokers_update (\<lambda>_. splitAndTrim v)),
      (''KAFKA_RAW_TOPIC'', \<lambda>v. kc_RawTasksTopic_update (\<lambda>_. v)),
      (''KAFKA_RESULTS_TOPIC'', \<lambda>v. kc_ProcessingResultsTopic_update (\<lambda>_. v)),
      (''KAFKA_CONSUMER_GROUP'', \<lambda>v. kc_ConsumerGroup_update (\<lambda>_. v))]"

definition applyEnvOverrides :: "(string \<Rightarrow> string) \<Rightarrow> Config \<Rightarrow> Config" where
  "applyEnvOverrides env config =
     (let config = fold (\<lambda>(name, upd). override env name (\<lambda>v. upd (\<lambda>_. v))) string_overrides config
      in fold (\<lambda>(name, set_to). override env name (\<lambda>v. cf_Kafka_update (set_to v))) kafka_overrides config)"

section \<open>Wiring\<close>

text \<open>What the process links against.\<close>

record libs =
  l_hasher :: password_hasher
  l_access :: "AccessClaims jwt_lib"
  l_share :: "ShareClaims jwt_lib"
  l_unverified :: jwt_parser
  l_pem :: ed25519_pem
  l_qr :: qr_generator
  l_lower :: "string \<Rightarrow> string"
  l_excel :: "string \<Rightarrow> BatchDownloadRow list \<Rightarrow> bytes res"
  l_media_type :: "string \<Rightarrow> string"
  l_form :: "http_request \<Rightarrow> string option option"
  l_read_file :: "string \<Rightarrow> string res"
  l_valid_register :: "RegisterUniversityRequest \<Rightarrow> validation"
  l_valid_login :: "LoginRequest \<Rightarrow> validation"
  l_valid_api_key :: "string option \<Rightarrow> validation"
  l_valid_signing_key :: "string \<Rightarrow> validation"
  l_valid_share :: "CreateShareLinkRequest \<Rightarrow> validation"
  l_valid_record :: "DiplomaUploadRecord \<Rightarrow> validation"

text \<open>What one request or start-up step draws from its surroundings.\<close>

record draws =
  d_now :: time
  d_later :: time
  d_stamp :: string
  d_id :: string
  d_source :: "bytes option"
  d_nonces :: "nat \<Rightarrow> bytes option"
  d_write :: write_outcome

record app =
  app_decoder :: "qr_decoder option"
  app_cipher :: "payload_cipher option"
  app_encryptor :: payload_cipher
  app_tokens :: Manager
  app_students :: student_service
  app_excel :: "BatchDownloadRow list \<Rightarrow> bytes res"

definition wire :: "libs \<Rightarrow> Config \<Rightarrow> app res" where
  "wire l config =
     bind_res (NewKeyEncryptor (cf_SigningKeysMasterKey config)) (\<lambda>keyEncryptor.
     bind_res (NewQRPayloadCodec (cf_QRPayloadEncryptionSecret config)) (\<lambda>qrPayloadCodec.
     let db = SetQRPayloadDecoder (Some (QRPayloadCodec_Parse qrPayloadCodec (l_unverified l))) New
     in bind_res (NewKeyEncryptor (cf_QRPayloadEncryptionSecret config)) (\<lambda>recordPayloadCipher.
     let db = SetRecordPayloadCipher (Some recordPayloadCipher) db;
         tokenManager = NewManager (cf_JWTSecret config) (cf_ShareJWTSecret config)
           (cf_AccessTokenTTL config) (cf_ShareTokenTTL config);
         (repo, db) = Diploma db
     in Inr \<lparr>app_decoder = fst repo, app_cipher = snd repo, app_encryptor = keyEncryptor,
          app_tokens = tokenManager,
          app_students = NewStudentService tokenManager (cf_PublicBaseURL config) (cf_ShareTokenTTL config),
          app_excel = l_excel l (TrimRight (cf_PublicBaseURL config) (CHR ''/''))\<rparr>)))"

text \<open>The demo university; the draws are those of its row and of its signing key.\<close>

definition demo_values :: "Config \<Rightarrow> string list" where
  "demo_values config =
     [cf_DemoUniversityName config, cf_DemoUniversityVUZCode config, cf_DemoUniversityINN config,
      cf_DemoUniversityOGRN config, cf_DemoUniversityEmail config, cf_DemoUniversityPassword config]"

definition demo_request :: "Config \<Rightarrow> RegisterUniversityRequest" where
  "demo_request config =
     \<lparr>rur_Name = cf_DemoUniversityName config, rur_VuzCode = cf_DemoUniversityVUZCode config,
      rur_INN = cf_DemoUniversityINN config, rur_OGRN = cf_DemoUniversityOGRN config,
      rur_Email = cf_DemoUniversityEmail config, rur_Password = cf_DemoUniversityPassword config\<rparr>"

definition ensureDemoUniversity ::
  "libs \<Rightarrow> payload_cipher \<Rightarrow> Config \<Rightarrow> bytes option \<Rightarrow> draws \<Rightarrow> draws \<Rightarrow> unit dbm" where
  "ensureDemoUniversity l encryptor config salt d k =
     (let filled = length (filter (\<lambda>v. TrimSpace v \<noteq> '''') (demo_values config))
      in if filled = 0 then ret ()
         else if filled \<noteq> length (demo_values config)
         then fail (ErrText ''demo university configuration is incomplete'')
         else case ph_Hash (l_hasher l) salt (cf_DemoUniversityPassword config) of
             Inl e \<Rightarrow> fail e
           | Inr passwordHash \<Rightarrow>
               and_then (University_UpsertDemo (d_id d) (d_now d) (demo_request config) passwordHash
                 UniversityStatusActive) (\<lambda>university.
               let privateKeyPath = TrimSpace (cf_DemoUniversityPrivateKey config)
               in if privateKeyPath = '''' then ret ()
                  else case l_read_file l privateKeyPath of
                      Inl e \<Rightarrow> fail e
                    | Inr privateKeyPEM \<Rightarrow>
                        and_then (SigningKeyService_Upsert (l_pem l) encryptor (d_source k) (d_now k)
                          (u_ID university) privateKeyPEM) (\<lambda>_. ret ())))"

definition configureRouter ::
  "libs \<Rightarrow> Config \<Rightarrow> draws \<Rightarrow> bytes option \<Rightarrow> draws \<Rightarrow> draws \<Rightarrow> app dbm" where
  "configureRouter l config a salt d k =
     (case wire l config of
        Inl e \<Rightarrow> fail e
      | Inr app \<Rightarrow>
          and_then (EnsureBootstrapAdmin (l_hasher l) (d_source a) (d_id a) (d_now a)
            (cf_BootstrapAdminEmail config) (cf_BootstrapAdminPassword config)) (\<lambda>_.
          and_then (ensureDemoUniversity l (app_encryptor app) config salt d k) (\<lambda>_. ret app)))"

section \<open>Routes\<close>

datatype auth_route = PostRegister | PostLogin
datatype student_route = GetSearch | PostShare | GetQR | GetShared
datatype admin_route = GetUniversities | GetUniversityByID | PostApprove | PatchUniversity
  | DeleteUniversityByID | GetStats
datatype vuz_route = GetProfile | GetBatches | PostAPIKey | GetAPIKeys | PutSigningKeyRoute | GetSigningKey
datatype diploma_route = PostUpload | GetBatchStatus | GetDownload | PatchRevoke

datatype route =
    Healthz
  | Auth auth_route
  | Student student_route
  | AdminGroup admin_route
  | Vuz vuz_route
  | Diplomas diploma_route

text \<open>The table the router is given: method, pattern, route.\<close>

definition routes :: "(string \<times> string \<times> route) list" where
  "routes =
     [(''GET'', ''/healthz'', Healthz),
      (''POST'', ''/api/v1/auth/register'', Auth PostRegister),
      (''POST'', ''/api/v1/auth/login'', Auth PostLogin),
      (''GET'', ''/api/v1/student/search'', Student GetSearch),
      (''POST'', ''/api/v1/student/share'', Student PostShare),
      (''GET'', ''/api/v1/student/qr'', Student GetQR),
      (''GET'', ''/api/v1/student/share/{token}'', Student GetShared),
      (''GET'', ''/api/v1/admin/universities'', AdminGroup GetUniversities),
      (''GET'', ''/api/v1/admin/universities/{id}'', AdminGroup GetUniversityByID),
      (''POST'', ''/api/v1/admin/universities/{id}/approve'', AdminGroup PostApprove),
      (''PATCH'', ''/api/v1/admin/universities/{id}'', AdminGroup PatchUniversity),
      (''DELETE'', ''/api/v1/admin/universities/{id}'', AdminGroup DeleteUniversityByID),
      (''GET'', ''/api/v1/admin/stats'', AdminGroup GetStats),
      (''GET'', ''/api/v1/vuz/profile'', Vuz GetProfile),
      (''GET'', ''/api/v1/vuz/batches'', Vuz GetBatches),
      (''POST'', ''/api/v1/vuz/api-keys'', Vuz PostAPIKey),
      (''GET'', ''/api/v1/vuz/api-keys'', Vuz GetAPIKeys),
      (''PUT'', ''/api/v1/vuz/signing-key'', Vuz PutSigningKeyRoute),
      (''GET'', ''/api/v1/vuz/signing-key'', Vuz GetSigningKey),
      (''POST'', ''/api/v1/diplomas/upload'', Diplomas PostUpload),
      (''GET'', ''/api/v1/diplomas/batches/{batch_id}'', Diplomas GetBatchStatus),
      (''GET'', ''/api/v1/diplomas/batches/{batch_id}/download'', Diplomas GetDownload),
      (''PATCH'', ''/api/v1/diplomas/{diploma_hash}/revoke'', Diplomas PatchRevoke)]"

definition validated :: "libs \<Rightarrow> ('a \<Rightarrow> validation) \<Rightarrow> 'a \<Rightarrow> unit res" where
  "validated l check x = ValidateStruct (l_lower l) (check x)"

definition auth_handler :: "libs \<Rightarrow> app \<Rightarrow> draws \<Rightarrow> auth_route \<Rightarrow> handler" where
  "auth_handler l a d route = (case route of
     PostRegister \<Rightarrow> AuthHandler_Register (validated l (l_valid_register l))
       (Register (l_hasher l) (d_source d) (d_id d) (d_now d))
   | PostLogin \<Rightarrow> AuthHandler_Login (validated l (l_valid_login l))
       (Login (l_hasher l) (l_access l) (app_tokens a) (d_now d)))"

definition student_handler :: "libs \<Rightarrow> app \<Rightarrow> draws \<Rightarrow> student_route \<Rightarrow> handler" where
  "student_handler l a d route = (case route of
     GetSearch \<Rightarrow> StudentHandler_Search (Search (app_decoder a) (l_lower l))
   | PostShare \<Rightarrow> StudentHandler_Share (validated l (l_valid_share l))
       (Student_CreateShareLink (app_decoder a) (l_share l) (app_students a) (d_id d) (d_now d))
   | GetQR \<Rightarrow> StudentHandler_QR
       (RenderShareQR (app_decoder a) (l_share l) (app_students a) (l_qr l) (l_lower l) (d_id d) (d_now d))
   | GetShared \<Rightarrow> StudentHandler_SharedDiploma
       (ResolveShareLink (app_decoder a) (l_share l) (app_students a) (d_now d)))"

definition admin_handler :: "admin_route \<Rightarrow> handler" where
  "admin_handler route = (case route of
     GetUniversities \<Rightarrow> AdminHandler_ListUniversities ListUniversities
   | GetUniversityByID \<Rightarrow> AdminHandler_GetUniversity GetUniversity
   | PostApprove \<Rightarrow> AdminHandler_ApproveUniversity ApproveUniversity
   | PatchUniversity \<Rightarrow> AdminHandler_UpdateUniversityStatus UpdateUniversityStatus
   | DeleteUniversityByID \<Rightarrow> AdminHandler_DeleteUniversity DeleteUniversity
   | GetStats \<Rightarrow> AdminHandler_Stats Stats)"

definition vuz_handler :: "libs \<Rightarrow> app \<Rightarrow> draws \<Rightarrow> vuz_route \<Rightarrow> handler" where
  "vuz_handler l a d route = (case route of
     GetProfile \<Rightarrow> UniversityHandler_Profile Profile
   | GetBatches \<Rightarrow> UniversityHandler_ListBatches Cabinet_ListBatches
   | PostAPIKey \<Rightarrow> APIKeyHandler_Create (validated l (l_valid_api_key l))
       (CreateAPIKey (d_source d) (d_id d) (d_now d))
   | GetAPIKeys \<Rightarrow> APIKeyHandler_List ListAPIKeys
   | PutSigningKeyRoute \<Rightarrow> SigningKeyHandler_Upsert (validated l (l_valid_signing_key l))
       (SigningKeyService_Upsert (l_pem l) (app_encryptor a) (d_source d) (d_now d))
   | GetSigningKey \<Rightarrow> SigningKeyHandler_Status SigningKeyService_Status)"

definition diploma_handler :: "libs \<Rightarrow> app \<Rightarrow> draws \<Rightarrow> diploma_route \<Rightarrow> handler" where
  "diploma_handler l a d route = (case route of
     PostUpload \<Rightarrow> DiplomaHandler_Upload (parseRecords (l_media_type l) (l_form l))
       (validated l (l_valid_record l))
       (Upload (app_cipher a) (d_nonces d) (d_id d) (d_now d) (d_stamp d) (d_write d) (d_later d))
   | GetBatchStatus \<Rightarrow> DiplomaHandler_BatchStatus Diploma_GetBatch
   | GetDownload \<Rightarrow> DiplomaHandler_Download (DownloadBatch (app_excel a) (app_decoder a) (app_cipher a))
   | PatchRevoke \<Rightarrow> DiplomaHandler_Revoke (Revoke (d_now d)))"

definition authMiddleware :: "libs \<Rightarrow> app \<Rightarrow> draws \<Rightarrow> Middleware" where
  "authMiddleware l a d =
     \<lparr>mw_tokens = ParseAccessToken (l_access l) (app_tokens a) (d_now d),
      mw_apiKeys = ResolveActiveUniversity, mw_universities = Some University_FindByID\<rparr>"

definition serve :: "libs \<Rightarrow> app \<Rightarrow> draws \<Rightarrow> route \<Rightarrow> handler" where
  "serve l a d route = (case route of
     Healthz \<Rightarrow> (\<lambda>c r. reply \<lparr>rs_status = StatusOK, rs_headers = [], rs_body = RawBody ''ok''\<rparr>)
   | Auth x \<Rightarrow> auth_handler l a d x
   | Student x \<Rightarrow> student_handler l a d x
   | AdminGroup x \<Rightarrow> JWT (authMiddleware l a d) (Admin (admin_handler x))
   | Vuz x \<Rightarrow> JWT (authMiddleware l a d) (University_only (vuz_handler l a d x))
   | Diplomas x \<Rightarrow> UniversityOrAPIKey (authMiddleware l a d) (diploma_handler l a d x))"

end
