(* ===== verification/Tenant.thy ===== *)
theory Tenant
  imports Server KafkaProps
begin

text \<open>
  What a request can change.  A program of a university leaves everything that a deletion of the
  university would leave as it was: \<open>confined v D\<close> says that the tables without the data of \<open>v\<close>
  are \<open>D\<close>.  The handlers of the cabinet and of the diplomas are confined to the university of
  their context, and the middleware puts only a university there that the request has credentials
  of and that is active.
\<close>

section \<open>Confined database programs\<close>

definition confined :: "string \<Rightarrow> db \<Rightarrow> db \<Rightarrow> bool" where
  "confined v D d \<longleftrightarrow> db_ok d \<and> without_university v d = D"

lemma confinedI: "db_ok d' \<Longrightarrow> without_university v d' = without_university v d \<Longrightarrow> confined v D d \<Longrightarrow> confined v D d'"
  by (simp add: confined_def)

lemma confined_program:
  assumes "preserves db_ok m" "preserves (\<lambda>d. without_university v d = D) m"
  shows "preserves (confined v D) m"
  using assms by (simp add: preserves_def confined_def)

lemma filter_map_foreign:
  "(\<And>x. x \<in> set xs \<Longrightarrow> c x \<Longrightarrow> \<not> P x \<and> \<not> P (f x)) \<Longrightarrow>
   filter P (map (\<lambda>x. if c x then f x else x) xs) = filter P xs"
  by (induction xs) auto

lemma image_filter_map:
  "(\<And>x. k (f x) = k x) \<Longrightarrow> (\<And>x. P (f x) = P x) \<Longrightarrow>
   k ` set (filter P (map f xs)) = k ` set (filter P xs)"
  by (induction xs) auto

lemma without_keys:
  "filter (\<lambda>k. usk_VUZID k \<noteq> v) ks = filter (\<lambda>k. usk_VUZID k \<noteq> v) (university_signing_keys d) \<Longrightarrow>
   without_university v (d\<lparr>university_signing_keys := ks\<rparr>) = without_university v d"
  by (simp add: without_university_def owned_batches_def owned_hashes_def)

lemma confined_public_key [inv_intros]: "preserves (confined v D) (University_UpdatePublicKey v k)"
  by (rule confined_program[OF preserves_UpdatePublicKey], unfold University_UpdatePublicKey_def,
      rule preserves_run_stmt)
     (simp add: without_university_def filter_map_foreign owned_batches_def owned_hashes_def)

lemma confined_api_key [inv_intros]: "preserves (confined v D) (APIKey_Create i now v n h)"
  by (rule confined_program[OF preserves_APIKey_Create], unfold APIKey_Create_def, rule preserves_run_stmt)
     (auto simp: without_university_def owned_batches_def owned_hashes_def Let_def)

lemma without_key_replaced:
  assumes "find (\<lambda>k. usk_VUZID k = v) (university_signing_keys d) = Some old" "usk_VUZID k = usk_VUZID old"
  shows "without_university v (d\<lparr>university_signing_keys :=
    map (\<lambda>k'. if usk_VUZID k' = v then k else k') (university_signing_keys d)\<rparr>) = without_university v d"
proof -
  have "usk_VUZID k = v" using assms by (auto simp: find_Some_iff)
  then show ?thesis by (intro without_keys filter_map_foreign) simp
qed

lemma without_key_added:
  "usk_VUZID k = v \<Longrightarrow>
   without_university v (d\<lparr>university_signing_keys := university_signing_keys d @ [k]\<rparr>) = without_university v d"
  by (rule without_keys) simp

lemma same_without_signing_key: "preserves (\<lambda>d. without_university v d = D) (SigningKey_Upsert now v x ka ea f)"
  unfolding SigningKey_Upsert_def
  apply (rule preserves_run_stmt)
  subgoal for d
    apply (cases "find (\<lambda>k. usk_VUZID k = v) (university_signing_keys d)")
     apply (simp add: Let_def without_key_added)
    apply (cases "ka = ''ed25519''")
     apply (simp only: Let_def option.case if_False if_True simp_thms snd_conv)
     apply (subst without_key_replaced, assumption, simp, assumption)
    apply simp
    done
  done

lemma confined_signing_key [inv_intros]: "preserves (confined v D) (SigningKey_Upsert now v x ka ea f)"
  by (rule confined_program[OF preserves_SigningKey_Upsert same_without_signing_key])

lemma without_revoked:
  "without_university v (d\<lparr>diploma_hashes := map (\<lambda>x. if hr_hash x = h \<and> hr_vuz_id x = v
      then x\<lparr>hr_status := DiplomaStatusRevoked, hr_revoked_at := Some now\<rparr> else x) (diploma_hashes d)\<rparr>) =
   without_university v d" (is "without_university v ?d = _")
proof -
  have "owned_hashes ?d v = owned_hashes d v"
    by (simp add: owned_hashes_def image_filter_map del: set_filter set_map)
  moreover have "owned_batches ?d v = owned_batches d v" by (simp add: owned_batches_def)
  moreover have "filter (\<lambda>h. hr_vuz_id h \<noteq> v) (diploma_hashes ?d) = filter (\<lambda>h. hr_vuz_id h \<noteq> v) (diploma_hashes d)"
    by (simp del: filter_map) (rule filter_map_foreign; simp)
  ultimately show ?thesis unfolding without_university_def by simp
qed

lemma confined_revoke [inv_intros]: "preserves (confined v D) (MarkDiplomaRevoked now v h)"
  by (rule confined_program[OF preserves_MarkDiplomaRevoked], unfold MarkDiplomaRevoked_def,
      rule preserves_run_stmt) (simp only: snd_conv without_revoked)

lemma without_new_batch:
  assumes "db_ok d" "\<not> has_batch d i" "br_id b = i" "br_vuz_id b = v" "\<forall>p \<in> set ps. pr_batch_id p = i"
  shows "without_university v (d\<lparr>batches := batches d @ [b],
    batch_record_payloads := batch_record_payloads d @ ps\<rparr>) = without_university v d"
proof -
  have o: "owned_batches (d\<lparr>batches := batches d @ [b], batch_record_payloads := batch_record_payloads d @ ps\<rparr>) v
      = insert i (owned_batches d v)"
    using assms(3,4) by (auto simp: owned_batches_def)
  have "pr_batch_id p \<noteq> i" if "p \<in> set (batch_record_payloads d)" for p
    using assms(1,2) that by (auto simp: db_ok_defs)
  moreover have "rr_batch_id r \<noteq> i" if "r \<in> set (batch_results d)" for r
    using assms(1,2) that by (auto simp: db_ok_defs)
  moreover have "filter (\<lambda>p. pr_batch_id p \<notin> insert i (owned_batches d v)) ps = []"
    using assms(5) by (simp add: filter_empty_conv)
  ultimately show ?thesis
    using assms(4) by (simp add: without_university_def o owned_hashes_def cong: filter_cong)
qed

lemma pure_create_batch:
  assumes "pure (create_batch_body cipher nonces i now v rs) d = (Inr b, d')"
  obtains ps where "uploaded_payloads cipher nonces i 0 rs ps" "\<not> has_batch d i"
    "d' = d\<lparr>batches := batches d @ [new_batch_row i now v (length rs)],
       batch_record_payloads := batch_record_payloads d @ ps\<rparr>"
proof -
  have "CreateBatchWithRecords cipher nonces i now v rs \<lparr>tables = d, faults = []\<rparr> =
      (Inr b, \<lparr>tables = d', faults = []\<rparr>)"
    using assms by (simp add: CreateBatchWithRecords_def with_tx_pure fault_transparent tx_effect_def)
  from CreateBatch_Inr[OF this] that show thesis by auto
qed

lemma payload_batch: "uploaded_payloads cipher nonces i n rs ps \<Longrightarrow> p \<in> set ps \<Longrightarrow> pr_batch_id p = i"
  by (auto simp: uploaded_payloads_def in_set_conv_nth)

lemma confined_create [inv_intros]: "preserves (confined v D) (CreateBatchWithRecords cipher nonces i now v rs)"
proof -
  let ?body = "create_batch_body cipher nonces i now v rs"
  have "confined v D (tx_effect ?body d)" if d: "confined v D d" for d
  proof (cases "pure ?body d")
    case (Pair r d')
    show ?thesis
    proof (cases r)
      case (Inl e)
      then show ?thesis using Pair d by (simp add: tx_effect_def)
    next
      case (Inr b)
      obtain ps where ps: "uploaded_payloads cipher nonces i 0 rs ps" "\<not> has_batch d i"
        "d' = d\<lparr>batches := batches d @ [new_batch_row i now v (length rs)],
           batch_record_payloads := batch_record_payloads d @ ps\<rparr>"
        using Pair Inr by (auto elim: pure_create_batch)
      have ok: "db_ok d'"
        using preservesD[OF preserves_CreateBatch, of "\<lparr>tables = d, faults = []\<rparr>" cipher nonces i now v rs] Pair Inr d
        by (simp add: CreateBatchWithRecords_def with_tx_pure fault_transparent tx_effect_def confined_def)
      have "without_university v d' = without_university v d"
        unfolding ps(3) using d ps(2) payload_batch[OF ps(1)]
        by (intro without_new_batch) (auto simp: confined_def new_batch_row_def)
      then show ?thesis using ok d Pair Inr by (simp add: tx_effect_def confined_def)
    qed
  qed
  then show ?thesis
    unfolding CreateBatchWithRecords_def by (intro preserves_with_tx fault_transparent) blast
qed

lemma confined_fail:
  "preserves (\<lambda>d. confined v D d \<and> i \<in> owned_batches d v) (FailBatch now i)"
  unfolding FailBatch_def
proof (rule preserves_run_stmt)
  fix d assume c: "confined v D d \<and> i \<in> owned_batches d v"
  let ?g = "\<lambda>b. b\<lparr>br_status := BatchStatusFailed, br_completed_at := Some now\<rparr>"
  have ok: "db_ok (update_batch i ?g d)"
    using preservesD[OF preserves_FailBatch, of "\<lparr>tables = d, faults = []\<rparr>" now i] c
    by (simp add: FailBatch_def confined_def)
  have o: "owned_batches (update_batch i ?g d) v = owned_batches d v"
    by (simp add: owned_batches_def update_batch_def image_filter_map del: set_filter set_map)
  have "br_vuz_id b = v" if "b \<in> set (batches d)" "br_id b = i" for b
    using c that db_ok_batch_ids[of d] distinct_key_unique[of br_id "batches d"]
    by (fastforce simp: confined_def owned_batches_def)
  then have "without_university v (update_batch i ?g d) = without_university v d"
    using o unfolding without_university_def
    by (simp add: update_batch_def filter_map_foreign owned_hashes_def)
  then show "confined v D (snd (Inr (), update_batch i ?g d)) \<and>
      i \<in> owned_batches (snd (Inr (), update_batch i ?g d)) v"
    using c ok o by (simp add: confined_def)
qed

section \<open>Confined handlers\<close>

definition keeps :: "(db \<Rightarrow> bool) \<Rightarrow> (world \<Rightarrow> 'a \<times> world) \<Rightarrow> bool" where
  "keeps P g \<longleftrightarrow> (\<forall>w. P (tables (fst w)) \<longrightarrow> P (tables (fst (snd (g w)))))"

named_theorems keeps_intros \<open>handlers that keep an assertion about the tables\<close>

lemma keepsD: "keeps P g \<Longrightarrow> P (tables (fst w)) \<Longrightarrow> P (tables (fst (snd (g w))))"
  unfolding keeps_def by blast

lemma keeps_reply [keeps_intros]: "keeps P (reply r)"
  by (simp add: keeps_def reply_def)

lemma keeps_query [keeps_intros]:
  assumes "preserves P m" "\<And>x. keeps P (k x)"
  shows "keeps P (query m k)"
  unfolding keeps_def
proof (intro allI impI)
  fix w :: world assume "P (tables (fst w))"
  moreover obtain s topic where w: "w = (s, topic)" by force
  moreover obtain r s' where m: "m s = (r, s')" by force
  ultimately have "P (tables s')" using preservesD[OF assms(1), of s] by simp
  then show "P (tables (fst (snd (query m k w))))"
    using keepsD[OF assms(2), of "(s', topic)" r] w m by (simp add: query_def)
qed

lemma keeps_university [keeps_intros]:
  "(\<And>v. UniversityIDFromContext c = Some v \<Longrightarrow> keeps P (go v)) \<Longrightarrow> keeps P (with_university go c)"
  by (auto simp: with_university_def keeps_reply split: option.split)

lemma keeps_param [keeps_intros]: "(\<And>v. keeps P (go v)) \<Longrightarrow> keeps P (with_param r n m go)"
  by (simp add: with_param_def keeps_reply Let_def)

lemma keeps_request [keeps_intros]: "(\<And>v. keeps P (go v)) \<Longrightarrow> keeps P (with_request fs z validate go r)"
  by (auto simp: with_request_def keeps_reply split: option.split sum.split)

lemma keeps_answer [keeps_intros]: "keeps P (answer_university m body x)"
  by (auto simp: answer_university_def keeps_reply split: sum.split)

lemma keeps_sum [keeps_intros]:
  "(\<And>e. x = Inl e \<Longrightarrow> keeps P (f e)) \<Longrightarrow> (\<And>y. x = Inr y \<Longrightarrow> keeps P (g y)) \<Longrightarrow>
   keeps P (case x of Inl e \<Rightarrow> f e | Inr y \<Rightarrow> g y)"
  by (cases x) auto

lemma keeps_option [keeps_intros]:
  "(x = None \<Longrightarrow> keeps P f) \<Longrightarrow> (\<And>y. x = Some y \<Longrightarrow> keeps P (g y)) \<Longrightarrow>
   keeps P (case x of None \<Rightarrow> f | Some y \<Rightarrow> g y)"
  by (cases x) auto

lemma keeps_if [keeps_intros]: "(b \<Longrightarrow> keeps P f) \<Longrightarrow> (\<not> b \<Longrightarrow> keeps P g) \<Longrightarrow> keeps P (if b then f else g)"
  by simp

lemma confined_match_public_key: "preserves (confined v D) (match_public_key lib v u k pem)"
  by (auto simp: match_public_key_def split: option.split sum.split
      intro!: preserves_ret preserves_fail confined_public_key)

lemma confined_signing: "preserves (confined v D) (SigningKeyService_Upsert lib enc source now v pem)"
  by (auto simp: SigningKeyService_Upsert_def Let_def give_def split: sum.split
      intro!: preserves_ret preserves_fail preserves_and_then preserves_account_reads confined_match_public_key
        confined_signing_key)

lemma confined_new_key: "preserves (confined v D) (CreateAPIKey source i now v name)"
  by (auto simp: CreateAPIKey_def split: sum.split
      intro!: preserves_ret preserves_fail preserves_and_then confined_api_key)

lemma keeps_signing_status: "preserves P (SigningKeyService_Status v)"
  by (auto simp: SigningKeyService_Status_def split: sum.split
      intro!: preserves_ret preserves_fail preserves_attempt preserves_account_reads)

lemma confined_vuz:
  assumes "UniversityIDFromContext c = Some v"
  shows "keeps (confined v D) (vuz_handler l a d x c r)"
  using assms
  by (cases x)
     (auto simp: vuz_handler_def UniversityHandler_Profile_def UniversityHandler_ListBatches_def
       APIKeyHandler_Create_def APIKeyHandler_List_def SigningKeyHandler_Upsert_def SigningKeyHandler_Status_def
       Profile_def Cabinet_ListBatches_def ListAPIKeys_def Let_def
       intro!: keeps_intros preserves_account_reads preserves_diploma_reads confined_signing confined_new_key
         keeps_signing_status)

lemma confined_Upload: "keeps (confined v D) (Upload cipher nonces i now stamp w later v rs)"
  unfolding keeps_def
proof (intro allI impI)
  fix x :: world assume c: "confined v D (tables (fst x))"
  obtain s topic where x: "x = (s, topic)" by force
  obtain r s1 where b: "CreateBatchWithRecords cipher nonces i now v rs s = (r, s1)" by force
  have "confined v D (tables (snd (CreateBatchWithRecords cipher nonces i now v rs s)))"
    by (rule preservesD[OF confined_create]) (use c x in simp)
  then have s1: "confined v D (tables s1)" using b by simp
  have "confined v D (tables (snd (FailBatch later (b_ID y) s1)))" if "r = Inr y" for y
  proof -
    have "b_ID y \<in> owned_batches (tables s1) v"
      by (rule CreateBatch_Inr[OF b[unfolded that]]) (simp add: owned_batches_def new_batch_row_def)
    then show ?thesis using preservesD[OF confined_fail, of v D s1 "b_ID y" later] s1 by simp
  qed
  then show "confined v D (tables (fst (snd (Upload cipher nonces i now stamp w later v rs x))))"
    using b s1 x by (auto simp: Upload_def split: sum.split prod.split)
qed

lemma keeps_DownloadBatch: "preserves P (DownloadBatch f decoder cipher i v)"
  by (auto simp: DownloadBatch_def give_def split: sum.split
      intro!: preserves_ret preserves_fail preserves_and_then preserves_diploma_reads)

lemma keeps_upload_answer:
  assumes "keeps P u"
  shows "keeps P (\<lambda>w. case u w of (Inl x, w) \<Rightarrow> reply (f x) w | (Inr y, w) \<Rightarrow> reply (g y) w)"
  unfolding keeps_def
proof (intro allI impI)
  fix w :: world assume "P (tables (fst w))"
  then have "P (tables (fst (snd (u w))))" by (rule keepsD[OF assms])
  then show "P (tables (fst (snd (case u w of (Inl x, w) \<Rightarrow> reply (f x) w | (Inr y, w) \<Rightarrow> reply (g y) w))))"
    by (cases "u w"; cases "fst (u w)") (auto simp: reply_def)
qed

lemma confined_diplomas:
  assumes "UniversityIDFromContext c = Some v"
  shows "keeps (confined v D) (diploma_handler l a d x c r)"
  using assms
  by (cases x)
     (auto simp: diploma_handler_def DiplomaHandler_Upload_def DiplomaHandler_BatchStatus_def
       DiplomaHandler_Download_def DiplomaHandler_Revoke_def Diploma_GetBatch_def Revoke_def
       intro!: keeps_intros preserves_diploma_reads keeps_DownloadBatch confined_revoke
         keeps_upload_answer confined_Upload)

end
