(* ===== verification/AccessProps.thy ===== *)
theory AccessProps
  imports Tenant AccountProps
begin

text \<open>
  Access control of the HTTP interface, route by route: what a request must present, whom it then
  acts for, and what it can change.
\<close>

section \<open>The middleware\<close>

lemma FindByID_same: "tables (snd (University_FindByID i s)) = tables s"
  using preservesD[OF preserves_account_reads(2), of "\<lambda>d. d = tables s" s i] by simp

lemma FindActive_same: "tables (snd (APIKey_FindActiveUniversityByHash h s)) = tables s"
  using preservesD[OF preserves_account_reads(7), of "\<lambda>d. d = tables s" s h] by simp

definition active_university :: "db \<Rightarrow> string \<Rightarrow> bool" where
  "active_university d v \<longleftrightarrow> (\<exists>u \<in> set (universities d). u_ID u = v \<and> u_Status u = UniversityStatusActive)"

lemma ensure_cases:
  assumes "ensureUniversityIsActive (authMiddleware l a d) v (s, topic) = (x, s', topic')"
  obtains "tables s' = tables s" "topic' = topic" "x = None" "active_university (tables s) v"
  | refusal where "tables s' = tables s" "topic' = topic" "x = Some refusal" "400 \<le> rs_status refusal"
proof -
  obtain r t where f: "University_FindByID v s = (r, t)" by force
  have t: "tables t = tables s" using FindByID_same[of v s] f by simp
  have u: "active_university (tables s) v" if "r = Inr u" "u_Status u = UniversityStatusActive" for u
    using f that by (auto simp: University_FindByID_def active_university_def
        dest!: run_stmt_InrD first_row_filterD)
  show thesis
    using assms f t u that
    by (auto simp: ensureUniversityIsActive_def authMiddleware_def query_def http_status_defs
        split: sum.splits if_splits)
qed

text \<open>The claims a bearer token of the request carries.\<close>

definition token_claims :: "libs \<Rightarrow> app \<Rightarrow> draws \<Rightarrow> http_request \<Rightarrow> AccessClaims option" where
  "token_claims l a d r = (case extractBearerToken r of
     None \<Rightarrow> None
   | Some t \<Rightarrow> (case ParseAccessToken (l_access l) (app_tokens a) (d_now d) t of
       Inl _ \<Rightarrow> None | Inr claims \<Rightarrow> Some claims))"

text \<open>The request has credentials of the active university \<open>v\<close>: a token, or an API key.\<close>

definition token_of :: "libs \<Rightarrow> app \<Rightarrow> draws \<Rightarrow> http_request \<Rightarrow> string \<Rightarrow> bool" where
  "token_of l a d r v \<longleftrightarrow> (\<exists>claims. token_claims l a d r = Some claims \<and>
     ac_Role claims = RoleUniversity \<and> ac_Status claims = UniversityStatusActive \<and>
     token_university claims = v)"

definition api_key_of :: "http_request \<Rightarrow> db \<Rightarrow> string \<Rightarrow> bool" where
  "api_key_of r db v \<longleftrightarrow> extractAPIKey r \<noteq> '''' \<and> (\<exists>k \<in> set (api_keys db).
     ak_KeyHash k = hashAPIKey (extractAPIKey r) \<and> ak_IsActive k \<and> ak_VUZID k = v)"

lemma serve_university_cases:
  assumes "serve_university (authMiddleware l a d) claims h c r (s, topic) = (resp, s', topic')"
  obtains "tables s' = tables s" "topic' = topic" "400 \<le> rs_status resp"
  | s1 where "tables s1 = tables s" "active_university (tables s) (token_university claims)"
      "h (WithUniversity c (token_university claims) (ac_Email claims)) r (s1, topic) = (resp, s', topic')"
proof -
  obtain x s1 topic1 where e: "ensureUniversityIsActive (authMiddleware l a d) (token_university claims) (s, topic)
      = (x, s1, topic1)" by (metis prod_cases3)
  from e show thesis
    by (cases rule: ensure_cases) (use assms e that in \<open>auto simp: serve_university_def reply_def\<close>)
qed

lemma JWT_cases:
  assumes "JWT (authMiddleware l a d) h c r (s, topic) = (resp, s', topic')"
  obtains (refused) "tables s' = tables s" "topic' = topic" "400 \<le> rs_status resp"
  | (admin) claims where "token_claims l a d r = Some claims" "ac_Role claims = RoleAdmin"
      "h (WithAdmin c (rc_Subject (ac_Registered claims)) (ac_Email claims)) r (s, topic) = (resp, s', topic')"
  | (university) v email s1 where "token_of l a d r v" "active_university (tables s) v" "tables s1 = tables s"
      "h (WithUniversity c v email) r (s1, topic) = (resp, s', topic')"
proof (cases "extractBearerToken r")
  case None
  then show thesis using assms refused by (auto simp: JWT_def reply_def http_status_defs)
next
  case (Some t)
  show thesis
  proof (cases "ParseAccessToken (l_access l) (app_tokens a) (d_now d) t")
    case (Inl e)
    then show thesis using assms Some refused
      by (auto simp: JWT_def reply_def http_status_defs authMiddleware_def)
  next
    case (Inr claims)
    have c: "token_claims l a d r = Some claims" using Some Inr by (simp add: token_claims_def)
    have roles: "RoleUniversity \<noteq> RoleAdmin" by (simp add: status_defs)
    consider "ac_Role claims = RoleAdmin"
      | "ac_Role claims = RoleUniversity" "ac_Status claims = UniversityStatusActive"
      | "ac_Role claims \<noteq> RoleAdmin" "ac_Role claims \<noteq> RoleUniversity \<or> ac_Status claims \<noteq> UniversityStatusActive"
      using roles by auto
    then show thesis
    proof cases
      case 1
      then show thesis using assms Some Inr c admin by (simp add: JWT_def authMiddleware_def)
    next
      case 2
      then have "serve_university (authMiddleware l a d) claims h c r (s, topic) = (resp, s', topic')"
        using assms Some Inr roles by (simp add: JWT_def authMiddleware_def)
      then show thesis
        by (cases rule: serve_university_cases)
           (use 2 c refused university in \<open>auto simp: token_of_def\<close>)
    next
      case 3
      then show thesis using assms Some Inr refused
        by (auto simp: JWT_def reply_def http_status_defs authMiddleware_def split: if_splits)
    qed
  qed
qed

lemma serve_api_key_cases:
  assumes "serve_api_key (authMiddleware l a d) h c r (s, topic) = (resp, s', topic')"
  obtains (refused) "tables s' = tables s" "topic' = topic" "400 \<le> rs_status resp"
  | (key) v email k s1 where "api_key_of r (tables s) v" "active_university (tables s) v" "tables s1 = tables s"
      "h (WithAPIKeyID (WithUniversity c v email) k) r (s1, topic) = (resp, s', topic')"
proof (cases "extractAPIKey r = ''''")
  case True
  then show thesis using assms refused by (auto simp: serve_api_key_def reply_def http_status_defs)
next
  case False
  obtain x s1 where f: "APIKey_FindActiveUniversityByHash (hashAPIKey (extractAPIKey r)) s = (x, s1)" by force
  have t: "tables s1 = tables s" using FindActive_same[of "hashAPIKey (extractAPIKey r)" s] f by simp
  show thesis
  proof (cases x)
    case (Inl e)
    then show thesis using assms False f t refused
      by (auto simp: serve_api_key_def reply_def http_status_defs authMiddleware_def query_def
          ResolveActiveUniversity_def split: if_splits)
  next
    case (Inr p)
    obtain u k where p: "p = (u, k)" by force
    from f[unfolded Inr p APIKey_FindActiveUniversityByHash_def, THEN run_stmt_InrD]
    obtain ys where "concat (map (\<lambda>k. map (\<lambda>u. (u\<lparr>u_VuzCode := ''''\<rparr>, k))
         (filter (\<lambda>u. u_ID u = ak_VUZID k \<and> u_Status u = UniversityStatusActive) (universities (tables s))))
        (filter (\<lambda>k. ak_KeyHash k = hashAPIKey (extractAPIKey r) \<and> ak_IsActive k) (api_keys (tables s)))) = (u, k) # ys"
      by (auto simp: first_row_eq_Inr)
    then have "(u, k) \<in> set (concat (map (\<lambda>k. map (\<lambda>u. (u\<lparr>u_VuzCode := ''''\<rparr>, k))
         (filter (\<lambda>u. u_ID u = ak_VUZID k \<and> u_Status u = UniversityStatusActive) (universities (tables s))))
        (filter (\<lambda>k. ak_KeyHash k = hashAPIKey (extractAPIKey r) \<and> ak_IsActive k) (api_keys (tables s)))))"
      by (metis list.set_intros(1))
    then have "api_key_of r (tables s) (u_ID u)" "active_university (tables s) (u_ID u)"
      using False by (auto simp: api_key_of_def active_university_def)
    then show thesis using assms False f t Inr p key
      by (auto simp: serve_api_key_def authMiddleware_def query_def ResolveActiveUniversity_def Let_def)
  qed
qed

lemma UniversityOrAPIKey_cases:
  assumes "UniversityOrAPIKey (authMiddleware l a d) h c r (s, topic) = (resp, s', topic')"
  obtains (refused) "tables s' = tables s" "topic' = topic" "400 \<le> rs_status resp"
  | (accepted) v c' s1 where "token_of l a d r v \<or> api_key_of r (tables s) v" "active_university (tables s) v"
      "tables s1 = tables s" "UniversityIDFromContext c' = Some v" "h c' r (s1, topic) = (resp, s', topic')"
proof -
  consider claims where "token_claims l a d r = Some claims" "ac_Role claims = RoleUniversity"
      "ac_Status claims = UniversityStatusActive"
      "serve_university (authMiddleware l a d) claims h c r (s, topic) = (resp, s', topic')"
    | "serve_api_key (authMiddleware l a d) h c r (s, topic) = (resp, s', topic')"
    using assms
    by (auto simp: UniversityOrAPIKey_def token_claims_def authMiddleware_def split: option.splits sum.splits if_splits)
  then show thesis
  proof cases
    case 1
    from 1(4) show thesis
    proof (cases rule: serve_university_cases)
      case (2 s1)
      then show thesis using 1 by (intro accepted[of "token_university claims" s1]) (auto simp: token_of_def)
    qed (rule refused)
  next
    case 2
    then show thesis
    proof (cases rule: serve_api_key_cases)
      case (key v email k s1)
      then show thesis by (intro accepted[of v s1]) auto
    qed (rule refused)
  qed
qed

section \<open>Properties\<close>

text \<open>
  C24: isolation of the universities.  A request to the cabinet or to the diplomas is refused with no
  change, or it has credentials of a university that is active in the tables (a token that parses
  to it, or an active API key of it on the diploma routes), and it changes nothing but the data of
  that university: what is left after removing that university's data is the same before and after.
\<close>

theorem tenant_isolation:
  assumes "serve l a d route Map.empty r (s, topic) = (resp, s', topic')" "db_ok (tables s)"
    "(\<exists>x. route = Vuz x) \<or> (\<exists>x. route = Diplomas x)"
  shows "tables s' = tables s \<and> topic' = topic \<and> 400 \<le> rs_status resp \<or>
    (\<exists>v. active_university (tables s) v \<and>
       (token_of l a d r v \<or> (\<exists>x. route = Diplomas x) \<and> api_key_of r (tables s) v) \<and>
       db_ok (tables s') \<and> without_university v (tables s') = without_university v (tables s))"
  using assms(3)
proof (elim disjE exE)
  fix x assume x: "route = Vuz x"
  then have "JWT (authMiddleware l a d) (University_only (vuz_handler l a d x)) Map.empty r (s, topic) = (resp, s', topic')"
    using assms(1) by (simp add: serve_def)
  then show ?thesis
  proof (cases rule: JWT_cases)
    case (university v email s1)
    then have "vuz_handler l a d x (WithUniversity Map.empty v email) r (s1, topic) = (resp, s', topic')"
      by (simp add: University_only_def)
    moreover have "confined v (without_university v (tables s)) (tables s1)"
      using assms(2) university(3) by (simp add: confined_def)
    ultimately have "confined v (without_university v (tables s)) (tables s')"
      using keepsD[OF confined_vuz, of "WithUniversity Map.empty v email" v "without_university v (tables s)" "(s1, topic)" l a d x r]
      by simp
    then show ?thesis using university by (auto simp: confined_def)
  qed (auto simp: University_only_def reply_def http_status_defs)
next
  fix x assume x: "route = Diplomas x"
  then have "UniversityOrAPIKey (authMiddleware l a d) (diploma_handler l a d x) Map.empty r (s, topic) = (resp, s', topic')"
    using assms(1) by (simp add: serve_def)
  then show ?thesis
  proof (cases rule: UniversityOrAPIKey_cases)
    case (accepted v c' s1)
    have "confined v (without_university v (tables s)) (tables s1)"
      using assms(2) accepted(3) by (simp add: confined_def)
    then have "confined v (without_university v (tables s)) (tables s')"
      using keepsD[OF confined_diplomas, of c' v "without_university v (tables s)" "(s1, topic)" l a d x r] accepted(4,5)
      by simp
    then show ?thesis using accepted x by (auto simp: confined_def)
  qed simp
qed

text \<open>A request with the token of the university \<open>u1\<close>, and one with that of an administrator.\<close>

definition sample_libs :: "AccessClaims \<Rightarrow> libs" where
  "sample_libs claims = \<lparr>l_hasher = plain_hasher, l_access = single_jwt ac_Registered ''a'' claims ''tok'',
     l_share = sample_jwt, l_unverified = (\<lambda>_. Inl (ErrText '''')), l_pem = plain_pem,
     l_qr = \<lparr>qr_PNG = (\<lambda>c _. Inr c), qr_SVG = (\<lambda>c _. Inr c)\<rparr>, l_lower = id,
     l_excel = (\<lambda>_ _. Inr ''''), l_media_type = id, l_form = (\<lambda>_. None), l_read_file = (\<lambda>_. Inl (ErrText '''')),
     l_valid_register = (\<lambda>_. Valid), l_valid_login = (\<lambda>_. Valid), l_valid_api_key = (\<lambda>_. Valid),
     l_valid_signing_key = (\<lambda>_. Valid), l_valid_share = (\<lambda>_. Valid), l_valid_record = (\<lambda>_. Valid)\<rparr>"

definition sample_app :: app where
  "sample_app = \<lparr>app_decoder = Some sample_decoder, app_cipher = Some plain_cipher,
     app_encryptor = plain_cipher, app_tokens = sample_manager, app_students = sample_service,
     app_excel = (\<lambda>_. Inr '''')\<rparr>"

definition sample_draws :: draws where
  "sample_draws = \<lparr>d_now = 0, d_later = 0, d_stamp = '''', d_id = ''x'', d_source = None,
     d_nonces = (\<lambda>_. None), d_write = \<lparr>wo_delivered = [], wo_error = None\<rparr>\<rparr>"

definition sample_http :: http_request where
  "sample_http = \<lparr>rq_header = (\<lambda>n. if n = ''Authorization'' then ''Bearer tok'' else ''''),
     rq_query = (\<lambda>_. ''''), rq_url_param = (\<lambda>n. if n = ''diploma_hash'' then ''h0'' else ''u1''),
     rq_body = '''', rq_ContentLength = 0\<rparr>"

lemma sample_bearer [simp]: "extractBearerToken sample_http = Some ''tok''"
  by (simp add: extractBearerToken_def sample_http_def ascii_lower_def)

lemma sample_params [simp]:
  "rq_url_param sample_http ''diploma_hash'' = ''h0''" "rq_url_param sample_http ''id'' = ''u1''"
  by (simp_all add: sample_http_def)

lemma sample_parse:
  "ac_Registered claims = \<lparr>rc_Subject = x, rc_IssuedAt = y, rc_ExpiresAt = 1\<rparr> \<Longrightarrow>
   ParseAccessToken (single_jwt ac_Registered ''a'' claims ''tok'') sample_manager 0 ''tok'' = Inr claims"
  by (simp add: ParseAccessToken_def single_jwt_def sample_manager_def NewManager_def hs256_key_def second_def)

lemma sample_revoke_request:
  "\<exists>resp s'. serve (sample_libs sample_access_claims) sample_app sample_draws (Diplomas PatchRevoke) Map.empty
     sample_http (\<lparr>tables = sample_db1, faults = []\<rparr>, []) = (resp, s', []) \<and> rs_status resp = StatusOK"
  by (simp add: serve_def UniversityOrAPIKey_def authMiddleware_def sample_libs_def sample_app_def sample_draws_def
      sample_parse sample_access_claims_def serve_university_def ensureUniversityIsActive_def query_def
      token_university_def University_FindByID_def diploma_handler_def DiplomaHandler_Revoke_def
      with_university_def with_param_def Revoke_def MarkDiplomaRevoked_def reply_def Let_def
      sample_db1_def sample_db_def sample_university_def empty_db_def)

lemma tenant_isolation_witness:
  "\<exists>resp s' v. serve (sample_libs sample_access_claims) sample_app sample_draws (Diplomas PatchRevoke) Map.empty
      sample_http (\<lparr>tables = sample_db1, faults = []\<rparr>, []) = (resp, s', []) \<and> rs_status resp = StatusOK \<and>
    active_university sample_db1 v \<and> without_university v (tables s') = without_university v sample_db1"
proof -
  obtain resp s' where r: "serve (sample_libs sample_access_claims) sample_app sample_draws (Diplomas PatchRevoke)
      Map.empty sample_http (\<lparr>tables = sample_db1, faults = []\<rparr>, []) = (resp, s', [])" "rs_status resp = StatusOK"
    using sample_revoke_request by blast
  from tenant_isolation[OF r(1)] r show ?thesis
    by (auto simp: sample_db1_ok http_status_defs)
qed

text \<open>
  C26: administration.  A request to an administrative route that succeeds, or changes anything,
  carries a token whose claims name an administrator; a token of a university never gets through.
\<close>

theorem admin_routes_need_admin:
  assumes "serve l a d (AdminGroup x) Map.empty r (s, topic) = (resp, s', topic')"
    "rs_status resp < 400 \<or> tables s' \<noteq> tables s \<or> topic' \<noteq> topic"
  shows "\<exists>claims. token_claims l a d r = Some claims \<and> ac_Role claims = RoleAdmin"
proof -
  have "JWT (authMiddleware l a d) (Admin (admin_handler x)) Map.empty r (s, topic) = (resp, s', topic')"
    using assms(1) by (simp add: serve_def)
  then show ?thesis
  proof (cases rule: JWT_cases)
    case (university v email s1)
    then have "resp = http_Error ''admin access required'' StatusForbidden" "s' = s1" "topic' = topic"
      by (simp_all add: Admin_def reply_def)
    then show ?thesis using assms(2) university(3) by (simp add: http_status_defs)
  qed (use assms(2) in auto)
qed

definition sample_admin_claims :: AccessClaims where
  "sample_admin_claims = \<lparr>ac_VUZID = '''', ac_Email = ''admin'', ac_Role = RoleAdmin,
     ac_Status = UniversityStatusActive,
     ac_Registered = \<lparr>rc_Subject = ''a1'', rc_IssuedAt = 0, rc_ExpiresAt = 1\<rparr>\<rparr>"

lemma admin_routes_need_admin_witness:
  "\<exists>resp s'. serve (sample_libs sample_admin_claims) sample_app sample_draws (AdminGroup PostApprove) Map.empty
      sample_http (\<lparr>tables = sample_db1, faults = []\<rparr>, []) = (resp, s', []) \<and> rs_status resp = StatusOK \<and>
    (\<exists>claims. token_claims (sample_libs sample_admin_claims) sample_app sample_draws sample_http = Some claims \<and>
       ac_Role claims = RoleAdmin)"
proof -
  have "\<exists>resp s'. serve (sample_libs sample_admin_claims) sample_app sample_draws (AdminGroup PostApprove) Map.empty
      sample_http (\<lparr>tables = sample_db1, faults = []\<rparr>, []) = (resp, s', []) \<and> rs_status resp = StatusOK"
    by (simp add: serve_def JWT_def authMiddleware_def sample_libs_def sample_app_def sample_draws_def
      sample_parse sample_admin_claims_def query_def Admin_def admin_handler_def answer_university_def
      AdminHandler_ApproveUniversity_def with_param_def ApproveUniversity_def University_Activate_def
      University_UpdateStatus_def university_status_def has_university_def reply_def Let_def
      sample_db1_def sample_db_def sample_university_def empty_db_def)
  then obtain resp s' where r: "serve (sample_libs sample_admin_claims) sample_app sample_draws
      (AdminGroup PostApprove) Map.empty sample_http (\<lparr>tables = sample_db1, faults = []\<rparr>, []) = (resp, s', [])"
      "rs_status resp = StatusOK" by blast
  from admin_routes_need_admin[OF r(1)] r show ?thesis by (auto simp: http_status_defs)
qed

end
