(* ===== verification/HttpRun.thy ===== *)
theory HttpRun
  imports AccessProps Gateway
begin

text \<open>
  The HTTP server runs the transition system of the gateway: whatever a request is, it leaves the
  tables and the topic alone or makes one step of it.  The start-up makes steps too, so that the
  invariants of the reachable states hold for a server that is started and then serves requests and
  handles results in any order.
\<close>

section \<open>Handlers as calls\<close>

definition env_of :: "libs \<Rightarrow> app \<Rightarrow> env" where
  "env_of l a = \<lparr>e_hasher = l_hasher l, e_share = l_share l, e_service = app_students a, e_qr = l_qr l,
     e_lower = l_lower l, e_decoder = app_decoder a, e_cipher = app_cipher a, e_pem = l_pem l,
     e_encryptor = app_encryptor a\<rparr>"

text \<open>A database program that is a call of the transition system, or only reads.\<close>

definition is_call :: "env \<Rightarrow> 'a dbm \<Rightarrow> bool" where
  "is_call e m \<longleftrightarrow> (\<forall>s. tables (snd (m s)) = tables s) \<or>
     (\<exists>c. \<forall>s topic. exec e c (s, topic) = (after m s, topic))"

definition silent :: "(world \<Rightarrow> 'a \<times> world) \<Rightarrow> bool" where
  "silent g \<longleftrightarrow> (\<forall>w. snd (g w) = w)"

definition enacts :: "env \<Rightarrow> (world \<Rightarrow> 'a \<times> world) \<Rightarrow> bool" where
  "enacts e g \<longleftrightarrow> (\<forall>s topic s' topic'. snd (g (s, topic)) = (s', topic') \<longrightarrow>
     tables s' = tables s \<and> topic' = topic \<or> (\<exists>c. exec e c (s, topic) = (s', topic')))"

named_theorems enacts_intros \<open>handlers that make at most one call\<close>

lemma silent_reply [enacts_intros]: "silent (reply r)"
  by (simp add: silent_def reply_def)

lemma silent_sum [enacts_intros]:
  "(\<And>y. silent (f y)) \<Longrightarrow> (\<And>y. silent (g y)) \<Longrightarrow> silent (case x of Inl y \<Rightarrow> f y | Inr y \<Rightarrow> g y)"
  by (cases x) auto

lemma silent_prod [enacts_intros]: "(\<And>y z. silent (f y z)) \<Longrightarrow> silent (case x of (y, z) \<Rightarrow> f y z)"
  by (cases x) auto

lemma silent_if [enacts_intros]: "silent f \<Longrightarrow> silent g \<Longrightarrow> silent (if b then f else g)"
  by simp

lemma silent_answer [enacts_intros]: "silent (answer_university m body x)"
  by (auto simp: answer_university_def intro: enacts_intros split: sum.split)

lemma enacts_silent: "silent g \<Longrightarrow> enacts e g"
  by (simp add: silent_def enacts_def)

lemma enacts_reply [enacts_intros]: "enacts e (reply r)"
  by (rule enacts_silent[OF silent_reply])

lemma enacts_query [enacts_intros]:
  assumes "is_call e m" "\<And>x. silent (k x)"
  shows "enacts e (query m k)"
proof -
  have q: "snd (query m k (s, topic)) = (after m s, topic)" for s topic
    using assms(2) by (cases "m s") (simp add: query_def silent_def after_def)
  show ?thesis using assms(1) unfolding enacts_def q is_call_def by (auto simp: after_def)
qed

lemma enacts_university [enacts_intros]: "(\<And>v. enacts e (go v)) \<Longrightarrow> enacts e (with_university go c)"
  by (auto simp: with_university_def enacts_reply split: option.split)

lemma enacts_param [enacts_intros]: "(\<And>v. enacts e (go v)) \<Longrightarrow> enacts e (with_param r n m go)"
  by (simp add: with_param_def enacts_reply Let_def)

lemma enacts_request [enacts_intros]: "(\<And>v. enacts e (go v)) \<Longrightarrow> enacts e (with_request fs z validate go r)"
  by (auto simp: with_request_def enacts_reply split: option.split sum.split)

lemma enacts_sum [enacts_intros]:
  "(\<And>y. enacts e (f y)) \<Longrightarrow> (\<And>y. enacts e (g y)) \<Longrightarrow> enacts e (case x of Inl y \<Rightarrow> f y | Inr y \<Rightarrow> g y)"
  by (cases x) auto

lemma enacts_option [enacts_intros]:
  "enacts e f \<Longrightarrow> (\<And>y. enacts e (g y)) \<Longrightarrow> enacts e (case x of None \<Rightarrow> f | Some y \<Rightarrow> g y)"
  by (cases x) auto

lemma enacts_if [enacts_intros]: "enacts e f \<Longrightarrow> enacts e g \<Longrightarrow> enacts e (if b then f else g)"
  by simp

lemma is_call_reads: "(\<And>P. preserves P m) \<Longrightarrow> is_call e m"
  using preservesD[of "\<lambda>d. d = tables s" m s for s] by (auto simp: is_call_def)

lemma is_call_exec: "(\<And>s topic. exec e c (s, topic) = (after m s, topic)) \<Longrightarrow> is_call e m"
  by (auto simp: is_call_def)

lemma services_are_calls:
  "is_call (env_of l a) (Register (l_hasher l) salt i now r)"
  "is_call (env_of l a) (ApproveUniversity v)"
  "is_call (env_of l a) (UpdateUniversityStatus v status)"
  "is_call (env_of l a) (DeleteUniversity v)"
  "is_call (env_of l a) (CreateAPIKey source i now v name)"
  "is_call (env_of l a) (SigningKeyService_Upsert (l_pem l) (app_encryptor a) source now v pem)"
  "is_call (env_of l a) (Revoke now v hash)"
  "is_call (env_of l a) (HandleProcessingResult (app_decoder a) now result)"
  "is_call (env_of l a) (Student_CreateShareLink (app_decoder a) (l_share l) (app_students a) i now hash ttl)"
  "is_call (env_of l a) (RenderShareQR (app_decoder a) (l_share l) (app_students a) (l_qr l) (l_lower l) i now hash fmt ttl)"
  "is_call (env_of l a) (ResolveShareLink (app_decoder a) (l_share l) (app_students a) now token)"
  by (rule is_call_exec[of _ "RegisterCall salt i now r"] is_call_exec[of _ "Approve v"]
      is_call_exec[of _ "SetStatus v status"] is_call_exec[of _ "Delete v"]
      is_call_exec[of _ "NewAPIKey source i now v name"] is_call_exec[of _ "PutSigningKey source now v pem"]
      is_call_exec[of _ "RevokeCall now v hash"] is_call_exec[of _ "ResultCall now result"]
      is_call_exec[of _ "Share i now hash ttl"] is_call_exec[of _ "ShareQR i now hash fmt ttl"]
      is_call_exec[of _ "OpenShare now token"], simp add: exec_def env_of_def)+

lemma keeps_Login: "preserves P (Login hasher lib tokens now r)"
  by (auto simp: Login_def give_def split: sum.split
      intro!: preserves_ret preserves_fail preserves_attempt preserves_account_reads)

lemma auth_enacts: "enacts (env_of l a) (auth_handler l a d x c r)"
  by (cases x)
     (auto simp: auth_handler_def AuthHandler_Register_def AuthHandler_Login_def
       intro!: enacts_intros services_are_calls is_call_reads keeps_Login)

lemma student_enacts: "enacts (env_of l a) (student_handler l a d x c r)"
  by (cases x)
     (auto simp: student_handler_def StudentHandler_Search_def StudentHandler_Share_def StudentHandler_QR_def
       StudentHandler_SharedDiploma_def Search_def Let_def split: prod.split
       intro!: enacts_intros services_are_calls is_call_reads preserves_diploma_reads)

lemma admin_enacts: "enacts (env_of l a) (admin_handler x c r)"
  by (cases x)
     (auto simp: admin_handler_def AdminHandler_ListUniversities_def AdminHandler_GetUniversity_def
       AdminHandler_ApproveUniversity_def AdminHandler_UpdateUniversityStatus_def
       AdminHandler_DeleteUniversity_def AdminHandler_Stats_def ListUniversities_def GetUniversity_def Stats_def
       intro!: enacts_intros services_are_calls is_call_reads preserves_account_reads)

lemma vuz_enacts: "enacts (env_of l a) (vuz_handler l a d x c r)"
  by (cases x)
     (auto simp: vuz_handler_def UniversityHandler_Profile_def UniversityHandler_ListBatches_def
       APIKeyHandler_Create_def APIKeyHandler_List_def SigningKeyHandler_Upsert_def SigningKeyHandler_Status_def
       Profile_def Cabinet_ListBatches_def ListAPIKeys_def Let_def
       intro!: enacts_intros services_are_calls is_call_reads preserves_account_reads preserves_diploma_reads
         keeps_signing_status)

lemma upload_enacts:
  "enacts (env_of l a) (\<lambda>w. case Upload (app_cipher a) nonces i now stamp wo later v records w of
     (Inl x, w) \<Rightarrow> reply (f x) w | (Inr y, w) \<Rightarrow> reply (g y) w)"
  unfolding enacts_def
proof (intro allI impI disjI2)
  fix s topic s' topic'
  assume u: "snd (case Upload (app_cipher a) nonces i now stamp wo later v records (s, topic) of
     (Inl x, w) \<Rightarrow> reply (f x) w | (Inr y, w) \<Rightarrow> reply (g y) w) = (s', topic')"
  have "snd (Upload (app_cipher a) nonces i now stamp wo later v records (s, topic)) = (s', topic')"
    using u by (auto simp: reply_def split: prod.splits sum.splits)
  then have "exec (env_of l a) (UploadCall nonces i now stamp wo later v records) (s, topic) = (s', topic')"
    by (simp add: exec_def env_of_def)
  then show "\<exists>c. exec (env_of l a) c (s, topic) = (s', topic')" by blast
qed

lemma diploma_enacts: "enacts (env_of l a) (diploma_handler l a d x c r)"
  by (cases x)
     (auto simp: diploma_handler_def DiplomaHandler_Upload_def DiplomaHandler_BatchStatus_def
       DiplomaHandler_Download_def DiplomaHandler_Revoke_def Diploma_GetBatch_def
       intro!: enacts_intros services_are_calls is_call_reads preserves_diploma_reads keeps_DownloadBatch
         upload_enacts)

section \<open>A request is a step\<close>

lemma enacts_step:
  assumes "enacts e (h c r)" "h c r (s1, topic) = (resp, s', topic')" "tables s1 = tables s"
  shows "tables s' = tables s \<and> topic' = topic \<or>
    (\<exists>call. gateway_step e \<lparr>sys_db = tables s, sys_topic = topic\<rparr> call \<lparr>sys_db = tables s', sys_topic = topic'\<rparr>)"
proof -
  have "tables s' = tables s1 \<and> topic' = topic \<or> (\<exists>call. exec e call (s1, topic) = (s', topic'))"
    using assms(1,2) unfolding enacts_def by (metis snd_conv)
  moreover have "gateway_step e \<lparr>sys_db = tables s, sys_topic = topic\<rparr> call \<lparr>sys_db = tables s', sys_topic = topic'\<rparr>"
    if "exec e call (s1, topic) = (s', topic')" for call
    using that assms(3) gateway_step.intros[of e call "\<lparr>sys_db = tables s, sys_topic = topic\<rparr>" "faults s1" s' topic']
    by (metis sess.surjective old.unit.exhaust system.select_convs)
  ultimately show ?thesis using assms(3) by auto
qed

text \<open>
  Every request the server answers, on any route, with any headers, parameters, body and faults,
  leaves the database and the topic as they were or makes exactly one step of the gateway's
  transition system.
\<close>

lemma request_is_step:
  assumes "serve l a d route Map.empty r (s, topic) = (resp, s', topic')"
  shows "tables s' = tables s \<and> topic' = topic \<or>
    (\<exists>call. gateway_step (env_of l a) \<lparr>sys_db = tables s, sys_topic = topic\<rparr> call
       \<lparr>sys_db = tables s', sys_topic = topic'\<rparr>)"
proof (cases route)
  case Healthz
  then show ?thesis using assms by (simp add: serve_def reply_def)
next
  case (Auth x)
  show ?thesis
    by (rule enacts_step[of _ "auth_handler l a d x", OF auth_enacts]) (use assms Auth in \<open>auto simp: serve_def\<close>)
next
  case (Student x)
  show ?thesis
    by (rule enacts_step[of _ "student_handler l a d x", OF student_enacts]) (use assms Student in \<open>auto simp: serve_def\<close>)
next
  case (AdminGroup x)
  then have "JWT (authMiddleware l a d) (Admin (admin_handler x)) Map.empty r (s, topic) = (resp, s', topic')"
    using assms by (simp add: serve_def)
  then show ?thesis
  proof (cases rule: JWT_cases)
    case (admin claims)
    then show ?thesis by (intro enacts_step[of _ "admin_handler x", OF admin_enacts]) (auto simp: Admin_def)
  qed (auto simp: Admin_def reply_def)
next
  case (Vuz x)
  then have "JWT (authMiddleware l a d) (University_only (vuz_handler l a d x)) Map.empty r (s, topic) = (resp, s', topic')"
    using assms by (simp add: serve_def)
  then show ?thesis
  proof (cases rule: JWT_cases)
    case (university v email s1)
    then have "vuz_handler l a d x (WithUniversity Map.empty v email) r (s1, topic) = (resp, s', topic')"
      by (simp add: University_only_def)
    from enacts_step[of "env_of l a" "vuz_handler l a d x", OF vuz_enacts this university(3)] show ?thesis .
  qed (auto simp: University_only_def reply_def)
next
  case (Diplomas x)
  then have "UniversityOrAPIKey (authMiddleware l a d) (diploma_handler l a d x) Map.empty r (s, topic) = (resp, s', topic')"
    using assms by (simp add: serve_def)
  then show ?thesis
  proof (cases rule: UniversityOrAPIKey_cases)
    case (accepted v c' s1)
    then show ?thesis by (intro enacts_step[of _ "diploma_handler l a d x", OF diploma_enacts])
  qed simp
qed

lemma request_is_step_witness:
  "\<exists>resp s' call. serve (sample_libs sample_access_claims) sample_app sample_draws (Diplomas PatchRevoke) Map.empty
      sample_http (\<lparr>tables = sample_db1, faults = []\<rparr>, []) = (resp, s', []) \<and>
    (tables s' = sample_db1 \<or> gateway_step (env_of (sample_libs sample_access_claims) sample_app)
       \<lparr>sys_db = sample_db1, sys_topic = []\<rparr> call \<lparr>sys_db = tables s', sys_topic = []\<rparr>)"
proof -
  obtain resp s' where r: "serve (sample_libs sample_access_claims) sample_app sample_draws (Diplomas PatchRevoke)
      Map.empty sample_http (\<lparr>tables = sample_db1, faults = []\<rparr>, []) = (resp, s', [])"
    using sample_revoke_request by blast
  from request_is_step[OF r] r show ?thesis by auto
qed

section \<open>A run of the server\<close>

text \<open>
  What the process does to its state: it is started on the database it finds, and, once started,
  serves requests and handles results in any order.  A failed start leaves no server; it may be
  started again at any time.
\<close>

inductive server_run :: "libs \<Rightarrow> Config \<Rightarrow> app option \<Rightarrow> system \<Rightarrow> bool" for l config where
  on_empty: "server_run l config None init_system"
| started: "server_run l config o' x \<Longrightarrow>
    configureRouter l config b salt d k \<lparr>tables = sys_db x, faults = fs\<rparr> = (res, s) \<Longrightarrow>
    server_run l config (case res of Inl _ \<Rightarrow> None | Inr a \<Rightarrow> Some a) \<lparr>sys_db = tables s, sys_topic = sys_topic x\<rparr>"
| served: "server_run l config (Some a) x \<Longrightarrow>
    serve l a d route Map.empty r (\<lparr>tables = sys_db x, faults = fs\<rparr>, sys_topic x) = (resp, s, topic) \<Longrightarrow>
    server_run l config (Some a) \<lparr>sys_db = tables s, sys_topic = topic\<rparr>"
| handled: "server_run l config (Some a) x \<Longrightarrow>
    HandleProcessingResult (app_decoder a) now result \<lparr>tables = sys_db x, faults = fs\<rparr> = (res, s) \<Longrightarrow>
    server_run l config (Some a) \<lparr>sys_db = tables s, sys_topic = sys_topic x\<rparr>"

lemma gateway_run_snoc:
  "gateway_run e x cs y \<Longrightarrow> gateway_step e y c z \<Longrightarrow> gateway_run e x (cs @ [c]) z"
  by (induction rule: gateway_run.induct) (auto intro: gateway_run.intros)

text \<open>The states a run from the empty database reaches.\<close>

definition reachable :: "env \<Rightarrow> system \<Rightarrow> bool" where
  "reachable e x \<longleftrightarrow> (\<exists>cs. gateway_run e init_system cs x)"

lemma reachable_init: "reachable e init_system"
  unfolding reachable_def by (rule exI[of _ "[]"]) simp

lemma reachable_step: "reachable e x \<Longrightarrow> gateway_step e x c y \<Longrightarrow> reachable e y"
  by (auto simp: reachable_def intro: gateway_run_snoc)

lemma eta_system [simp]: "\<lparr>sys_db = sys_db x, sys_topic = sys_topic x\<rparr> = x" for x :: system
  by simp

lemma reachable_exec:
  assumes "reachable e \<lparr>sys_db = tables s, sys_topic = topic\<rparr>" "exec e c (s, topic) = (s', topic')"
  shows "reachable e \<lparr>sys_db = tables s', sys_topic = topic'\<rparr>"
proof -
  obtain d fs where "s = \<lparr>tables = d, faults = fs\<rparr>" by (cases s)
  then have "gateway_step e \<lparr>sys_db = tables s, sys_topic = topic\<rparr> c \<lparr>sys_db = tables s', sys_topic = topic'\<rparr>"
    using gateway_step.intros[of e c "\<lparr>sys_db = tables s, sys_topic = topic\<rparr>" "faults s" s' topic'] assms(2)
    by simp
  then show ?thesis by (rule reachable_step[OF assms(1)])
qed

lemma reachable_demo:
  assumes "reachable (env_of l a) \<lparr>sys_db = tables s, sys_topic = topic\<rparr>"
  shows "reachable (env_of l a)
    \<lparr>sys_db = tables (snd (ensureDemoUniversity l (app_encryptor a) config salt d k s)), sys_topic = topic\<rparr>"
proof -
  have seed: "reachable (env_of l a) \<lparr>sys_db = tables (snd (University_UpsertDemo i now r h st s)), sys_topic = topic\<rparr>"
    for i now r h st
    by (rule reachable_exec[OF assms, of "SeedUniversity i now r h st"]) (simp add: exec_def after_def)
  have sign: "reachable (env_of l a)
      \<lparr>sys_db = tables (snd (SigningKeyService_Upsert (l_pem l) (app_encryptor a) source now v pem s1)), sys_topic = topic\<rparr>"
    if "reachable (env_of l a) \<lparr>sys_db = tables s1, sys_topic = topic\<rparr>" for source now v pem s1
    by (rule reachable_exec[OF that, of "PutSigningKey source now v pem"]) (simp add: exec_def after_def env_of_def)
  have body: "reachable (env_of l a) \<lparr>sys_db = tables (snd (and_then (University_UpsertDemo i now r h st) f s)), sys_topic = topic\<rparr>"
    if "\<And>u s1. reachable (env_of l a) \<lparr>sys_db = tables s1, sys_topic = topic\<rparr> \<Longrightarrow>
      reachable (env_of l a) \<lparr>sys_db = tables (snd (f u s1)), sys_topic = topic\<rparr>"
    for i now r h st and f :: "University \<Rightarrow> unit dbm"
    using seed[of i now r h st] that
    by (cases "University_UpsertDemo i now r h st s") (auto simp: and_then_def split: sum.split)
  have key: "reachable (env_of l a) \<lparr>sys_db = tables (snd (and_then
      (SigningKeyService_Upsert (l_pem l) (app_encryptor a) source now v pem) (\<lambda>_. ret ()) s1)), sys_topic = topic\<rparr>"
    if "reachable (env_of l a) \<lparr>sys_db = tables s1, sys_topic = topic\<rparr>" for source now v pem s1
    using sign[OF that, of source now v pem]
    by (cases "SigningKeyService_Upsert (l_pem l) (app_encryptor a) source now v pem s1")
       (auto simp: and_then_def ret_def split: sum.split)
  show ?thesis
    unfolding ensureDemoUniversity_def Let_def
    by (auto simp: ret_def fail_def assms intro!: body key split: sum.split)
qed

lemma reachable_start:
  assumes "reachable (env_of l a) \<lparr>sys_db = tables s, sys_topic = topic\<rparr>" "wire l config = Inr a"
    "configureRouter l config b salt d k s = (res, s')"
  shows "reachable (env_of l a) \<lparr>sys_db = tables s', sys_topic = topic\<rparr>" "res = Inr a' \<Longrightarrow> a' = a"
proof -
  let ?admin = "EnsureBootstrapAdmin (l_hasher l) (d_source b) (d_id b) (d_now b)
    (cf_BootstrapAdminEmail config) (cf_BootstrapAdminPassword config)"
  let ?demo = "ensureDemoUniversity l (app_encryptor a) config salt d k"
  have run: "configureRouter l config b salt d k s = and_then ?admin (\<lambda>_. and_then ?demo (\<lambda>_. ret a)) s"
    using assms(2) by (simp add: configureRouter_def)
  obtain r1 s1 where a1: "?admin s = (r1, s1)" by force
  have r1: "reachable (env_of l a) \<lparr>sys_db = tables s1, sys_topic = topic\<rparr>"
    by (rule reachable_exec[OF assms(1), of "BootstrapAdmin (d_source b) (d_id b) (d_now b)
      (cf_BootstrapAdminEmail config) (cf_BootstrapAdminPassword config)"])
       (simp add: exec_def after_def env_of_def a1)
  obtain r2 s2 where a2: "?demo s1 = (r2, s2)" by force
  have r2: "reachable (env_of l a) \<lparr>sys_db = tables s2, sys_topic = topic\<rparr>"
    using reachable_demo[OF r1, of config salt d k] a2 by simp
  show "reachable (env_of l a) \<lparr>sys_db = tables s', sys_topic = topic\<rparr>" "res = Inr a' \<Longrightarrow> a' = a"
    using assms(3) r1 r2 a1 a2 unfolding run
    by (cases r1; cases r2; auto simp: and_then_def ret_def)+
qed

text \<open>
  C25: every state a server reaches, however it is started, whatever requests and results it is given
  and whatever faults its database has, is a state of the gateway's transition system; so every
  invariant of the reachable states holds in it, the invariant of the registry in particular.
\<close>

theorem server_runs_gateway:
  assumes "server_run l config o' x" "wire l config = Inr a"
  shows "reachable (env_of l a) x \<and> (o' = None \<or> o' = Some a) \<and> db_ok (sys_db x)"
proof -
  have "reachable (env_of l a) x \<and> (o' = None \<or> o' = Some a)"
    using assms(1)
  proof induction
    case on_empty
    then show ?case by (simp add: reachable_init)
  next
    case (started o' x b salt d k fs res s)
    then show ?case
      using reachable_start[OF _ assms(2) started.hyps(2), of "sys_topic x"]
      by (simp only: sess.select_convs eta_system) (auto split: sum.split)
  next
    case (served a' x d route r fs resp s topic)
    then have "reachable (env_of l a) x" "a' = a" by auto
    then show ?case
      using request_is_step[OF served.hyps(2)] by (auto intro: reachable_step)
  next
    case (handled a' x now result fs res s)
    then have x: "reachable (env_of l a) x" "a' = a" by auto
    then show ?case
      using reachable_exec[of "env_of l a" "\<lparr>tables = sys_db x, faults = fs\<rparr>" "sys_topic x" "ResultCall now result" s "sys_topic x"]
        handled.hyps(2) by (simp add: exec_def after_def env_of_def)
  qed
  then show ?thesis using reachable_ok by (auto simp: reachable_def)
qed

text \<open>A server with two one-letter secrets that starts with an administrator.\<close>

definition sample_config :: Config where
  "sample_config = NewConfig\<lparr>cf_SigningKeysMasterKey := ''k'', cf_QRPayloadEncryptionSecret := ''q'',
     cf_BootstrapAdminEmail := ''admin'', cf_BootstrapAdminPassword := ''pw'', cf_DemoUniversityName := '''',
     cf_DemoUniversityVUZCode := '''', cf_DemoUniversityINN := '''', cf_DemoUniversityOGRN := '''',
     cf_DemoUniversityEmail := '''', cf_DemoUniversityPassword := ''''\<rparr>"

lemma wire_Inr: "(\<exists>a. wire l config = Inr a) \<longleftrightarrow>
    \<not> blank (cf_SigningKeysMasterKey config) \<and> \<not> blank (cf_QRPayloadEncryptionSecret config)"
  using deriveAES256Key_Inr[of "cf_SigningKeysMasterKey config"]
    deriveAES256Key_Inr[of "cf_QRPayloadEncryptionSecret config"]
  by (auto simp: wire_def NewKeyEncryptor_def NewQRPayloadCodec_def Let_def Diploma_def SetQRPayloadDecoder_def
      SetRecordPayloadCipher_def New_def)

lemma sample_libs_hasher [simp]: "l_hasher (sample_libs c) = plain_hasher"
  by (simp add: sample_libs_def)

lemma sample_config_sel [simp]:
  "cf_SigningKeysMasterKey sample_config = ''k''" "cf_QRPayloadEncryptionSecret sample_config = ''q''"
  "cf_BootstrapAdminEmail sample_config = ''admin''" "cf_BootstrapAdminPassword sample_config = ''pw''"
  "demo_values sample_config = ['''', '''', '''', '''', '''', '''']"
  by (simp_all add: sample_config_def NewConfig_def demo_values_def)

lemma sample_no_demo: "ensureDemoUniversity l enc sample_config salt d k = ret ()"
  by (simp add: ensureDemoUniversity_def Let_def)

lemma sample_start_admin:
  "\<exists>s. EnsureBootstrapAdmin plain_hasher source i now ''admin'' ''pw'' \<lparr>tables = empty_db, faults = []\<rparr> = (Inr (), s) \<and>
     map pa_Email (platform_admins (tables s)) = [''admin'']"
  by (simp add: EnsureBootstrapAdmin_def plain_hasher_def Admin_UpsertBootstrap_def empty_db_def)

lemma sample_wire: "\<exists>a. wire (sample_libs c) sample_config = Inr a"
proof -
  have "\<not> blank ''k''" "\<not> blank ''q''" by (rule not_blank_graphic; simp add: graphic_def)+
  then show ?thesis by (simp add: wire_Inr)
qed

lemma sample_start:
  assumes "wire (sample_libs c) sample_config = Inr a"
  shows "\<exists>s. configureRouter (sample_libs c) sample_config sample_draws None sample_draws sample_draws
      \<lparr>tables = empty_db, faults = []\<rparr> = (Inr a, s) \<and> map pa_Email (platform_admins (tables s)) = [''admin'']"
  using sample_start_admin[of "d_source sample_draws" "d_id sample_draws" "d_now sample_draws"]
  unfolding configureRouter_def assms sum.case sample_no_demo sample_libs_hasher sample_config_sel
  by (auto simp: and_then_def ret_def)

lemma server_runs_gateway_witness:
  "\<exists>a x. wire (sample_libs sample_admin_claims) sample_config = Inr a \<and>
     server_run (sample_libs sample_admin_claims) sample_config (Some a) x \<and>
     map pa_Email (platform_admins (sys_db x)) = [''admin''] \<and> db_ok (sys_db x)"
proof -
  let ?l = "sample_libs sample_admin_claims"
  obtain a where a: "wire ?l sample_config = Inr a" using sample_wire by blast
  from sample_start[OF a] obtain s where s: "configureRouter ?l sample_config sample_draws None sample_draws sample_draws
      \<lparr>tables = empty_db, faults = []\<rparr> = (Inr a, s)" "map pa_Email (platform_admins (tables s)) = [''admin'']"
    by (elim exE conjE)
  have s0: "configureRouter ?l sample_config sample_draws None sample_draws sample_draws
      \<lparr>tables = sys_db init_system, faults = []\<rparr> = (Inr a, s)"
    by (simp only: init_system_def system.select_convs s(1))
  note run = started[OF on_empty s0, unfolded sum.case]
  let ?x = "\<lparr>sys_db = tables s, sys_topic = sys_topic init_system\<rparr>"
  have "db_ok (sys_db ?x)" by (rule server_runs_gateway[OF run a, THEN conjunct2, THEN conjunct2])
  moreover have "map pa_Email (platform_admins (sys_db ?x)) = [''admin'']"
    by (simp only: system.select_convs s(2))
  ultimately show ?thesis using run a by (intro exI conjI)
qed

end
