(* ===== verification/PublicProps.thy ===== *)
theory PublicProps
  imports HttpRun
begin

text \<open>
  What a request without credentials can do to the registry: the health check, the registration and
  log-in of universities, and the pages of students and employers.
\<close>

section \<open>Additions that commit to nothing\<close>

text \<open>Universities waiting for approval have been added, and the share links may have changed.\<close>

definition harmless :: "db \<Rightarrow> db \<Rightarrow> bool" where
  "harmless d0 d \<longleftrightarrow> (\<exists>us links. d = d0\<lparr>universities := universities d0 @ us, share_links := links\<rparr> \<and>
     list_all (\<lambda>u. u_Status u = UniversityStatusPending) us)"

lemma harmless_refl [simp]: "harmless d d"
  unfolding harmless_def by (rule exI[of _ "[]"], rule exI[of _ "share_links d"]) simp

lemma harmless_university:
  "harmless d0 d \<Longrightarrow> u_Status u = UniversityStatusPending \<Longrightarrow> harmless d0 (d\<lparr>universities := universities d @ [u]\<rparr>)"
  unfolding harmless_def by (elim exE conjE, rule_tac x = "us @ [u]" in exI, rule_tac x = links in exI) simp

lemma harmless_links: "harmless d0 d \<Longrightarrow> harmless d0 (d\<lparr>share_links := l\<rparr>)"
  unfolding harmless_def by (elim exE conjE, rule_tac x = us in exI, rule_tac x = l in exI) simp

lemma harmless_Create: "preserves (harmless d0) (University_Create i now r h)"
  unfolding University_Create_def
  by (rule preserves_run_stmt)
    (auto simp: insert_university_def Let_def new_university_def intro!: harmless_university)

lemma harmless_Register: "preserves (harmless d0) (Register hasher salt i now r)"
  by (auto simp: Register_def split: sum.split
      intro!: preserves_attempt preserves_ret preserves_fail harmless_Create)

lemma harmless_share_statements:
  "preserves (harmless d0) (CreateShareLink i now h t e)" "preserves (harmless d0) (IncrementShareLinkUsage t)"
  unfolding CreateShareLink_def IncrementShareLinkUsage_def
  by (rule preserves_run_stmt; auto intro!: harmless_links)+

lemma harmless_share: "preserves (harmless d0) (Student_CreateShareLink decoder lib s i now h ttl)"
  by (auto simp: Student_CreateShareLink_def Let_def give_def split: sum.split prod.split
      intro!: preserves_attempt preserves_and_then preserves_ret preserves_fail preserves_diploma_reads
        harmless_share_statements)

lemma harmless_qr: "preserves (harmless d0) (RenderShareQR decoder lib s qr lower i now h f ttl)"
  by (auto simp: RenderShareQR_def give_def split: sum.split
      intro!: preserves_and_then preserves_ret preserves_fail harmless_share)

lemma harmless_resolve: "preserves (harmless d0) (ResolveShareLink decoder lib s now t)"
  by (auto simp: ResolveShareLink_def split: sum.split
      intro!: preserves_attempt preserves_and_then preserves_ret preserves_fail preserves_diploma_reads
        harmless_share_statements)

lemma keeps_prod [keeps_intros]: "(\<And>y z. keeps P (f y z)) \<Longrightarrow> keeps P (case x of (y, z) \<Rightarrow> f y z)"
  by (cases x) auto

lemma harmless_auth: "keeps (harmless d0) (auth_handler l a d x c r)"
  by (cases x)
     (auto simp: auth_handler_def AuthHandler_Register_def AuthHandler_Login_def
       intro!: keeps_intros harmless_Register keeps_Login)

lemma harmless_student: "keeps (harmless d0) (student_handler l a d x c r)"
  by (cases x)
     (auto simp: student_handler_def StudentHandler_Search_def StudentHandler_Share_def StudentHandler_QR_def
       StudentHandler_SharedDiploma_def Search_def Let_def split: prod.split
       intro!: keeps_intros preserves_diploma_reads harmless_share harmless_qr harmless_resolve)

text \<open>
  C28: without credentials nothing can be falsified.  A request on any route that asks for no
  credentials, whatever it holds and however the database fails, adds at most universities that wait
  for approval and changes at most share links: administrators, keys, batches, results and every
  registered diploma stay as they are.
\<close>

theorem public_routes_harmless:
  assumes "serve l a d route Map.empty r (s, topic) = (resp, s', topic')"
    "route = Healthz \<or> (\<exists>x. route = Auth x) \<or> (\<exists>x. route = Student x)"
  shows "\<exists>us links. tables s' = (tables s)\<lparr>universities := universities (tables s) @ us, share_links := links\<rparr> \<and>
    list_all (\<lambda>u. u_Status u = UniversityStatusPending) us"
proof -
  have k: "keeps (harmless (tables s)) (serve l a d route Map.empty r)"
    using assms(2) by (auto simp: serve_def keeps_reply harmless_auth harmless_student)
  have "harmless (tables s) (tables (fst (snd (serve l a d route Map.empty r (s, topic)))))"
    by (rule keepsD[OF k]) simp
  then show ?thesis using assms(1) by (simp add: harmless_def)
qed


lemma public_routes_harmless_witness:
  "\<exists>us links. tables (fst (snd (serve (sample_libs sample_access_claims) sample_app sample_draws (Student GetShared) Map.empty sample_http
      (\<lparr>tables = sample_db, faults = []\<rparr>, [])))) =
    sample_db\<lparr>universities := universities sample_db @ us, share_links := links\<rparr> \<and>
    list_all (\<lambda>u. u_Status u = UniversityStatusPending) us"
proof -
  obtain resp s' topic' where s: "serve (sample_libs sample_access_claims) sample_app sample_draws (Student GetShared) Map.empty sample_http
      (\<lparr>tables = sample_db, faults = []\<rparr>, []) = (resp, s', topic')"
    by (rule prod_cases3)
  show ?thesis using public_routes_harmless[OF s] s by simp
qed

section \<open>Life times of share links in hours\<close>

text \<open>
  A number of hours up to 2562047 is the life time asked for; one hour more does not fit into the
  64-bit nanoseconds and comes out negative, so that the service falls back to its default.
\<close>

lemma int64_times_exact:
  assumes "- (2 ^ 63) \<le> a * b" "a * b < 2 ^ 63"
  shows "int64_times a b = a * b"
proof -
  have "int64_times a b = signed_take_bit 63 (a * b)"
    by (simp add: int64_times_def sint_sbintrunc' del: of_int_mult add: of_int_mult[symmetric])
  then show ?thesis using assms by (simp add: signed_take_bit_int_eq_self)
qed

lemma hoursToDuration_exact: "0 < h \<Longrightarrow> h \<le> 2562047 \<Longrightarrow> hoursToDuration (Some h) = h * Hour"
  by (simp add: hoursToDuration_def int64_times_exact Hour_def second_def)

lemma hoursToDuration_overflow: "hoursToDuration (Some 2562048) < 0"
  by (simp add: hoursToDuration_def int64_times_def Hour_def second_def)

end
