(* ===== verification/CsvProps.thy ===== *)
theory CsvProps
  imports Csv GoJson
begin

text \<open>
  A CSV text of plain fields is read back as exactly the records it was written from, in their
  order, whatever the language of the fields.
\<close>

section \<open>Plain fields\<close>

definition plain_field :: "string \<Rightarrow> bool" where
  "plain_field f \<longleftrightarrow> f \<noteq> [] \<and> TrimSpace f = f \<and> valid_utf8 f \<and>
     comma \<notin> set f \<and> dquote \<notin> set f \<and> nl \<notin> set f \<and> cr \<notin> set f"

text \<open>A proper prefix of an encoding of white space is no text.\<close>

lemma cut_invalid: "128 \<le> code c \<Longrightarrow> \<not> valid_utf8 [c]" "224 \<le> code c \<Longrightarrow> \<not> valid_utf8 [c, d]"
  by (subst valid_utf8.simps, simp add: utf8_len_def lead_len_def)+

lemma space_encodings_shape:
  "e \<in> set space_encodings \<Longrightarrow> (\<exists>a. e = [a]) \<or> (\<exists>a b. e = [a, b] \<and> 128 \<le> code a) \<or>
     (\<exists>a b c. e = [a, b, c] \<and> 224 \<le> code a)"
  by (auto simp: space_encodings_def)

lemma space_prefix_invalid:
  assumes "e \<in> set space_encodings" "e = f @ u" "f \<noteq> []" "u \<noteq> []"
  shows "\<not> valid_utf8 f"
  using space_encodings_shape[OF assms(1)] assms(2-)
  by (auto simp: append_eq_Cons_conv Cons_eq_append_conv cut_invalid)

lemma trim_left_plain:
  assumes "plain_field f"
  shows "trim_left (f @ t) = f @ t"
proof -
  have n: "strip_first space_encodings f = None"
    using assms strip_first_TrimSpace(1)[of f] by (simp add: plain_field_def)
  have "f @ t \<noteq> e @ r" if "e \<in> set space_encodings" for e r
  proof
    assume "f @ t = e @ r"
    then obtain u where "f = e @ u \<or> e = f @ u \<and> u \<noteq> []"
      by (metis append_eq_append_conv2 append_self_conv)
    with n that assms space_prefix_invalid[of e f u] show False
      by (auto simp: strip_first_None plain_field_def)
  qed
  then show ?thesis
    by (simp add: trim_left_def trim_with_fixed strip_first_None)
qed

section \<open>Reading a line of plain fields\<close>

lemma index_byte_None [simp]: "index_byte c s = None \<longleftrightarrow> c \<notin> set s"
  by (induction s) auto

lemma index_byte_append [simp]: "c \<notin> set s \<Longrightarrow> index_byte c (s @ c # t) = Some (length s)"
  by (induction s) auto

lemma drop_nl_line [simp]: "drop_nl (s @ [nl]) = s"
  by (simp add: drop_nl_def lengthNL_def)

lemma parse_plain_last:
  assumes "plain_field f"
  shows "parse_fields None (f @ [nl]) rest acc = Inr (acc @ [f], rest)"
proof -
  obtain c cs where f: "f = c # cs" "c \<noteq> dquote"
    using assms by (cases f) (auto simp: plain_field_def)
  have i: "index_byte comma (f @ [nl]) = None" using assms by (simp add: plain_field_def)
  have "trim_left (f @ [nl]) = c # cs @ [nl]" using trim_left_plain[OF assms] f by simp
  with i f show ?thesis
    using assms drop_nl_line[of f] by (subst parse_fields.simps) (simp add: plain_field_def Let_def)
qed

lemma parse_plain_next:
  assumes "plain_field f"
  shows "parse_fields None (f @ comma # t) rest acc = parse_fields None t rest (acc @ [f])"
proof -
  obtain c cs where f: "f = c # cs" "c \<noteq> dquote"
    using assms by (cases f) (auto simp: plain_field_def)
  have i: "index_byte comma (c # cs @ comma # t) = Some (length (c # cs))"
    using assms f index_byte_append[of comma f t] by (simp add: plain_field_def)
  have "trim_left (f @ comma # t) = c # cs @ comma # t" using trim_left_plain[OF assms] f by simp
  with i f show ?thesis
    using assms by (subst parse_fields.simps) (simp add: plain_field_def Let_def)
qed

lemma parse_plain_row:
  "fs \<noteq> [] \<Longrightarrow> \<forall>f \<in> set fs. plain_field f \<Longrightarrow>
   parse_fields None (Join fs '','' @ [nl]) rest acc = Inr (acc @ fs, rest)"
proof (induction fs arbitrary: acc)
  case (Cons f fs)
  show ?case
  proof (cases fs)
    case Nil
    then show ?thesis using Cons.prems parse_plain_last by simp
  next
    case (Cons g gs)
    then show ?thesis
      using Cons.IH[of "acc @ [f]"] Cons.prems parse_plain_next[of f "Join fs '','' @ [nl]"] by simp
  qed
qed simp

section \<open>Reading the text\<close>

definition csv_text :: "string list list \<Rightarrow> string" where
  "csv_text rows = concat (map (\<lambda>row. Join row '','' @ [nl]) rows)"

definition plain_row :: "string list \<Rightarrow> bool" where
  "plain_row row \<longleftrightarrow> row \<noteq> [] \<and> (\<forall>f \<in> set row. plain_field f)"

lemma set_Join: "set (Join fs '','') \<subseteq> {comma} \<union> \<Union> (set ` set fs)"
  by (induction fs "'',''" rule: Join.induct) auto

lemma Join_not_Nil: "plain_row row \<Longrightarrow> Join row '','' \<noteq> []"
  by (cases row; cases "tl row") (auto simp: plain_row_def plain_field_def)

lemma plain_row_chars: "plain_row row \<Longrightarrow> nl \<notin> set (Join row '','') \<and> cr \<notin> set (Join row '','')"
  using set_Join[of row] by (auto simp: plain_row_def plain_field_def subset_iff)

lemma raw_lines_line: "nl \<notin> set l \<Longrightarrow> raw_lines (l @ nl # t) = (l @ [nl]) # raw_lines t"
  by (induction l) auto

lemma normal_line_plain: "cr \<notin> set l \<Longrightarrow> normal_line (l @ [nl]) = l @ [nl]"
  by (cases l rule: rev_cases) (auto simp: normal_line_def)

lemma csv_lines_text:
  "\<forall>row \<in> set rows. plain_row row \<Longrightarrow>
   csv_lines (csv_text rows) = map (\<lambda>row. Join row '','' @ [nl]) rows"
  by (induction rows)
     (auto simp: csv_lines_def csv_text_def raw_lines_line normal_line_plain plain_row_chars last_line_def)

lemma ReadAll_from_plain:
  assumes "\<forall>row \<in> set rows. plain_row row \<and> length row = n" "expected = None \<or> expected = Some n"
  shows "ReadAll_from expected (map (\<lambda>row. Join row '','' @ [nl]) rows) = Inr rows"
  using assms
proof (induction rows arbitrary: expected)
  case (Cons row rows)
  then have r: "plain_row row" "length row = n" by simp_all
  have l: "length (Join row '','' @ [nl]) \<noteq> lengthNL (Join row '','' @ [nl])"
    using Join_not_Nil[OF r(1)] by (simp add: lengthNL_def)
  have p: "parse_fields None (Join row '','' @ [nl]) rest [] = Inr (row, rest)" for rest
    using parse_plain_row[of row rest "[]"] r(1) by (simp add: plain_row_def)
  show ?case
    using Cons.IH[of "Some n"] Cons.prems r l by (auto simp: p)
qed simp

lemma ReadAll_text:
  assumes "\<forall>row \<in> set rows. plain_row row \<and> length row = n"
  shows "ReadAll (csv_text rows) = Inr rows"
  using ReadAll_from_plain[OF assms, of None] csv_lines_text[of rows] assms by (simp add: ReadAll_def)

section \<open>Records\<close>

text \<open>The columns of a record in the order of \<open>requiredHeaders\<close>, and the text of an upload.\<close>

definition record_row :: "DiplomaUploadRecord \<Rightarrow> string list" where
  "record_row r = [dur_FullName r, dur_DiplomaNumber r, dur_Specialty r, dur_Degree r, dur_Faculty r,
     Itoa (dur_Year r)]"

definition upload_text :: "DiplomaUploadRecord list \<Rightarrow> string" where
  "upload_text rs = csv_text (requiredHeaders # map record_row rs)"

definition plain_record :: "DiplomaUploadRecord \<Rightarrow> bool" where
  "plain_record r \<longleftrightarrow> (\<forall>f \<in> {dur_FullName r, dur_DiplomaNumber r, dur_Specialty r, dur_Degree r,
     dur_Faculty r}. plain_field f) \<and> int_min \<le> dur_Year r \<and> dur_Year r \<le> int_max"

lemma valid_utf8_ascii: "\<forall>c \<in> set s. code c < 128 \<Longrightarrow> valid_utf8 s"
  by (induction s) (subst valid_utf8.simps, simp)+

lemma plain_graphic:
  assumes "s \<noteq> []" "\<forall>c \<in> set s. graphic c \<and> c \<noteq> comma \<and> c \<noteq> dquote"
  shows "plain_field s"
proof -
  have "TrimSpace s = s" using assms by (intro TrimSpace_graphic) simp_all
  moreover have "code c < 128" if "c \<in> set s" for c
    using bspec[OF assms(2) that] by (simp add: graphic_def)
  then have "valid_utf8 s" by (intro valid_utf8_ascii) blast
  moreover have "\<not> graphic nl" "\<not> graphic cr" by (simp_all add: graphic_def)
  ultimately show ?thesis using assms unfolding plain_field_def by blast
qed

lemma set_nat_string: "c \<in> set (nat_string n) \<Longrightarrow> 48 \<le> code c \<and> code c \<le> 57"
proof (induction n rule: nat_string.induct)
  case (1 n)
  from "1.prems" show ?case
    by (subst (asm) nat_string.simps) (auto simp: digit_char_def dest: "1.IH" split: if_splits)
qed

lemma plain_Itoa: "plain_field (Itoa i)"
proof (rule plain_graphic)
  show "Itoa i \<noteq> []" by (simp add: Itoa_def)
  show "\<forall>c \<in> set (Itoa i). graphic c \<and> c \<noteq> comma \<and> c \<noteq> dquote"
    by (auto simp: Itoa_def graphic_def dest: set_nat_string split: if_splits)
qed

lemma plain_headers: "plain_row requiredHeaders"
  unfolding plain_row_def
proof
  show "\<forall>f \<in> set requiredHeaders. plain_field f"
    by (intro ballI plain_graphic) (auto simp: requiredHeaders_def graphic_def)
qed (simp add: requiredHeaders_def)

lemma plain_record_row: "plain_record r \<Longrightarrow> plain_row (record_row r)"
  by (simp add: plain_record_def plain_row_def record_row_def plain_Itoa)

definition required_index :: "string \<rightharpoonup> nat" where
  "required_index = map_of [(''full_name'', 0), (''diploma_number'', 1), (''specialty'', 2),
     (''degree'', 3), (''faculty'', 4), (''year'', 5)]"

lemma normalizeCSVHeader_plain: "plain_field h \<Longrightarrow> HasPrefix h (map byte [239, 187, 191]) = False \<Longrightarrow>
   normalizeCSVHeader h = h"
  by (auto simp: normalizeCSVHeader_def plain_field_def TrimPrefix_def HasPrefix_def split: option.split)

lemma normalize_required: "h \<in> set requiredHeaders \<Longrightarrow> normalizeCSVHeader h = h"
  using plain_headers
  by (intro normalizeCSVHeader_plain)
     (auto simp: plain_row_def requiredHeaders_def HasPrefix_def byte_eq_char)

lemma headerIndex_required: "headerIndex requiredHeaders = required_index"
proof -
  have "normalizeCSVHeader ''full_name'' = ''full_name''"
    "normalizeCSVHeader ''diploma_number'' = ''diploma_number''"
    "normalizeCSVHeader ''specialty'' = ''specialty''" "normalizeCSVHeader ''degree'' = ''degree''"
    "normalizeCSVHeader ''faculty'' = ''faculty''" "normalizeCSVHeader ''year'' = ''year''"
    by (rule normalize_required, simp add: requiredHeaders_def)+
  then show ?thesis
    by (simp add: headerIndex_def requiredHeaders_def required_index_def upt_rec fun_eq_iff)
qed

lemma csv_record_row:
  assumes "plain_record r"
  shows "csv_record required_index (record_row r) =
    Inr (r\<lparr>dur_RawCSVRow := Join (record_row r) '',''\<rparr>)"
proof -
  have "TrimSpace (Itoa (dur_Year r)) = Itoa (dur_Year r)"
    using plain_Itoa by (simp add: plain_field_def)
  then show ?thesis
    using assms Atoi_Itoa[of "dur_Year r"]
    by (simp add: csv_record_def column_def required_index_def record_row_def requiredHeaders_def
        plain_record_def plain_field_def)
qed

lemma csv_records_rows:
  "\<forall>r \<in> set rs. plain_record r \<Longrightarrow> csv_records required_index (map record_row rs) =
   Inr (map (\<lambda>r. r\<lparr>dur_RawCSVRow := Join (record_row r) '',''\<rparr>) rs)"
  by (induction rs) (simp_all add: csv_record_row)

text \<open>
  C29: A CSV upload of plain fields (no comma, quote or line break, trimmed, valid UTF-8, not empty)
  under the required header is parsed into exactly the records that were written, in order, each
  with its own row as the raw text.
\<close>

theorem csv_upload_roundtrip:
  assumes "rs \<noteq> []" "\<forall>r \<in> set rs. plain_record r"
  shows "parseCSV (upload_text rs) = Inr (map (\<lambda>r. r\<lparr>dur_RawCSVRow := Join (record_row r) '',''\<rparr>) rs)"
proof -
  have "ReadAll (upload_text rs) = Inr (requiredHeaders # map record_row rs)"
    unfolding upload_text_def
    using assms(2) plain_headers plain_record_row
    by (intro ReadAll_text[of _ 6]) (auto simp: requiredHeaders_def record_row_def)
  moreover have "missing_header required_index requiredHeaders = None"
    by (simp add: requiredHeaders_def required_index_def)
  moreover have "\<not> length (requiredHeaders # map record_row rs) < 2" using assms(1) by (cases rs) simp_all
  ultimately show ?thesis
    using csv_records_rows[OF assms(2)] by (simp add: parseCSV_def headerIndex_required Let_def)
qed

text \<open>A name of two bytes above ASCII (a Cyrillic letter).\<close>

definition sample_upload :: DiplomaUploadRecord where
  "sample_upload = \<lparr>dur_FullName = [byte 208, byte 144], dur_DiplomaNumber = ''AB1'', dur_Specialty = ''SE'',
     dur_Degree = ''MA'', dur_Faculty = ''CS'', dur_Year = 2024, dur_RawCSVRow = ''''\<rparr>"

lemma sample_upload_plain: "plain_record sample_upload"
proof -
  have "valid_utf8 [byte 208, byte 144]"
    by (subst valid_utf8.simps, simp add: utf8_len_def lead_len_def second_ok_def)
       (subst valid_utf8.simps, simp)
  moreover have "TrimSpace [byte 208, byte 144] = [byte 208, byte 144]"
    by (rule TrimSpace_fixed) (simp_all add: space_encodings_def strip_first_None char_eq_byte)
  ultimately have "plain_field [byte 208, byte 144]"
    by (simp add: plain_field_def char_eq_byte)
  moreover have "plain_field ''AB1''" "plain_field ''SE''" "plain_field ''MA''" "plain_field ''CS''"
    by (rule plain_graphic; simp add: graphic_def)+
  ultimately show ?thesis
    by (simp add: plain_record_def sample_upload_def int_min_def int_max_def)
qed

lemma csv_upload_roundtrip_witness:
  "parseCSV (upload_text [sample_upload]) =
     Inr [sample_upload\<lparr>dur_RawCSVRow := Join (record_row sample_upload) '',''\<rparr>]"
  using csv_upload_roundtrip[of "[sample_upload]"] sample_upload_plain by simp

section \<open>Ragged rows\<close>

lemma ReadAll_from_Cons:
  assumes "ReadAll_from expected (line # rest) = Inr rows" "length line \<noteq> lengthNL line"
  obtains row rest' rs where "parse_fields None line rest [] = Inr (row, rest')"
    "expected = None \<or> expected = Some (length row)"
    "ReadAll_from (Some (length row)) rest' = Inr rs" "rows = row # rs"
proof (cases "parse_fields None line rest []")
  case (Inr r)
  obtain row rest' where "r = (row, rest')" by force
  with Inr assms that show ?thesis by (simp split: if_splits) blast
qed (use assms in simp)

lemma ReadAll_from_widths:
  "ReadAll_from expected ls = Inr rows \<Longrightarrow> row \<in> set rows \<Longrightarrow>
   length row = length (hd rows) \<and> (expected = None \<or> expected = Some (length row))"
proof (induction expected ls arbitrary: rows row rule: ReadAll_from.induct)
  case (2 expected line rest)
  show ?case
  proof (cases "length line = lengthNL line")
    case True
    with "2.prems"(1) have "ReadAll_from expected rest = Inr rows" by simp
    from "2.IH"(1)[OF True this "2.prems"(2)] show ?thesis .
  next
    case False
    obtain row0 rest' rs where r: "parse_fields None line rest [] = Inr (row0, rest')"
      "expected = None \<or> expected = Some (length row0)"
      "ReadAll_from (Some (length row0)) rest' = Inr rs" "rows = row0 # rs"
      by (rule ReadAll_from_Cons[OF "2.prems"(1) False])
    have n: "\<not> (expected \<noteq> None \<and> expected \<noteq> Some (length row0))" using r(2) by blast
    show ?thesis
    proof (cases "row \<in> set rs")
      case True
      from "2.IH"(2)[OF False r(1) refl n r(3) this] r show ?thesis by simp
    next
      case False
      then show ?thesis using r "2.prems"(2) by simp
    qed
  qed
qed simp

lemma headerIndex_bound: "headerIndex headers h = Some i \<Longrightarrow> i < length headers"
proof -
  have "fold (\<lambda>(index, header) m. m(normalizeCSVHeader header \<mapsto> index)) ps m h = Some i \<Longrightarrow>
      m h = Some i \<or> i \<in> fst ` set ps" for ps :: "(nat \<times> string) list" and m
  proof (induction ps arbitrary: m)
    case (Cons p ps)
    obtain j x where p: "p = (j, x)" by force
    from Cons.IH[of "m(normalizeCSVHeader x \<mapsto> j)"] Cons.prems p show ?case
      by (auto split: if_splits)
  qed simp
  from this[of "zip [0..<length headers] headers" Map.empty]
  show "headerIndex headers h = Some i \<Longrightarrow> i < length headers"
    by (auto simp: headerIndex_def dest: set_zip_leftD)
qed

lemma missing_header_None: "missing_header index hs = None \<longleftrightarrow> (\<forall>h \<in> set hs. index h \<noteq> None)"
  by (induction hs) auto

definition bad_year :: "(string \<rightharpoonup> nat) \<Rightarrow> string list \<Rightarrow> bool" where
  "bad_year index row \<longleftrightarrow> Atoi (TrimSpace (column index row ''year'')) = None"

lemma csv_records_fails:
  assumes "\<forall>row \<in> set rows. length row = n" "\<forall>h \<in> set requiredHeaders. \<exists>i < n. index h = Some i"
  shows "csv_records index rows = Inl e \<longleftrightarrow>
    e = ErrText ''invalid year in csv'' \<and> (\<exists>row \<in> set rows. bad_year index row)"
  using assms(1)
proof (induction rows)
  case (Cons row rows)
  have wide: "\<not> (\<exists>header \<in> set requiredHeaders. length row \<le> the (index header))"
    using Cons.prems assms(2) by fastforce
  show ?case
  proof (cases "bad_year index row")
    case True
    then have "csv_record index row = Inl (ErrText ''invalid year in csv'')"
      using wide by (simp add: csv_record_def bad_year_def)
    then show ?thesis using True by auto
  next
    case False
    then obtain r where "csv_record index row = Inr r"
      using wide by (auto simp: csv_record_def bad_year_def)
    then show ?thesis using False Cons by (auto simp: bind_res_eq_Inl)
  qed
qed simp


end
