(* ===== verification/GoTime.thy ===== *)
theory GoTime
  imports GoStd Complex_Main
begin

text \<open>
  Two more pieces of the Go standard library the configuration uses: \<open>time.ParseDuration\<close> (with the
  \<open>float64\<close> product it takes for fractions) and the printing of a \<open>url.URL\<close>.
\<close>

section \<open>The product of float64 values\<close>

fun bits :: "nat \<Rightarrow> nat" where
  "bits n = (if n = 0 then 0 else Suc (bits (n div 2)))"

declare bits.simps [simp del]

definition nearest_even :: "rat \<Rightarrow> int" where
  "nearest_even q =
     (let n = \<lfloor>q\<rfloor>; r = q - of_int n
      in if r < 1 / 2 then n else if r > 1 / 2 then n + 1 else if even n then n else n + 1)"

text \<open>The nearest \<open>float64\<close> of a positive number within the range of normal ones: 53 bits, ties to even.\<close>

definition float64 :: "rat \<Rightarrow> rat" where
  "float64 q =
     (if q \<le> 0 then 0
      else case quotient_of q of (a, b) \<Rightarrow>
        let low = int (bits (nat a)) - int (bits (nat b)) - 53;
            e = (if q \<ge> 2 ^ 53 * 2 powi low then low + 1 else low)
        in of_int (nearest_even (q / 2 powi e)) * 2 powi e)"

section \<open>ParseDuration\<close>

text \<open>\<open>leadingInt\<close>: the leading digits as a \<open>uint64\<close>, none on overflow.\<close>

fun leadingInt :: "nat \<Rightarrow> string \<Rightarrow> (nat \<times> string) option" where
  "leadingInt x [] = Some (x, [])"
| "leadingInt x (c # s) =
     (case digit_value c of
        None \<Rightarrow> Some (x, c # s)
      | Some d \<Rightarrow>
          if x > 2 ^ 63 div 10 then None
          else if x * 10 + d > 2 ^ 63 then None else leadingInt (x * 10 + d) s)"

text \<open>\<open>leadingFraction\<close>: digits that no longer fit are skipped.\<close>

fun leadingFraction :: "bool \<Rightarrow> nat \<Rightarrow> nat \<Rightarrow> string \<Rightarrow> nat \<times> nat \<times> string" where
  "leadingFraction over x scale [] = (x, scale, [])"
| "leadingFraction over x scale (c # s) =
     (case digit_value c of
        None \<Rightarrow> (x, scale, c # s)
      | Some d \<Rightarrow>
          if over \<or> x > (2 ^ 63 - 1) div 10 \<or> x * 10 + d > 2 ^ 63 then leadingFraction True x scale s
          else leadingFraction False (x * 10 + d) (scale * 10) s)"

definition unit_char :: "char \<Rightarrow> bool" where
  "unit_char c = (c \<noteq> CHR ''.'' \<and> digit_value c = None)"

text \<open>The units; the two micro signs are U+00B5 and U+03BC in UTF-8.\<close>

definition unitMap :: "string \<rightharpoonup> nat" where
  "unitMap u =
     (if u = ''ns'' then Some 1
      else if u = ''us'' \<or> u = [CHR 0xC2, CHR 0xB5, CHR ''s''] \<or> u = [CHR 0xCE, CHR 0xBC, CHR ''s'']
      then Some 1000
      else if u = ''ms'' then Some 1000000
      else if u = ''s'' then Some 1000000000
      else if u = ''m'' then Some 60000000000
      else if u = ''h'' then Some 3600000000000
      else None)"

text \<open>The value of an integer part, a fraction and a unit, none on overflow.\<close>

definition scaled_value :: "nat \<Rightarrow> nat \<Rightarrow> nat \<Rightarrow> nat \<Rightarrow> nat option" where
  "scaled_value v f scale unit =
     (if v > 2 ^ 63 div unit then None
      else if f > 0
      then let v = v * unit + nat \<lfloor>float64 (float64 (of_nat f) * float64 (of_nat unit / float64 (of_nat scale)))\<rfloor>
           in if v > 2 ^ 63 then None else Some v
      else Some (v * unit))"

text \<open>One number with its unit: its value and what is left.\<close>

definition duration_part :: "string \<Rightarrow> (nat \<times> string) option" where
  "duration_part s =
     (if s = [] \<or> (hd s \<noteq> CHR ''.'' \<and> digit_value (hd s) = None) then None
      else case leadingInt 0 s of
          None \<Rightarrow> None
        | Some (v, s1) \<Rightarrow>
            (case (if s1 \<noteq> [] \<and> hd s1 = CHR ''.''
                   then case leadingFraction False 0 1 (tl s1) of (f, scale, s2) \<Rightarrow> (f, scale, s2, length s2 \<noteq> length (tl s1))
                   else (0, 1, s1, False)) of
               (f, scale, s2, post) \<Rightarrow>
                 if length s1 = length s \<and> \<not> post then None
                 else case unitMap (takeWhile unit_char s2) of
                     None \<Rightarrow> None
                   | Some unit \<Rightarrow>
                       map_option (\<lambda>v. (v, dropWhile unit_char s2)) (scaled_value v f scale unit)))"

lemma leadingInt_shorter: "leadingInt x s = Some (v, r) \<Longrightarrow> length r \<le> length s"
  by (induction x s rule: leadingInt.induct) (auto split: option.splits if_splits)

lemma leadingFraction_shorter: "leadingFraction b x k s = (f, k', r) \<Longrightarrow> length r \<le> length s"
  by (induction b x k s rule: leadingFraction.induct) (auto split: option.splits if_splits)

lemma unitMap_Nil [simp]: "unitMap [] = None"
  by (simp add: unitMap_def)

lemma drop_unit_shorter:
  assumes "unitMap (takeWhile unit_char s) = Some u"
  shows "length (dropWhile unit_char s) < length s"
  using assms by (cases s) (auto simp: le_imp_less_Suc length_dropWhile_le split: if_splits)

lemma duration_part_shorter: "duration_part s = Some (v, r) \<Longrightarrow> length r < length s"
  by (fastforce simp: duration_part_def split: if_splits option.splits prod.splits
      dest: leadingInt_shorter leadingFraction_shorter drop_unit_shorter)

text \<open>The loop; \<open>uint64\<close> additions wrap.\<close>

function duration_sum :: "nat \<Rightarrow> string \<Rightarrow> nat option" where
  "duration_sum d s =
     (if s = [] then Some d
      else case duration_part s of
          None \<Rightarrow> None
        | Some (v, s1) \<Rightarrow> (let d = (d + v) mod 2 ^ 64 in if d > 2 ^ 63 then None else duration_sum d s1))"
  by auto
termination
  by (relation "measure (length \<circ> snd)") (auto dest: duration_part_shorter)

declare duration_sum.simps [simp del]

definition ParseDuration :: "string \<Rightarrow> int option" where
  "ParseDuration s =
     (let signed = (s \<noteq> [] \<and> (hd s = CHR ''-'' \<or> hd s = CHR ''+''));
          neg = (s \<noteq> [] \<and> hd s = CHR ''-'');
          s = (if signed then tl s else s)
      in if s = ''0'' then Some 0
         else if s = [] then None
         else case duration_sum 0 s of
             None \<Rightarrow> None
           | Some d \<Rightarrow>
               if neg then Some (- int d)
               else if d > 2 ^ 63 - 1 then None else Some (int d))"

lemma duration_sum_bound: "duration_sum d s = Some n \<Longrightarrow> d \<le> 2 ^ 63 \<Longrightarrow> n \<le> 2 ^ 63"
proof (induction d s rule: duration_sum.induct)
  case (1 d s)
  from "1.prems"(1) show ?case
    by (subst (asm) duration_sum.simps)
      (use "1.prems"(2) "1.IH" in \<open>auto simp: Let_def split: if_splits option.splits prod.splits\<close>)
qed

text \<open>A parsed duration is an \<open>int64\<close>.\<close>

lemma ParseDuration_range: "ParseDuration s = Some d \<Longrightarrow> int_min \<le> d \<and> d \<le> int_max"
  by (auto simp: ParseDuration_def Let_def int_min_def int_max_def split: if_splits option.splits
      dest!: duration_sum_bound)

lemmas duration_defs = ParseDuration_def duration_sum.simps duration_part_def digit_value_def
  unit_char_def unitMap_def scaled_value_def

lemma ParseDuration_examples:
  "ParseDuration ''5s'' = Some 5000000000" "ParseDuration ''10m'' = Some 600000000000"
  "ParseDuration ''5m'' = Some 300000000000" "ParseDuration ''1h30m'' = Some 5400000000000"
  "ParseDuration ''-3ms'' = Some (- 3000000)" "ParseDuration ''10'' = None"
  by (simp_all add: duration_defs)

lemma float64_examples:
  "float64 5 = 5" "float64 10 = 10" "float64 360000000000 = 360000000000"
  "float64 1800000000000 = 1800000000000"
  by (simp_all add: float64_def bits.simps nearest_even_def Let_def power_int_def divide_simps)

lemma ParseDuration_fraction: "ParseDuration ''1.5h'' = Some 5400000000000"
  by (simp add: duration_defs float64_examples)

section \<open>Printing a URL\<close>

datatype encoding = encodePath | encodeHost | encodeUserPassword | encodeQueryComponent

definition alphanumeric :: "char \<Rightarrow> bool" where
  "alphanumeric c = (let n = code c in 97 \<le> n \<and> n \<le> 122 \<or> 65 \<le> n \<and> n \<le> 90 \<or> 48 \<le> n \<and> n \<le> 57)"

definition shouldEscape :: "char \<Rightarrow> encoding \<Rightarrow> bool" where
  "shouldEscape c mode =
     (if alphanumeric c then False
      else if mode = encodeHost \<and> (c \<in> set ''!$&()*+,;=:[]<>'' \<or> code c \<in> {34, 39}) then False
      else if c \<in> set ''-_.~'' then False
      else if c \<in> set ''$&+,/:;=?@''
      then (case mode of
              encodePath \<Rightarrow> c = CHR ''?''
            | encodeUserPassword \<Rightarrow> c \<in> set ''@/?:''
            | _ \<Rightarrow> True)
      else True)"

definition upperhex :: "nat \<Rightarrow> char" where
  "upperhex n = ''0123456789ABCDEF'' ! n"

definition escape_char :: "encoding \<Rightarrow> char \<Rightarrow> string" where
  "escape_char mode c =
     (if c = CHR '' '' \<and> mode = encodeQueryComponent then ''+''
      else if shouldEscape c mode then [CHR ''%'', upperhex (code c div 16), upperhex (code c mod 16)]
      else [c])"

definition url_escape :: "encoding \<Rightarrow> string \<Rightarrow> string" where
  "url_escape mode s = concat (map (escape_char mode) s)"

definition JoinHostPort :: "string \<Rightarrow> string \<Rightarrow> string" where
  "JoinHostPort host port =
     (if CHR '':'' \<in> set host then ''['' @ host @ '']:'' @ port else host @ '':'' @ port)"

record URL =
  url_Scheme :: string
  url_User :: string
  url_Password :: string
  url_Host :: string
  url_Path :: string
  url_RawQuery :: string

text \<open>\<open>URL.String\<close> of a URL with a scheme, a user with a password and a host.\<close>

definition URL_String :: "URL \<Rightarrow> string" where
  "URL_String u =
     (let path = (if url_Path u = ''*'' then ''*'' else url_escape encodePath (url_Path u))
      in url_Scheme u @ ''://'' @
         url_escape encodeUserPassword (url_User u) @ '':'' @ url_escape encodeUserPassword (url_Password u) @ ''@'' @
         url_escape encodeHost (url_Host u) @
         (if path \<noteq> [] \<and> hd path \<noteq> CHR ''/'' then ''/'' else '''') @ path @
         (if url_RawQuery u \<noteq> '''' then ''?'' @ url_RawQuery u else ''''))"

text \<open>\<open>Values.Encode\<close> of one pair.\<close>

definition encode_query :: "string \<Rightarrow> string \<Rightarrow> string" where
  "encode_query k v = url_escape encodeQueryComponent k @ ''='' @ url_escape encodeQueryComponent v"

lemma URL_String_example:
  "URL_String \<lparr>url_Scheme = ''postgres'', url_User = ''app'', url_Password = ''p@ss/w'',
     url_Host = JoinHostPort ''db'' ''5432'', url_Path = ''diasoft'', url_RawQuery = encode_query ''sslmode'' ''disable''\<rparr>
   = ''postgres://app:p%40ss%2Fw@db:5432/diasoft?sslmode=disable''"
  by code_simp

end
