(* ===== verification/PubConfig.thy ===== *)
theory PubConfig
  imports Security GoTime
begin

text \<open>
  \<open>pubver/internal/config/config.go\<close>: the settings of the public service from its environment.
  \<open>env\<close> is \<open>os.Getenv\<close>.  \<open>strconv.ParseFloat\<close> is an argument: the code only compares its
  result with zero and hands it to the rate limiter; a float is NaN, an infinity or a rational.  A
  wrapped error carries the text the code puts before the one it wraps.
\<close>

section \<open>Helpers\<close>

datatype go_float = NaN | PosInf | NegInf | Finite rat

fun float_le_zero :: "go_float \<Rightarrow> bool" where
  "float_le_zero NaN = False"
| "float_le_zero PosInf = False"
| "float_le_zero NegInf = True"
| "float_le_zero (Finite q) = (q \<le> 0)"

record PubRateLimit =
  prl_Enabled :: bool
  prl_RequestsPerSec :: go_float
  prl_Burst :: int
  prl_VisitorTTL :: duration
  prl_CleanupInterval :: duration

record PubConfig =
  pc_HTTPAddr :: string
  pc_DatabaseURL :: string
  pc_RequestTimeout :: duration
  pc_LogLevel :: string
  pc_DBMaxConns :: int
  pc_JWTEncKey :: bytes
  pc_RateLimit :: PubRateLimit

definition ParseBool :: "string \<Rightarrow> bool option" where
  "ParseBool v =
     (if v \<in> {''1'', ''t'', ''T'', ''true'', ''TRUE'', ''True''} then Some True
      else if v \<in> {''0'', ''f'', ''F'', ''false'', ''FALSE'', ''False''} then Some False
      else None)"

definition envOrDefault :: "(string \<Rightarrow> string) \<Rightarrow> string \<Rightarrow> string \<Rightarrow> string" where
  "envOrDefault env key fallback = (if env key = '''' then fallback else env key)"

definition envIntOrDefault :: "(string \<Rightarrow> string) \<Rightarrow> string \<Rightarrow> int \<Rightarrow> int res" where
  "envIntOrDefault env key fallback =
     (if env key = '''' then Inr fallback
      else of_option (ErrText (key @ '' must be a valid integer'')) (Atoi (env key)))"

definition envFloatOrDefault :: "(string \<Rightarrow> go_float option) \<Rightarrow> (string \<Rightarrow> string) \<Rightarrow> string \<Rightarrow> go_float \<Rightarrow> go_float res" where
  "envFloatOrDefault ParseFloat env key fallback =
     (if env key = '''' then Inr fallback
      else of_option (ErrText (key @ '' must be a valid number'')) (ParseFloat (env key)))"

definition envBoolOrDefault :: "(string \<Rightarrow> string) \<Rightarrow> string \<Rightarrow> bool \<Rightarrow> bool res" where
  "envBoolOrDefault env key fallback =
     (let v = TrimSpace (env key)
      in if v = '''' then Inr fallback
         else of_option (ErrText (key @ '' must be a valid boolean'')) (ParseBool v))"

text \<open>The conversion \<open>int32(n)\<close>.\<close>

definition to_int32 :: "int \<Rightarrow> int" where
  "to_int32 n = sint (word_of_int n :: 32 word)"

section \<open>The decryption key\<close>

definition pub_bestEffortSecretBytes :: "string \<Rightarrow> bytes" where
  "pub_bestEffortSecretBytes secret =
     (case hex_decode secret of Some decoded \<Rightarrow> decoded
      | None \<Rightarrow> (case b64_decode False True secret of Some decoded \<Rightarrow> decoded
          | None \<Rightarrow> (case b64_decode False False secret of Some decoded \<Rightarrow> decoded | None \<Rightarrow> secret)))"

definition decodeJWTEncKeyHex :: "string \<Rightarrow> bytes res" where
  "decodeJWTEncKeyHex v =
     bind_res (of_option (ErrText ''decode hex key'') (hex_decode v)) (\<lambda>key.
       if length key \<noteq> 32 then Inl (ErrText ''hex key must be 32 bytes'') else Inr key)"

definition decodeJWTEncKeyBase64 :: "string \<Rightarrow> string \<Rightarrow> bytes res" where
  "decodeJWTEncKeyBase64 envName v =
     bind_res (case b64_decode False True v of
         Some key \<Rightarrow> Inr key
       | None \<Rightarrow> of_option (ErrText (''decode '' @ envName @ '' as base64'')) (b64_decode False False v)) (\<lambda>key.
       if length key \<noteq> 32 then Inl (ErrText (envName @ '' must decode to 32 bytes'')) else Inr key)"

definition deriveJWTEncKey :: "string \<Rightarrow> bytes res" where
  "deriveJWTEncKey secret =
     (let trimmed = TrimSpace secret
      in if trimmed = '''' then Inl (ErrText ''JWT_ENC_SECRET must not be empty'')
         else case decodeJWTEncKeyHex trimmed of
             Inr key \<Rightarrow> Inr key
           | Inl _ \<Rightarrow>
               (case decodeJWTEncKeyBase64 ''JWT_ENC_SECRET'' trimmed of
                  Inr key \<Rightarrow> Inr key
                | Inl _ \<Rightarrow> Inr (Sum256 (pub_bestEffortSecretBytes trimmed))))"

definition loadJWTEncKey :: "(string \<Rightarrow> string) \<Rightarrow> bytes res" where
  "loadJWTEncKey env =
     (let secret = TrimSpace (env ''JWT_ENC_SECRET''); base64 = TrimSpace (env ''JWT_ENC_KEY_BASE64'');
          key = TrimSpace (env ''JWT_ENC_KEY''); hex = TrimSpace (env ''JWT_ENC_KEY_HEX'')
      in if secret \<noteq> '''' then deriveJWTEncKey secret
         else if base64 \<noteq> '''' then decodeJWTEncKeyBase64 ''JWT_ENC_KEY_BASE64'' base64
         else if key \<noteq> '''' then decodeJWTEncKeyBase64 ''JWT_ENC_KEY'' key
         else if hex \<noteq> '''' then
           (case decodeJWTEncKeyHex hex of
              Inr key \<Rightarrow> Inr key
            | Inl _ \<Rightarrow> decodeJWTEncKeyBase64 ''JWT_ENC_KEY_HEX'' hex)
         else Inl (ErrText ''set JWT_ENC_SECRET, JWT_ENC_KEY_BASE64, JWT_ENC_KEY, or legacy JWT_ENC_KEY_HEX for A256GCM payload decryption''))"

section \<open>Load\<close>

definition loadDatabaseURL :: "(string \<Rightarrow> string) \<Rightarrow> string res" where
  "loadDatabaseURL env =
     (let databaseURL = TrimSpace (env ''DATABASE_URL'')
      in if databaseURL \<noteq> '''' then Inr databaseURL
         else let host = TrimSpace (env ''POSTGRES_HOST''); database = TrimSpace (env ''POSTGRES_DB'');
                  user = TrimSpace (env ''POSTGRES_USER'')
         in if host = '''' \<or> database = '''' \<or> user = ''''
            then Inl (ErrText ''set DATABASE_URL or configure POSTGRES_HOST, POSTGRES_DB and POSTGRES_USER'')
            else let port = TrimSpace (envOrDefault env ''POSTGRES_PORT'' ''5432'');
                     password = env ''POSTGRES_PASSWORD'';
                     sslMode = TrimSpace (envOrDefault env ''POSTGRES_SSLMODE'' ''disable'');
                     connectionURL = \<lparr>url_Scheme = ''postgres'', url_User = user, url_Password = password,
                       url_Host = JoinHostPort host port, url_Path = database, url_RawQuery = ''''\<rparr>;
                     connectionURL = connectionURL\<lparr>url_RawQuery := encode_query ''sslmode'' sslMode\<rparr>
                 in Inr (URL_String connectionURL))"

text \<open>The durations: the error of the first is passed on, those of the others name the variable.\<close>

definition env_duration :: "string \<Rightarrow> (string \<Rightarrow> string) \<Rightarrow> string \<Rightarrow> string \<Rightarrow> duration res" where
  "env_duration message env key fallback =
     of_option (ErrText message) (ParseDuration (envOrDefault env key fallback))"

definition check_rate_limit :: "PubRateLimit \<Rightarrow> unit res" where
  "check_rate_limit r =
     (if \<not> prl_Enabled r then Inr ()
      else if float_le_zero (prl_RequestsPerSec r)
      then Inl (ErrText ''RATE_LIMIT_RPS must be greater than zero when rate limiting is enabled'')
      else if prl_Burst r \<le> 0
      then Inl (ErrText ''RATE_LIMIT_BURST must be greater than zero when rate limiting is enabled'')
      else if prl_VisitorTTL r \<le> 0
      then Inl (ErrText ''RATE_LIMIT_VISITOR_TTL must be greater than zero when rate limiting is enabled'')
      else if prl_CleanupInterval r \<le> 0
      then Inl (ErrText ''RATE_LIMIT_CLEANUP_INTERVAL must be greater than zero when rate limiting is enabled'')
      else Inr ())"

definition Load :: "(string \<Rightarrow> go_float option) \<Rightarrow> (string \<Rightarrow> string) \<Rightarrow> PubConfig res" where
  "Load ParseFloat env =
     bind_res (envIntOrDefault env ''DB_MAX_CONNS'' 10) (\<lambda>dbMaxConns.
     bind_res (envBoolOrDefault env ''RATE_LIMIT_ENABLED'' True) (\<lambda>rateLimitEnabled.
     bind_res (envIntOrDefault env ''RATE_LIMIT_BURST'' 20) (\<lambda>rateLimitBurst.
     bind_res (envFloatOrDefault ParseFloat env ''RATE_LIMIT_RPS'' (Finite 5)) (\<lambda>rateLimitRPS.
     bind_res (env_duration ''time: invalid duration'' env ''REQUEST_TIMEOUT'' ''5s'') (\<lambda>requestTimeout.
     bind_res (env_duration ''RATE_LIMIT_VISITOR_TTL must be a valid duration'' env ''RATE_LIMIT_VISITOR_TTL'' ''10m'') (\<lambda>visitorTTL.
     bind_res (env_duration ''RATE_LIMIT_CLEANUP_INTERVAL must be a valid duration'' env ''RATE_LIMIT_CLEANUP_INTERVAL'' ''5m'') (\<lambda>cleanupInterval.
     let rateLimit = \<lparr>prl_Enabled = rateLimitEnabled, prl_RequestsPerSec = rateLimitRPS,
           prl_Burst = rateLimitBurst, prl_VisitorTTL = visitorTTL, prl_CleanupInterval = cleanupInterval\<rparr>
     in bind_res (check_rate_limit rateLimit) (\<lambda>_.
     bind_res (loadDatabaseURL env) (\<lambda>databaseURL.
     bind_res (loadJWTEncKey env) (\<lambda>key.
       Inr \<lparr>pc_HTTPAddr = envOrDefault env ''HTTP_ADDR'' '':8080'', pc_DatabaseURL = databaseURL,
         pc_RequestTimeout = requestTimeout, pc_LogLevel = envOrDefault env ''LOG_LEVEL'' ''info'',
         pc_DBMaxConns = to_int32 dbMaxConns, pc_JWTEncKey = key, pc_RateLimit = rateLimit\<rparr>))))))))))"

section \<open>Facts\<close>

lemma length_loadJWTEncKey: "loadJWTEncKey env = Inr key \<Longrightarrow> length key = 32"
  by (auto simp: loadJWTEncKey_def deriveJWTEncKey_def decodeJWTEncKeyHex_def decodeJWTEncKeyBase64_def Let_def
      split: if_splits option.splits sum.splits)

lemma to_int32_exact: "- (2 ^ 31) \<le> n \<Longrightarrow> n < 2 ^ 31 \<Longrightarrow> to_int32 n = n"
  by (simp add: to_int32_def int_word_sint)

lemma to_int32_range: "- (2 ^ 31) \<le> to_int32 n \<and> to_int32 n < 2 ^ 31"
  using sint_range_size[of "word_of_int n :: 32 word"] by (simp add: to_int32_def word_size)

text \<open>A positive setting above the range of \<open>int32\<close> becomes another number, a negative one here.\<close>

lemma db_max_conns_wraps: "to_int32 2147483648 = - 2147483648"
  by (simp add: to_int32_def)

text \<open>NaN is accepted as a rate.\<close>

lemma nan_rate_accepted: "check_rate_limit \<lparr>prl_Enabled = True, prl_RequestsPerSec = NaN, prl_Burst = 20,
    prl_VisitorTTL = 1, prl_CleanupInterval = 1\<rparr> = Inr ()"
  by (simp add: check_rate_limit_def)

end
