(* ===== verification/RateLimit.thy ===== *)
theory RateLimit
  imports PubConfig
begin

text \<open>
  The rate limiter of \<open>pubver/internal/httpapi/middleware.go\<close>: one token bucket per client address,
  dropped when it has been idle.  The bucket itself is \<open>golang.org/x/time/rate\<close>, a parameter; a
  bucket is shared by pointer with the map, so what a cancelled reservation gives back is seen there.
\<close>

section \<open>The library\<close>

record ('l, 'r) rate_lib =
  rl_NewLimiter :: "go_float \<Rightarrow> int \<Rightarrow> 'l"
  rl_ReserveN :: "'l \<Rightarrow> time \<Rightarrow> int \<Rightarrow> 'r \<times> 'l"
  rl_OK :: "'r \<Rightarrow> bool"
  rl_DelayFrom :: "'r \<Rightarrow> time \<Rightarrow> duration"
  rl_CancelAt :: "'l \<Rightarrow> 'r \<Rightarrow> time \<Rightarrow> 'l"

text \<open>\<open>Time.Sub\<close> saturates; \<open>Duration.Seconds\<close> adds two floats.\<close>

definition time_Sub :: "time \<Rightarrow> time \<Rightarrow> duration" where
  "time_Sub t u = max int_min (min int_max (t - u))"

definition Seconds :: "duration \<Rightarrow> rat" where
  "Seconds d = float64 (of_int (d div 1000000000) + float64 (of_int (d mod 1000000000) / 1000000000))"

section \<open>The limiter\<close>

record 'l visitor =
  vis_limiter :: 'l
  vis_lastSeen :: time

text \<open>\<open>lastCleanup\<close> is the zero time at first.\<close>

record 'l ipRateLimiter =
  lim_limit :: go_float
  lim_burst :: int
  lim_visitorTTL :: duration
  lim_cleanupInterval :: duration
  lim_lastCleanup :: "time option"
  lim_visitors :: "string \<Rightarrow> 'l visitor option"

definition newIPRateLimiter :: "PubRateLimit \<Rightarrow> 'l ipRateLimiter" where
  "newIPRateLimiter cfg =
     \<lparr>lim_limit = prl_RequestsPerSec cfg, lim_burst = prl_Burst cfg, lim_visitorTTL = prl_VisitorTTL cfg,
      lim_cleanupInterval = prl_CleanupInterval cfg, lim_lastCleanup = None, lim_visitors = (\<lambda>_. None)\<rparr>"

definition cleanupVisitors :: "time \<Rightarrow> 'l ipRateLimiter \<Rightarrow> 'l ipRateLimiter" where
  "cleanupVisitors now l =
     (if lim_cleanupInterval l \<le> 0 \<or> lim_visitorTTL l \<le> 0 then l
      else if (case lim_lastCleanup l of None \<Rightarrow> False
               | Some last_cleanup \<Rightarrow> time_Sub now last_cleanup < lim_cleanupInterval l) then l
      else l\<lparr>lim_visitors := (\<lambda>clientIP. case lim_visitors l clientIP of
               None \<Rightarrow> None
             | Some entry \<Rightarrow>
                 if time_Sub now (vis_lastSeen entry) > lim_visitorTTL l then None else Some entry),
             lim_lastCleanup := Some now\<rparr>)"

text \<open>\<open>reserve\<close>: the reservation and the limiter with the bucket of the client updated.\<close>

definition reserve :: "('l, 'r) rate_lib \<Rightarrow> string \<Rightarrow> time \<Rightarrow> 'l ipRateLimiter \<Rightarrow> 'r \<times> 'l ipRateLimiter" where
  "reserve lib clientIP now l =
     (let l = cleanupVisitors now l;
          limiter = (case lim_visitors l clientIP of
              None \<Rightarrow> rl_NewLimiter lib (lim_limit l) (lim_burst l)
            | Some entry \<Rightarrow> vis_limiter entry)
      in case rl_ReserveN lib limiter now 1 of
           (reservation, limiter) \<Rightarrow>
             (reservation, l\<lparr>lim_visitors := (lim_visitors l)
                (clientIP := Some \<lparr>vis_limiter = limiter, vis_lastSeen = now\<rparr>)\<rparr>))"

text \<open>\<open>reservation.CancelAt(now)\<close> acts on the bucket the reservation was taken from.\<close>

definition cancel_reservation :: "('l, 'r) rate_lib \<Rightarrow> string \<Rightarrow> 'r \<Rightarrow> time \<Rightarrow> 'l ipRateLimiter \<Rightarrow> 'l ipRateLimiter" where
  "cancel_reservation lib clientIP reservation now l =
     l\<lparr>lim_visitors := (\<lambda>ip. if ip = clientIP
         then map_option (\<lambda>entry. entry\<lparr>vis_limiter := rl_CancelAt lib (vis_limiter entry) reservation now\<rparr>)
                (lim_visitors l ip)
         else lim_visitors l ip)\<rparr>"

definition retry_after :: "duration \<Rightarrow> int" where
  "retry_after delay = (let retryAfter = \<lceil>Seconds delay\<rceil> in if retryAfter < 1 then 1 else retryAfter)"

datatype decision = Proceed | RejectOutright | RejectFor int

text \<open>The decision of \<open>withRateLimit\<close> on a request that is not a health check.\<close>

definition limit_request :: "('l, 'r) rate_lib \<Rightarrow> string \<Rightarrow> time \<Rightarrow> 'l ipRateLimiter \<Rightarrow> decision \<times> 'l ipRateLimiter" where
  "limit_request lib clientIP now l =
     (case reserve lib clientIP now l of
        (reservation, l) \<Rightarrow>
          if \<not> rl_OK lib reservation then (RejectOutright, l)
          else let delay = rl_DelayFrom lib reservation now
               in if delay > 0
                  then (RejectFor (retry_after delay), cancel_reservation lib clientIP reservation now l)
                  else (Proceed, l))"

text \<open>The decisions on a sequence of requests, each an address and an instant.\<close>

fun limit_requests :: "('l, 'r) rate_lib \<Rightarrow> (string \<times> time) list \<Rightarrow> 'l ipRateLimiter \<Rightarrow> decision list" where
  "limit_requests lib [] l = []"
| "limit_requests lib ((ip, now) # rs) l =
     (case limit_request lib ip now l of (d, l) \<Rightarrow> d # limit_requests lib rs l)"

section \<open>The abstract limiter\<close>

text \<open>One bucket per client for ever, none is dropped.\<close>

definition bucket_step :: "('l, 'r) rate_lib \<Rightarrow> time \<Rightarrow> 'l \<Rightarrow> decision \<times> 'l" where
  "bucket_step lib now limiter =
     (case rl_ReserveN lib limiter now 1 of
        (reservation, limiter) \<Rightarrow>
          if \<not> rl_OK lib reservation then (RejectOutright, limiter)
          else let delay = rl_DelayFrom lib reservation now
               in if delay > 0 then (RejectFor (retry_after delay), rl_CancelAt lib limiter reservation now)
                  else (Proceed, limiter))"

fun ideal_decisions :: "('l, 'r) rate_lib \<Rightarrow> (string \<times> time) list \<Rightarrow> (string \<Rightarrow> 'l) \<Rightarrow> decision list" where
  "ideal_decisions lib [] f = []"
| "ideal_decisions lib ((ip, now) # rs) f =
     (case bucket_step lib now (f ip) of (d, limiter) \<Rightarrow> d # ideal_decisions lib rs (f(ip := limiter)))"

text \<open>
  What is used of the library: buckets that are alike from an instant on answer alike, and a bucket
  that has been idle for longer than the lifetime of a visitor is like a new one.
\<close>

definition forgets_idle :: "('l, 'r) rate_lib \<Rightarrow> 'l \<Rightarrow> duration \<Rightarrow> ('l \<Rightarrow> bool) \<Rightarrow> (time \<Rightarrow> 'l \<Rightarrow> 'l \<Rightarrow> bool) \<Rightarrow> bool" where
  "forgets_idle lib new ttl sane like \<longleftrightarrow>
     sane new \<and> (\<forall>now l. sane l \<longrightarrow> sane (snd (bucket_step lib now l))) \<and>
     (\<forall>t. like t new new) \<and>
     (\<forall>t now l m. like t l m \<and> t \<le> now \<longrightarrow>
        fst (bucket_step lib now l) = fst (bucket_step lib now m) \<and>
        like now (snd (bucket_step lib now l)) (snd (bucket_step lib now m))) \<and>
     (\<forall>t now l. sane l \<and> now - t > ttl \<longrightarrow> like now new (snd (bucket_step lib t l)))"

lemma limit_request_bucket:
  assumes "l' = cleanupVisitors now l"
    "limiter = (case lim_visitors l' ip of None \<Rightarrow> rl_NewLimiter lib (lim_limit l') (lim_burst l')
       | Some entry \<Rightarrow> vis_limiter entry)"
    "bucket_step lib now limiter = (d, m)"
  shows "limit_request lib ip now l =
    (d, l'\<lparr>lim_visitors := (lim_visitors l')(ip := Some \<lparr>vis_limiter = m, vis_lastSeen = now\<rparr>)\<rparr>)"
proof -
  obtain r m' where r: "rl_ReserveN lib limiter now 1 = (r, m')" by force
  then show ?thesis
    using assms(3) unfolding limit_request_def reserve_def assms(1)[symmetric] Let_def assms(2)[symmetric]
    by (auto simp: bucket_step_def cancel_reservation_def Let_def fun_eq_iff split: if_splits)
qed

lemma time_Sub_gt: "time_Sub t u > d \<Longrightarrow> d > 0 \<Longrightarrow> t - u > d"
  by (auto simp: time_Sub_def int_min_def max_def min_def split: if_splits)

text \<open>How the limiter with cleanup stands for the ideal one at an instant.\<close>

definition stands_for :: "(time \<Rightarrow> 'l \<Rightarrow> 'l \<Rightarrow> bool) \<Rightarrow> ('l \<Rightarrow> bool) \<Rightarrow> 'l \<Rightarrow> time \<Rightarrow> 'l ipRateLimiter \<Rightarrow> (string \<Rightarrow> 'l) \<Rightarrow> bool" where
  "stands_for like sane new now l f \<longleftrightarrow>
     (\<forall>ip. sane (f ip) \<and>
        (case lim_visitors l ip of
           None \<Rightarrow> (\<exists>t \<le> now. like t new (f ip))
         | Some entry \<Rightarrow> (\<exists>t \<le> now. like t (vis_limiter entry) (f ip)) \<and>
             (\<forall>t. t - vis_lastSeen entry > lim_visitorTTL l \<longrightarrow> like t new (f ip))))"

lemma cleanup_fields [simp]:
  "lim_limit (cleanupVisitors now l) = lim_limit l" "lim_burst (cleanupVisitors now l) = lim_burst l"
  "lim_visitorTTL (cleanupVisitors now l) = lim_visitorTTL l"
  "lim_cleanupInterval (cleanupVisitors now l) = lim_cleanupInterval l"
  by (auto simp: cleanupVisitors_def split: option.splits)

lemma stands_for_mono: "stands_for like sane new t l f \<Longrightarrow> t \<le> now \<Longrightarrow> stands_for like sane new now l f"
  unfolding stands_for_def
  by (smt (verit, best) option.case_eq_if)

lemma stands_for_cleanup:
  assumes "stands_for like sane new now l f"
  shows "stands_for like sane new now (cleanupVisitors now l) f"
  using assms unfolding stands_for_def cleanup_fields
  by (fastforce simp: cleanupVisitors_def split: option.splits if_splits dest: time_Sub_gt)

end
