(* ===== verification/GoUrl.thy ===== *)
theory GoUrl
  imports GoTime
begin

text \<open>
  Reading of escaped URL parts (\<open>net/url\<close>), \<open>path.Clean\<close> of a rooted path and the path handling of
  \<open>net/http\<close>: \<open>cleanPath\<close>, \<open>htmlEscape\<close>, \<open>hexEscapeNonASCII\<close>.
\<close>

section \<open>Unescaping\<close>

text \<open>
  \<open>unescape\<close> of a path or a query component; as in \<open>pathUnescape\<close>, an escape that is none is left
  alone.
\<close>

fun url_unescape :: "encoding \<Rightarrow> string \<Rightarrow> string" where
  "url_unescape mode [] = []"
| "url_unescape mode (c # s) =
     (if c = CHR ''%'' \<and> 2 \<le> length s \<and> hex_value (s ! 0) \<noteq> None \<and> hex_value (s ! 1) \<noteq> None
      then byte (16 * the (hex_value (s ! 0)) + the (hex_value (s ! 1))) # url_unescape mode (drop 2 s)
      else if c = CHR ''+'' \<and> mode = encodeQueryComponent then CHR '' '' # url_unescape mode s
      else c # url_unescape mode s)"

lemma hex_value_upperhex: "n < 16 \<Longrightarrow> hex_value (upperhex n) = Some n"
proof -
  have "\<forall>n \<in> set [0..<16]. hex_value (upperhex n) = Some n" by code_simp
  then show "n < 16 \<Longrightarrow> hex_value (upperhex n) = Some n" by simp
qed

lemma upperhex_alphanumeric: "n < 16 \<Longrightarrow> alphanumeric (upperhex n)"
proof -
  have "\<forall>n \<in> set [0..<16]. alphanumeric (upperhex n)" by code_simp
  then show "n < 16 \<Longrightarrow> alphanumeric (upperhex n)" by simp
qed

lemma shouldEscape_percent [simp]: "shouldEscape (CHR ''%'') mode"
  by (simp add: shouldEscape_def alphanumeric_def)

lemma shouldEscape_plus [simp]: "shouldEscape (CHR ''+'') encodeQueryComponent"
  by (simp add: shouldEscape_def alphanumeric_def)

theorem url_unescape_escape [simp]: "url_unescape mode (url_escape mode s) = s"
proof (induction s)
  case (Cons c s)
  have "code c = 16 * (code c div 16) + code c mod 16" by simp
  then have b: "byte (16 * (code c div 16) + code c mod 16) = c"
    by (metis byte_eq_char code_lt)
  have "code c div 16 < 16" using code_lt[of c] by simp
  with Cons b show ?case
    by (cases "c = CHR ''%''"; cases "c = CHR ''+''")
      (auto simp: url_escape_def escape_char_def hex_value_upperhex)
qed (simp add: url_escape_def)

corollary url_escape_inject [simp]: "url_escape mode s = url_escape mode t \<longleftrightarrow> s = t"
  by (metis url_unescape_escape)

text \<open>\<open>validEncoded\<close>, and \<open>EscapedPath\<close> of a URL parsed with this path.\<close>

definition validEncodedPath :: "string \<Rightarrow> bool" where
  "validEncodedPath s = list_all (\<lambda>c. c \<in> set ''!$&()*+,;=:@[]%'' \<or> code c = 39 \<or> \<not> shouldEscape c encodePath) s"

definition EscapedPath :: "string \<Rightarrow> string" where
  "EscapedPath p = (if validEncodedPath p then p else url_escape encodePath (url_unescape encodePath p))"

section \<open>Clean paths\<close>

fun clean_elems :: "string list \<Rightarrow> string list \<Rightarrow> string list" where
  "clean_elems acc [] = rev acc"
| "clean_elems acc (e # es) =
     (if e = '''' \<or> e = ''.'' then clean_elems acc es
      else if e = ''..'' then clean_elems (tl acc) es
      else clean_elems (e # acc) es)"

text \<open>\<open>path.Clean\<close> of a path that begins with a slash.\<close>

definition path_Clean :: "string \<Rightarrow> string" where
  "path_Clean p = ''/'' @ Join (clean_elems [] (Split (CHR ''/'') p)) ''/''"

definition cleanPath :: "string \<Rightarrow> string" where
  "cleanPath p =
     (if p = '''' then ''/''
      else let p = (if hd p \<noteq> CHR ''/'' then ''/'' @ p else p);
               np = path_Clean p
           in if last p = CHR ''/'' \<and> np \<noteq> ''/'' then np @ ''/'' else np)"

lemma cleanPath_examples:
  "cleanPath '''' = ''/''" "cleanPath ''//healthz'' = ''/healthz''" "cleanPath ''/a/./b/../c/'' = ''/a/c/''"
  "cleanPath ''/../x'' = ''/x''" "cleanPath ''/'' = ''/''" "cleanPath ''/api/v1/verify'' = ''/api/v1/verify''"
  by code_simp+

section \<open>Escaping for headers and HTML\<close>

definition htmlEscape :: "string \<Rightarrow> string" where
  "htmlEscape s = concat (map (\<lambda>c. if c = CHR ''&'' then ''&amp;'' else if c = CHR ''<'' then ''&lt;''
     else if c = CHR ''>'' then ''&gt;'' else if code c = 34 then ''&#34;'' else if code c = 39 then ''&#39;''
     else [c]) s)"

definition hexEscapeNonASCII :: "string \<Rightarrow> string" where
  "hexEscapeNonASCII s = concat (map (\<lambda>c. if 128 \<le> code c
     then [CHR ''%'', hex_char (code c div 16), hex_char (code c mod 16)] else [c]) s)"

end
