(* ===== verification/PubHttp.thy ===== *)
theory PubHttp
  imports RateLimit PubVerify GoUrl
begin

text \<open>
  \<open>pubver/internal/httpapi\<close> (\<open>router.go\<close>, \<open>middleware.go\<close>, \<open>context.go\<close>) and the wiring of
  \<open>cmd/pubver/main.go\<close>.  A handler takes the context, the request and the state (the database, the
  rate limiter, the log and the response under way) and says whether it has panicked.  Headers and
  query parameters are read by name, absent ones are empty.  \<open>net/netip\<close> and the status with which the
  \<open>ServeMux\<close> of the toolchain redirects are arguments.
\<close>

section \<open>Requests, responses and the log\<close>

text \<open>
  An HTTP/1.1 request as \<open>net/http\<close> hands it to the handler.  The path is that of the request line,
  escaped as it came; \<open>URL_Path\<close> is its decoded form \<open>r.URL.Path\<close>.
\<close>

record pub_request =
  pq_Method :: string
  pq_Path :: string
  pq_RawQuery :: string
  pq_header :: "string \<Rightarrow> string"
  pq_query :: "string \<Rightarrow> string"
  pq_RemoteAddr :: string

definition URL_Path :: "pub_request \<Rightarrow> string" where
  "URL_Path r = url_unescape encodePath (pq_Path r)"

datatype pub_payload =
    StatusMap "(string \<times> string) list"
  | VerifyBody VerifyResponse
  | SearchBody SearchResponse

datatype pub_body = PubText string | PubJSON pub_payload

datatype log_entry =
    HttpRequest "string \<times> string \<times> string \<times> nat \<times> string"
  | PanicRecovered string
  | RateLimitRejected string string
  | RateLimitExceeded string string int
  | RequestFailed verr
  | EncodeFailed

text \<open>
  The response writer: headers so far, what has been sent (status and headers), the body, and the
  status the \<open>statusRecorder\<close> around it has recorded.
\<close>

record writer =
  wr_header :: "string \<rightharpoonup> string"
  wr_sent :: "(nat \<times> (string \<rightharpoonup> string)) option"
  wr_body :: "pub_body list"
  wr_recorded :: nat

record 'l pub_state =
  ps_sess :: sess
  ps_limiter :: "'l ipRateLimiter"
  ps_log :: "log_entry list"
  ps_writer :: writer

record pub_ctx =
  cx_requestID :: "string option"
  cx_deadline :: "time option"

type_synonym 'l pub_handler = "pub_ctx \<Rightarrow> pub_request \<Rightarrow> 'l pub_state \<Rightarrow> bool \<times> 'l pub_state"

text \<open>What a request draws from outside: the clock, the random source, the clock of a fallback.\<close>

record pub_draws =
  pd_now :: time
  pd_rand :: "bytes option"
  pd_UnixNano :: int

text \<open>
  \<open>net/netip\<close>, and the status of the redirects of \<open>ServeMux\<close>: 301 up to Go 1.25, 307 from Go 1.26.
\<close>

record net_lib =
  ni_ParseAddrPort :: "string \<Rightarrow> string option"
  ni_ParseAddr :: "string \<Rightarrow> string option"
  ni_RedirectStatus :: nat

text \<open>The interface \<open>verificationService\<close>; a call that yields nothing has panicked.\<close>

record verificationService =
  vs_VerifyPayload :: "string \<Rightarrow> sess \<Rightarrow> VerifyResponse vres option \<times> sess"
  vs_Search :: "string \<Rightarrow> string \<Rightarrow> sess \<Rightarrow> SearchResponse vres option \<times> sess"

definition NewVerificationService :: "ed25519_lib \<Rightarrow> bytes \<Rightarrow> verificationService" where
  "NewVerificationService lib encKey =
     \<lparr>vs_VerifyPayload = (\<lambda>token s. case VerifyPayload lib encKey token s of (r, s) \<Rightarrow> (Some r, s)),
      vs_Search = (\<lambda>vuzCode number s. case PubSearch encKey vuzCode number s of (r, s) \<Rightarrow> (Some r, s))\<rparr>"

section \<open>The response writer\<close>

definition set_header :: "string \<Rightarrow> string \<Rightarrow> 'l pub_state \<Rightarrow> 'l pub_state" where
  "set_header k v s = s\<lparr>ps_writer := (ps_writer s)\<lparr>wr_header := (wr_header (ps_writer s))(k \<mapsto> v)\<rparr>\<rparr>"

text \<open>Only the first \<open>WriteHeader\<close> is sent; the recorder keeps the last.\<close>

definition WriteHeader :: "nat \<Rightarrow> 'l pub_state \<Rightarrow> 'l pub_state" where
  "WriteHeader statusCode s =
     (let w = (ps_writer s)\<lparr>wr_recorded := statusCode\<rparr>
      in s\<lparr>ps_writer := (if wr_sent w = None then w\<lparr>wr_sent := Some (statusCode, wr_header w)\<rparr> else w)\<rparr>)"

definition Write :: "pub_body \<Rightarrow> 'l pub_state \<Rightarrow> 'l pub_state" where
  "Write b s =
     (let w = ps_writer s; w = (if wr_sent w = None then w\<lparr>wr_sent := Some (200, wr_header w)\<rparr> else w)
      in s\<lparr>ps_writer := w\<lparr>wr_body := wr_body w @ [b]\<rparr>\<rparr>)"

definition log_event :: "log_entry \<Rightarrow> 'l pub_state \<Rightarrow> 'l pub_state" where
  "log_event e s = s\<lparr>ps_log := ps_log s @ [e]\<rparr>"

text \<open>
  \<open>encoding/json\<close> refuses of these values only an instant outside the years 0 to 9999 (in UTC).
\<close>

definition json_time :: "time \<Rightarrow> bool" where
  "json_time t = (- 62167219200000000000 \<le> t \<and> t < 253402300800000000000)"

fun encodable :: "pub_payload \<Rightarrow> bool" where
  "encodable (StatusMap _) = True"
| "encodable (VerifyBody r) = (case vr_RevokedAt r of None \<Rightarrow> True | Some t \<Rightarrow> json_time t)"
| "encodable (SearchBody _) = True"

definition pub_writeJSON :: "nat \<Rightarrow> pub_payload \<Rightarrow> 'l pub_state \<Rightarrow> 'l pub_state" where
  "pub_writeJSON status payload s =
     (if \<not> encodable payload
      then let s = log_event EncodeFailed s;
               s = set_header ''Content-Type'' ''application/json'' s;
               s = WriteHeader 500 s
           in Write (PubJSON (StatusMap [(''error'', ''internal server error'')])) s
      else let s = set_header ''Content-Type'' ''application/json'' s;
               s = WriteHeader status s
           in Write (PubJSON payload) s)"

section \<open>router.go\<close>

text \<open>\<open>err.Error()\<close>; \<open>text\<close> is that of an error of the database driver.\<close>

fun verr_Error :: "(err \<Rightarrow> string) \<Rightarrow> verr \<Rightarrow> string" where
  "verr_Error text ErrInvalidPayload = ''invalid payload''"
| "verr_Error text ErrInvalidInput = ''invalid input''"
| "verr_Error text ErrDiplomaHashClaimMismatch = ''diploma_hash claim mismatch''"
| "verr_Error text ErrSubClaimMismatch = ''sub claim mismatch''"
| "verr_Error text ErrDiplomaRecordNotFound = ''diploma record not found''"
| "verr_Error text ErrUniversityVerificationKeyNotFound = ''university verification key not found''"
| "verr_Error text (Errorf m) = m"
| "verr_Error text (ErrDriver e) = text e"
| "verr_Error text (Joined es) = Join (map (verr_Error text) es) [byte 10]"

definition pub_writeError :: "(err \<Rightarrow> string) \<Rightarrow> verr \<Rightarrow> 'l pub_state \<Rightarrow> 'l pub_state" where
  "pub_writeError text e s =
     (if errors_Is e ErrInvalidInput then pub_writeJSON 400 (StatusMap [(''error'', verr_Error text e)]) s
      else if errors_Is e ErrInvalidPayload
      then pub_writeJSON 400 (StatusMap [(''error'', ''invalid verification payload'')]) s
      else pub_writeJSON 500 (StatusMap [(''error'', ''internal server error'')]) (log_event (RequestFailed e) s))"

definition healthz :: "'l pub_handler" where
  "healthz c r s = (False, pub_writeJSON 200 (StatusMap [(''status'', ''ok'')]) s)"

text \<open>A call of the service: a panic, an error, or a response.\<close>

definition answer :: "(err \<Rightarrow> string) \<Rightarrow> ('a \<Rightarrow> pub_payload) \<Rightarrow> 'a vres option \<times> sess \<Rightarrow> 'l pub_state \<Rightarrow> bool \<times> 'l pub_state" where
  "answer text body result s =
     (case result of (r, db) \<Rightarrow>
        let s = s\<lparr>ps_sess := db\<rparr>
        in case r of
             None \<Rightarrow> (True, s)
           | Some (Inl e) \<Rightarrow> (False, pub_writeError text e s)
           | Some (Inr response) \<Rightarrow> (False, pub_writeJSON 200 (body response) s))"

definition pub_verify :: "(err \<Rightarrow> string) \<Rightarrow> verificationService \<Rightarrow> 'l pub_handler" where
  "pub_verify text service c r s =
     (let payload = TrimSpace (pq_query r ''payload'')
      in answer text VerifyBody (vs_VerifyPayload service payload (ps_sess s)) s)"

definition pub_search :: "(err \<Rightarrow> string) \<Rightarrow> verificationService \<Rightarrow> 'l pub_handler" where
  "pub_search text service c r s =
     (let diplomaNumber = TrimSpace (pq_query r ''diploma_number'');
          vuzCode = TrimSpace (pq_query r ''vuz_code'')
      in answer text SearchBody (vs_Search service vuzCode diplomaNumber (ps_sess s)) s)"

section \<open>http.ServeMux\<close>

text \<open>\<open>http.Error\<close>, as the mux answers unknown paths and methods.\<close>

definition mux_error :: "nat \<Rightarrow> string \<Rightarrow> 'l pub_state \<Rightarrow> 'l pub_state" where
  "mux_error status text s =
     (let s = set_header ''Content-Type'' ''text/plain; charset=utf-8'' s;
          s = set_header ''X-Content-Type-Options'' ''nosniff'' s
      in Write (PubText (text @ [byte 10])) (WriteHeader status s))"

text \<open>\<open>http.StatusText\<close> of a redirect, and the redirect to a clean path.\<close>

definition redirect_text :: "nat \<Rightarrow> string" where
  "redirect_text status =
     (if status = 301 then ''Moved Permanently'' else if status = 307 then ''Temporary Redirect'' else '''')"

definition redirect_link :: "nat \<Rightarrow> string \<Rightarrow> string" where
  "redirect_link status url =
     ''<a href='' @ [byte 34] @ htmlEscape url @ [byte 34] @ ''>'' @ redirect_text status @ ''</a>.'' @ [byte 10, byte 10]"

definition mux_redirect :: "net_lib \<Rightarrow> string \<Rightarrow> 'l pub_handler" where
  "mux_redirect ni path c r s =
     (let url = url_escape encodePath path @ (if pq_RawQuery r \<noteq> '''' then ''?'' @ pq_RawQuery r else '''');
          s = set_header ''Location'' (hexEscapeNonASCII url) s;
          s = (if pq_Method r \<in> {''GET'', ''HEAD''} then set_header ''Content-Type'' ''text/html; charset=utf-8'' s else s);
          s = WriteHeader (ni_RedirectStatus ni) s
      in (False, if pq_Method r = ''GET'' then Write (PubText (redirect_link (ni_RedirectStatus ni) url)) s else s))"

text \<open>
  \<open>ServeHTTP\<close> and \<open>findHandler\<close> for the three patterns of the router, which have no wildcard, no host
  and no trailing slash.  A pattern matches segment by segment, each segment unescaped, and the
  method \<open>GET\<close> of a pattern includes \<open>HEAD\<close>.  But for \<open>CONNECT\<close>, a path that is not clean is
  redirected, whether its clean form has a handler or not.
\<close>

definition path_segments :: "string \<Rightarrow> string list" where
  "path_segments p = map (url_unescape encodePath) (Split (CHR ''/'') (tl p))"

definition mux :: "net_lib \<Rightarrow> (err \<Rightarrow> string) \<Rightarrow> verificationService \<Rightarrow> 'l pub_handler" where
  "mux ni text service c r s =
     (let table = [([''healthz''], healthz), ([''api'', ''v1'', ''verify''], pub_verify text service),
                   ([''api'', ''v1'', ''verify'', ''search''], pub_search text service)];
          escapedPath = EscapedPath (pq_Path r);
          path = (if pq_Method r = ''CONNECT'' then escapedPath else cleanPath escapedPath)
      in if pq_Path r = ''*'' then (False, WriteHeader 400 (set_header ''Connection'' ''close'' s))
         else if path \<noteq> escapedPath then mux_redirect ni path c r s
         else case map_of table (path_segments path) of
           None \<Rightarrow> (False, mux_error 404 ''404 page not found'' s)
         | Some h \<Rightarrow>
             if pq_Method r \<in> {''GET'', ''HEAD''} then h c r s
             else (False, mux_error 405 ''Method Not Allowed'' (set_header ''Allow'' ''GET, HEAD'' s)))"

section \<open>context.go and middleware.go\<close>

definition withRequestIDContext :: "pub_ctx \<Rightarrow> string \<Rightarrow> pub_ctx" where
  "withRequestIDContext c requestID = c\<lparr>cx_requestID := Some requestID\<rparr>"

definition requestIDFromContext :: "pub_ctx \<Rightarrow> string" where
  "requestIDFromContext c = (case cx_requestID c of None \<Rightarrow> '''' | Some requestID \<Rightarrow> requestID)"

definition withLogging :: "'l pub_handler \<Rightarrow> 'l pub_handler" where
  "withLogging next_handler c r s =
     (let s = s\<lparr>ps_writer := (ps_writer s)\<lparr>wr_recorded := 200\<rparr>\<rparr>
      in case next_handler c r s of
           (True, s) \<Rightarrow> (True, s)
         | (False, s) \<Rightarrow>
             (False, log_event (HttpRequest (requestIDFromContext c, pq_Method r, URL_Path r,
                wr_recorded (ps_writer s), pq_RemoteAddr r)) s))"

definition withRecover :: "'l pub_handler \<Rightarrow> 'l pub_handler" where
  "withRecover next_handler c r s =
     (case next_handler c r s of
        (True, s) \<Rightarrow>
          (let s = log_event (PanicRecovered (requestIDFromContext c)) s
           in (False, pub_writeJSON 500 (StatusMap [(''error'', ''internal server error'')]) s))
      | (False, s) \<Rightarrow> (False, s))"

definition extractClientIP :: "net_lib \<Rightarrow> pub_request \<Rightarrow> string" where
  "extractClientIP ni r =
     (let forwardedFor = TrimSpace (pq_header r ''X-Forwarded-For'');
          firstHop = TrimSpace (hd (Split (CHR '','') forwardedFor));
          realIP = TrimSpace (pq_header r ''X-Real-IP'');
          host = TrimSpace (pq_RemoteAddr r)
      in if forwardedFor \<noteq> '''' \<and> firstHop \<noteq> '''' then firstHop
         else if realIP \<noteq> '''' then realIP
         else case ni_ParseAddrPort ni host of
             Some addr \<Rightarrow> addr
           | None \<Rightarrow> (case ni_ParseAddr ni host of Some addr \<Rightarrow> addr | None \<Rightarrow> host))"

definition writeRateLimitExceeded :: "int \<Rightarrow> 'l pub_state \<Rightarrow> 'l pub_state" where
  "writeRateLimitExceeded retryAfterSeconds s =
     (let s = set_header ''Retry-After'' (Itoa retryAfterSeconds) s
      in pub_writeJSON 429 (StatusMap [(''error'', ''rate limit exceeded'')]) s)"

definition withRateLimit :: "('l, 'r) rate_lib \<Rightarrow> net_lib \<Rightarrow> pub_draws \<Rightarrow> 'l pub_handler \<Rightarrow> 'l pub_handler" where
  "withRateLimit lib ni draws next_handler c r s =
     (if URL_Path r = ''/healthz'' then next_handler c r s
      else let clientIP = extractClientIP ni r; now = pd_now draws
           in case limit_request lib clientIP now (ps_limiter s) of
                (taken, limiter) \<Rightarrow>
                  let s = s\<lparr>ps_limiter := limiter\<rparr>
                  in case taken of
                       RejectOutright \<Rightarrow>
                         (False, writeRateLimitExceeded 1 (log_event (RateLimitRejected clientIP (URL_Path r)) s))
                     | RejectFor retryAfter \<Rightarrow>
                         (False, writeRateLimitExceeded retryAfter
                            (log_event (RateLimitExceeded clientIP (URL_Path r) retryAfter) s))
                     | Proceed \<Rightarrow> next_handler c r s)"

definition newRequestID :: "pub_draws \<Rightarrow> string" where
  "newRequestID draws =
     (case pd_rand draws of
        None \<Rightarrow> ''fallback-'' @ Itoa (pd_UnixNano draws)
      | Some b \<Rightarrow> hex_encode (take 12 b))"

definition withRequestID :: "pub_draws \<Rightarrow> 'l pub_handler \<Rightarrow> 'l pub_handler" where
  "withRequestID draws next_handler c r s =
     (let requestID = pq_header r ''X-Request-ID'';
          requestID = (if requestID = '''' then newRequestID draws else requestID);
          s = set_header ''X-Request-ID'' requestID s
      in next_handler (withRequestIDContext c requestID) r s)"

text \<open>The deadline: a database call past it fails, which is one of the faults of the session.\<close>

definition withRequestTimeout :: "pub_draws \<Rightarrow> duration \<Rightarrow> 'l pub_handler \<Rightarrow> 'l pub_handler" where
  "withRequestTimeout draws timeout next_handler c r s =
     next_handler (c\<lparr>cx_deadline := Some (pd_now draws + timeout)\<rparr>) r s"

definition NewRouter :: "('l, 'r) rate_lib \<Rightarrow> net_lib \<Rightarrow> (err \<Rightarrow> string) \<Rightarrow> duration \<Rightarrow> PubRateLimit \<Rightarrow>
    verificationService \<Rightarrow> pub_draws \<Rightarrow> 'l pub_handler" where
  "NewRouter lib ni text requestTimeout rateLimitConfig service draws =
     (let httpHandler = mux ni text service;
          httpHandler = (if prl_Enabled rateLimitConfig then withRateLimit lib ni draws httpHandler else httpHandler)
      in withRequestTimeout draws requestTimeout
           (withRecover (withRequestID draws (withLogging httpHandler))))"

section \<open>main.go\<close>

text \<open>A served request: a fresh writer and the background context.\<close>

definition fresh_writer :: writer where
  "fresh_writer = \<lparr>wr_header = Map.empty, wr_sent = None, wr_body = [], wr_recorded = 200\<rparr>"

definition serve_http :: "'l pub_handler \<Rightarrow> pub_request \<Rightarrow> 'l pub_state \<Rightarrow> bool \<times> 'l pub_state" where
  "serve_http h r s = h \<lparr>cx_requestID = None, cx_deadline = None\<rparr> r (s\<lparr>ps_writer := fresh_writer\<rparr>)"

definition pub_server :: "('l, 'r) rate_lib \<Rightarrow> net_lib \<Rightarrow> (err \<Rightarrow> string) \<Rightarrow> ed25519_lib \<Rightarrow> PubConfig \<Rightarrow>
    pub_draws \<Rightarrow> pub_request \<Rightarrow> 'l pub_state \<Rightarrow> bool \<times> 'l pub_state" where
  "pub_server lib ni text ed cfg draws =
     serve_http (NewRouter lib ni text (pc_RequestTimeout cfg) (pc_RateLimit cfg)
       (NewVerificationService ed (pc_JWTEncKey cfg)) draws)"

datatype log_level = LevelDebug | LevelInfo | LevelWarn | LevelError

definition newLogger :: "string \<Rightarrow> log_level" where
  "newLogger level =
     (if level = ''debug'' then LevelDebug
      else if level = ''warn'' then LevelWarn
      else if level = ''error'' then LevelError
      else LevelInfo)"

end
