(* ===== verification/PubSearchProps.thy ===== *)
theory PubSearchProps
  imports VerifyProps
begin

text \<open>
  The search of the public service by university code and diploma number: what it answers and that
  it only reads.
\<close>

text \<open>The rows the search is for, and the answer when there is none.\<close>

definition number_matches :: "string \<Rightarrow> string \<Rightarrow> db \<Rightarrow> hash_row \<Rightarrow> University \<Rightarrow> bool" where
  "number_matches vuzCode number d row u \<longleftrightarrow> row \<in> set (diploma_hashes d) \<and> u \<in> set (universities d) \<and>
     u_ID u = hr_vuz_id row \<and> u_VuzCode u = vuzCode \<and> hr_number row = Some number"

definition nothing_found :: SearchResponse where
  "nothing_found = \<lparr>sr_Valid = False, sr_Status = DiplomaStatusNotFound, sr_University = '''', sr_VUZCode = '''',
     sr_Year = None, sr_Specialty = None, sr_Degree = None, sr_Faculty = None\<rparr>"

lemma fetchOne_read:
  assumes "fetchOne P s = (r, t)"
  shows "tables t = tables s"
    "r = Inr x \<Longrightarrow> \<exists>row u qr. (row, u, qr) \<in> set (verification_rows (tables s)) \<and> P (row, u, qr) \<and>
       scan_record (row, u, qr) = Inr x"
    "r = Inl ErrDiplomaRecordNotFound \<Longrightarrow> filter P (verification_rows (tables s)) = []"
proof -
  let ?q = "\<lambda>d. bind_res (first_row (filter P (verification_rows d))) scan_record"
  note l = lift_err_read[OF assms[unfolded fetchOne_def]]
  show "tables t = tables s" using l by blast
  show "\<exists>row u qr. (row, u, qr) \<in> set (verification_rows (tables s)) \<and> P (row, u, qr) \<and>
       scan_record (row, u, qr) = Inr x" if "r = Inr x"
  proof -
    have "?q (tables s) = Inr x" using l that by blast
    then obtain y where y: "first_row (filter P (verification_rows (tables s))) = Inr y" "scan_record y = Inr x"
      by auto
    then show ?thesis using first_row_filterD[OF y(1)] by (cases y) auto
  qed
  show "filter P (verification_rows (tables s)) = []" if "r = Inl ErrDiplomaRecordNotFound"
  proof -
    have n: "scan_record y = Inl ErrNoRows \<Longrightarrow> False" for y
      by (cases y) (auto simp: scan_record_def scan_text_def bind_res_eq_Inl split: option.splits)
    show ?thesis
      using assms that unfolding fetchOne_def
      by (cases rule: run_stmt_cases[of "\<lambda>d. (?q d, d)" s])
        (auto simp: lift_err_def bind_res_eq_Inl split: sum.splits if_splits dest: n)
  qed
qed

lemma fetchOne_error: "fetchOne P s = (Inl e, t) \<Longrightarrow> e = ErrDiplomaRecordNotFound \<or> (\<exists>x. e = ErrDriver x)"
  by (auto simp: fetchOne_def lift_err_def split: sum.splits prod.splits if_splits)

lemma verification_rows_mem:
  "(row, u, qr) \<in> set (verification_rows d) \<longleftrightarrow> row \<in> set (diploma_hashes d) \<and> u \<in> set (universities d) \<and>
     u_ID u = hr_vuz_id row \<and> qr = (case latest_ok d (hr_hash row) of None \<Rightarrow> None | Some r \<Rightarrow> rr_qr r)"
  by (auto simp: verification_rows_def)

lemma FindByDiplomaNumber_read:
  assumes "FindByDiplomaNumber v n s = (r, t)"
  shows "tables t = tables s"
    "r = Inr x \<Longrightarrow> \<exists>row u. number_matches v n (tables s) row u \<and> dr_Status x = hr_status row \<and>
       dr_University x = \<lparr>vu_Code = v, vu_Name = u_Name u\<rparr>"
    "r = Inl ErrDiplomaRecordNotFound \<Longrightarrow> \<not> number_matches v n (tables s) row u"
proof -
  note f = fetchOne_read[OF assms[unfolded FindByDiplomaNumber_def]]
  show "tables t = tables s" by (rule f(1))
  show "\<exists>row u. number_matches v n (tables s) row u \<and> dr_Status x = hr_status row \<and>
       dr_University x = \<lparr>vu_Code = v, vu_Name = u_Name u\<rparr>" if x: "r = Inr x"
  proof -
    obtain row u qr where "(row, u, qr) \<in> set (verification_rows (tables s))" "u_VuzCode u = v" "hr_number row = Some n"
      "scan_record (row, u, qr) = Inr x" using f(2)[OF x] by auto
    then have "number_matches v n (tables s) row u" "dr_Status x = hr_status row"
      "dr_University x = \<lparr>vu_Code = v, vu_Name = u_Name u\<rparr>"
      by (auto simp: verification_rows_mem number_matches_def scan_record_def)
    then show ?thesis by blast
  qed
  show "\<not> number_matches v n (tables s) row u" if "r = Inl ErrDiplomaRecordNotFound"
  proof
    assume m: "number_matches v n (tables s) row u"
    define qr where "qr = (case latest_ok (tables s) (hr_hash row) of None \<Rightarrow> None | Some r \<Rightarrow> rr_qr r)"
    have "(row, u, qr) \<in> set (verification_rows (tables s))"
      using m by (auto simp: verification_rows_mem number_matches_def qr_def)
    then show False using f(3)[OF that] m by (auto simp: filter_empty_conv number_matches_def)
  qed
qed

lemma enrich_same:
  "enrichRecordFromStoredQR key x = Inr y \<Longrightarrow> dr_Status y = dr_Status x \<and> dr_University y = dr_University x"
  by (auto simp: enrichRecordFromStoredQR_def split: option.splits if_splits)

lemma PubSearch_read: "tables (snd (PubSearch key v n s)) = tables s"
proof -
  obtain r t where f: "FindByDiplomaNumber (TrimSpace v) (TrimSpace n) s = (r, t)" by force
  show ?thesis
    using FindByDiplomaNumber_read(1)[OF f] f by (auto simp: PubSearch_def Let_def split: sum.split)
qed

lemma VerifyPayload_read: "tables (snd (VerifyPayload lib key token s)) = tables s"
proof -
  have l: "tables (snd (lookup_hash p h t)) = tables t" for p h t
    using FindByHash_read(1)[of h t] by (cases "FindByHash h t") (auto simp: lookup_hash_def split: sum.split)
  have k: "FindUniversityVerificationKeyByID v s = (r, t) \<Longrightarrow> tables t = tables s" for v r t
    by (rule FindKey_read(1))
  show ?thesis
    by (auto simp: VerifyPayload_def Let_def l split: sum.split prod.split dest!: k)
qed

text \<open>
  C34: the public search tells the truth.  An answer to a search either reports nothing, and then no
  registered diploma of the university with that code has that number, or shows the status, the
  validity and the university of one that has.  Nothing is written.
\<close>

theorem public_search_sound:
  assumes "PubSearch encKey vuzCode number s = (Inr resp, t)"
  shows "tables t = tables s \<and>
    (resp = nothing_found \<and> (\<nexists>row u. number_matches (TrimSpace vuzCode) (TrimSpace number) (tables s) row u) \<or>
     (\<exists>row u. number_matches (TrimSpace vuzCode) (TrimSpace number) (tables s) row u \<and>
        sr_Status resp = hr_status row \<and> sr_Valid resp = (hr_status row = DiplomaStatusActive) \<and>
        sr_University resp = u_Name u \<and> sr_VUZCode resp = TrimSpace vuzCode))"
proof -
  obtain r t' where f: "FindByDiplomaNumber (TrimSpace vuzCode) (TrimSpace number) s = (r, t')" by force
  have t: "tables t = tables s" using PubSearch_read[of encKey vuzCode number s] assms by simp
  show ?thesis
  proof (cases r)
    case (Inl e)
    have d: "e = ErrDiplomaRecordNotFound"
      using fetchOne_error[OF f[unfolded FindByDiplomaNumber_def Inl]] assms f Inl
      by (auto simp: PubSearch_def Let_def split: if_splits)
    then have "resp = nothing_found" using assms f Inl
      by (auto simp: PubSearch_def Let_def nothing_found_def split: if_splits)
    then show ?thesis using FindByDiplomaNumber_read(3)[OF f] Inl d t by auto
  next
    case (Inr x)
    then obtain row u where m: "number_matches (TrimSpace vuzCode) (TrimSpace number) (tables s) row u"
      "dr_Status x = hr_status row" "dr_University x = \<lparr>vu_Code = TrimSpace vuzCode, vu_Name = u_Name u\<rparr>"
      using FindByDiplomaNumber_read(2)[OF f] by blast
    obtain y where "enrichRecordFromStoredQR encKey x = Inr y"
      using assms f Inr by (auto simp: PubSearch_def Let_def split: if_splits sum.splits)
    with enrich_same[OF this] have "sr_Status resp = hr_status row" "sr_University resp = u_Name u"
      "sr_Valid resp = (hr_status row = DiplomaStatusActive)" "sr_VUZCode resp = TrimSpace vuzCode"
      using assms f Inr m by (auto simp: PubSearch_def Let_def split: if_splits)
    then show ?thesis using m(1) t by blast
  qed
qed

lemma public_search_sound_witness:
  "\<exists>resp t. PubSearch toy_key (u_VuzCode keyed_university) ''n0'' \<lparr>tables = registry_db, faults = []\<rparr> = (Inr resp, t) \<and>
     sr_Valid resp \<and> sr_University resp = u_Name keyed_university"
proof -
  let ?s = "\<lparr>tables = registry_db, faults = []\<rparr>" and ?code = "u_VuzCode keyed_university"
  have trim: "TrimSpace ?code = ?code" "?code \<noteq> ''''" "TrimSpace ''n0'' = ''n0''"
    by (simp_all add: keyed_university_def sample_university_def TrimSpace_samples TrimSpace_graphic graphic_def)
  have rows: "number_matches ?code ''n0'' registry_db row u \<Longrightarrow> row = sample_row \<and> u = keyed_university" for row u
    by (auto simp: number_matches_def registry_db_def)
  have m: "number_matches ?code ''n0'' registry_db sample_row keyed_university"
    by (simp add: number_matches_def registry_db_def sample_row_def keyed_university_def sample_university_def)
  obtain r t where p: "PubSearch toy_key ?code ''n0'' ?s = (Inr r, t)"
    using trim by (auto simp: PubSearch_def Let_def FindByDiplomaNumber_def fetchOne_def lift_err_def run_stmt_def
        verification_rows_def registry_db_def empty_db_def sample_row_def scan_record_def scan_text_def latest_ok_def
        enrichRecordFromStoredQR_def keyed_university_def sample_university_def)
  obtain row u where n: "number_matches ?code ''n0'' registry_db row u" "sr_Valid r = (hr_status row = DiplomaStatusActive)"
    "sr_University r = u_Name u"
    using public_search_sound[OF p] m trim by auto
  have "sr_Valid r \<and> sr_University r = u_Name keyed_university"
    using n rows[OF n(1)] by (simp add: sample_row_def)
  then show ?thesis using p by blast
qed

end
