(* ===== verification/FloatFacts.thy ===== *)
theory FloatFacts
  imports GoTime
begin

text \<open>
  The rounding of \<open>float64\<close>: a relative error of at most \<open>2 ^ -53\<close>, none on integers below \<open>2 ^ 53\<close>.
\<close>

lemma bits_bounds: "n > 0 \<Longrightarrow> 2 ^ (bits n - 1) \<le> n \<and> n < 2 ^ bits n"
proof (induction n rule: bits.induct)
  case (1 n)
  show ?case
  proof (cases "n = 1")
    case True
    then show ?thesis by (simp add: bits.simps)
  next
    case False
    then have d: "n div 2 > 0" using "1.prems" by auto
    have "2 ^ (bits (n div 2) - 1) \<le> n div 2" "n div 2 < 2 ^ bits (n div 2)"
      using "1.IH" d "1.prems" by auto
    moreover have "bits (n div 2) > 0" using d by (subst bits.simps) simp
    moreover have "bits n = Suc (bits (n div 2))" using "1.prems" by (subst bits.simps) simp
    moreover have "2 ^ bits (n div 2) = 2 * (2 ^ (bits (n div 2) - 1) :: nat)"
      using calculation(3) by (metis Suc_diff_1 power_Suc)
    moreover define m where "m = (2::nat) ^ (bits (n div 2) - 1)"
    ultimately have "m \<le> n div 2" "n div 2 < 2 * m" "2 ^ (bits n - 1) = 2 * m" "2 ^ bits n = 4 * m" by auto
    then show ?thesis by linarith
  qed
qed

lemma nearest_even_error: "\<bar>of_int (nearest_even q) - q\<bar> \<le> 1 / 2"
proof -
  have "of_int \<lfloor>q\<rfloor> \<le> q" "q < of_int \<lfloor>q\<rfloor> + 1" by linarith+
  then show ?thesis by (auto simp: nearest_even_def Let_def)
qed

lemma nearest_even_int [simp]: "nearest_even (of_int n) = n"
  by (simp add: nearest_even_def)

text \<open>The exponent \<open>float64\<close> chooses keeps the mantissa of 53 bits.\<close>

definition exponent :: "rat \<Rightarrow> int" where
  "exponent q = (case quotient_of q of (a, b) \<Rightarrow>
     let low = int (bits (nat a)) - int (bits (nat b)) - 53 in if q \<ge> 2 ^ 53 * 2 powi low then low + 1 else low)"

lemma float64_exponent:
  "float64 q = (if q \<le> 0 then 0 else of_int (nearest_even (q / 2 powi exponent q)) * 2 powi exponent q)"
  by (simp add: float64_def exponent_def Let_def split: prod.split)

lemma powi_52: "(2::rat) powi (52 + n) = 2 ^ 52 * 2 powi n"
  by (simp add: power_int_add)

lemma exponent_lower:
  assumes "q > 0"
  shows "2 ^ 52 * 2 powi exponent q \<le> q"
proof -
  obtain a b where ab: "quotient_of q = (a, b)" by force
  have b: "b > 0" and q: "q = of_int a / of_int b" using quotient_of_denom_pos quotient_of_div ab by blast+
  have a: "a > 0" using assms b q by (simp add: zero_less_divide_iff)
  define A B where "A = bits (nat a)" and "B = bits (nat b)"
  have A: "(2::rat) ^ (A - 1) \<le> of_int a"
  proof -
    have "2 ^ (A - 1) \<le> nat a" using bits_bounds[of "nat a"] a by (simp add: A_def)
    then have "(of_nat (2 ^ (A - 1)) :: rat) \<le> of_nat (nat a)" by (simp only: of_nat_le_iff)
    then show ?thesis using a by simp
  qed
  have B: "of_int b < (2::rat) ^ B"
  proof -
    have "nat b < 2 ^ B" using bits_bounds[of "nat b"] b by (simp add: B_def)
    then have "(of_nat (nat b) :: rat) < of_nat (2 ^ B)" by (simp only: of_nat_less_iff)
    then show ?thesis using b by simp
  qed
  have A1: "A > 0" using a by (simp add: A_def bits.simps)
  define low where "low = int A - int B - 53"
  have "(2::rat) powi (int (A - 1) - int B) = 2 ^ (A - 1) / 2 ^ B" by (simp add: power_int_diff)
  also have "\<dots> \<le> q"
    unfolding q by (rule frac_le) (use A B a b in auto)
  finally have q1: "(2::rat) powi (int (A - 1) - int B) \<le> q" .
  have "int (A - 1) - int B = 52 + low" using A1 by (simp add: low_def)
  then have l: "2 ^ 52 * 2 powi low \<le> q" using q1 by (simp only: powi_52)
  have "exponent q = (if q \<ge> 2 ^ 53 * 2 powi low then low + 1 else low)"
    by (simp add: exponent_def ab Let_def low_def A_def B_def)
  then show ?thesis using l by (simp add: power_int_add)
qed

lemma exponent_nonpos:
  assumes "q > 0" "q < 2 ^ 53"
  shows "exponent q \<le> 0"
proof (rule ccontr)
  assume "\<not> exponent q \<le> 0"
  then have "1 \<le> exponent q" by simp
  then have e: "(2::rat) powi 1 \<le> 2 powi exponent q" by (intro power_int_increasing) auto
  have "2 ^ 52 * 2 powi exponent q < (2 ^ 53 :: rat)" using exponent_lower[OF assms(1)] assms(2) by linarith
  then show False using e by simp
qed

lemma float64_error:
  assumes "q > 0"
  shows "2 ^ 53 * \<bar>float64 q - q\<bar> \<le> q"
proof -
  define p where "p = (2::rat) powi exponent q"
  have p: "p > 0" by (simp add: p_def)
  have "\<bar>of_int (nearest_even (q / p)) - q / p\<bar> * p \<le> 1 / 2 * p"
    by (intro mult_right_mono nearest_even_error) (use p in simp)
  moreover have "\<bar>of_int (nearest_even (q / p)) - q / p\<bar> * p = \<bar>of_int (nearest_even (q / p)) * p - q\<bar>"
    using p by (simp add: abs_mult_pos left_diff_distrib)
  moreover have "float64 q = of_int (nearest_even (q / p)) * p"
    using assms by (simp add: float64_exponent p_def)
  ultimately have "\<bar>float64 q - q\<bar> \<le> 1 / 2 * p" by (simp only:)
  moreover have "2 ^ 52 * p \<le> q" using exponent_lower[OF assms] by (simp add: p_def)
  ultimately show ?thesis by simp
qed

lemma float64_int:
  assumes "0 \<le> n" "n < 2 ^ 53"
  shows "float64 (of_int n) = of_int n"
proof (cases "n = 0")
  case True
  then show ?thesis by (simp add: float64_def)
next
  case False
  define q :: rat where "q = of_int n"
  have "(of_int n :: rat) < of_int (2 ^ 53)" using assms(2) by (simp only: of_int_less_iff)
  then have q: "q > 0" "q < 2 ^ 53" using False assms(1) by (simp_all add: q_def)
  define k where "k = nat (- exponent q)"
  have "exponent q = - int k" using exponent_nonpos[OF q] by (simp add: k_def)
  then have p: "(2::rat) powi exponent q = 1 / 2 ^ k" by (simp add: power_int_minus divide_simps)
  have "q / (2 powi exponent q) = of_int (n * 2 ^ k)" unfolding p by (simp add: q_def)
  then have "float64 q = of_int (n * 2 ^ k) * (1 / 2 ^ k)"
    using q p by (simp add: float64_exponent del: of_int_mult of_int_power)
  then show ?thesis by (simp add: q_def)
qed


text \<open>
  Whole seconds and nanoseconds added as floats, rounded up: exact below \<open>2 ^ 22\<close> seconds.
\<close>

lemma ceiling_seconds:
  assumes "0 \<le> d" "d < 2 ^ 22 * 1000000000"
  shows "\<lceil>float64 (of_int (d div 1000000000) + float64 (of_int (d mod 1000000000) / 1000000000))\<rceil> =
    (d + 999999999) div 1000000000"
proof -
  define s n where "s = d div 1000000000" and "n = d mod 1000000000"
  have s: "0 \<le> s" "s < 2 ^ 22" using assms by (auto simp: s_def)
  have n: "0 \<le> n" "n < 1000000000" by (auto simp: n_def)
  have d: "d = 1000000000 * s + n" by (simp add: s_def n_def)
  show ?thesis
  proof (cases "n = 0")
    case True
    have "float64 (of_int s) = of_int s" using s by (intro float64_int) auto
    then show ?thesis using True d by (simp add: s_def[symmetric] n_def[symmetric] float64_def[of 0])
  next
    case False
    define x :: rat where "x = of_int n / 1000000000"
    have x: "1 / 1000000000 \<le> x" "x \<le> 999999999 / 1000000000" using False n by (auto simp: x_def divide_simps)
    have e1: "2 ^ 53 * \<bar>float64 x - x\<bar> \<le> 1" using float64_error[of x] x by linarith
    define y where "y = of_int s + float64 x"
    have s': "0 \<le> (of_int s :: rat)" "(of_int s :: rat) \<le> 2 ^ 22 - 1"
    proof -
      have "(of_int s :: rat) \<le> of_int (2 ^ 22 - 1)" using s by (simp only: of_int_le_iff)
      then show "(of_int s :: rat) \<le> 2 ^ 22 - 1" by simp
    qed (use s in simp)
    have y: "0 < y" "y \<le> 2 ^ 22" using e1 x s' by (auto simp: y_def abs_if split: if_splits)
    have e2: "2 ^ 53 * \<bar>float64 y - y\<bar> \<le> 2 ^ 22" using float64_error[OF y(1)] y(2) by linarith
    have "of_int s < float64 y" "float64 y < of_int s + 1"
      using e1 e2 x by (auto simp: y_def abs_if split: if_splits)
    then have "\<lceil>float64 y\<rceil> = s + 1" by (simp add: ceiling_eq_iff)
    moreover have "(d + 999999999) div 1000000000 = s + 1" using d n False by simp
    ultimately show ?thesis by (simp add: y_def x_def s_def n_def)
  qed
qed

end
