(* ===== verification/RateProps.thy ===== *)
theory RateProps
  imports RateLimit FloatFacts
begin

text \<open>
  Dropping idle visitors is invisible to the clients, for any bucket that fills up within the
  lifetime of a visitor; an exact token bucket is one, and one that fills more slowly is not.
\<close>

section \<open>Cleanup is invisible\<close>

lemma limit_request_ideal:
  assumes laws: "forgets_idle lib (rl_NewLimiter lib (lim_limit l) (lim_burst l)) (lim_visitorTTL l) sane like"
    and s: "stands_for like sane (rl_NewLimiter lib (lim_limit l) (lim_burst l)) now l f"
    and b: "bucket_step lib now (f ip) = (d, m)"
  shows "\<exists>l'. limit_request lib ip now l = (d, l') \<and> lim_limit l' = lim_limit l \<and> lim_burst l' = lim_burst l \<and>
    lim_visitorTTL l' = lim_visitorTTL l \<and>
    stands_for like sane (rl_NewLimiter lib (lim_limit l) (lim_burst l)) now l' (f(ip := m))"
proof -
  define new where "new = rl_NewLimiter lib (lim_limit l) (lim_burst l)"
  define c where "c = cleanupVisitors now l"
  define limiter where "limiter = (case lim_visitors c ip of None \<Rightarrow> new | Some entry \<Rightarrow> vis_limiter entry)"
  have s: "stands_for like sane new now c f"
    unfolding c_def new_def by (rule stands_for_cleanup[OF s])
  have f: "sane (f ip)" using s by (simp add: stands_for_def)
  obtain t where t: "t \<le> now" "like t limiter (f ip)"
    using s by (cases "lim_visitors c ip") (auto simp: stands_for_def limiter_def dest!: spec[of _ ip])
  obtain d' k where k: "bucket_step lib now limiter = (d', k)" by force
  have step: "d' = d \<and> like now k m"
    using laws t k b unfolding forgets_idle_def by (metis fst_conv snd_conv)
  have m: "sane m" "\<And>u. u - now > lim_visitorTTL l \<Longrightarrow> like u new m"
    using laws f b unfolding forgets_idle_def new_def by (metis snd_conv)+
  define l' where "l' = c\<lparr>lim_visitors := (lim_visitors c)(ip := Some \<lparr>vis_limiter = k, vis_lastSeen = now\<rparr>)\<rparr>"
  have "limiter = (case lim_visitors c ip of None \<Rightarrow> rl_NewLimiter lib (lim_limit c) (lim_burst c)
      | Some entry \<Rightarrow> vis_limiter entry)"
    unfolding limiter_def new_def c_def cleanup_fields ..
  from limit_request_bucket[OF c_def this k] have r: "limit_request lib ip now l = (d, l')"
    using step by (simp add: l'_def)
  have ttl: "lim_visitorTTL c = lim_visitorTTL l" by (simp add: c_def)
  have "stands_for like sane new now l' (f(ip := m))"
    unfolding stands_for_def
  proof (intro allI)
    fix j
    note at_j = s[unfolded stands_for_def, rule_format, of j]
    show "sane ((f(ip := m)) j) \<and> (case lim_visitors l' j of None \<Rightarrow> \<exists>t\<le>now. like t new ((f(ip := m)) j)
      | Some entry \<Rightarrow> (\<exists>t\<le>now. like t (vis_limiter entry) ((f(ip := m)) j)) \<and>
          (\<forall>t. t - vis_lastSeen entry > lim_visitorTTL l' \<longrightarrow> like t new ((f(ip := m)) j)))"
      using at_j m step ttl by (cases "j = ip") (auto simp: l'_def split: option.splits)
  qed
  then show ?thesis using r by (auto simp: l'_def c_def new_def)
qed

lemma limit_requests_ideal:
  assumes "forgets_idle lib (rl_NewLimiter lib (lim_limit l) (lim_burst l)) (lim_visitorTTL l) sane like"
    "stands_for like sane (rl_NewLimiter lib (lim_limit l) (lim_burst l)) t l f"
    "sorted (t # map snd rs)"
  shows "limit_requests lib rs l = ideal_decisions lib rs f"
  using assms
proof (induction rs arbitrary: l f t)
  case (Cons r rs)
  obtain ip now where r: "r = (ip, now)" by force
  obtain d m where b: "bucket_step lib now (f ip) = (d, m)" by force
  have s: "stands_for like sane (rl_NewLimiter lib (lim_limit l) (lim_burst l)) now l f"
    using stands_for_mono[OF Cons.prems(2)] Cons.prems(3) r by simp
  obtain l' where l': "limit_request lib ip now l = (d, l')" "lim_limit l' = lim_limit l" "lim_burst l' = lim_burst l"
    "lim_visitorTTL l' = lim_visitorTTL l"
    "stands_for like sane (rl_NewLimiter lib (lim_limit l) (lim_burst l)) now l' (f(ip := m))"
    using limit_request_ideal[OF Cons.prems(1) s b] by blast
  have "limit_requests lib rs l' = ideal_decisions lib rs (f(ip := m))"
    by (rule Cons.IH[of l' now]) (use Cons.prems(1,3) l'(2-) r in \<open>simp_all del: fun_upd_apply\<close>)
  then show ?case using r b l'(1) by simp
qed simp

text \<open>
  C33: dropping idle visitors is invisible.  On any sequence of requests in the order of their
  instants the rate limiter takes exactly the decisions of one that keeps a bucket per client for
  ever, provided the library's bucket is like a new one once it has been idle for longer than the
  lifetime of a visitor.
\<close>

theorem cleanup_is_invisible:
  assumes "forgets_idle lib (rl_NewLimiter lib (prl_RequestsPerSec cfg) (prl_Burst cfg)) (prl_VisitorTTL cfg) sane like"
    "sorted (map snd rs)"
  shows "limit_requests lib rs (newIPRateLimiter cfg) =
    ideal_decisions lib rs (\<lambda>_. rl_NewLimiter lib (prl_RequestsPerSec cfg) (prl_Burst cfg))"
proof (cases rs)
  case (Cons r rs')
  let ?new = "rl_NewLimiter lib (prl_RequestsPerSec cfg) (prl_Burst cfg)"
  have "stands_for like sane ?new (snd r) (newIPRateLimiter cfg) (\<lambda>_. ?new)"
    using assms(1) by (auto simp: stands_for_def forgets_idle_def newIPRateLimiter_def)
  then show ?thesis
    using limit_requests_ideal[of lib "newIPRateLimiter cfg" sane like "snd r" "\<lambda>_. ?new" rs] assms Cons
    by (simp add: newIPRateLimiter_def)
qed simp

section \<open>A token bucket\<close>

text \<open>
  An exact token bucket: \<open>burst\<close> tokens of \<open>1/rate\<close> seconds each, as the time it has credit for at
  the instant of its last use.  A reservation is the delay until its token is there.
\<close>

datatype bucket = Bucket (bk_capacity: int) (bk_token: int) (bk_credit: int) (bk_last_use: "time option")

definition credit_at :: "time \<Rightarrow> bucket \<Rightarrow> int" where
  "credit_at now b = (case bk_last_use b of None \<Rightarrow> bk_capacity b
     | Some t \<Rightarrow> min (bk_capacity b) (bk_credit b + max 0 (now - t)))"

definition token_time :: "go_float \<Rightarrow> int" where
  "token_time r = (case r of Finite q \<Rightarrow> \<lfloor>1000000000 / q\<rfloor> | _ \<Rightarrow> 0)"

definition token_buckets :: "(bucket, int) rate_lib" where
  "token_buckets =
     \<lparr>rl_NewLimiter = (\<lambda>rate burst. Bucket (burst * token_time rate) (token_time rate) 0 None),
      rl_ReserveN = (\<lambda>b now n. let c = credit_at now b - n * bk_token b
         in (- c, Bucket (bk_capacity b) (bk_token b) c (Some now))),
      rl_OK = (\<lambda>_. True),
      rl_DelayFrom = (\<lambda>r now. max 0 r),
      rl_CancelAt = (\<lambda>b r now. Bucket (bk_capacity b) (bk_token b) (bk_credit b + bk_token b) (bk_last_use b))\<rparr>"

definition same_bucket :: "int \<Rightarrow> int \<Rightarrow> time \<Rightarrow> bucket \<Rightarrow> bucket \<Rightarrow> bool" where
  "same_bucket cap tok t b c \<longleftrightarrow> bk_capacity b = cap \<and> bk_capacity c = cap \<and> bk_token b = tok \<and> bk_token c = tok \<and>
     (\<forall>now \<ge> t. credit_at now b = credit_at now c)"

definition sane_bucket :: "int \<Rightarrow> int \<Rightarrow> bucket \<Rightarrow> bool" where
  "sane_bucket cap tok b \<longleftrightarrow> bk_capacity b = cap \<and> bk_token b = tok \<and> (\<forall>t. bk_last_use b = Some t \<longrightarrow> bk_credit b \<ge> 0)"

lemma token_bucket_step:
  "bucket_step token_buckets now b =
     (let c = credit_at now b - bk_token b
      in if c < 0 then (RejectFor (retry_after (- c)), Bucket (bk_capacity b) (bk_token b) (c + bk_token b) (Some now))
         else (Proceed, Bucket (bk_capacity b) (bk_token b) c (Some now)))"
  by (simp add: bucket_step_def token_buckets_def Let_def)

lemma credit_at_nonneg: "sane_bucket cap tok b \<Longrightarrow> 0 \<le> cap \<Longrightarrow> 0 \<le> credit_at now b \<and> credit_at now b \<le> cap"
  by (auto simp: sane_bucket_def credit_at_def split: option.split)

lemma token_buckets_forget:
  assumes "0 \<le> tok" "tok \<le> cap" "cap \<le> ttl"
  shows "forgets_idle token_buckets (Bucket cap tok 0 None) ttl (sane_bucket cap tok) (same_bucket cap tok)"
  unfolding forgets_idle_def
proof (intro conjI allI impI)
  fix now l
  assume "sane_bucket cap tok l"
  then show "sane_bucket cap tok (snd (bucket_step token_buckets now l))"
    using credit_at_nonneg[of cap tok l now] assms by (auto simp: token_bucket_step sane_bucket_def Let_def)
next
  fix t now l m
  assume "same_bucket cap tok t l m \<and> t \<le> now"
  then have "credit_at now l = credit_at now m" "bk_capacity l = cap" "bk_capacity m = cap" "bk_token l = tok" "bk_token m = tok"
    by (auto simp: same_bucket_def)
  then show "fst (bucket_step token_buckets now l) = fst (bucket_step token_buckets now m)"
    "same_bucket cap tok now (snd (bucket_step token_buckets now l)) (snd (bucket_step token_buckets now m))"
    by (auto simp: token_bucket_step same_bucket_def Let_def)
next
  fix t now l
  assume a: "sane_bucket cap tok l \<and> now - t > ttl"
  then have "0 \<le> credit_at t l" "bk_capacity l = cap" "bk_token l = tok"
    using credit_at_nonneg[of cap tok l t] assms by (auto simp: sane_bucket_def)
  then show "same_bucket cap tok now (Bucket cap tok 0 None) (snd (bucket_step token_buckets t l))"
    using a assms by (auto simp: token_bucket_step same_bucket_def Let_def credit_at_def)
qed (auto simp: sane_bucket_def same_bucket_def)

text \<open>The default settings, and settings with a bucket that fills more slowly than a visitor lives.\<close>

definition default_limits :: PubRateLimit where
  "default_limits = \<lparr>prl_Enabled = True, prl_RequestsPerSec = Finite 5, prl_Burst = 20,
     prl_VisitorTTL = 600000000000, prl_CleanupInterval = 300000000000\<rparr>"

definition slow_limits :: PubRateLimit where
  "slow_limits = default_limits\<lparr>prl_RequestsPerSec := Finite (1 / 1000), prl_Burst := 1\<rparr>"

lemma cleanup_is_invisible_witness:
  "let rs = [(''a'', 0), (''b'', 1), (''a'', 700000000000)]
   in limit_requests token_buckets rs (newIPRateLimiter default_limits) =
      ideal_decisions token_buckets rs (\<lambda>_. Bucket 4000000000 200000000 0 None)"
  using cleanup_is_invisible[of token_buckets default_limits "sane_bucket 4000000000 200000000"
      "same_bucket 4000000000 200000000" "[(''a'', 0), (''b'', 1), (''a'', 700000000000)]"]
    token_buckets_forget[of 200000000 4000000000 600000000000]
  by (simp add: default_limits_def token_buckets_def token_time_def)

text \<open>Here dropping the visitor gives the client a new token early.\<close>

lemma slow_limits_accepted: "check_rate_limit slow_limits = Inr ()"
  by (simp add: check_rate_limit_def slow_limits_def default_limits_def)

lemma cleanup_refills_slow_bucket:
  "let rs = [(''a'', 0), (''a'', 600000000001)]
   in limit_requests token_buckets rs (newIPRateLimiter slow_limits) = [Proceed, Proceed] \<and>
      (\<exists>n. ideal_decisions token_buckets rs (\<lambda>_. Bucket 1000000000000 1000000000000 0 None) = [Proceed, RejectFor n])"
  by (simp add: slow_limits_def default_limits_def newIPRateLimiter_def limit_request_def reserve_def
      cleanupVisitors_def token_buckets_def token_time_def credit_at_def Let_def time_Sub_def int_min_def int_max_def
      bucket_step_def)

section \<open>The time to wait\<close>

text \<open>
  C39: the \<open>Retry-After\<close> of a refused request is the least number of whole seconds after which the
  delay the library asks for has passed, at least one, for any delay below 48 days: the two roundings
  of \<open>Seconds\<close> never lose or add one.
\<close>

theorem retry_after_exact:
  assumes "0 < delay" "delay < 2 ^ 22 * 1000000000"
  shows "1 \<le> retry_after delay \<and> delay \<le> retry_after delay * 1000000000 \<and>
    (\<nexists>k. k < retry_after delay \<and> delay \<le> k * 1000000000)"
proof -
  have "retry_after delay = (delay + 999999999) div 1000000000"
    using ceiling_seconds[of delay] assms by (simp add: retry_after_def Seconds_def Let_def)
  then show ?thesis using assms by auto
qed

lemma retry_after_exact_witness:
  "1 \<le> retry_after 1000000001 \<and> 1000000001 \<le> retry_after 1000000001 * 1000000000"
  using retry_after_exact[of 1000000001] by simp

end
