(* ===== verification/PubHttpProps.thy ===== *)
theory PubHttpProps
  imports PubHttp PubSearchProps RateProps
begin

text \<open>
  The public HTTP interface: every request gets exactly one response with its identifier, reading
  leaves the registry alone, and a verification answers what the service says.
\<close>

section \<open>The writer\<close>

text \<open>Nothing has been sent yet, and the identifier of the request is among the headers.\<close>

definition unsent :: "'l pub_state \<Rightarrow> bool" where
  "unsent s \<longleftrightarrow> wr_sent (ps_writer s) = None \<and> wr_body (ps_writer s) = []"

definition has_id :: "string \<Rightarrow> 'l pub_state \<Rightarrow> bool" where
  "has_id i s \<longleftrightarrow> wr_header (ps_writer s) ''X-Request-ID'' = Some i"

text \<open>What has been sent: the status line with the identifier, and the bodies.\<close>

definition sends :: "nat \<Rightarrow> string \<Rightarrow> pub_body list \<Rightarrow> 'l pub_state \<Rightarrow> bool" where
  "sends status i bodies s \<longleftrightarrow>
     (\<exists>hs. wr_sent (ps_writer s) = Some (status, hs) \<and> hs ''X-Request-ID'' = Some i) \<and> wr_body (ps_writer s) = bodies"

definition sent :: "nat \<Rightarrow> string \<Rightarrow> pub_body \<Rightarrow> 'l pub_state \<Rightarrow> bool" where
  "sent status i b s \<longleftrightarrow>
     (\<exists>hs. wr_sent (ps_writer s) = Some (status, hs) \<and> hs ''X-Request-ID'' = Some i) \<and> wr_body (ps_writer s) = [b]"

lemma sent_sends: "sent n i b s \<longleftrightarrow> sends n i [b] s"
  by (simp add: sent_def sends_def)

lemma writer_simps [simp]:
  "ps_sess (set_header k v s) = ps_sess s" "ps_sess (log_event e s) = ps_sess s"
  "ps_sess (pub_writeJSON n p s) = ps_sess s" "ps_sess (pub_writeError t x s) = ps_sess s"
  "ps_sess (writeRateLimitExceeded m s) = ps_sess s" "ps_sess (mux_error n u s) = ps_sess s"
  "unsent (set_header k v s) = unsent s" "unsent (log_event e s) = unsent s"
  "has_id i (log_event e s) = has_id i s" "sent n i b (log_event e s) = sent n i b s"
  "sends n i bs (log_event e s) = sends n i bs s"
  "has_id i (set_header ''X-Request-ID'' i s)"
  "k \<noteq> ''X-Request-ID'' \<Longrightarrow> has_id i (set_header k v s) = has_id i s"
  "unsent (s\<lparr>ps_sess := d\<rparr>) = unsent s" "has_id i (s\<lparr>ps_sess := d\<rparr>) = has_id i s"
  "unsent (s\<lparr>ps_limiter := l\<rparr>) = unsent s" "has_id i (s\<lparr>ps_limiter := l\<rparr>) = has_id i s"
  by (auto simp: set_header_def log_event_def pub_writeJSON_def pub_writeError_def writeRateLimitExceeded_def
      mux_error_def WriteHeader_def Write_def unsent_def has_id_def sent_def sends_def Let_def)

lemma sent_writeJSON:
  assumes "unsent s" "has_id i s"
  shows "sent (if encodable p then n else 500) i
    (PubJSON (if encodable p then p else StatusMap [(''error'', ''internal server error'')])) (pub_writeJSON n p s)"
  using assms
  by (auto simp: pub_writeJSON_def set_header_def WriteHeader_def Write_def log_event_def sent_def unsent_def
      has_id_def Let_def)

lemma sent_mux_error: "unsent s \<Longrightarrow> has_id i s \<Longrightarrow> sent n i (PubText (m @ [byte 10])) (mux_error n m s)"
  by (auto simp: mux_error_def set_header_def WriteHeader_def Write_def sent_def unsent_def has_id_def Let_def)

text \<open>A redirect sends its link to a \<open>GET\<close> only.\<close>

lemma sends_redirect:
  assumes "unsent s" "has_id i s"
  shows "\<exists>bodies. length bodies \<le> 1 \<and> sends (ni_RedirectStatus ni) i bodies (snd (mux_redirect ni path c r s))"
    "\<not> fst (mux_redirect ni path c r s)"
proof -
  show "\<exists>bodies. length bodies \<le> 1 \<and> sends (ni_RedirectStatus ni) i bodies (snd (mux_redirect ni path c r s))"
    using assms
    by (intro exI[of _ "wr_body (ps_writer (snd (mux_redirect ni path c r s)))"])
      (auto simp: mux_redirect_def set_header_def WriteHeader_def Write_def sends_def unsent_def has_id_def Let_def)
qed (simp add: mux_redirect_def Let_def)

lemma redirect_sess [simp]: "ps_sess (snd (mux_redirect ni path c r s)) = ps_sess s"
  by (simp add: mux_redirect_def set_header_def WriteHeader_def Write_def Let_def)

lemma sends_header: "unsent s \<Longrightarrow> has_id i s \<Longrightarrow> sends n i [] (WriteHeader n s)"
  by (auto simp: WriteHeader_def sends_def unsent_def has_id_def Let_def)

lemma WriteHeader_sess [simp]: "ps_sess (WriteHeader n s) = ps_sess s"
  by (simp add: WriteHeader_def Let_def)

text \<open>The status and the body of an error.\<close>

definition error_status :: "verr \<Rightarrow> nat" where
  "error_status e = (if errors_Is e ErrInvalidInput \<or> errors_Is e ErrInvalidPayload then 400 else 500)"

definition error_body :: "(err \<Rightarrow> string) \<Rightarrow> verr \<Rightarrow> pub_body" where
  "error_body dtext e = PubJSON (StatusMap [(''error'',
     if errors_Is e ErrInvalidInput then verr_Error dtext e
     else if errors_Is e ErrInvalidPayload then ''invalid verification payload'' else ''internal server error'')])"

lemma sent_writeError:
  assumes "unsent s" "has_id i s"
  shows "sent (error_status e) i (error_body dtext e) (pub_writeError dtext e s)"
proof -
  have j: "sent n i (PubJSON (StatusMap m)) (pub_writeJSON n (StatusMap m) t)" if "unsent t" "has_id i t" for n m t
    using sent_writeJSON[OF that, of "StatusMap m" n] by simp
  show ?thesis
    using assms by (simp add: pub_writeError_def error_status_def error_body_def j)
qed

section \<open>Handlers\<close>

text \<open>
  The outcome of a handler: it panicked and has not written anything, or it sent exactly one
  response, with the identifier and one of these statuses; without a body it is the refusal of the
  path \<open>*\<close> or a redirect.
\<close>

definition unclean :: "pub_request \<Rightarrow> bool" where
  "unclean r \<longleftrightarrow> pq_Method r \<noteq> ''CONNECT'' \<and> cleanPath (EscapedPath (pq_Path r)) \<noteq> EscapedPath (pq_Path r)"

definition proper :: "net_lib \<Rightarrow> pub_request \<Rightarrow> nat \<Rightarrow> pub_body list \<Rightarrow> bool" where
  "proper ni r status bodies \<longleftrightarrow>
     (status \<in> {200, 400, 404, 405, 429, 500} \<or> unclean r \<and> status = ni_RedirectStatus ni) \<and>
     (length bodies = 1 \<or> bodies = [] \<and>
        (pq_Path r = ''*'' \<and> status = 400 \<or> unclean r \<and> status = ni_RedirectStatus ni))"

definition responded :: "net_lib \<Rightarrow> pub_request \<Rightarrow> string \<Rightarrow> bool \<times> 'l pub_state \<Rightarrow> bool" where
  "responded ni r i x \<longleftrightarrow> (if fst x then unsent (snd x) \<and> has_id i (snd x)
     else \<exists>n bodies. proper ni r n bodies \<and> sends n i bodies (snd x))"

definition responds :: "net_lib \<Rightarrow> 'l pub_handler \<Rightarrow> bool" where
  "responds ni h \<longleftrightarrow> (\<forall>c r s i. unsent s \<longrightarrow> has_id i s \<longrightarrow> responded ni r i (h c r s))"

lemma respondsD: "responds ni h \<Longrightarrow> unsent s \<Longrightarrow> has_id i s \<Longrightarrow> responded ni r i (h c r s)"
  by (simp add: responds_def)

lemma responded_panic [simp]: "responded ni r i (True, s) \<longleftrightarrow> unsent s \<and> has_id i s"
  by (simp add: responded_def)

lemma responded_sent:
  assumes "sent n i b s" "n \<in> {200, 400, 404, 405, 429, 500}"
  shows "responded ni r i (False, s)"
proof -
  have "proper ni r n [b]" using assms(2) by (simp add: proper_def)
  with assms(1) show ?thesis unfolding responded_def sent_sends by auto
qed

lemma responded_redirect:
  assumes "unsent s" "has_id i s" "unclean r"
  shows "responded ni r i (mux_redirect ni path c r s)"
proof -
  obtain bodies where b: "length bodies \<le> 1" "sends (ni_RedirectStatus ni) i bodies (snd (mux_redirect ni path c r s))"
    using sends_redirect(1)[OF assms(1,2)] by blast
  have "proper ni r (ni_RedirectStatus ni) bodies"
    using b(1) assms(3) by (cases bodies) (auto simp: proper_def)
  with b(2) sends_redirect(2)[OF assms(1,2)] show ?thesis unfolding responded_def by auto
qed

lemma responded_star:
  assumes "unsent s" "has_id i s" "pq_Path r = ''*''"
  shows "responded ni r i (False, WriteHeader 400 (set_header ''Connection'' ''close'' s))"
proof -
  have "sends 400 i [] (WriteHeader 400 (set_header ''Connection'' ''close'' s))"
    by (rule sends_header) (use assms in simp_all)
  moreover have "proper ni r 400 []" using assms(3) by (simp add: proper_def)
  ultimately show ?thesis by (auto simp: responded_def)
qed

lemma responded_log [simp]: "responded ni r i (False, log_event e s) = responded ni r i (False, s)"
  by (simp add: responded_def)

lemma responded_writers [simp]:
  assumes "unsent s" "has_id i s"
  shows "n \<in> {200, 400, 404, 405, 429, 500} \<Longrightarrow> responded ni r i (False, pub_writeJSON n p s)"
    "responded ni r i (False, pub_writeError dtext e s)"
    "n \<in> {200, 400, 404, 405, 429, 500} \<Longrightarrow> responded ni r i (False, mux_error n m s)"
    "responded ni r i (False, writeRateLimitExceeded k s)"
proof -
  have *: "responded ni r i (False, pub_writeJSON n p s)" if "n \<in> {200, 400, 404, 405, 429, 500}" "unsent s" "has_id i s" for n p and s :: "'a pub_state"
    by (rule responded_sent[OF sent_writeJSON[OF that(2,3)]]) (use that(1) in simp)
  show "n \<in> {200, 400, 404, 405, 429, 500} \<Longrightarrow> responded ni r i (False, pub_writeJSON n p s)"
    by (rule *) (use assms in auto)
  show "responded ni r i (False, pub_writeError dtext e s)"
    by (rule responded_sent[OF sent_writeError[OF assms]]) (simp add: error_status_def)
  show "n \<in> {200, 400, 404, 405, 429, 500} \<Longrightarrow> responded ni r i (False, mux_error n m s)"
    by (rule responded_sent[OF sent_mux_error[OF assms]])
  show "responded ni r i (False, writeRateLimitExceeded k s)"
    using assms by (simp add: writeRateLimitExceeded_def *)
qed

lemma responded_answer [simp]: "unsent s \<Longrightarrow> has_id i s \<Longrightarrow> responded ni r i (answer dtext body x s)"
  by (auto simp: answer_def Let_def split: prod.split option.split sum.split)

lemma responds_mux: "responds ni (mux ni dtext service)"
  unfolding responds_def
proof (intro allI impI)
  fix c and r :: pub_request and i and s :: "'a pub_state"
  assume s: "unsent s" "has_id i s"
  let ?path = "if pq_Method r = ''CONNECT'' then EscapedPath (pq_Path r) else cleanPath (EscapedPath (pq_Path r))"
  consider "pq_Path r = ''*''" | "pq_Path r \<noteq> ''*''" "?path \<noteq> EscapedPath (pq_Path r)"
    | "pq_Path r \<noteq> ''*''" "?path = EscapedPath (pq_Path r)" by blast
  then show "responded ni r i (mux ni dtext service c r s)"
  proof cases
    case 1
    then show ?thesis using s by (simp add: mux_def responded_star Let_def)
  next
    case 2
    then have "unclean r" by (simp add: unclean_def split: if_splits)
    then show ?thesis using 2 s by (simp add: mux_def responded_redirect Let_def)
  next
    case 3
    have h: "responded ni r i (healthz c r s)" "responded ni r i (pub_verify dtext service c r s)"
      "responded ni r i (pub_search dtext service c r s)"
      using s by (simp_all add: healthz_def pub_verify_def pub_search_def Let_def)
    show ?thesis unfolding mux_def Let_def using 3 s h by (simp add: map_of_eq_None_iff)
  qed
qed

lemma responds_withRateLimit: "responds ni h \<Longrightarrow> responds ni (withRateLimit lib ni draws h)"
  by (auto simp: responds_def withRateLimit_def Let_def split: prod.split decision.split)

lemma responds_withLogging:
  assumes "responds ni h"
  shows "responds ni (withLogging h)"
  unfolding responds_def
proof (intro allI impI)
  fix c r s i
  assume a: "unsent s" "has_id i (s :: 'a pub_state)"
  let ?s = "s\<lparr>ps_writer := (ps_writer s)\<lparr>wr_recorded := 200\<rparr>\<rparr>"
  have "unsent ?s" "has_id i ?s" using a by (auto simp: unsent_def has_id_def)
  from respondsD[OF assms this, of r c] show "responded ni r i (withLogging h c r s)"
    by (cases "h c r ?s"; cases "fst (h c r ?s)") (auto simp: withLogging_def Let_def)
qed

text \<open>The identifier a request is answered with.\<close>

definition request_id :: "pub_draws \<Rightarrow> pub_request \<Rightarrow> string" where
  "request_id draws r = (if pq_header r ''X-Request-ID'' = '''' then newRequestID draws else pq_header r ''X-Request-ID'')"

definition answered_with :: "net_lib \<Rightarrow> pub_request \<Rightarrow> string \<Rightarrow> bool \<times> 'l pub_state \<Rightarrow> bool" where
  "answered_with ni r i x \<longleftrightarrow> \<not> fst x \<and> responded ni r i x"

lemma responds_router:
  assumes "responds ni h"
  shows "answered_with ni r (request_id draws r)
    (serve_http (withRequestTimeout draws d (withRecover (withRequestID draws h))) r s)"
proof -
  define c0 where "c0 = \<lparr>cx_requestID = None, cx_deadline = Some (pd_now draws + d)\<rparr>"
  let ?i = "request_id draws r"
  let ?s = "set_header ''X-Request-ID'' ?i (s\<lparr>ps_writer := fresh_writer\<rparr>)"
  have a: "unsent ?s" "has_id ?i ?s" by simp_all (simp add: unsent_def fresh_writer_def)
  have r: "withRequestID draws h c0 r (s\<lparr>ps_writer := fresh_writer\<rparr>) = h (withRequestIDContext c0 ?i) r ?s"
    by (simp add: withRequestID_def request_id_def Let_def)
  obtain p t where h: "h (withRequestIDContext c0 ?i) r ?s = (p, t)" by force
  have x: "responded ni r ?i (p, t)" using respondsD[OF assms a] h by metis
  have "responded ni r ?i (withRecover (withRequestID draws h) c0 r (s\<lparr>ps_writer := fresh_writer\<rparr>))"
    using x r h by (cases p) (simp_all add: withRecover_def Let_def)
  moreover have "\<not> fst (withRecover (withRequestID draws h) c0 r (s\<lparr>ps_writer := fresh_writer\<rparr>))"
    using r h by (cases p) (simp_all add: withRecover_def Let_def)
  ultimately show ?thesis
    by (simp add: answered_with_def serve_http_def withRequestTimeout_def c0_def)
qed

text \<open>
  C32: every request is answered exactly once.  Whatever the request, the settings, the service (which
  may panic) and the state, the router does not panic; one status line is sent, with the identifier
  of the request, the client's or a new one, among its headers.  The status is one of six, or that of
  the redirect when the path is not clean; there is one body, or none for the path \<open>*\<close> and for a
  redirect.
\<close>

theorem answered_once:
  "let out = serve_http (NewRouter lib ni dtext timeout cfg service draws) r s
   in \<not> fst out \<and> (\<exists>status bodies. sends status (request_id draws r) bodies (snd out) \<and>
        (status \<in> {200, 400, 404, 405, 429, 500} \<or> unclean r \<and> status = ni_RedirectStatus ni) \<and>
        (length bodies = 1 \<or> bodies = [] \<and>
           (pq_Path r = ''*'' \<and> status = 400 \<or> unclean r \<and> status = ni_RedirectStatus ni)))"
proof -
  have "responds ni (withLogging (if prl_Enabled cfg then withRateLimit lib ni draws (mux ni dtext service) else mux ni dtext service))"
    by (simp add: responds_withLogging responds_withRateLimit responds_mux)
  from responds_router[OF this, of r draws timeout s]
  have "\<not> fst (serve_http (NewRouter lib ni dtext timeout cfg service draws) r s)"
    "\<exists>n bodies. proper ni r n bodies \<and>
       sends n (request_id draws r) bodies (snd (serve_http (NewRouter lib ni dtext timeout cfg service draws) r s))"
    by (simp_all add: NewRouter_def Let_def answered_with_def responded_def)
  then show ?thesis unfolding Let_def proper_def by blast
qed

text \<open>\<open>//healthz\<close> is redirected to \<open>/healthz\<close>, and an escaped slash is no separator.\<close>

lemma unclean_paths:
  "pq_Path r = ''//healthz'' \<Longrightarrow> pq_Method r = ''GET'' \<Longrightarrow>
     mux ni dtext service c r s = mux_redirect ni ''/healthz'' c r s"
  "pq_Path r = ''/api%2Fv1/verify'' \<Longrightarrow> pq_Method r = ''GET'' \<Longrightarrow>
     mux ni dtext service c r s = (False, mux_error 404 ''404 page not found'' s)"
proof -
  have p: "EscapedPath ''//healthz'' = ''//healthz''" "EscapedPath ''/api%2Fv1/verify'' = ''/api%2Fv1/verify''"
    "cleanPath ''/api%2Fv1/verify'' = ''/api%2Fv1/verify''" "path_segments ''/api%2Fv1/verify'' = [''api/v1'', ''verify'']"
    by code_simp+
  show "pq_Path r = ''//healthz'' \<Longrightarrow> pq_Method r = ''GET'' \<Longrightarrow>
      mux ni dtext service c r s = mux_redirect ni ''/healthz'' c r s"
    by (simp add: mux_def p cleanPath_examples)
  show "pq_Path r = ''/api%2Fv1/verify'' \<Longrightarrow> pq_Method r = ''GET'' \<Longrightarrow>
      mux ni dtext service c r s = (False, mux_error 404 ''404 page not found'' s)"
    by (simp add: mux_def p)
qed

text \<open>The same fact for the server, without the details.\<close>

lemma answered_once_panic: "\<not> fst (pub_server lib ni dtext ed cfg draws r s)"
proof -
  let ?m = "mux ni dtext (NewVerificationService ed (pc_JWTEncKey cfg))"
  have "responds ni (withLogging (if prl_Enabled (pc_RateLimit cfg) then withRateLimit lib ni draws ?m else ?m))"
    by (simp add: responds_withLogging responds_withRateLimit responds_mux)
  from responds_router[OF this, of r draws "pc_RequestTimeout cfg" s] show ?thesis
    unfolding pub_server_def NewRouter_def Let_def answered_with_def by blast
qed

section \<open>A request whose handler returns\<close>

definition inner_ctx :: "pub_draws \<Rightarrow> duration \<Rightarrow> pub_request \<Rightarrow> pub_ctx" where
  "inner_ctx draws timeout r = \<lparr>cx_requestID = Some (request_id draws r), cx_deadline = Some (pd_now draws + timeout)\<rparr>"

definition inner_state :: "pub_draws \<Rightarrow> pub_request \<Rightarrow> 'l pub_state \<Rightarrow> 'l pub_state" where
  "inner_state draws r s = set_header ''X-Request-ID'' (request_id draws r) (s\<lparr>ps_writer := fresh_writer\<rparr>)"

lemma inner_state_simps [simp]:
  "unsent (inner_state draws r s)" "has_id (request_id draws r) (inner_state draws r s)"
  "ps_sess (inner_state draws r s) = ps_sess s" "ps_limiter (inner_state draws r s) = ps_limiter s"
  "ps_writer (inner_state draws r s)\<lparr>wr_recorded := 200\<rparr> = ps_writer (inner_state draws r s)"
  by (simp_all add: inner_state_def) (simp_all add: unsent_def fresh_writer_def set_header_def)

lemma ps_writer_id [simp]: "s\<lparr>ps_writer := ps_writer s\<rparr> = s"
  by (cases s) simp

lemma router_returns:
  assumes "h (inner_ctx draws timeout r) r (inner_state draws r s) = (False, t)"
  shows "\<exists>e. serve_http (withRequestTimeout draws timeout (withRecover (withRequestID draws (withLogging h)))) r s
    = (False, log_event e t)"
proof -
  let ?c = "\<lparr>cx_requestID = None, cx_deadline = Some (pd_now draws + timeout)\<rparr>"
  have "withRequestID draws (withLogging h) ?c r (s\<lparr>ps_writer := fresh_writer\<rparr>) =
      withLogging h (inner_ctx draws timeout r) r (inner_state draws r s)"
    by (simp add: withRequestID_def inner_ctx_def inner_state_def request_id_def withRequestIDContext_def Let_def)
  then show ?thesis
    using assms by (auto simp: serve_http_def withRequestTimeout_def withRecover_def withLogging_def Let_def)
qed

section \<open>Verification over HTTP\<close>

lemma sent_answer_error:
  assumes "unsent s" "has_id i s"
  shows "answer dtext body (Some (Inl e), db) s = (False, pub_writeError dtext e (s\<lparr>ps_sess := db\<rparr>)) \<and>
    sent (error_status e) i (error_body dtext e) (pub_writeError dtext e (s\<lparr>ps_sess := db\<rparr>))"
  using sent_writeError[of "s\<lparr>ps_sess := db\<rparr>" i e dtext] assms by (simp add: answer_def)

lemma sent_answer_body:
  assumes "unsent s" "has_id i s" "encodable (body x)"
  shows "answer dtext body (Some (Inr x), db) s = (False, pub_writeJSON 200 (body x) (s\<lparr>ps_sess := db\<rparr>)) \<and>
    sent 200 i (PubJSON (body x)) (pub_writeJSON 200 (body x) (s\<lparr>ps_sess := db\<rparr>))"
  using sent_writeJSON[of "s\<lparr>ps_sess := db\<rparr>" i "body x" 200] assms by (simp add: answer_def)

text \<open>The answers of the endpoints behind the rate limiter, as a predicate on the state after.\<close>

definition limited :: "('l, 'r) rate_lib \<Rightarrow> net_lib \<Rightarrow> pub_draws \<Rightarrow> PubRateLimit \<Rightarrow> pub_request \<Rightarrow> 'l pub_state \<Rightarrow> bool" where
  "limited lib ni draws cfg r s \<longleftrightarrow> prl_Enabled cfg \<and>
     fst (limit_request lib (extractClientIP ni r) (pd_now draws) (ps_limiter s)) \<noteq> Proceed"

lemma sent_limited:
  assumes "unsent s" "has_id i s"
  shows "sent 429 i (PubJSON (StatusMap [(''error'', ''rate limit exceeded'')])) (writeRateLimitExceeded k (log_event e s))"
  using sent_writeJSON[of "set_header ''Retry-After'' (Itoa k) (log_event e s)" i
      "StatusMap [(''error'', ''rate limit exceeded'')]" 429] assms
  by (simp add: writeRateLimitExceeded_def)

lemma router_limited:
  assumes "limited lib ni draws cfg r s" "URL_Path r \<noteq> ''/healthz''"
  shows "let out = serve_http (NewRouter lib ni dtext timeout cfg service draws) r s
    in \<not> fst out \<and> ps_sess (snd out) = ps_sess s \<and>
       sent 429 (request_id draws r) (PubJSON (StatusMap [(''error'', ''rate limit exceeded'')])) (snd out)"
proof -
  let ?s = "inner_state draws r s" and ?h = "withRateLimit lib ni draws (mux ni dtext service)"
  obtain d l where l: "limit_request lib (extractClientIP ni r) (pd_now draws) (ps_limiter s) = (d, l)" by force
  have d: "d \<noteq> Proceed" using assms l by (simp add: limited_def)
  obtain k e where "?h (inner_ctx draws timeout r) r ?s = (False, writeRateLimitExceeded k (log_event e (?s\<lparr>ps_limiter := l\<rparr>)))"
    using d l assms(2) by (cases d) (auto simp: withRateLimit_def Let_def)
  from router_returns[of ?h draws timeout r s, OF this] obtain e' where "serve_http (NewRouter lib ni dtext timeout cfg service draws) r s =
      (False, log_event e' (writeRateLimitExceeded k (log_event e (?s\<lparr>ps_limiter := l\<rparr>))))"
    using assms(1) by (auto simp: NewRouter_def limited_def Let_def)
  then show ?thesis by (simp add: sent_limited)
qed

lemma router_passes:
  assumes "\<not> limited lib ni draws cfg r s" "URL_Path r \<noteq> ''/healthz''"
    "\<And>l. mux ni dtext service (inner_ctx draws timeout r) r (inner_state draws r s\<lparr>ps_limiter := l\<rparr>) = (False, t l)"
  shows "\<exists>e l. serve_http (NewRouter lib ni dtext timeout cfg service draws) r s = (False, log_event e (t l))"
proof (cases "prl_Enabled cfg")
  case True
  obtain d l where l: "limit_request lib (extractClientIP ni r) (pd_now draws) (ps_limiter s) = (d, l)" by force
  have "withRateLimit lib ni draws (mux ni dtext service) (inner_ctx draws timeout r) r (inner_state draws r s) = (False, t l)"
    using True l assms by (simp add: withRateLimit_def limited_def Let_def)
  from router_returns[of "withRateLimit lib ni draws (mux ni dtext service)" draws timeout r s, OF this] show ?thesis using True by (auto simp: NewRouter_def Let_def)
next
  case False
  have "inner_state draws r s\<lparr>ps_limiter := ps_limiter s\<rparr> = inner_state draws r s"
    by (cases "inner_state draws r s") (metis inner_state_simps(4) pub_state.select_convs(2) pub_state.update_convs(2))
  with assms(3)[of "ps_limiter s"]
  have "mux ni dtext service (inner_ctx draws timeout r) r (inner_state draws r s) = (False, t (ps_limiter s))" by simp
  from router_returns[of "mux ni dtext service" draws timeout r s, OF this] show ?thesis using False by (auto simp: NewRouter_def Let_def)
qed

text \<open>The path of the endpoint is clean and decodes to itself.\<close>

lemma verify_path:
  "EscapedPath ''/api/v1/verify'' = ''/api/v1/verify''" "cleanPath ''/api/v1/verify'' = ''/api/v1/verify''"
  "path_segments ''/api/v1/verify'' = [''api'', ''v1'', ''verify'']"
  "url_unescape encodePath ''/api/v1/verify'' = ''/api/v1/verify''"
  by code_simp+

lemma mux_verify:
  assumes "pq_Path r = ''/api/v1/verify''" "pq_Method r = ''GET''"
  shows "mux ni dtext service c r s = pub_verify dtext service c r s"
  using assms by (simp add: mux_def verify_path)

text \<open>
  C31: the verification endpoint.  A \<open>GET /api/v1/verify\<close> that the rate limiter refuses is answered
  429 and reads nothing.  Otherwise the answer is that of the service on the trimmed payload: its
  response with 200 (unless its revocation date has no JSON form, then 500), 400 for a blank or
  invalid payload without saying why, 500 for anything else.
\<close>

theorem http_verify:
  assumes "pq_Path r = ''/api/v1/verify''" "pq_Method r = ''GET''"
    "VerifyPayload ed (pc_JWTEncKey cfg) (TrimSpace (pq_query r ''payload'')) (ps_sess s) = (result, db)"
    "pub_server lib ni dtext ed cfg draws r s = (panicked, s')"
  shows "if limited lib ni draws (pc_RateLimit cfg) r s
    then ps_sess s' = ps_sess s \<and>
      sent 429 (request_id draws r) (PubJSON (StatusMap [(''error'', ''rate limit exceeded'')])) s'
    else ps_sess s' = db \<and>
      (case result of
         Inr resp \<Rightarrow>
           if encodable (VerifyBody resp) then sent 200 (request_id draws r) (PubJSON (VerifyBody resp)) s'
           else sent 500 (request_id draws r) (PubJSON (StatusMap [(''error'', ''internal server error'')])) s'
       | Inl e \<Rightarrow> sent (error_status e) (request_id draws r) (error_body dtext e) s')"
proof (cases "limited lib ni draws (pc_RateLimit cfg) r s")
  case True
  then show ?thesis
    using router_limited[OF True, of dtext "pc_RequestTimeout cfg" "NewVerificationService ed (pc_JWTEncKey cfg)"] assms(1,4)
    by (simp add: pub_server_def URL_Path_def verify_path)
next
  case False
  let ?service = "NewVerificationService ed (pc_JWTEncKey cfg)"
  let ?s = "\<lambda>l. inner_state draws r s\<lparr>ps_limiter := l\<rparr>"
  have m: "mux ni dtext ?service (inner_ctx draws (pc_RequestTimeout cfg) r) r (?s l) =
      answer dtext VerifyBody (Some result, db) (?s l)" for l
    using assms(1-3) by (simp add: mux_verify pub_verify_def NewVerificationService_def)
  define t where "t = (\<lambda>l. snd (answer dtext VerifyBody (Some result, db) (?s l)))"
  have a: "answer dtext VerifyBody (Some result, db) (?s l) = (False, t l)" for l
    by (cases result) (simp_all add: t_def answer_def)
  obtain e l where out: "s' = log_event e (t l)"
    using router_passes[OF False, of dtext ?service "pc_RequestTimeout cfg" t] m a assms(1,4)
    by (auto simp: pub_server_def URL_Path_def verify_path)
  show ?thesis
  proof (cases result)
    case (Inl e)
    then have "ps_sess (t l) = db" by (simp add: t_def answer_def)
    then show ?thesis
      using Inl False out sent_answer_error[of "?s l" "request_id draws r" dtext VerifyBody e db] a[of l] by simp
  next
    case (Inr x)
    have "t l = pub_writeJSON 200 (VerifyBody x) (?s l\<lparr>ps_sess := db\<rparr>)"
      using Inr by (simp add: t_def answer_def)
    then show ?thesis
      using False out Inr sent_writeJSON[of "?s l\<lparr>ps_sess := db\<rparr>" "request_id draws r" "VerifyBody x" 200]
      by (cases "encodable (VerifyBody x)") (simp_all del: encodable.simps)
  qed
qed

lemma VerifyPayload_trim: "VerifyPayload lib key (TrimSpace token) s = VerifyPayload lib key token s"
  by (simp add: VerifyPayload_def)

definition sample_pub_config :: PubConfig where
  "sample_pub_config = \<lparr>pc_HTTPAddr = '':8080'', pc_DatabaseURL = ''db'', pc_RequestTimeout = 5000000000,
     pc_LogLevel = ''info'', pc_DBMaxConns = 10, pc_JWTEncKey = toy_key, pc_RateLimit = default_limits\<rparr>"

definition sample_pub_request :: pub_request where
  "sample_pub_request = \<lparr>pq_Method = ''GET'', pq_Path = ''/api/v1/verify'',
     pq_RawQuery = ''payload='' @ sample_token, pq_header = (\<lambda>_. ''''),
     pq_query = (\<lambda>k. if k = ''payload'' then sample_token else ''''), pq_RemoteAddr = ''10.0.0.1:99''\<rparr>"

definition sample_pub_draws :: pub_draws where
  "sample_pub_draws = \<lparr>pd_now = 0, pd_rand = Some ''abcdefghijkl'', pd_UnixNano = 0\<rparr>"

definition sample_pub_state :: "bucket pub_state" where
  "sample_pub_state = \<lparr>ps_sess = \<lparr>tables = registry_db, faults = []\<rparr>,
     ps_limiter = newIPRateLimiter default_limits, ps_log = [], ps_writer = fresh_writer\<rparr>"

definition sample_netip :: net_lib where
  "sample_netip = \<lparr>ni_ParseAddrPort = (\<lambda>_. Some ''10.0.0.1''), ni_ParseAddr = (\<lambda>_. None),
     ni_RedirectStatus = 307\<rparr>"

lemma sample_not_limited:
  "\<not> limited token_buckets sample_netip sample_pub_draws default_limits sample_pub_request sample_pub_state"
  by (simp add: limited_def sample_pub_state_def newIPRateLimiter_def default_limits_def limit_request_def
      reserve_def cleanupVisitors_def token_buckets_def token_time_def credit_at_def Let_def)

lemma http_verify_witness:
  "\<exists>s'. pub_server token_buckets sample_netip (\<lambda>_. '''') toy_ed25519 sample_pub_config sample_pub_draws
      sample_pub_request sample_pub_state = (False, s') \<and>
    sent 200 (hex_encode ''abcdefghijkl'')
      (PubJSON (VerifyBody (issued_response (sample_claims ''n0'') sample_row ''n0'' keyed_university))) s'"
proof -
  let ?resp = "issued_response (sample_claims ''n0'') sample_row ''n0'' keyed_university"
  obtain p s' where o: "pub_server token_buckets sample_netip (\<lambda>_. '''') toy_ed25519 sample_pub_config sample_pub_draws
      sample_pub_request sample_pub_state = (p, s')" by force
  have p: "p = False"
    using answered_once_panic[of token_buckets sample_netip "\<lambda>_. ''''" toy_ed25519 sample_pub_config sample_pub_draws
        sample_pub_request sample_pub_state] o by simp
  have v: "VerifyPayload toy_ed25519 (pc_JWTEncKey sample_pub_config) (TrimSpace (pq_query sample_pub_request ''payload''))
      (ps_sess sample_pub_state) = (Inr ?resp, \<lparr>tables = registry_db, faults = []\<rparr>)"
    using sample_verifies unfolding VerifyPayload_trim
    by (simp add: sample_pub_request_def sample_pub_state_def sample_pub_config_def)
  have e: "encodable (VerifyBody ?resp)" by (simp add: issued_response_def sample_row_def)
  have i: "request_id sample_pub_draws sample_pub_request = hex_encode ''abcdefghijkl''"
    by (simp add: request_id_def sample_pub_request_def newRequestID_def sample_pub_draws_def)
  have c: "pc_RateLimit sample_pub_config = default_limits" by (simp add: sample_pub_config_def)
  show ?thesis
    using http_verify[OF _ _ v o] sample_not_limited e o p i c
    by (simp add: sample_pub_request_def del: encodable.simps)
qed

section \<open>Reading only\<close>

definition reads_only :: "'l pub_handler \<Rightarrow> bool" where
  "reads_only h \<longleftrightarrow> (\<forall>c r s. tables (ps_sess (snd (h c r s))) = tables (ps_sess s))"

lemma reads_only_answer:
  "tables (ps_sess (snd (answer dtext body x s))) = tables (snd x)"
  by (auto simp: answer_def Let_def split: prod.split option.split sum.split)

lemma reads_only_layers:
  assumes "reads_only h"
  shows "reads_only (withRateLimit lib ni draws h)" "reads_only (withLogging h)"
    "reads_only (withRequestID draws h)" "reads_only (withRecover h)" "reads_only (withRequestTimeout draws d h)"
proof -
  have h: "h c r s = (p, t) \<Longrightarrow> tables (ps_sess t) = tables (ps_sess s)" for c r s p t
    using assms unfolding reads_only_def by (metis snd_conv)
  show "reads_only (withRateLimit lib ni draws h)"
    using assms by (auto simp: reads_only_def withRateLimit_def Let_def split: prod.split decision.split)
  show "reads_only (withLogging h)" "reads_only (withRecover h)"
    by (auto simp: reads_only_def withLogging_def withRecover_def Let_def split: prod.split bool.split dest!: h)
  show "reads_only (withRequestID draws h)" "reads_only (withRequestTimeout draws d h)"
    using assms by (auto simp: reads_only_def withRequestID_def withRequestTimeout_def Let_def)
qed

text \<open>What the router needs of a service to only read, and that the verification service has it.\<close>

locale reading_service =
  fixes service :: verificationService
  assumes verify_reads: "tables (snd (vs_VerifyPayload service payload s)) = tables s"
    and search_reads: "tables (snd (vs_Search service vuzCode number s)) = tables s"
begin

lemma reads_only_mux: "reads_only (mux ni dtext service)"
  by (auto simp: reads_only_def mux_def healthz_def pub_verify_def pub_search_def reads_only_answer
      verify_reads search_reads Let_def split: option.split)

lemma reads_only_router: "reads_only (NewRouter lib ni dtext timeout limits service draws)"
  by (simp add: NewRouter_def Let_def reads_only_mux reads_only_layers)

end

interpretation verification: reading_service "NewVerificationService ed key" for ed key
  by unfold_locales (simp_all add: NewVerificationService_def split: prod.split, (metis VerifyPayload_read PubSearch_read snd_conv)+)

text \<open>
  The public service never writes.  Whatever the request, the settings, the keys and the faults,
  serving it leaves every table of the registry as it was.
\<close>

lemma public_server_reads_only:
  "tables (ps_sess (snd (pub_server lib ni dtext ed cfg draws r s))) = tables (ps_sess s)"
  by (simp add: pub_server_def serve_http_def verification.reads_only_router[unfolded reads_only_def, rule_format])

section \<open>Panics\<close>

text \<open>
  \<open>withRecover\<close> stands outside \<open>withRequestID\<close>: the entry it logs has no identifier, and the request
  has no entry of its own.
\<close>

lemma panic_log_has_no_id:
  assumes "\<And>c s. h c r s = (True, s)"
  shows "ps_log (snd (serve_http (withRequestTimeout draws d (withRecover (withRequestID draws (withLogging h)))) r s)) =
    ps_log s @ [PanicRecovered '''']"
  using assms
  by (simp add: serve_http_def withRequestTimeout_def withRecover_def withRequestID_def withLogging_def Let_def
      requestIDFromContext_def pub_writeJSON_def log_event_def set_header_def WriteHeader_def Write_def)

text \<open>The client names its own address: a new value of the header is a new visitor.\<close>

lemma forwarded_for_is_trusted:
  "pq_header r ''X-Forwarded-For'' = ''1.2.3.4'' \<Longrightarrow> extractClientIP ni r = ''1.2.3.4''"
  by (simp add: extractClientIP_def TrimSpace_graphic graphic_def)

end
