(* ===== verification/PubConfigProps.thy ===== *)
theory PubConfigProps
  imports PubConfig
begin

text \<open>
  What a loaded configuration satisfies, when both services derive the same key from a secret, and
  what the connection URL says.
\<close>

section \<open>One secret, two derivations\<close>

lemma decodeHex_Inr: "decodeJWTEncKeyHex v = Inr k \<longleftrightarrow> hex_decode v = Some k \<and> length k = 32"
  by (auto simp: decodeJWTEncKeyHex_def)

lemma decodeBase64_Inr:
  "decodeJWTEncKeyBase64 n v = Inr k \<longleftrightarrow>
     (std_decode v = Some k \<or> std_decode v = None \<and> raw_std_decode v = Some k) \<and> length k = 32"
  by (auto simp: decodeJWTEncKeyBase64_def split: option.split)

lemma TrimSpace_b64: "TrimSpace (b64_encode url pad bs) = b64_encode url pad bs"
proof (cases "b64_encode url pad bs = []")
  case False
  then show ?thesis
    using b64_encode_graphic[OF hd_in_set[OF False]] b64_encode_graphic[OF last_in_set[OF False]]
    by (simp add: TrimSpace_graphic)
qed simp

text \<open>
  C36: the gateway and the public service derive the same AES key from a secret, and refuse the same
  secrets, unless it is base64 without its padding.
\<close>

theorem key_derivations_agree:
  assumes "std_decode (TrimSpace secret) \<noteq> None \<or> raw_std_decode (TrimSpace secret) = None"
  shows "deriveJWTEncKey secret = Inr key \<longleftrightarrow> deriveAES256Key secret = Inr key"
proof (cases "TrimSpace secret = ''''")
  case True
  then show ?thesis by (simp add: deriveJWTEncKey_def deriveAES256Key_def)
next
  case False
  have eff: "pub_bestEffortSecretBytes (TrimSpace secret) = bestEffortSecretBytes (TrimSpace secret)"
    using assms by (auto simp: pub_bestEffortSecretBytes_def bestEffortSecretBytes_def split: option.split)
  show ?thesis
  proof (cases "decodeJWTEncKeyHex (TrimSpace secret)")
    case (Inr k)
    from this[unfolded decodeHex_Inr] show ?thesis
      using False Inr by (auto simp: deriveJWTEncKey_def deriveAES256Key_def decodeExactKey_def Let_def)
  next
    case (Inl e)
    then have h: "\<And>k. hex_decode (TrimSpace secret) = Some k \<Longrightarrow> length k \<noteq> 32"
      by (auto simp: decodeJWTEncKeyHex_def split: if_splits)
    show ?thesis
    proof (cases "decodeJWTEncKeyBase64 ''JWT_ENC_SECRET'' (TrimSpace secret)")
      case (Inr k)
      then have "std_decode (TrimSpace secret) = Some k" "length k = 32"
        using assms by (auto simp: decodeBase64_Inr)
      then show ?thesis using False Inl Inr h
        by (auto simp: deriveJWTEncKey_def deriveAES256Key_def decodeExactKey_def Let_def split: option.split)
    next
      case (Inl e')
      then have b: "\<And>k. std_decode (TrimSpace secret) = Some k \<Longrightarrow> length k \<noteq> 32"
        using decodeBase64_Inr by (metis Inl_Inr_False)
      have "decodeExactKey (TrimSpace secret) = None"
        using h b by (auto simp: decodeExactKey_def split: option.split)
      then show ?thesis
        using False Inl \<open>decodeJWTEncKeyHex (TrimSpace secret) = Inl e\<close> eff
        by (simp add: deriveJWTEncKey_def deriveAES256Key_def Let_def)
    qed
  qed
qed

lemma key_derivations_agree_witness:
  "deriveJWTEncKey (std_encode (replicate 32 (CHR ''k''))) = Inr (replicate 32 (CHR ''k'')) \<longleftrightarrow>
   deriveAES256Key (std_encode (replicate 32 (CHR ''k''))) = Inr (replicate 32 (CHR ''k''))"
  by (rule key_derivations_agree) (simp add: TrimSpace_b64)

text \<open>Without the padding the gateway hashes the text and the public service what it encodes.\<close>

lemma unpadded_secret_diverges:
  "deriveAES256Key ''QQ'' = Inr (Sum256 ''QQ'')" "deriveJWTEncKey ''QQ'' = Inr (Sum256 ''A'')"
proof -
  have t: "TrimSpace ''QQ'' = ''QQ''" by (rule TrimSpace_graphic) (simp_all add: graphic_def)
  have d: "hex_decode ''QQ'' = None" "std_decode ''QQ'' = None" "raw_std_decode ''QQ'' = Some ''A''"
    by code_simp+
  show "deriveAES256Key ''QQ'' = Inr (Sum256 ''QQ'')"
    by (simp add: deriveAES256Key_def t d decodeExactKey_def bestEffortSecretBytes_def Let_def del: hex_decode.simps)
  show "deriveJWTEncKey ''QQ'' = Inr (Sum256 ''A'')"
    by (simp add: deriveJWTEncKey_def t d decodeJWTEncKeyHex_def decodeJWTEncKeyBase64_def pub_bestEffortSecretBytes_def Let_def del: hex_decode.simps)
qed

section \<open>A loaded configuration\<close>

lemma envInt_range: "envIntOrDefault env k f = Inr n \<Longrightarrow> int_min \<le> f \<Longrightarrow> f \<le> int_max \<Longrightarrow> int_min \<le> n \<and> n \<le> int_max"
  by (auto simp: envIntOrDefault_def Atoi_def Let_def split: if_splits option.splits)

lemma env_duration_range: "env_duration m env k f = Inr d \<Longrightarrow> int_min \<le> d \<and> d \<le> int_max"
  by (auto simp: env_duration_def dest: ParseDuration_range)

lemma check_rate_limit_ok: "check_rate_limit r = Inr x \<longleftrightarrow>
    (prl_Enabled r \<longrightarrow> \<not> float_le_zero (prl_RequestsPerSec r) \<and> prl_Burst r > 0 \<and> prl_VisitorTTL r > 0 \<and>
       prl_CleanupInterval r > 0)"
  by (auto simp: check_rate_limit_def)

text \<open>A rate that passes the check: NaN, positive infinity or a positive number.\<close>

lemma not_float_le_zero: "\<not> float_le_zero f \<longleftrightarrow> f = NaN \<or> f = PosInf \<or> (\<exists>q > 0. f = Finite q)"
  by (cases f) auto

text \<open>
  C37: what a loaded configuration satisfies.  The key is one of AES-256, the connection limit is the
  setting wrapped to an \<open>int32\<close>, and so the setting itself when that fits, the durations are those of
  Go, the rate limiter's burst and times are the settings, and when it is enabled they are positive and
  its rate is positive or not a number; nothing is required of a disabled one.
\<close>

theorem load_well_formed:
  assumes "Load ParseFloat env = Inr cfg"
  shows "length (pc_JWTEncKey cfg) = 32 \<and> - (2 ^ 31) \<le> pc_DBMaxConns cfg \<and> pc_DBMaxConns cfg < 2 ^ 31 \<and>
    (\<exists>n. envIntOrDefault env ''DB_MAX_CONNS'' 10 = Inr n \<and> pc_DBMaxConns cfg = to_int32 n \<and>
       (- (2 ^ 31) \<le> n \<and> n < 2 ^ 31 \<longrightarrow> pc_DBMaxConns cfg = n)) \<and>
    int_min \<le> pc_RequestTimeout cfg \<and> pc_RequestTimeout cfg \<le> int_max \<and>
    envIntOrDefault env ''RATE_LIMIT_BURST'' 20 = Inr (prl_Burst (pc_RateLimit cfg)) \<and>
    envBoolOrDefault env ''RATE_LIMIT_ENABLED'' True = Inr (prl_Enabled (pc_RateLimit cfg)) \<and>
    envFloatOrDefault ParseFloat env ''RATE_LIMIT_RPS'' (Finite 5) = Inr (prl_RequestsPerSec (pc_RateLimit cfg)) \<and>
    prl_Burst (pc_RateLimit cfg) \<in> {int_min..int_max} \<and> prl_VisitorTTL (pc_RateLimit cfg) \<in> {int_min..int_max} \<and>
    prl_CleanupInterval (pc_RateLimit cfg) \<in> {int_min..int_max} \<and>
    (prl_Enabled (pc_RateLimit cfg) \<longrightarrow>
       (prl_RequestsPerSec (pc_RateLimit cfg) = NaN \<or> prl_RequestsPerSec (pc_RateLimit cfg) = PosInf \<or>
         (\<exists>q > 0. prl_RequestsPerSec (pc_RateLimit cfg) = Finite q)) \<and>
       0 < prl_Burst (pc_RateLimit cfg) \<and> 0 < prl_VisitorTTL (pc_RateLimit cfg) \<and>
       0 < prl_CleanupInterval (pc_RateLimit cfg))"
proof -
  obtain n en burst rps timeout ttl interval url key where c:
    "envIntOrDefault env ''DB_MAX_CONNS'' 10 = Inr n" "envIntOrDefault env ''RATE_LIMIT_BURST'' 20 = Inr burst"
    "env_duration ''time: invalid duration'' env ''REQUEST_TIMEOUT'' ''5s'' = Inr timeout"
    "env_duration ''RATE_LIMIT_VISITOR_TTL must be a valid duration'' env ''RATE_LIMIT_VISITOR_TTL'' ''10m'' = Inr ttl"
    "env_duration ''RATE_LIMIT_CLEANUP_INTERVAL must be a valid duration'' env ''RATE_LIMIT_CLEANUP_INTERVAL'' ''5m'' = Inr interval"
    "check_rate_limit (pc_RateLimit cfg) = Inr ()" "loadJWTEncKey env = Inr key"
    "pc_RateLimit cfg = \<lparr>prl_Enabled = en, prl_RequestsPerSec = rps, prl_Burst = burst, prl_VisitorTTL = ttl,
       prl_CleanupInterval = interval\<rparr>"
    "pc_DBMaxConns cfg = to_int32 n" "pc_JWTEncKey cfg = key" "pc_RequestTimeout cfg = timeout"
    "envBoolOrDefault env ''RATE_LIMIT_ENABLED'' True = Inr en"
    "envFloatOrDefault ParseFloat env ''RATE_LIMIT_RPS'' (Finite 5) = Inr rps"
    using assms unfolding Load_def bind_res_eq_Inr Let_def by fastforce
  have "int_min \<le> 20" "20 \<le> int_max" by (simp_all add: int_min_def int_max_def)
  note b = envInt_range[OF c(2) this]
  show ?thesis
    using c(6) unfolding c(8-11) check_rate_limit_ok not_float_le_zero
    using c(1,2,12,13) length_loadJWTEncKey[OF c(7)] to_int32_range[of n] to_int32_exact[of n] b
      env_duration_range[OF c(3)] env_duration_range[OF c(4)] env_duration_range[OF c(5)]
    by simp
qed

text \<open>An environment with only what has no default.\<close>

definition sample_env_vars :: "string \<Rightarrow> string" where
  "sample_env_vars k = (if k = ''DATABASE_URL'' then ''postgres://db'' else
     if k = ''JWT_ENC_KEY_HEX'' then replicate 64 (CHR ''0'') else '''')"

lemma TrimSpace_env: "TrimSpace (sample_env_vars k) = sample_env_vars k"
  by (simp add: sample_env_vars_def) (simp add: TrimSpace_graphic graphic_def)

lemma sample_hex_key: "decodeJWTEncKeyHex (replicate 64 (CHR ''0'')) = Inr (replicate 32 (byte 0))"
proof -
  have "hex_decode (replicate 64 (CHR ''0'')) = Some (replicate 32 (byte 0))" by code_simp
  then show ?thesis by (simp add: decodeHex_Inr)
qed

lemma sample_load:
  "Load (\<lambda>_. None) sample_env_vars = Inr \<lparr>pc_HTTPAddr = '':8080'', pc_DatabaseURL = ''postgres://db'',
     pc_RequestTimeout = 5000000000, pc_LogLevel = ''info'', pc_DBMaxConns = 10, pc_JWTEncKey = replicate 32 (byte 0),
     pc_RateLimit = \<lparr>prl_Enabled = True, prl_RequestsPerSec = Finite 5, prl_Burst = 20,
       prl_VisitorTTL = 600000000000, prl_CleanupInterval = 300000000000\<rparr>\<rparr>"
  unfolding Load_def envIntOrDefault_def envBoolOrDefault_def envFloatOrDefault_def env_duration_def envOrDefault_def
    loadDatabaseURL_def loadJWTEncKey_def TrimSpace_env
  by (simp add: sample_env_vars_def ParseDuration_examples check_rate_limit_def to_int32_exact sample_hex_key Let_def
      del: bind_res_eq_Inr)

lemma load_well_formed_witness:
  "\<exists>cfg. Load (\<lambda>_. None) sample_env_vars = Inr cfg \<and> length (pc_JWTEncKey cfg) = 32 \<and> 0 < prl_Burst (pc_RateLimit cfg)"
  using load_well_formed[OF sample_load] sample_load by auto

end
