(* ===== verification/UrlProps.thy ===== *)
theory UrlProps
  imports PubConfigProps GoUrl
begin

text \<open>
  The connection URL built from the settings determines them: no character of the user, the password,
  the host, the port, the database or the SSL mode escapes its place.
\<close>

section \<open>The parts of a printed URL\<close>

text \<open>
  \<open>url_parts\<close> splits a URL at the first delimiter of each part.  It is a device of the proofs, the left
  inverse of \<open>URL_String\<close>; it is not the reader of \<open>net/url\<close> or of the driver, which refuse some hosts
  and ports.
\<close>

definition split_at :: "char \<Rightarrow> string \<Rightarrow> string \<times> string" where
  "split_at c s = (takeWhile (\<lambda>x. x \<noteq> c) s, tl (dropWhile (\<lambda>x. x \<noteq> c) s))"

definition url_parts :: "string \<Rightarrow> URL" where
  "url_parts s =
     (case split_at (CHR '':'') s of (scheme, r) \<Rightarrow>
      case split_at (CHR ''@'') (drop 2 r) of (userinfo, r) \<Rightarrow>
      case split_at (CHR '':'') userinfo of (user, password) \<Rightarrow>
      case split_at (CHR ''/'') r of (host, r) \<Rightarrow>
      case split_at (CHR ''?'') r of (path, query) \<Rightarrow>
        \<lparr>url_Scheme = scheme, url_User = url_unescape encodeUserPassword user,
         url_Password = url_unescape encodeUserPassword password, url_Host = url_unescape encodeHost host,
         url_Path = url_unescape encodePath path, url_RawQuery = query\<rparr>)"

lemma split_at_append [simp]: "c \<notin> set p \<Longrightarrow> split_at c (p @ c # r) = (p, r)"
  by (induction p) (auto simp: split_at_def)

lemma escaped_absent:
  assumes "shouldEscape c mode" "\<not> alphanumeric c" "c \<noteq> CHR ''%''" "mode \<noteq> encodeQueryComponent"
  shows "c \<notin> set (url_escape mode s)"
  using assms upperhex_alphanumeric
  by (fastforce simp: url_escape_def escape_char_def split: if_splits)

lemma delimiters_absent:
  "CHR ''@'' \<notin> set (url_escape encodeUserPassword s)" "CHR '':'' \<notin> set (url_escape encodeUserPassword s)"
  "CHR ''/'' \<notin> set (url_escape encodeHost s)" "CHR ''?'' \<notin> set (url_escape encodePath s)"
  by (rule escaped_absent; simp add: shouldEscape_def alphanumeric_def)+

lemma hd_escape_path: "s \<noteq> [] \<Longrightarrow> hd s \<noteq> CHR ''/'' \<Longrightarrow> url_escape encodePath s \<noteq> [] \<and> hd (url_escape encodePath s) \<noteq> CHR ''/''"
  by (cases s) (auto simp: url_escape_def escape_char_def)

lemma url_parts_String:
  assumes "CHR '':'' \<notin> set (url_Scheme u)" "url_Path u \<noteq> []" "hd (url_Path u) \<noteq> CHR ''/''" "url_RawQuery u \<noteq> []"
  shows "url_parts (URL_String u) = u"
proof -
  define path where "path = (if url_Path u = ''*'' then ''*'' else url_escape encodePath (url_Path u))"
  have path: "path \<noteq> []" "hd path \<noteq> CHR ''/''" "CHR ''?'' \<notin> set path" "url_unescape encodePath path = url_Path u"
    using assms(2,3) hd_escape_path[of "url_Path u"] delimiters_absent(4)
    by (auto simp: path_def)
  let ?U = "url_escape encodeUserPassword (url_User u)" and ?P = "url_escape encodeUserPassword (url_Password u)"
  let ?H = "url_escape encodeHost (url_Host u)"
  have s: "URL_String u = url_Scheme u @ CHR '':'' # CHR ''/'' # CHR ''/'' # (?U @ CHR '':'' # ?P) @ CHR ''@'' #
      ?H @ CHR ''/'' # path @ CHR ''?'' # url_RawQuery u"
    using path(1,2) assms(4) by (simp add: URL_String_def path_def[symmetric] Let_def)
  have "CHR ''@'' \<notin> set (?U @ CHR '':'' # ?P)" using delimiters_absent(1) by simp
  note at = split_at_append[OF this]
  show ?thesis
    unfolding url_parts_def s
    using assms(1) path(3,4) delimiters_absent
    by (simp add: at[simplified])
qed

section \<open>Host and port, query\<close>

lemma last_separator:
  assumes "a @ c # p = b @ c # q" "c \<notin> set p" "c \<notin> set q"
  shows "a = b \<and> p = q"
  using assms by (auto simp: append_eq_append_conv2 Cons_eq_append_conv append_eq_Cons_conv)

lemma JoinHostPort_inject:
  assumes "JoinHostPort h p = JoinHostPort h' p'" "CHR '':'' \<notin> set p" "CHR '':'' \<notin> set p'"
  shows "h = h' \<and> p = p'"
proof -
  define b where "b = (\<lambda>h. if CHR '':'' \<in> set h then ''['' @ h @ '']'' else h)"
  have j: "JoinHostPort h p = b h @ CHR '':'' # p" for h p by (simp add: JoinHostPort_def b_def)
  from last_separator[OF assms(1)[unfolded j] assms(2,3)] have "b h = b h'" "p = p'" by auto
  moreover from \<open>b h = b h'\<close> have "h = h'" by (auto simp: b_def split: if_splits)
  ultimately show ?thesis by simp
qed

section \<open>The connection URL\<close>

text \<open>The settings of the connection, trimmed as \<open>Load\<close> trims them; the password is taken as it is.\<close>

definition connection_settings :: "(string \<Rightarrow> string) \<Rightarrow> string list" where
  "connection_settings env =
     [TrimSpace (env ''POSTGRES_USER''), env ''POSTGRES_PASSWORD'', TrimSpace (env ''POSTGRES_HOST''),
      TrimSpace (envOrDefault env ''POSTGRES_PORT'' ''5432''), TrimSpace (env ''POSTGRES_DB''),
      TrimSpace (envOrDefault env ''POSTGRES_SSLMODE'' ''disable'')]"

lemma loadDatabaseURL_parts:
  assumes "loadDatabaseURL env = Inr url" "TrimSpace (env ''DATABASE_URL'') = ''''"
    "hd (TrimSpace (env ''POSTGRES_DB'')) \<noteq> CHR ''/''"
  shows "url_parts url = \<lparr>url_Scheme = ''postgres'', url_User = TrimSpace (env ''POSTGRES_USER''),
      url_Password = env ''POSTGRES_PASSWORD'',
      url_Host = JoinHostPort (TrimSpace (env ''POSTGRES_HOST'')) (TrimSpace (envOrDefault env ''POSTGRES_PORT'' ''5432'')),
      url_Path = TrimSpace (env ''POSTGRES_DB''),
      url_RawQuery = encode_query ''sslmode'' (TrimSpace (envOrDefault env ''POSTGRES_SSLMODE'' ''disable''))\<rparr>"
  (is "_ = ?u")
proof -
  have "url = URL_String ?u" "TrimSpace (env ''POSTGRES_DB'') \<noteq> ''''"
    using assms by (auto simp: loadDatabaseURL_def Let_def split: if_splits)
  moreover have "url_parts (URL_String ?u) = ?u"
    by (rule url_parts_String) (use assms calculation(2) in \<open>simp_all add: encode_query_def\<close>)
  ultimately show ?thesis by simp
qed

text \<open>
  C38: the connection URL determines the settings it was made from.  Where no \<open>DATABASE_URL\<close> is set,
  the port has no colon and the database is not named with a leading slash, two environments that
  load the same URL have the same user, password, host, port, database and SSL mode, whatever bytes
  these hold: no value can pass for a part of another.
\<close>

theorem database_url_determines_settings:
  assumes "loadDatabaseURL env = Inr url" "loadDatabaseURL env' = Inr url"
    "\<And>e. e \<in> {env, env'} \<Longrightarrow> TrimSpace (e ''DATABASE_URL'') = '''' \<and>
       CHR '':'' \<notin> set (TrimSpace (envOrDefault e ''POSTGRES_PORT'' ''5432'')) \<and>
       hd (TrimSpace (e ''POSTGRES_DB'')) \<noteq> CHR ''/''"
  shows "connection_settings env = connection_settings env'"
proof -
  have e: "TrimSpace (env ''DATABASE_URL'') = ''''" "hd (TrimSpace (env ''POSTGRES_DB'')) \<noteq> CHR ''/''"
    "TrimSpace (env' ''DATABASE_URL'') = ''''" "hd (TrimSpace (env' ''POSTGRES_DB'')) \<noteq> CHR ''/''"
    using assms(3) by auto
  note parts = loadDatabaseURL_parts[OF assms(1) e(1,2)] loadDatabaseURL_parts[OF assms(2) e(3,4)]
  have "JoinHostPort (TrimSpace (env ''POSTGRES_HOST'')) (TrimSpace (envOrDefault env ''POSTGRES_PORT'' ''5432'')) =
      JoinHostPort (TrimSpace (env' ''POSTGRES_HOST'')) (TrimSpace (envOrDefault env' ''POSTGRES_PORT'' ''5432''))"
    using parts by simp
  from JoinHostPort_inject[OF this] assms(3) show ?thesis
    using parts by (simp add: connection_settings_def encode_query_def)
qed

definition sample_connection :: "string \<Rightarrow> string" where
  "sample_connection k =
     (if k = ''POSTGRES_HOST'' then ''db'' else if k = ''POSTGRES_USER'' then ''app''
      else if k = ''POSTGRES_DB'' then ''diasoft'' else if k = ''POSTGRES_PASSWORD'' then ''p@ss:/w?'' else '''')"

text \<open>Another environment that loads the URL of the sample must have its password.\<close>

lemma database_url_determines_settings_witness:
  "\<exists>env. loadDatabaseURL env = loadDatabaseURL sample_connection \<and> env \<noteq> sample_connection \<and>
     connection_settings env = [''app'', ''p@ss:/w?'', ''db'', ''5432'', ''diasoft'', ''disable'']"
proof -
  define env where "env = sample_connection(''POSTGRES_PORT'' := ''5432'')"
  have t: "TrimSpace (sample_connection ''POSTGRES_HOST'') = ''db''" "TrimSpace (sample_connection ''POSTGRES_USER'') = ''app''"
    "TrimSpace (sample_connection ''POSTGRES_DB'') = ''diasoft''" "TrimSpace (sample_connection ''DATABASE_URL'') = ''''"
    "TrimSpace ''5432'' = ''5432''" "TrimSpace ''disable'' = ''disable''"
    "envOrDefault sample_connection ''POSTGRES_PORT'' ''5432'' = ''5432''"
    "envOrDefault sample_connection ''POSTGRES_SSLMODE'' ''disable'' = ''disable''"
    "envOrDefault env ''POSTGRES_PORT'' ''5432'' = ''5432''"
    "envOrDefault env ''POSTGRES_SSLMODE'' ''disable'' = ''disable''"
    by (simp_all add: sample_connection_def TrimSpace_graphic graphic_def envOrDefault_def env_def)
  have p: "sample_connection ''POSTGRES_PASSWORD'' = ''p@ss:/w?''" by (simp add: sample_connection_def)
  obtain url where url: "loadDatabaseURL sample_connection = Inr url" by (simp add: loadDatabaseURL_def Let_def t)
  have same: "loadDatabaseURL env = loadDatabaseURL sample_connection"
    by (simp add: loadDatabaseURL_def Let_def t env_def del: t(9,10)) (simp add: t env_def[symmetric])
  have ne: "env ''POSTGRES_PORT'' \<noteq> sample_connection ''POSTGRES_PORT''" by (simp add: env_def sample_connection_def)
  have "connection_settings env = connection_settings sample_connection"
    by (rule database_url_determines_settings[of _ url])
      (use t url same in \<open>auto simp: env_def[symmetric]\<close>, auto simp: env_def t)
  then show ?thesis
    using same ne t p by (intro exI[of _ env]) (auto simp: connection_settings_def)
qed

end
