(* ===== verification/Excel.thy ===== *)
theory Excel
  imports GoTime Services
begin

text \<open>
  \<open>gateway-service/internal/infrastructure/excel/generator.go\<close> and
  \<open>internal/infrastructure/qr/generator.go\<close>: the workbook of a batch and the drawing of QR codes.
  The libraries \<open>excelize\<close> and \<open>go-qrcode\<close> are parameters: a workbook is changed by calls that may
  fail, a QR code is a bitmap or a PNG.
\<close>

section \<open>QR codes\<close>

record 'c qrcode_lib =
  qc_New :: "string \<Rightarrow> 'c res"
  qc_PNG :: "'c \<Rightarrow> int \<Rightarrow> bytes res"
  qc_Bitmap :: "'c \<Rightarrow> bool list list"

definition PNG :: "'c qrcode_lib \<Rightarrow> string \<Rightarrow> int \<Rightarrow> bytes res" where
  "PNG lib content px = bind_res (qc_New lib content) (\<lambda>code. qc_PNG lib code px)"

text \<open>The double quote, and an attribute with a number.\<close>

definition attr :: "string \<Rightarrow> int \<Rightarrow> string" where
  "attr name n = name @ ''='' @ [CHR 34] @ Itoa n @ [CHR 34]"

definition quoted :: "string \<Rightarrow> string \<Rightarrow> string" where
  "quoted name v = name @ ''='' @ [CHR 34] @ v @ [CHR 34]"

definition svg_rect :: "int \<Rightarrow> int \<Rightarrow> int \<Rightarrow> string" where
  "svg_rect moduleSize x y =
     ''<rect '' @ attr ''x'' (x * moduleSize) @ '' '' @ attr ''y'' (y * moduleSize) @ '' '' @
     attr ''width'' moduleSize @ '' '' @ attr ''height'' moduleSize @ '' '' @ quoted ''fill'' ''#000000'' @ ''/>''"

fun svg_row :: "int \<Rightarrow> int \<Rightarrow> int \<Rightarrow> bool list \<Rightarrow> string" where
  "svg_row moduleSize y x [] = ''''"
| "svg_row moduleSize y x (value # row) =
     (if \<not> value then '''' else svg_rect moduleSize x y) @ svg_row moduleSize y (x + 1) row"

fun svg_rows :: "int \<Rightarrow> int \<Rightarrow> bool list list \<Rightarrow> string" where
  "svg_rows moduleSize y [] = ''''"
| "svg_rows moduleSize y (row # rows) = svg_row moduleSize y 0 row @ svg_rows moduleSize (y + 1) rows"

definition SVG :: "'c qrcode_lib \<Rightarrow> string \<Rightarrow> int \<Rightarrow> bytes res" where
  "SVG lib content moduleSize = bind_res (qc_New lib content) (\<lambda>code.
     let bitmap = qc_Bitmap lib code; dimension = int (length bitmap) * moduleSize
     in Inr (''<svg '' @ quoted ''xmlns'' ''http://www.w3.org/2000/svg'' @ '' viewBox='' @ [CHR 34] @
          ''0 0 '' @ Itoa dimension @ '' '' @ Itoa dimension @ [CHR 34] @ '' '' @
          quoted ''shape-rendering'' ''crispEdges'' @ ''>'' @
          ''<rect '' @ attr ''width'' dimension @ '' '' @ attr ''height'' dimension @ '' '' @
          quoted ''fill'' ''#ffffff'' @ ''/>'' @
          svg_rows moduleSize 0 bitmap @ ''</svg>''))"

definition NewGenerator :: "'c qrcode_lib \<Rightarrow> qr_generator" where
  "NewGenerator lib = \<lparr>qr_PNG = PNG lib, qr_SVG = SVG lib\<rparr>"

section \<open>The workbook library\<close>

datatype cell_value = CellInt int | CellString string

record style =
  st_BoldSize :: "int option"
  st_Horizontal :: string
  st_Vertical :: string
  st_WrapText :: bool

record panes =
  pn_Freeze :: bool
  pn_Split :: bool
  pn_YSplit :: int
  pn_TopLeftCell :: string
  pn_ActivePane :: string

record graphic_options =
  go_OffsetX :: int
  go_OffsetY :: int
  go_ScaleX :: rat
  go_ScaleY :: rat
  go_LockAspectRatio :: bool
  go_Positioning :: string

datatype xl_call =
    SetSheetName string string
  | SetCellValue string string cell_value
  | SetCellStyle string string string int
  | SetPanes string panes
  | SetRowHeight string int int
  | SetColWidth string string string int
  | AddPictureFromBytes string string string bytes graphic_options

text \<open>
  \<open>NewStyle\<close> yields the number of the style; a call yields the workbook or its error, except
  \<open>SetSheetName\<close> and \<open>CoordinatesToCellName\<close>, whose errors the code drops.
\<close>

record 'f excelize =
  xl_NewFile :: 'f
  xl_NewStyle :: "style \<Rightarrow> 'f \<Rightarrow> (int \<times> 'f) res"
  xl_do :: "xl_call \<Rightarrow> 'f \<Rightarrow> 'f res"
  xl_CoordinatesToCellName :: "int \<Rightarrow> int \<Rightarrow> string"
  xl_WriteToBuffer :: "'f \<Rightarrow> bytes res"

section \<open>The generator\<close>

definition valueOrEmpty :: "string option \<Rightarrow> string" where
  "valueOrEmpty v = (case v of None \<Rightarrow> '''' | Some s \<Rightarrow> s)"

definition sheetName :: string where
  "sheetName = map byte [208, 148, 208, 184, 208, 191, 208, 187, 208, 190, 208, 188, 209, 139]"

text \<open>The headings in UTF-8.\<close>

definition xl_headers :: "string list" where
  "xl_headers =
    [map byte [226, 132, 150, 32, 208, 183, 208, 176, 208, 191, 208, 184, 209, 129, 208, 184],
     map byte [208, 165, 208, 181, 209, 136, 32, 208, 180, 208, 184, 208, 191, 208, 187, 208, 190, 208,
      188, 208, 176],
     map byte [208, 164, 208, 152, 208, 158],
     map byte [208, 157, 208, 190, 208, 188, 208, 181, 209, 128, 32, 208, 180, 208, 184, 208, 191, 208,
      187, 208, 190, 208, 188, 208, 176],
     map byte [208, 161, 208, 191, 208, 181, 209, 134, 208, 184, 208, 176, 208, 187, 209, 140, 208, 189,
      208, 190, 209, 129, 209, 130, 209, 140],
     map byte [208, 161, 209, 130, 208, 181, 208, 191, 208, 181, 208, 189, 209, 140],
     map byte [208, 164, 208, 176, 208, 186, 209, 131, 208, 187, 209, 140, 209, 130, 208, 181, 209, 130],
     map byte [208, 147, 208, 190, 208, 180],
     map byte [208, 161, 209, 130, 208, 176, 209, 130, 209, 131, 209, 129],
     map byte [208, 158, 209, 136, 208, 184, 208, 177, 208, 186, 208, 176],
     map byte [81, 82, 45, 208, 186, 208, 190, 208, 180]]"

definition columnWidths :: "(string \<times> int) list" where
  "columnWidths = [(''A'', 10), (''B'', 66), (''C'', 32), (''D'', 24), (''E'', 34), (''F'', 18), (''G'', 22),
     (''H'', 10), (''I'', 14), (''J'', 28), (''K'', 24)]"

definition header_panes :: panes where
  "header_panes = \<lparr>pn_Freeze = True, pn_Split = False, pn_YSplit = 1, pn_TopLeftCell = ''A2'',
     pn_ActivePane = ''bottomLeft''\<rparr>"

definition qr_options :: graphic_options where
  "qr_options = \<lparr>go_OffsetX = 10, go_OffsetY = 8, go_ScaleX = 78 / 100, go_ScaleY = 78 / 100,
     go_LockAspectRatio = True, go_Positioning = ''oneCell''\<rparr>"

text \<open>Calls one after the other, up to the first error.\<close>

fun do_calls :: "'f excelize \<Rightarrow> xl_call list \<Rightarrow> 'f \<Rightarrow> 'f res" where
  "do_calls xl [] f = Inr f"
| "do_calls xl (c # cs) f = bind_res (xl_do xl c f) (do_calls xl cs)"

definition row_values :: "BatchDownloadRow \<Rightarrow> cell_value list" where
  "row_values row =
     [CellInt (bdr_RecordIndex row), CellString (bdr_DiplomaHash row), CellString (bdr_FullName row),
      CellString (bdr_DiplomaNumber row), CellString (bdr_Specialty row), CellString (bdr_Degree row),
      CellString (bdr_Faculty row), CellInt (bdr_Year row), CellString (bdr_Status row),
      CellString (valueOrEmpty (bdr_Error row))]"

text \<open>The cells of a row of the sheet from column \<open>column\<close> on.\<close>

fun set_cells :: "'f excelize \<Rightarrow> int \<Rightarrow> int \<Rightarrow> cell_value list \<Rightarrow> xl_call list" where
  "set_cells xl excelRow column [] = []"
| "set_cells xl excelRow column (v # vs) =
     SetCellValue sheetName (xl_CoordinatesToCellName xl column excelRow) v # set_cells xl excelRow (column + 1) vs"

definition qr_url :: "string \<Rightarrow> string \<Rightarrow> string" where
  "qr_url publicBaseURL payload =
     publicBaseURL @ ''/verify?payload='' @ url_escape encodeQueryComponent payload"

definition write_row :: "'f excelize \<Rightarrow> qr_generator \<Rightarrow> string \<Rightarrow> int \<Rightarrow> int \<Rightarrow> int \<Rightarrow> BatchDownloadRow \<Rightarrow> 'f \<Rightarrow> 'f res" where
  "write_row xl qr publicBaseURL bodyStyle centerStyle excelRow row f =
     (let n = Itoa excelRow in
      bind_res (do_calls xl (set_cells xl excelRow 1 (row_values row)) f) (\<lambda>f.
      bind_res (do_calls xl [SetCellStyle sheetName (''A'' @ n) (''K'' @ n) bodyStyle,
          SetCellStyle sheetName (''A'' @ n) (''A'' @ n) centerStyle,
          SetCellStyle sheetName (''H'' @ n) (''K'' @ n) centerStyle,
          SetRowHeight sheetName excelRow 128] f) (\<lambda>f.
      if bdr_QRPayload row = '''' then Inr f
      else bind_res (qr_PNG qr (qr_url publicBaseURL (bdr_QRPayload row)) 160) (\<lambda>pngBytes.
           xl_do xl (AddPictureFromBytes sheetName (xl_CoordinatesToCellName xl 11 excelRow) ''.png'' pngBytes qr_options) f))))"

fun write_rows :: "'f excelize \<Rightarrow> qr_generator \<Rightarrow> string \<Rightarrow> int \<Rightarrow> int \<Rightarrow> int \<Rightarrow> BatchDownloadRow list \<Rightarrow> 'f \<Rightarrow> 'f res" where
  "write_rows xl qr publicBaseURL bodyStyle centerStyle excelRow [] f = Inr f"
| "write_rows xl qr publicBaseURL bodyStyle centerStyle excelRow (row # rows) f =
     bind_res (write_row xl qr publicBaseURL bodyStyle centerStyle excelRow row f)
       (write_rows xl qr publicBaseURL bodyStyle centerStyle (excelRow + 1) rows)"

text \<open>The widths are set in the order \<open>widths\<close> in which the runtime enumerates the map.\<close>

definition BuildBatch :: "'f excelize \<Rightarrow> qr_generator \<Rightarrow> (string \<times> int) list \<Rightarrow> string \<Rightarrow> BatchDownloadRow list \<Rightarrow> bytes res" where
  "BuildBatch xl qr widths publicBaseURL rows =
     (let f = (case xl_do xl (SetSheetName ''Sheet1'' sheetName) (xl_NewFile xl) of Inl _ \<Rightarrow> xl_NewFile xl | Inr f \<Rightarrow> f) in
      bind_res (xl_NewStyle xl \<lparr>st_BoldSize = Some 11, st_Horizontal = ''center'', st_Vertical = ''center'', st_WrapText = True\<rparr> f) (\<lambda>(headerStyle, f).
      bind_res (xl_NewStyle xl \<lparr>st_BoldSize = None, st_Horizontal = '''', st_Vertical = ''top'', st_WrapText = True\<rparr> f) (\<lambda>(bodyStyle, f).
      bind_res (xl_NewStyle xl \<lparr>st_BoldSize = None, st_Horizontal = ''center'', st_Vertical = ''center'', st_WrapText = True\<rparr> f) (\<lambda>(centerStyle, f).
      bind_res (do_calls xl (set_cells xl 1 1 (map CellString xl_headers)) f) (\<lambda>f.
      bind_res (do_calls xl ([SetCellStyle sheetName ''A1'' ''K1'' headerStyle, SetPanes sheetName header_panes,
          SetRowHeight sheetName 1 28] @ map (\<lambda>(column, width). SetColWidth sheetName column column width) widths) f) (\<lambda>f.
      bind_res (write_rows xl qr publicBaseURL bodyStyle centerStyle 2 rows f) (xl_WriteToBuffer xl)))))))"

end
