(* ===== verification/ExcelProps.thy ===== *)
theory ExcelProps
  imports Excel
begin

text \<open>
  What the workbook of a batch shows, for a workbook library that keeps what it is told.
\<close>

section \<open>The library\<close>

text \<open>
  \<open>cell\<close> and \<open>pic\<close> read the sheet: setting a cell or a picture sets just that, the other calls change
  neither, and different coordinates of a sheet, whose columns end at 16384, have different names.
  Excel cuts the text of a cell after 32767 characters; the laws are those of texts within this limit.
\<close>

definition layout_call :: "xl_call \<Rightarrow> bool" where
  "layout_call c = (case c of SetCellValue _ _ _ \<Rightarrow> False | AddPictureFromBytes _ _ _ _ _ \<Rightarrow> False | _ \<Rightarrow> True)"

definition excelize_laws :: "'f excelize \<Rightarrow> ('f \<Rightarrow> string \<rightharpoonup> cell_value) \<Rightarrow> ('f \<Rightarrow> string \<rightharpoonup> bytes) \<Rightarrow> bool" where
  "excelize_laws xl cell pic \<longleftrightarrow>
     (\<forall>k v f f'. xl_do xl (SetCellValue sheetName k v) f = Inr f' \<longrightarrow> cell f' = (cell f)(k \<mapsto> v) \<and> pic f' = pic f) \<and>
     (\<forall>k ext b opts f f'. xl_do xl (AddPictureFromBytes sheetName k ext b opts) f = Inr f' \<longrightarrow> cell f' = cell f \<and> pic f' = (pic f)(k \<mapsto> b)) \<and>
     (\<forall>c f f'. layout_call c \<and> xl_do xl c f = Inr f' \<longrightarrow> cell f' = cell f \<and> pic f' = pic f) \<and>
     (\<forall>st f n f'. xl_NewStyle xl st f = Inr (n, f') \<longrightarrow> cell f' = cell f \<and> pic f' = pic f) \<and>
     pic (xl_NewFile xl) = Map.empty \<and>
     (\<forall>c r c' r'. 1 \<le> c \<and> c \<le> 16384 \<and> 1 \<le> r \<and> 1 \<le> c' \<and> c' \<le> 16384 \<and> 1 \<le> r' \<and>
        xl_CoordinatesToCellName xl c r = xl_CoordinatesToCellName xl c' r' \<longrightarrow> c = c' \<and> r = r')"

text \<open>The picture a row has.\<close>

definition row_picture :: "qr_generator \<Rightarrow> string \<Rightarrow> BatchDownloadRow \<Rightarrow> bytes option" where
  "row_picture qr base row =
     (if bdr_QRPayload row = '''' then None
      else case qr_PNG qr (qr_url base (bdr_QRPayload row)) 160 of Inl _ \<Rightarrow> None | Inr png \<Rightarrow> Some png)"

lemma law_simps:
  assumes "excelize_laws xl cell pic"
  shows set_cell: "xl_do xl (SetCellValue sheetName k v) f = Inr f' \<Longrightarrow> cell f' = (cell f)(k \<mapsto> v) \<and> pic f' = pic f"
    and add_picture: "xl_do xl (AddPictureFromBytes sheetName k ext b opts) f = Inr f' \<Longrightarrow> cell f' = cell f \<and> pic f' = (pic f)(k \<mapsto> b)"
    and layout: "layout_call c \<Longrightarrow> xl_do xl c f = Inr f' \<Longrightarrow> cell f' = cell f \<and> pic f' = pic f"
    and new_style: "xl_NewStyle xl st f = Inr (n, f') \<Longrightarrow> cell f' = cell f \<and> pic f' = pic f"
    and name_inj: "1 \<le> c1 \<Longrightarrow> c1 \<le> 16384 \<Longrightarrow> 1 \<le> r1 \<Longrightarrow> 1 \<le> c2 \<Longrightarrow> c2 \<le> 16384 \<Longrightarrow> 1 \<le> r2 \<Longrightarrow>
      xl_CoordinatesToCellName xl c1 r1 = xl_CoordinatesToCellName xl c2 r2 \<longleftrightarrow> c1 = c2 \<and> r1 = r2"
  using assms unfolding excelize_laws_def by - (simp; fail | blast)+

abbreviation cell_name :: "'f excelize \<Rightarrow> int \<Rightarrow> int \<Rightarrow> string" where
  "cell_name xl c r \<equiv> xl_CoordinatesToCellName xl c r"

lemma layouts: "excelize_laws xl cell pic \<Longrightarrow> (\<And>c. c \<in> set cs \<Longrightarrow> layout_call c) \<Longrightarrow> do_calls xl cs f = Inr f' \<Longrightarrow> cell f' = cell f \<and> pic f' = pic f"
proof (induction cs arbitrary: f)
  case (Cons c cs)
  then obtain g where "xl_do xl c f = Inr g" "do_calls xl cs g = Inr f'" by auto
  then show ?case using Cons layout[of xl cell pic c f g] by simp
qed simp

lemma cells:
  assumes laws: "excelize_laws xl cell pic" and "do_calls xl (set_cells xl r c vs) f = Inr f'" "1 \<le> c" "c + int (length vs) \<le> 16385" "1 \<le> r"
  shows "pic f' = pic f \<and> (\<forall>j < length vs. cell f' (cell_name xl (c + int j) r) = Some (vs ! j)) \<and>
    (\<forall>c' r'. 1 \<le> c' \<and> c' \<le> 16384 \<and> 1 \<le> r' \<and> (r' \<noteq> r \<or> c' < c) \<longrightarrow> cell f' (cell_name xl c' r') = cell f (cell_name xl c' r'))"
  using assms(2-)
proof (induction vs arbitrary: c f)
  case (Cons v vs)
  then obtain g where g: "xl_do xl (SetCellValue sheetName (cell_name xl c r) v) f = Inr g"
    "do_calls xl (set_cells xl r (c + 1) vs) g = Inr f'" by auto
  note s = set_cell[OF laws g(1)]
  have "pic f' = pic g \<and> (\<forall>j < length vs. cell f' (cell_name xl (c + 1 + int j) r) = Some (vs ! j)) \<and>
    (\<forall>c' r'. 1 \<le> c' \<and> c' \<le> 16384 \<and> 1 \<le> r' \<and> (r' \<noteq> r \<or> c' < c + 1) \<longrightarrow> cell f' (cell_name xl c' r') = cell g (cell_name xl c' r'))"
    by (rule Cons.IH[OF g(2)]) (use Cons.prems in auto)
  then have ih: "pic f' = pic g" "\<And>j. j < length vs \<Longrightarrow> cell f' (cell_name xl (c + 1 + int j) r) = Some (vs ! j)"
    "\<And>c' r'. 1 \<le> c' \<Longrightarrow> c' \<le> 16384 \<Longrightarrow> 1 \<le> r' \<Longrightarrow> r' \<noteq> r \<or> c' < c + 1 \<Longrightarrow> cell f' (cell_name xl c' r') = cell g (cell_name xl c' r')"
    by blast+
  show ?case
  proof (intro conjI allI impI)
    show "pic f' = pic f" using ih(1) s by simp
    fix j assume j: "j < length (v # vs)"
    show "cell f' (cell_name xl (c + int j) r) = Some ((v # vs) ! j)"
    proof (cases j)
      case 0
      then show ?thesis using ih(3)[of c r] s Cons.prems by simp
    next
      case (Suc k)
      then show ?thesis using ih(2)[of k] j by (simp add: ac_simps)
    qed
  next
    fix c' r' assume a: "1 \<le> c' \<and> c' \<le> 16384 \<and> 1 \<le> r' \<and> (r' \<noteq> r \<or> c' < c)"
    then have "cell_name xl c' r' \<noteq> cell_name xl c r" using Cons.prems name_inj[OF laws] by auto
    then show "cell f' (cell_name xl c' r') = cell f (cell_name xl c' r')" using ih(3)[of c' r'] a s by auto
  qed
qed simp

lemma row:
  assumes laws: "excelize_laws xl cell pic" and "write_row xl qr base bs cs r row f = Inr f'" "1 \<le> r"
  shows "(\<forall>j < 10. cell f' (cell_name xl (1 + int j) r) = Some (row_values row ! j)) \<and>
    (\<forall>c' r'. 1 \<le> c' \<and> c' \<le> 16384 \<and> 1 \<le> r' \<and> r' \<noteq> r \<longrightarrow> cell f' (cell_name xl c' r') = cell f (cell_name xl c' r') \<and>
       pic f' (cell_name xl c' r') = pic f (cell_name xl c' r')) \<and>
    (pic f (cell_name xl 11 r) = None \<longrightarrow> pic f' (cell_name xl 11 r) = row_picture qr base row)"
proof -
  obtain g h where g: "do_calls xl (set_cells xl r 1 (row_values row)) f = Inr g"
    and h: "do_calls xl [SetCellStyle sheetName (''A'' @ Itoa r) (''K'' @ Itoa r) bs,
        SetCellStyle sheetName (''A'' @ Itoa r) (''A'' @ Itoa r) cs,
        SetCellStyle sheetName (''H'' @ Itoa r) (''K'' @ Itoa r) cs, SetRowHeight sheetName r 128] g = Inr h"
    and p: "(if bdr_QRPayload row = '''' then Inr h
      else bind_res (qr_PNG qr (qr_url base (bdr_QRPayload row)) 160) (\<lambda>pngBytes.
           xl_do xl (AddPictureFromBytes sheetName (cell_name xl 11 r) ''.png'' pngBytes qr_options) h)) = Inr f'"
    using assms(2) unfolding write_row_def Let_def bind_res_eq_Inr by blast
  have l: "cell h = cell g \<and> pic h = pic g"
    by (rule layouts[OF laws _ h]) (auto simp: layout_call_def)
  have p': "cell f' = cell h \<and> (if bdr_QRPayload row = '''' then pic f' = pic h
      else \<exists>png. row_picture qr base row = Some png \<and> pic f' = (pic h)(cell_name xl 11 r \<mapsto> png))"
    using p add_picture[OF laws] by (auto simp: row_picture_def split: if_splits)
  have n: "length (row_values row) = 10" by (simp add: row_values_def)
  have r: "1 \<le> c' \<Longrightarrow> c' \<le> 16384 \<Longrightarrow> 1 \<le> r' \<Longrightarrow> r' \<noteq> r \<Longrightarrow> cell_name xl c' r' \<noteq> cell_name xl 11 r" for c' r'
    using name_inj[OF laws, of c' r' 11 r] assms(3) by simp
  show ?thesis
    using cells[OF laws g _ _ assms(3)] l p' r n by (auto simp: row_picture_def split: if_splits)
qed

lemma rows:
  assumes laws: "excelize_laws xl cell pic" and "write_rows xl qr base bs cs r rws f = Inr f'" "1 \<le> r" "\<And>r'. r \<le> r' \<Longrightarrow> pic f (cell_name xl 11 r') = None"
  shows "(\<forall>i < length rws. (\<forall>j < 10. cell f' (cell_name xl (1 + int j) (r + int i)) = Some (row_values (rws ! i) ! j)) \<and>
      pic f' (cell_name xl 11 (r + int i)) = row_picture qr base (rws ! i)) \<and>
    (\<forall>c' r'. 1 \<le> c' \<and> c' \<le> 16384 \<and> 1 \<le> r' \<and> r' < r \<longrightarrow> cell f' (cell_name xl c' r') = cell f (cell_name xl c' r') \<and>
       pic f' (cell_name xl c' r') = pic f (cell_name xl c' r'))"
  using assms(2-)
proof (induction rws arbitrary: r f)
  case (Cons row rws)
  then obtain g where g: "write_row xl qr base bs cs r row f = Inr g"
    "write_rows xl qr base bs cs (r + 1) rws g = Inr f'" by auto
  note w = row[OF laws g(1) Cons.prems(2)]
  have "pic g (cell_name xl 11 r') = None" if "r + 1 \<le> r'" for r'
    using w Cons.prems(2) Cons.prems(3)[of r'] that by auto
  note ih = Cons.IH[OF g(2) _ this]
  have hd: "(\<forall>j < 10. cell f' (cell_name xl (1 + int j) r) = Some (row_values row ! j)) \<and> pic f' (cell_name xl 11 r) = row_picture qr base row"
    using ih w Cons.prems(2) Cons.prems(3)[of r] by auto
  have tl: "(\<forall>j < 10. cell f' (cell_name xl (1 + int j) (r + int (Suc i))) = Some (row_values (rws ! i) ! j)) \<and>
      pic f' (cell_name xl 11 (r + int (Suc i))) = row_picture qr base (rws ! i)" if "i < length rws" for i
    using ih Cons.prems(2) that by (simp add: ac_simps)
  have before: "1 \<le> c' \<and> c' \<le> 16384 \<and> 1 \<le> r' \<and> r' < r \<Longrightarrow> cell f' (cell_name xl c' r') = cell f (cell_name xl c' r') \<and>
       pic f' (cell_name xl c' r') = pic f (cell_name xl c' r')" for c' r'
    using ih w Cons.prems(2) by auto
  show ?case
    using hd tl before by (auto simp: less_Suc_eq_0_disj nth_Cons')
qed simp

lemma length_xl_headers: "length xl_headers = 11"
  by (simp add: xl_headers_def)

lemma build:
  assumes laws: "excelize_laws xl cell pic" and "BuildBatch xl qr widths base rws = Inr out"
  shows "\<exists>f. xl_WriteToBuffer xl f = Inr out \<and>
    (\<forall>j < 11. cell f (cell_name xl (1 + int j) 1) = Some (CellString (xl_headers ! j))) \<and>
    (\<forall>i < length rws. (\<forall>j < 10. cell f (cell_name xl (1 + int j) (2 + int i)) = Some (row_values (rws ! i) ! j)) \<and>
       pic f (cell_name xl 11 (2 + int i)) = row_picture qr base (rws ! i))"
proof -
  define f0 where "f0 = (case xl_do xl (SetSheetName ''Sheet1'' sheetName) (xl_NewFile xl) of Inl _ \<Rightarrow> xl_NewFile xl | Inr f \<Rightarrow> f)"
  have p0: "pic f0 = Map.empty"
    using laws layout[OF laws, of "SetSheetName ''Sheet1'' sheetName" "xl_NewFile xl"]
    by (auto simp: f0_def excelize_laws_def layout_call_def split: sum.split)
  obtain hs f1 bs f2 cs f3 f4 f5 f6 where f:
    "xl_NewStyle xl \<lparr>st_BoldSize = Some 11, st_Horizontal = ''center'', st_Vertical = ''center'', st_WrapText = True\<rparr> f0 = Inr (hs, f1)"
    "xl_NewStyle xl \<lparr>st_BoldSize = None, st_Horizontal = '''', st_Vertical = ''top'', st_WrapText = True\<rparr> f1 = Inr (bs, f2)"
    "xl_NewStyle xl \<lparr>st_BoldSize = None, st_Horizontal = ''center'', st_Vertical = ''center'', st_WrapText = True\<rparr> f2 = Inr (cs, f3)"
    "do_calls xl (set_cells xl 1 1 (map CellString xl_headers)) f3 = Inr f4"
    "do_calls xl ([SetCellStyle sheetName ''A1'' ''K1'' hs, SetPanes sheetName header_panes, SetRowHeight sheetName 1 28] @
       map (\<lambda>(column, width). SetColWidth sheetName column column width) widths) f4 = Inr f5"
    "write_rows xl qr base bs cs 2 rws f5 = Inr f6" "xl_WriteToBuffer xl f6 = Inr out"
    using assms unfolding BuildBatch_def Let_def f0_def[symmetric] bind_res_eq_Inr split_paired_Ex prod.case
    by (elim exE conjE) (rule that)
  have s: "pic f3 = Map.empty" using new_style[OF laws f(1)] new_style[OF laws f(2)] new_style[OF laws f(3)] p0 by simp
  have h: "pic f4 = Map.empty" "\<forall>j < 11. cell f4 (cell_name xl (1 + int j) 1) = Some (CellString (xl_headers ! j))"
    using cells[OF laws f(4)] s by (auto simp: length_xl_headers)
  have l: "cell f5 = cell f4 \<and> pic f5 = pic f4"
    by (rule layouts[OF laws _ f(5)]) (auto simp: layout_call_def)
  have "(2::int) \<le> r' \<Longrightarrow> pic f5 (cell_name xl 11 r') = None" for r' using l h by simp
  from rows[OF laws f(6) _ this] show ?thesis using f(7) l h(2) by auto
qed

section \<open>The workbook of a batch\<close>

text \<open>
  C35: the workbook shows the batch.  If \<open>BuildBatch\<close> succeeds, the bytes it returns are those of a
  workbook whose first row holds the eleven headings and whose row \<open>i + 2\<close> holds the ten values of
  record \<open>i\<close> in their columns, with a picture in column K exactly for a record with a QR payload: the
  code of the verification page with the escaped payload.
\<close>

theorem workbook_shows_batch:
  assumes "excelize_laws xl cell pic" "BuildBatch xl qr widths base rws = Inr out"
  shows "\<exists>f. xl_WriteToBuffer xl f = Inr out \<and>
    (\<forall>j < 11. cell f (xl_CoordinatesToCellName xl (1 + int j) 1) = Some (CellString (xl_headers ! j))) \<and>
    (\<forall>i < length rws.
       (\<forall>j < 10. cell f (xl_CoordinatesToCellName xl (1 + int j) (2 + int i)) = Some (row_values (rws ! i) ! j)) \<and>
       pic f (xl_CoordinatesToCellName xl 11 (2 + int i)) = row_picture qr base (rws ! i))"
  by (rule build[OF assms])


text \<open>A workbook in memory.\<close>

type_synonym sheet = "(string \<rightharpoonup> cell_value) \<times> (string \<rightharpoonup> bytes)"

fun sheet_do :: "xl_call \<Rightarrow> sheet \<Rightarrow> sheet res" where
  "sheet_do (SetCellValue s k v) (c, p) = Inr (c(k \<mapsto> v), p)"
| "sheet_do (AddPictureFromBytes s k ext b opts) (c, p) = Inr (c, p(k \<mapsto> b))"
| "sheet_do _ f = Inr f"

definition memory_xl :: "sheet excelize" where
  "memory_xl = \<lparr>xl_NewFile = (Map.empty, Map.empty), xl_NewStyle = (\<lambda>st f. Inr (0, f)), xl_do = sheet_do,
     xl_CoordinatesToCellName = (\<lambda>c r. replicate (nat c) (CHR ''c'') @ replicate (nat r) (CHR ''r'')),
     xl_WriteToBuffer = (\<lambda>_. Inr ''xlsx'')\<rparr>"

lemma memory_xl_laws: "excelize_laws memory_xl fst snd"
proof -
  have l: "layout_call c \<Longrightarrow> sheet_do c f = Inr f" for c f
    by (cases c) (auto simp: layout_call_def)
  have n: "c = c' \<and> r = r'" if "1 \<le> c" "1 \<le> r" "1 \<le> c'" "1 \<le> r'"
    "replicate (nat c) (CHR ''c'') @ replicate (nat r) (CHR ''r'') =
     replicate (nat c') (CHR ''c'') @ replicate (nat r') (CHR ''r'')" for c r c' r'
  proof -
    have "nat c = nat c'" using arg_cong[OF that(5), of "\<lambda>s. length (filter (\<lambda>x. x = CHR ''c'') s)"] by simp
    moreover have "nat r = nat r'" using arg_cong[OF that(5), of "\<lambda>s. length (filter (\<lambda>x. x = CHR ''r'') s)"] by simp
    ultimately show ?thesis using that(1-4) by (simp add: eq_nat_nat_iff)
  qed
  show ?thesis
    unfolding excelize_laws_def using n by (auto simp: memory_xl_def l)
qed

definition sample_download_row :: BatchDownloadRow where
  "sample_download_row = \<lparr>bdr_RecordIndex = 0, bdr_DiplomaHash = ''h'', bdr_FullName = ''Ann Lee'',
     bdr_DiplomaNumber = ''n0'', bdr_Specialty = ''Maths'', bdr_Degree = ''BSc'', bdr_Faculty = ''Science'',
     bdr_Year = 2024, bdr_QRPayload = ''a b'', bdr_Status = ''ok'', bdr_Error = None\<rparr>"

definition echo_qr :: qr_generator where
  "echo_qr = \<lparr>qr_PNG = (\<lambda>c _. Inr c), qr_SVG = (\<lambda>c _. Inr c)\<rparr>"

lemma sheet_do_total: "\<exists>f'. sheet_do c f = Inr f'"
  by (cases "(c, f)" rule: sheet_do.cases) auto

lemma do_calls_total: "\<exists>f'. do_calls memory_xl cs f = Inr f'"
proof (induction cs arbitrary: f)
  case (Cons c cs)
  obtain g where "sheet_do c f = Inr g" using sheet_do_total by blast
  then show ?case using Cons[of g] by (simp add: memory_xl_def)
qed simp

lemma workbook_shows_batch_witness:
  "\<exists>out f. BuildBatch memory_xl echo_qr columnWidths ''https://x'' [sample_download_row] = Inr out \<and>
     xl_WriteToBuffer memory_xl f = Inr out \<and>
     fst f (xl_CoordinatesToCellName memory_xl 3 2) = Some (CellString ''Ann Lee'') \<and>
     snd f (xl_CoordinatesToCellName memory_xl 11 2) = Some ''https://x/verify?payload=a+b''"
proof -
  have row: "\<exists>f'. write_rows memory_xl echo_qr b bs cs n [r] f = Inr f'" for b bs cs n r f
  proof -
    obtain g where g: "do_calls memory_xl (set_cells memory_xl n 1 (row_values r)) f = Inr g" using do_calls_total by blast
    obtain h where h: "do_calls memory_xl [SetCellStyle sheetName (''A'' @ Itoa n) (''K'' @ Itoa n) bs,
        SetCellStyle sheetName (''A'' @ Itoa n) (''A'' @ Itoa n) cs,
        SetCellStyle sheetName (''H'' @ Itoa n) (''K'' @ Itoa n) cs, SetRowHeight sheetName n 128] g = Inr h"
      using do_calls_total by blast
    have "\<exists>f'. write_row memory_xl echo_qr b bs cs n r f = Inr f'"
      unfolding write_row_def Let_def g h bind_res_simps
      using sheet_do_total by (auto simp: echo_qr_def memory_xl_def)
    then show ?thesis by auto
  qed
  obtain out where o: "BuildBatch memory_xl echo_qr columnWidths ''https://x'' [sample_download_row] = Inr out"
  proof -
    have s: "xl_NewStyle memory_xl st f = Inr (0, f)" "xl_WriteToBuffer memory_xl f = Inr ''xlsx''" for st f
      by (simp_all add: memory_xl_def)
    obtain f0 where f0: "(case xl_do memory_xl (SetSheetName ''Sheet1'' sheetName) (xl_NewFile memory_xl) of
        Inl _ \<Rightarrow> xl_NewFile memory_xl | Inr f \<Rightarrow> f) = f0" by blast
    obtain f1 where f1: "do_calls memory_xl (set_cells memory_xl 1 1 (map CellString xl_headers)) f0 = Inr f1"
      using do_calls_total by blast
    obtain f2 where f2: "do_calls memory_xl ([SetCellStyle sheetName ''A1'' ''K1'' 0, SetPanes sheetName header_panes,
        SetRowHeight sheetName 1 28] @ map (\<lambda>(column, width). SetColWidth sheetName column column width) columnWidths) f1 = Inr f2"
      using do_calls_total by blast
    obtain f3 where f3: "write_rows memory_xl echo_qr ''https://x'' 0 0 2 [sample_download_row] f2 = Inr f3"
      using row by blast
    have "BuildBatch memory_xl echo_qr columnWidths ''https://x'' [sample_download_row] = Inr ''xlsx''"
      unfolding BuildBatch_def Let_def f0 s bind_res_simps prod.case f1 f2 f3 ..
    then show thesis by (rule that)
  qed
  obtain f where f: "xl_WriteToBuffer memory_xl f = Inr out"
    "\<forall>j < 10. fst f (xl_CoordinatesToCellName memory_xl (1 + int j) 2) = Some (row_values sample_download_row ! j)"
    "snd f (xl_CoordinatesToCellName memory_xl 11 2) = row_picture echo_qr ''https://x'' sample_download_row"
    using workbook_shows_batch[OF memory_xl_laws o] by auto
  have "url_escape encodeQueryComponent ''a b'' = ''a+b''" by code_simp
  then have p: "row_picture echo_qr ''https://x'' sample_download_row = Some ''https://x/verify?payload=a+b''"
    by (simp add: row_picture_def echo_qr_def sample_download_row_def qr_url_def)
  have "row_values sample_download_row ! 2 = CellString ''Ann Lee''"
    by (simp add: row_values_def sample_download_row_def)
  then show ?thesis using o f(1,3) p f(2)[rule_format, of 2] by (intro exI[of _ out] exI[of _ f]) simp
qed

end
