(* ===== verification/Ed25519Keys.thy ===== *)
theory Ed25519Keys
  imports Services
begin

text \<open>
  \<open>gateway-service/internal/infrastructure/security/ed25519_keys.go\<close>.  Of the standard library it
  uses, writing a PEM block is written out; finding one, the DER parsers and the DER form of a public
  key are arguments.  A parsed key is an Ed25519 key or one of another algorithm.
\<close>

datatype parsed_key = Ed25519Key bytes | OtherKey

record x509_lib =
  pem_Decode :: "string \<Rightarrow> bytes option"
  x_ParsePKCS8PrivateKey :: "bytes \<Rightarrow> parsed_key res"
  x_ParsePKIXPublicKey :: "bytes \<Rightarrow> parsed_key res"
  x_MarshalPKIXPublicKey :: "bytes \<Rightarrow> bytes res"

section \<open>Writing a PEM block\<close>

text \<open>Lines of 64 characters, each ended by a line feed.\<close>

function pem_lines :: "string \<Rightarrow> string" where
  "pem_lines s = (if s = [] then [] else take 64 s @ [byte 10] @ pem_lines (drop 64 s))"
  by auto
termination
  by (relation "measure length") auto

declare pem_lines.simps [simp del]

definition EncodeToMemory :: "string \<Rightarrow> bytes \<Rightarrow> string" where
  "EncodeToMemory typ der =
     ''-----BEGIN '' @ typ @ ''-----'' @ [byte 10] @ pem_lines (std_encode der) @
     ''-----END '' @ typ @ ''-----'' @ [byte 10]"

section \<open>ed25519_keys.go\<close>

definition ParseEd25519PrivateKeyPEM :: "x509_lib \<Rightarrow> string \<Rightarrow> bytes res" where
  "ParseEd25519PrivateKeyPEM lib v =
     (case pem_Decode lib v of
        None \<Rightarrow> Inl (ErrText ''failed to decode private key pem'')
      | Some block \<Rightarrow>
          bind_res (x_ParsePKCS8PrivateKey lib block) (\<lambda>key. case key of
             Ed25519Key privateKey \<Rightarrow> Inr privateKey
           | OtherKey \<Rightarrow> Inl (ErrText ''private key is not Ed25519'')))"

definition ParseEd25519PublicKeyPEM :: "x509_lib \<Rightarrow> string \<Rightarrow> bytes res" where
  "ParseEd25519PublicKeyPEM lib v =
     (case pem_Decode lib v of
        None \<Rightarrow> Inl (ErrText ''failed to decode public key pem'')
      | Some block \<Rightarrow>
          bind_res (x_ParsePKIXPublicKey lib block) (\<lambda>key. case key of
             Ed25519Key publicKey \<Rightarrow> Inr publicKey
           | OtherKey \<Rightarrow> Inl (ErrText ''public key is not Ed25519'')))"

definition MarshalEd25519PublicKeyPEM :: "x509_lib \<Rightarrow> bytes \<Rightarrow> string res" where
  "MarshalEd25519PublicKeyPEM lib publicKey =
     bind_res (x_MarshalPKIXPublicKey lib publicKey) (\<lambda>der.
       Inr (TrimSpace (EncodeToMemory ''PUBLIC KEY'' der)))"

text \<open>
  What the signing key service calls; the public key of an \<open>ed25519.PrivateKey\<close> is its second half.
\<close>

definition private_Public :: "bytes \<Rightarrow> bytes" where
  "private_Public privateKey = drop 32 privateKey"

definition ed25519_keys :: "x509_lib \<Rightarrow> ed25519_pem" where
  "ed25519_keys lib =
     \<lparr>parse_private_pem = ParseEd25519PrivateKeyPEM lib, public_of = private_Public,
      marshal_public_pem = MarshalEd25519PublicKeyPEM lib, parse_public_pem = ParseEd25519PublicKeyPEM lib\<rparr>"

section \<open>Facts\<close>

text \<open>
  Documented behaviour of the library: a written block is found again, also without the white space
  around it; a text with a block is not blank; the DER form of a public key of 32 bytes parses to it,
  and is not itself 32 bytes long; a private key has 64 bytes.
\<close>

definition x509_laws :: "x509_lib \<Rightarrow> bool" where
  "x509_laws lib \<longleftrightarrow>
     (\<forall>der. pem_Decode lib (TrimSpace (EncodeToMemory ''PUBLIC KEY'' der)) = Some der) \<and>
     (\<forall>v b. pem_Decode lib v = Some b \<longrightarrow> \<not> blank v) \<and>
     (\<forall>pk der. length pk = 32 \<and> x_MarshalPKIXPublicKey lib pk = Inr der \<longrightarrow> x_ParsePKIXPublicKey lib der = Inr (Ed25519Key pk)) \<and>
     (\<forall>b k. x_ParsePKIXPublicKey lib b = Inr (Ed25519Key k) \<longrightarrow> length b \<noteq> 32) \<and>
     (\<forall>b k. x_ParsePKCS8PrivateKey lib b = Inr (Ed25519Key k) \<longrightarrow> length k = 64)"

lemma x509_lawsD:
  assumes "x509_laws lib"
  shows pem_found: "pem_Decode lib (TrimSpace (EncodeToMemory ''PUBLIC KEY'' der)) = Some der"
    and pem_not_blank: "pem_Decode lib v = Some b \<Longrightarrow> \<not> blank v"
    and pkix_roundtrip: "length pk = 32 \<Longrightarrow> x_MarshalPKIXPublicKey lib pk = Inr der \<Longrightarrow> x_ParsePKIXPublicKey lib der = Inr (Ed25519Key pk)"
    and pkix_length: "x_ParsePKIXPublicKey lib b = Inr (Ed25519Key k) \<Longrightarrow> length b \<noteq> 32"
    and pkcs8_length: "x_ParsePKCS8PrivateKey lib b = Inr (Ed25519Key k) \<Longrightarrow> length k = 64"
  using assms unfolding x509_laws_def by blast+

lemma ParsePrivate_Inr:
  assumes "ParseEd25519PrivateKeyPEM lib v = Inr k"
  obtains b where "pem_Decode lib v = Some b" "x_ParsePKCS8PrivateKey lib b = Inr (Ed25519Key k)"
proof -
  obtain b key where "pem_Decode lib v = Some b" "x_ParsePKCS8PrivateKey lib b = Inr key"
    "(case key of Ed25519Key privateKey \<Rightarrow> Inr privateKey | OtherKey \<Rightarrow> Inl (ErrText ''private key is not Ed25519'')) = Inr k"
    using assms by (auto simp: ParseEd25519PrivateKeyPEM_def split: option.splits)
  then show thesis using that by (cases key) auto
qed

lemma ParsePublic_Inr:
  assumes "ParseEd25519PublicKeyPEM lib v = Inr k"
  obtains b where "pem_Decode lib v = Some b" "x_ParsePKIXPublicKey lib b = Inr (Ed25519Key k)"
proof -
  obtain b key where "pem_Decode lib v = Some b" "x_ParsePKIXPublicKey lib b = Inr key"
    "(case key of Ed25519Key publicKey \<Rightarrow> Inr publicKey | OtherKey \<Rightarrow> Inl (ErrText ''public key is not Ed25519'')) = Inr k"
    using assms by (auto simp: ParseEd25519PublicKeyPEM_def split: option.splits)
  then show thesis using that by (cases key) auto
qed

lemma ParsePrivate_length:
  assumes "x509_laws lib" "ParseEd25519PrivateKeyPEM lib v = Inr k"
  shows "length (private_Public k) = 32"
proof -
  obtain b where "x_ParsePKCS8PrivateKey lib b = Inr (Ed25519Key k)" using ParsePrivate_Inr[OF assms(2)] by blast
  then show ?thesis using pkcs8_length[OF assms(1)] by (simp add: private_Public_def)
qed

text \<open>The PEM form of a public key reads back as the key.\<close>

lemma public_pem_roundtrip:
  assumes "x509_laws lib" "length pk = 32" "MarshalEd25519PublicKeyPEM lib pk = Inr pem"
  shows "ParseEd25519PublicKeyPEM lib pem = Inr pk"
proof -
  obtain der where d: "x_MarshalPKIXPublicKey lib pk = Inr der" "pem = TrimSpace (EncodeToMemory ''PUBLIC KEY'' der)"
    using assms(3) by (auto simp: MarshalEd25519PublicKeyPEM_def)
  show ?thesis
    using pem_found[OF assms(1), of der] pkix_roundtrip[OF assms(1,2) d(1)] d(2)
    by (simp add: ParseEd25519PublicKeyPEM_def del: bind_res_eq_Inr)
qed

section \<open>A library with these laws\<close>

text \<open>
  Its DER form of a public key is the key behind a zero byte, a private key of 64 bytes is its own
  DER form, and a PEM block is found at the beginning of the text.
\<close>

definition public_header :: string where
  "public_header = ''-----BEGIN PUBLIC KEY-----'' @ [byte 10]"

definition tagged_x509 :: x509_lib where
  "tagged_x509 = \<lparr>
     pem_Decode = (\<lambda>v. case strip_prefix public_header v of
        None \<Rightarrow> None | Some r \<Rightarrow> std_decode (take (length r - 24) r)),
     x_ParsePKCS8PrivateKey = (\<lambda>b. Inr (if length b = 64 then Ed25519Key b else OtherKey)),
     x_ParsePKIXPublicKey = (\<lambda>b. Inr (if length b = 33 then Ed25519Key (tl b) else OtherKey)),
     x_MarshalPKIXPublicKey = (\<lambda>pk. Inr (byte 0 # pk))\<rparr>"

lemma filter_pem_lines: "P (byte 10) = False \<Longrightarrow> filter P (pem_lines s) = filter P s"
proof (induction s rule: pem_lines.induct)
  case (1 s)
  show ?case
  proof (cases "s = []")
    case False
    with 1 have "filter P (pem_lines s) = filter P (take 64 s) @ filter P (drop 64 s)"
      by (subst pem_lines.simps) simp
    then show ?thesis by (metis append_take_drop_id filter_append)
  qed (subst pem_lines.simps, simp)
qed

lemma std_decode_pem_lines: "std_decode (pem_lines (std_encode der)) = Some der"
  using b64_decode_encode[of False True der] by (simp add: b64_decode_def filter_pem_lines)

lemma trim_with_keeps: "c \<in> set s \<Longrightarrow> \<forall>e \<in> set es. c \<notin> set e \<Longrightarrow> c \<in> set (trim_with es s)"
proof (induction es s rule: trim_with.induct)
  case (1 es s)
  show ?case
  proof (cases "strip_first es s")
    case None
    then show ?thesis using 1(2) by (simp add: trim_with_fixed)
  next
    case (Some r)
    then obtain e where e: "e \<in> set es" "s = e @ r" using strip_first_Some by blast
    then have "c \<in> set r" using 1(2,3) by auto
    then show ?thesis using 1 Some e(2) by (subst trim_with.simps) auto
  qed
qed

lemma not_blank_dash:
  assumes "CHR ''-'' \<in> set v"
  shows "\<not> blank v"
proof -
  have s: "\<forall>e \<in> set space_encodings. CHR ''-'' \<notin> set e"
    by (auto simp: space_encodings_def char_eq_byte)
  have "CHR ''-'' \<in> set (trim_left v)" unfolding trim_left_def by (rule trim_with_keeps[OF assms s])
  then have "CHR ''-'' \<in> set (trim_with (map rev space_encodings) (rev (trim_left v)))"
    using s by (intro trim_with_keeps) auto
  then show ?thesis by (auto simp: blank_def TrimSpace_def trim_right_def)
qed

lemma TrimSpace_line:
  assumes "s \<noteq> []" "graphic (hd s)" "graphic (last s)"
  shows "TrimSpace (s @ [byte 10]) = s"
proof -
  have g: "graphic (hd (s @ [byte 10]))" using assms by simp
  have l: "strip_first space_encodings (s @ [byte 10]) = None"
    using g assms(1) space_encodings_not_graphic
    by (auto simp: strip_first_None) (metis append_is_Nil_conv hd_append2)
  have "strip_first (map rev space_encodings) (byte 10 # rev s) = Some (rev s)"
    by (simp add: space_encodings_def)
  moreover have "strip_first (map rev space_encodings) (rev s) = None"
    using strip_first_TrimSpace(2)[of s] TrimSpace_graphic[OF assms] by simp
  ultimately have "trim_with (map rev space_encodings) (byte 10 # rev s) = rev s"
    by (subst trim_with.simps) (simp add: trim_with_fixed)
  then show ?thesis using l by (simp add: TrimSpace_def trim_left_def trim_right_def trim_with_fixed)
qed

lemma trimmed_pem:
  "TrimSpace (EncodeToMemory ''PUBLIC KEY'' der) =
     public_header @ pem_lines (std_encode der) @ ''-----END PUBLIC KEY-----''"
  using TrimSpace_line[of "public_header @ pem_lines (std_encode der) @ ''-----END PUBLIC KEY-----''"]
  by (simp add: EncodeToMemory_def public_header_def graphic_def)

lemma tagged_x509_laws: "x509_laws tagged_x509"
proof -
  have "strip_prefix public_header (public_header @ r) = Some r" for r
    using strip_prefix_Some[of public_header] by blast
  then have "pem_Decode tagged_x509 (TrimSpace (EncodeToMemory ''PUBLIC KEY'' der)) = Some der" for der
    unfolding trimmed_pem by (simp add: tagged_x509_def std_decode_pem_lines)
  moreover have "\<not> blank v" if d: "pem_Decode tagged_x509 v = Some b" for v b
  proof -
    obtain r where "v = public_header @ r"
      using d by (auto simp: tagged_x509_def strip_prefix_Some split: option.splits)
    then show ?thesis by (intro not_blank_dash) (simp add: public_header_def)
  qed
  ultimately show ?thesis unfolding x509_laws_def by (auto simp: tagged_x509_def split: if_splits)
qed

end
