(* ===== verification/SigningProps.thy ===== *)
theory SigningProps
  imports Ed25519Keys PubSearchProps Gateway AccountProps
begin

text \<open>
  From a signing key accepted by the gateway to the verification key the public service reads.
\<close>

text \<open>The public service uses the same library, and a signature scheme.\<close>

definition pub_keys :: "(bytes \<Rightarrow> bytes \<Rightarrow> bytes \<Rightarrow> bool) \<Rightarrow> x509_lib \<Rightarrow> ed25519_lib" where
  "pub_keys verify lib =
     \<lparr>ed_Verify = verify, ed_PemDecode = pem_Decode lib,
      ed_ParsePKIX = (\<lambda>b. case x_ParsePKIXPublicKey lib b of Inr (Ed25519Key k) \<Rightarrow> Some k | _ \<Rightarrow> None)\<rparr>"

lemma public_key_read:
  assumes "x509_laws lib" "ParseEd25519PublicKeyPEM lib v = Inr pk" "TrimSpace v = v"
  shows "parseEd25519PublicKey (pub_keys verify lib) v = Inr pk"
proof -
  obtain b where b: "pem_Decode lib v = Some b" "x_ParsePKIXPublicKey lib b = Inr (Ed25519Key pk)"
    by (rule ParsePublic_Inr[OF assms(2)])
  show ?thesis
    using b(1) assms(3) pem_not_blank[OF assms(1) b(1)] pkix_length[OF assms(1) b(2)] b(2)
    by (simp add: parseEd25519PublicKey_def parseEd25519PublicKeyBytes_def pub_keys_def blank_def Let_def
        del: bind_res_eq_Inr)
qed

text \<open>
  C27: what the gateway accepts the public service can use.  After a signing key has been accepted for
  a university, the public service finds a verification key for it, and reads from its text exactly
  the public half of the private key that was given.
\<close>

theorem accepted_key_is_published:
  assumes "x509_laws lib" "db_ok (tables s)"
    "\<forall>u \<in> set (universities (tables s)). \<forall>p. u_ID u = v \<and> u_PublicKey u = Some p \<longrightarrow> TrimSpace p = p"
    "SigningKeyService_Upsert (ed25519_keys lib) (KeyEncryptor key) source now v pem s = (Inr resp, t)"
  shows "\<exists>priv k. ParseEd25519PrivateKeyPEM lib pem = Inr priv \<and>
    fst (FindUniversityVerificationKeyByID v \<lparr>tables = tables t, faults = []\<rparr>) = Inr k \<and>
    parseEd25519PublicKey (pub_keys verify lib) k = Inr (private_Public priv)"
proof -
  from SigningKeyService_Upsert_Inr[OF assms(4)] obtain priv derived u p where a:
    "ParseEd25519PrivateKeyPEM lib pem = Inr priv" "MarshalEd25519PublicKeyPEM lib (private_Public priv) = Inr derived"
    "u \<in> set (universities (tables t))" "u_ID u = v" "u_PublicKey u = Some p"
    "p = derived \<or> ParseEd25519PublicKeyPEM lib p = Inr (private_Public priv) \<and>
       (\<exists>u0 \<in> set (universities (tables s)). u_ID u0 = v \<and> u_PublicKey u0 = Some p)"
    unfolding ed25519_keys_def ed25519_pem.select_convs by (elim exE conjE) (rule that)
  have p: "ParseEd25519PublicKeyPEM lib p = Inr (private_Public priv)"
    using a(6) public_pem_roundtrip[OF assms(1) ParsePrivate_length[OF assms(1) a(1)] a(2)] by blast
  have tr: "TrimSpace p = p"
    using a(6) assms(3) a(2) by (auto simp: MarshalEd25519PublicKeyPEM_def)
  obtain b where "pem_Decode lib p = Some b" by (rule ParsePublic_Inr[OF p])
  then have np: "p \<noteq> []" using pem_not_blank[OF assms(1)] by fastforce
  have "db_ok (tables t)"
    using preservesD[OF registry.keep_signing, of s "ed25519_keys lib" "KeyEncryptor key" source now v pem] assms(2,4)
    by simp
  then have "distinct (map u_ID (universities (tables t)))" by (simp add: db_ok_defs)
  from filter_key_unique[OF this a(3)] have f: "filter (\<lambda>u. u_ID u = v) (universities (tables t)) = [u]"
    using a(4) by simp
  have "fst (FindUniversityVerificationKeyByID v \<lparr>tables = tables t, faults = []\<rparr>) = Inr p"
    using f a(5) np by (simp add: FindUniversityVerificationKeyByID_def del: bind_res_eq_Inr)
  then show ?thesis using a(1) public_key_read[OF assms(1) p tr] by blast
qed

text \<open>The sample university, which has no key yet, with the library above.\<close>

definition sample_private :: bytes where
  "sample_private = replicate 64 (byte 7)"

definition sample_private_pem :: string where
  "sample_private_pem = TrimSpace (EncodeToMemory ''PUBLIC KEY'' sample_private)"

lemma sample_parse_private: "ParseEd25519PrivateKeyPEM tagged_x509 sample_private_pem = Inr sample_private"
  unfolding ParseEd25519PrivateKeyPEM_def sample_private_pem_def pem_found[OF tagged_x509_laws]
  by (simp add: tagged_x509_def sample_private_def)

lemma sample_key_upload:
  "\<exists>resp t. SigningKeyService_Upsert (ed25519_keys tagged_x509) (KeyEncryptor sample_key)
     (Some (replicate 12 (CHR ''r''))) 3 ''u1'' sample_private_pem \<lparr>tables = sample_db, faults = []\<rparr> = (Inr resp, t)"
proof -
  obtain derived where "MarshalEd25519PublicKeyPEM tagged_x509 (private_Public sample_private) = Inr derived"
    by (simp add: MarshalEd25519PublicKeyPEM_def tagged_x509_def del: bind_res_eq_Inr)
  then show ?thesis
    by (simp add: SigningKeyService_Upsert_def ed25519_keys_def sample_parse_private and_then_def
      University_FindByID_def match_public_key_def University_UpdatePublicKey_def KeyEncryptor_def
      KeyEncryptor_Seal_def aes_gcm_def NewCipher_def ReadFull_def sample_key_def SigningKey_Upsert_def
      SigningKeyAlgorithmEd25519_def Let_def ret_def has_university_def sample_db_def sample_university_def empty_db_def)
qed

lemma accepted_key_is_published_witness:
  "\<exists>(t :: sess) k. fst (FindUniversityVerificationKeyByID ''u1'' \<lparr>tables = tables t, faults = []\<rparr>) = Inr k \<and>
     parseEd25519PublicKey (pub_keys (\<lambda>_ _ _. True) tagged_x509) k = Inr (replicate 32 (byte 7))"
proof -
  obtain resp t where r: "SigningKeyService_Upsert (ed25519_keys tagged_x509) (KeyEncryptor sample_key)
     (Some (replicate 12 (CHR ''r''))) 3 ''u1'' sample_private_pem \<lparr>tables = sample_db, faults = []\<rparr> = (Inr resp, t)"
    using sample_key_upload by blast
  have n: "\<forall>u \<in> set (universities (tables \<lparr>tables = sample_db, faults = []\<rparr>)). \<forall>p. u_ID u = ''u1'' \<and>
      u_PublicKey u = Some p \<longrightarrow> TrimSpace p = p"
    by (simp add: sample_db_def sample_university_def empty_db_def)
  have d: "db_ok (tables \<lparr>tables = sample_db, faults = []\<rparr>)" using sample_db_ok by simp
  from accepted_key_is_published[OF tagged_x509_laws d n r, where verify = "\<lambda>_ _ _. True"] sample_parse_private
  have "\<exists>k. fst (FindUniversityVerificationKeyByID ''u1'' \<lparr>tables = tables t, faults = []\<rparr>) = Inr k \<and>
     parseEd25519PublicKey (pub_keys (\<lambda>_ _ _. True) tagged_x509) k = Inr (replicate 32 (byte 7))"
    by (simp add: sample_private_def private_Public_def)
  then show ?thesis by (rule exI)
qed

end
