(* ===== verification/ApiKeyProps.thy ===== *)
theory ApiKeyProps
  imports GatewayProps
begin

text \<open>
  API keys over the runs of the gateway: a key that has been issued stays as it is until its university
  is deleted, and opens that university exactly while it is active.
\<close>

section \<open>A stored key stays\<close>

definition has_key :: "APIKey \<Rightarrow> db \<Rightarrow> bool" where
  "has_key k d \<longleftrightarrow> k \<in> set (api_keys d)"

lemma has_key_same: "api_keys d' = api_keys d \<Longrightarrow> has_key k d \<Longrightarrow> has_key k d'"
  by (simp add: has_key_def)

lemma has_key_stmt: "(\<And>d. api_keys (snd (q d)) = api_keys d) \<Longrightarrow> preserves (has_key k) (run_stmt q)"
  by (rule preserves_run_stmt) (rule has_key_same)

lemma has_key_book: "preserves (has_key k) (book_row now row)"
  by (auto simp: book_row_def count_and_finalize_def incrementBatchProcessedTx_def
      finalizeBatchIfCompleteTx_def Let_def insert_result_def select_progress_def update_batch_def
      split: prod.split intro!: preserves_and_then preserves_ret has_key_stmt)

lemma has_key_apply: "preserves (has_key k) (ApplyProcessingResult decoder now result)"
  unfolding ApplyProcessingResult_def
proof (rule preserves_with_tx_body)
  show "preserves (has_key k) (apply_body decoder now result)"
    unfolding apply_body_def Let_def record_error_book record_ok_book
    by (auto simp: select_result_status_def select_hash_def insert_hash_def split: sum.split option.split
        intro!: preserves_attempt preserves_and_then preserves_ret preserves_fail has_key_book has_key_stmt)
qed rule

lemma has_key_create_batch: "preserves (has_key k) (CreateBatchWithRecords cipher nonces i now w rs)"
  unfolding CreateBatchWithRecords_def
proof (rule preserves_with_tx_body)
  have p: "preserves (has_key k) (insert_payloads cipher nonces b n rs)" for b n
    by (induction rs arbitrary: n)
       (auto simp: insert_payload_def split: sum.split
         intro!: preserves_and_then preserves_ret preserves_fail has_key_stmt)
  show "preserves (has_key k) (create_batch_body cipher nonces i now w rs)"
    unfolding create_batch_body_def
    by (intro preserves_and_then has_key_stmt p preserves_ret) (simp add: insert_batch_def)
qed rule

lemma has_key_delete: "w \<noteq> ak_VUZID k \<Longrightarrow> preserves (has_key k) (University_DeleteCascade w)"
  unfolding University_DeleteCascade_def
  by (rule preserves_with_tx[OF transparent_delete_cascade])
     (auto simp: tx_effect_def pure_delete_cascade without_university_def has_key_def)

lemma has_key_demo: "preserves (has_key k) (University_UpsertDemo i now r p status)"
  unfolding University_UpsertDemo_def
proof (rule preserves_with_tx_body)
  show "preserves (has_key k) (upsert_demo_body i now r p status)"
    unfolding upsert_demo_body_def
    by (auto simp: select_demo_def insert_university_def update_demo_def Let_def split: sum.split
        intro!: preserves_attempt preserves_fail has_key_stmt)
qed rule

lemma has_key_api_key: "preserves (has_key k) (APIKey_Create i now w name p)"
  unfolding APIKey_Create_def by (rule preserves_run_stmt) (auto simp: has_key_def Let_def)

lemma has_key_statements:
  "preserves (has_key k) (University_Create i now r p)"
  "preserves (has_key k) (University_UpdateStatus i status)"
  "preserves (has_key k) (University_UpdatePublicKey i pk)"
  "preserves (has_key k) (Admin_UpsertBootstrap i now email p)"
  "preserves (has_key k) (SigningKey_Upsert now w x ka ea f)"
  "preserves (has_key k) (FailBatch now i)"
  "preserves (has_key k) (MarkDiplomaRevoked now w hash)"
  "preserves (has_key k) (CreateShareLink i now hash token expires)"
  "preserves (has_key k) (IncrementShareLinkUsage token)"
  by (auto simp: University_Create_def University_UpdateStatus_def University_UpdatePublicKey_def
      Admin_UpsertBootstrap_def SigningKey_Upsert_def FailBatch_def update_batch_def MarkDiplomaRevoked_def
      CreateShareLink_def IncrementShareLinkUsage_def insert_university_def Let_def
      split: option.split intro!: has_key_stmt)

interpretation issued: repository_invariant "has_key k" "\<lambda>i. i \<noteq> ak_VUZID k" for k
  by unfold_locales
     (rule has_key_statements has_key_demo has_key_create_batch has_key_apply has_key_api_key
       | erule has_key_delete)+

section \<open>An issued key\<close>

text \<open>
  C19: an API key opens its university exactly while that is active.  A new key is \<open>vuz_\<close> and
  forty-eight hexadecimal digits; all that issuing it changes in the database is one new row with its
  SHA-256 in place of the key; and in every later state of the gateway, until the university is
  deleted, resolving the key gives the university and that row if the university is active then, and
  no row otherwise (where no statement fails).
\<close>

theorem api_key_resolves:
  assumes "db_ok (sys_db x)"
    "CreateAPIKey source i now v name \<lparr>tables = sys_db x, faults = fs\<rparr> = (Inr resp, t)"
    "gateway_run e \<lparr>sys_db = tables t, sys_topic = topic\<rparr> cs y" "Delete v \<notin> set cs"
  shows "\<exists>row u. row = \<lparr>ak_ID = i, ak_VUZID = v, ak_Name = name, ak_KeyHash = hashAPIKey (cak_APIKey resp),
      ak_IsActive = True, ak_CreatedAt = now\<rparr> \<and>
    (\<exists>buffer. length buffer = 24 \<and> cak_APIKey resp = ''vuz_'' @ hex_encode buffer) \<and>
    tables t = (sys_db x)\<lparr>api_keys := api_keys (sys_db x) @ [row]\<rparr> \<and>
    u \<in> set (universities (sys_db y)) \<and> u_ID u = v \<and>
    fst (ResolveActiveUniversity (cak_APIKey resp) \<lparr>tables = sys_db y, faults = []\<rparr>) =
      (if u_Status u = UniversityStatusActive then Inr (u\<lparr>u_VuzCode := ''''\<rparr>, row) else Inl ErrNoRows)"
proof -
  let ?row = "\<lparr>ak_ID = i, ak_VUZID = v, ak_Name = name, ak_KeyHash = hashAPIKey (cak_APIKey resp),
    ak_IsActive = True, ak_CreatedAt = now\<rparr>"
  obtain buffer where k: "length buffer = 24" "cak_APIKey resp = ''vuz_'' @ hex_encode buffer"
    "tables t = (sys_db x)\<lparr>api_keys := api_keys (sys_db x) @ [?row]\<rparr>"
    by (rule CreateAPIKey_Inr[OF assms(2)]) simp
  have "db_ok (tables t)"
    using preservesD[OF registry.keep_services(5), of "\<lparr>tables = sys_db x, faults = fs\<rparr>" source i now v name] assms(1,2)
    by simp
  then have ok: "db_ok (sys_db y)" using registry.run_keeps[OF assms(3)] by simp
  have "has_key ?row (sys_db y)"
    by (rule issued.run_keeps[OF assms(3)]) (use assms(4) in \<open>auto simp: has_key_def k(3)\<close>)
  then have in_y: "?row \<in> set (api_keys (sys_db y))" by (simp add: has_key_def)
  then have "has_university (sys_db y) v" using ok by (fastforce simp: db_ok_defs)
  then obtain u where u: "u \<in> set (universities (sys_db y))" "u_ID u = v" by (auto simp: has_university_def)
  have "fst (ResolveActiveUniversity (cak_APIKey resp) \<lparr>tables = sys_db y, faults = []\<rparr>) =
      (if u_Status u = UniversityStatusActive then Inr (u\<lparr>u_VuzCode := ''''\<rparr>, ?row) else Inl ErrNoRows)"
    by (rule resolve_api_key[OF ok in_y]) (simp_all add: u)
  then show ?thesis using k u by (intro exI[of _ ?row] exI[of _ u]) auto
qed

text \<open>A key of the sample university, which is then blocked.\<close>

lemma block_step:
  assumes "has_university (sys_db x) i"
  shows "gateway_step e x (SetStatus i UniversityStatusBlocked) \<lparr>sys_db = (sys_db x)\<lparr>universities :=
    map (\<lambda>u. if u_ID u = i then u\<lparr>u_Status := UniversityStatusBlocked\<rparr> else u) (universities (sys_db x))\<rparr>,
    sys_topic = sys_topic x\<rparr>"
proof -
  have "exec e (SetStatus i UniversityStatusBlocked) (\<lparr>tables = sys_db x, faults = []\<rparr>, sys_topic x) =
      (\<lparr>tables = (sys_db x)\<lparr>universities := map (\<lambda>u. if u_ID u = i then u\<lparr>u_Status := UniversityStatusBlocked\<rparr> else u)
         (universities (sys_db x))\<rparr>, faults = []\<rparr>, sys_topic x)"
    using assms by (auto simp: exec_def after_def UpdateUniversityStatus_def University_UpdateStatus_def
        university_status_def Let_def has_university_def filter_empty_conv split: list.split)
  from gateway_step[OF this] show ?thesis by simp
qed

lemma api_key_resolves_witness:
  "\<exists>resp t y. CreateAPIKey (Some (replicate 24 (CHR ''r''))) ''k1'' 3 ''u1'' None \<lparr>tables = sample_db, faults = []\<rparr>
     = (Inr resp, t) \<and>
     gateway_run sample_env \<lparr>sys_db = tables t, sys_topic = []\<rparr> [SetStatus ''u1'' UniversityStatusBlocked] y \<and>
     fst (ResolveActiveUniversity (cak_APIKey resp) \<lparr>tables = sys_db y, faults = []\<rparr>) = Inl ErrNoRows"
proof -
  obtain resp t where r: "CreateAPIKey (Some (replicate 24 (CHR ''r''))) ''k1'' 3 ''u1'' None
      \<lparr>tables = sample_db, faults = []\<rparr> = (Inr resp, t)"
    using sample_api_key by blast
  have ut: "universities (tables t) = universities sample_db"
    by (rule CreateAPIKey_Inr[OF r]) simp
  have hu: "has_university (sys_db \<lparr>sys_db = tables t, sys_topic = []\<rparr>) ''u1''"
    by (simp add: has_university_def ut sample_db_def sample_university_def)
  define y where "y = \<lparr>sys_db = (tables t)\<lparr>universities :=
    map (\<lambda>u. if u_ID u = ''u1'' then u\<lparr>u_Status := UniversityStatusBlocked\<rparr> else u) (universities (tables t))\<rparr>,
    sys_topic = ([] :: message list)\<rparr>"
  have run: "gateway_run sample_env \<lparr>sys_db = tables t, sys_topic = []\<rparr> [SetStatus ''u1'' UniversityStatusBlocked] y"
    using run_more[OF block_step[OF hu, of sample_env] run_none] by (simp add: y_def)
  have ok: "db_ok (sys_db \<lparr>sys_db = sample_db, sys_topic = []\<rparr>)" by (simp add: sample_db_ok)
  have r': "CreateAPIKey (Some (replicate 24 (CHR ''r''))) ''k1'' 3 ''u1'' None
      \<lparr>tables = sys_db \<lparr>sys_db = sample_db, sys_topic = []\<rparr>, faults = []\<rparr> = (Inr resp, t)" using r by simp
  from api_key_resolves[OF ok r' run] obtain u row where u: "u \<in> set (universities (sys_db y))"
    "fst (ResolveActiveUniversity (cak_APIKey resp) \<lparr>tables = sys_db y, faults = []\<rparr>) =
      (if u_Status u = UniversityStatusActive then Inr (u\<lparr>u_VuzCode := []\<rparr>, row) else Inl ErrNoRows)"
    by auto
  have "u_Status u = UniversityStatusBlocked"
    using u(1) by (auto simp: y_def ut sample_db_def sample_university_def)
  then have "fst (ResolveActiveUniversity (cak_APIKey resp) \<lparr>tables = sys_db y, faults = []\<rparr>) = Inl ErrNoRows"
    using u(2) by (simp add: UniversityStatusActive_def UniversityStatusBlocked_def)
  then show ?thesis using r run by blast
qed

end
