(* ===== verification/IssueProps.thy ===== *)
theory IssueProps
  imports KafkaProps RegistryProps
begin

text \<open>
  The way of an upload through the system: the batch is created and its tasks are published, the
  engine answers each record, and the consumer books the answers until the batch is completed.
\<close>

section \<open>The consumer on a batch of answers\<close>

text \<open>The messages of the engine with the times they are handled at, and the results they decode to.\<close>

definition answers :: "(kafka_message \<times> time) list \<Rightarrow> (time \<times> KafkaProcessingResult) list" where
  "answers xs = map (\<lambda>(m, t). (t, the (decode_result (km_Value m)))) xs"

definition fetches :: "(kafka_message \<times> time) list \<Rightarrow> fetch list" where
  "fetches xs = map (\<lambda>(m, t). Fetched m None t) xs"

lemma Apply_pure:
  assumes "db_ok d" "pure (ApplyProcessingResult decoder now r) d = (Inr (), d')"
  shows "HandleProcessingResult decoder now r \<lparr>tables = d, faults = []\<rparr> = (Inr (), \<lparr>tables = d', faults = []\<rparr>)"
  using pure_Apply_InrD[OF assms] with_tx_pure[OF transparent_apply_body, of decoder now r d]
    assms(2)[unfolded ApplyProcessingResult_def]
  by (auto simp: HandleProcessingResult_def ApplyProcessingResult_def pure_def[of "with_tx _"])

lemma Start_answers:
  assumes "db_ok d" "\<forall>x \<in> set xs. decode_result (km_Value (fst x)) \<noteq> None"
    "pure (ApplyAll decoder (answers xs)) d = (Inr (), d')" "co_sess c = \<lparr>tables = d, faults = []\<rparr>"
  shows "let c' = Start (HandleProcessingResult decoder) (fetches xs) c
    in co_sess c' = \<lparr>tables = d', faults = []\<rparr> \<and> co_commits c' = co_commits c @ map fst xs"
  using assms
proof (induction xs arbitrary: d c)
  case Nil
  then show ?case by (simp add: answers_def fetches_def)
next
  case (Cons x xs)
  obtain m t where x: "x = (m, t)" by force
  obtain r where r: "decode_result (km_Value m) = Some r" using Cons.prems(2) x by auto
  obtain y d1 where 1: "pure (ApplyProcessingResult decoder t r) d = (y, d1)" by force
  have y: "y = Inr ()" "pure (ApplyAll decoder (answers xs)) d1 = (Inr (), d')"
    using Cons.prems(3) 1 x r
    by (cases y; simp add: answers_def pure_and_then fault_transparent)+
  have h: "HandleProcessingResult decoder t r \<lparr>tables = d, faults = []\<rparr> = (Inr (), \<lparr>tables = d1, faults = []\<rparr>)"
    by (rule Apply_pure[OF Cons.prems(1)]) (simp add: 1 y)
  let ?c = "consume (HandleProcessingResult decoder) m None t c"
  have c: "co_sess ?c = \<lparr>tables = d1, faults = []\<rparr>" "co_commits ?c = co_commits c @ [m]"
    using h r Cons.prems(4) by (simp_all add: consume_def CommitMessages_def consumer_logs_def)
  have "db_ok (tables (snd (HandleProcessingResult decoder t r \<lparr>tables = d, faults = []\<rparr>)))"
    by (rule processing.keeps_inv) (simp add: Cons.prems(1))
  then have "db_ok d1" by (simp add: h)
  from Cons.IH[OF this _ y(2) c(1)] show ?case
    using Cons.prems(2) c(2) x by (simp add: fetches_def Let_def)
qed

section \<open>A new batch awaits its answers\<close>

lemma new_batch_awaits:
  assumes "db_ok d" "\<not> has_batch d i"
  shows "awaiting (with_batch (new_batch_row i now v n) ps d) i 0 n"
proof -
  have "results_of d i = []" using results_of_empty assms by (simp add: db_ok_def)
  then show ?thesis by (auto simp: awaiting_def with_batch_def new_batch_row_def errors_of_def)
qed

lemma new_batch_untaken:
  assumes "db_ok d" "\<not> has_batch d i"
  shows "\<not> result_taken (with_batch row ps d) i n"
  using assms by (auto simp: db_ok_defs result_taken_def with_batch_def)

text \<open>What the engine sends for the batch: an acceptable new diploma for every record, in any order.\<close>

definition answered_by :: "qr_decoder option \<Rightarrow> db \<Rightarrow> string \<Rightarrow> string \<Rightarrow> nat \<Rightarrow> KafkaProcessingResult list \<Rightarrow> bool" where
  "answered_by decoder d i v n rs \<longleftrightarrow>
     length rs = n \<and> kpr_RecordIndex ` set rs = int ` {..<n} \<and>
     (\<forall>r \<in> set rs. kpr_BatchID r = i \<and> kpr_VUZID r = v \<and> \<not> has_hash d (kpr_DiplomaHash r) \<and>
        (\<exists>number. accepts_new decoder r = Some number \<and> registered d v number = None)) \<and>
     distinct (map kpr_DiplomaHash rs) \<and> distinct (map (accepts_new decoder) rs)"

lemma answered_acceptable:
  assumes "db_ok d" "\<not> has_batch d i" "answered_by decoder d i v n (map snd ms)"
  shows "acceptable decoder (with_batch row ps d) i v ms" "length ms = n"
proof -
  have n: "length ms = n" using assms(3) unfolding answered_by_def by (metis length_map)
  have "card (kpr_RecordIndex ` set (map snd ms)) = n"
    using assms(3) by (simp add: answered_by_def card_image)
  then have "distinct (map kpr_RecordIndex (map snd ms))"
    using n by (intro card_distinct) (simp add: image_comp)
  then show "acceptable decoder (with_batch row ps d) i v ms"
    using assms(3) new_batch_untaken[OF assms(1,2)]
    by (auto simp: acceptable_def answered_by_def with_batch_def has_hash_def registered_def comp_assoc)
  show "length ms = n" by (rule n)
qed

section \<open>From upload to completion\<close>

text \<open>
  C40: an upload is carried through.  After an accepted upload of at least one record into a registry
  that keeps the invariant, let the engine answer every record once, in any order, with an acceptable
  new diploma.  A run of the consumer over these messages on which nothing fails commits them all and
  ends with the batch completed, its counter at the number of records, a result stored under the
  index of every uploaded record, and exactly the diplomas of the
  answers added to the registry, active and for the university.
\<close>

theorem upload_is_carried_through:
  assumes "db_ok (tables s)" "records \<noteq> []"
    "Upload cipher nonces i now stamp w later v records (s, topic) = (Inr resp, s1, topic1)"
    "\<forall>x \<in> set xs. decode_result (km_Value (fst x)) \<noteq> None"
    "answered_by decoder (tables s) i v (length records) (map snd (answers xs))"
    "Start (HandleProcessingResult decoder) (fetches xs)
       \<lparr>co_sess = \<lparr>tables = tables s1, faults = []\<rparr>, co_commits = [], co_log = []\<rparr> = c"
  shows "co_commits c = map fst xs \<and> db_ok (tables (co_sess c)) \<and>
    (\<exists>b \<in> set (batches (tables (co_sess c))). br_id b = i \<and> br_status b = BatchStatusCompleted \<and>
       br_processed b = length records \<and> br_total b = length records) \<and>
    diploma_hashes (tables (co_sess c)) = diploma_hashes (tables s) @ map (registration decoder) (answers xs) \<and>
    (\<forall>k < length records. result_taken (tables (co_sess c)) i (int k))"
proof -
  obtain b s2 where b: "CreateBatchWithRecords cipher nonces i now v records s = (Inr b, s2)" "s1 = s2"
    using assms(3) by (auto simp: Upload_def split: sum.splits prod.splits)
  obtain ps where p: "tables s1 = with_batch (new_batch_row i now v (length records)) ps (tables s)"
    "\<not> has_batch (tables s) i" "has_university (tables s) v"
    using CreateBatch_Inr[OF b(1)] b(2) unfolding with_batch_def by metis
  have ok: "db_ok (tables s1)" using preservesD[OF preserves_CreateBatch, of s cipher nonces i now v records] assms(1) b by simp
  note acc = answered_acceptable[OF assms(1) p(2) assms(5)]
  have "has_university (tables s1) v" using p(1,3) by (simp add: with_batch_def has_university_def)
  moreover have "answers xs \<noteq> []" using acc(2) assms(2) by auto
  ultimately obtain d' where d': "pure (ApplyAll decoder (answers xs)) (tables s1) = (Inr (), d')" "db_ok d'"
    "awaiting d' i (length records) 0" "\<forall>b \<in> set (batches d'). br_id b = i \<longrightarrow> br_status b = BatchStatusCompleted"
    "diploma_hashes d' = diploma_hashes (tables s1) @ map (registration decoder) (answers xs)"
    using ApplyAll_completes[OF ok, of i 0 "answers xs" v decoder] acc new_batch_awaits[OF assms(1) p(2)] p(1) by auto
  have c: "co_sess c = \<lparr>tables = d', faults = []\<rparr>" "co_commits c = map fst xs"
    using Start_answers[OF ok assms(4) d'(1), of "\<lparr>co_sess = \<lparr>tables = tables s1, faults = []\<rparr>, co_commits = [], co_log = []\<rparr>"]
      assms(6) by (simp_all add: Let_def)
  have "result_taken d' i (int k)" if "k < length records" for k
  proof -
    have "int k \<in> kpr_RecordIndex ` set (map snd (answers xs))"
      using assms(5) that by (simp add: answered_by_def)
    then obtain m t where m: "(m, t) \<in> set xs" "kpr_RecordIndex (the (decode_result (km_Value m))) = int k"
      by (auto simp: answers_def)
    then obtain r where r: "decode_result (km_Value m) = Some r" "kpr_RecordIndex r = int k"
      using assms(4) by fastforce
    have "r \<in> set (map snd (answers xs))" using m(1) r(1) by (force simp: answers_def)
    then have i: "kpr_BatchID r = i" using assms(5) unfolding answered_by_def by blast
    have "\<exists>cs. co_commits c = cs \<and> (\<forall>m \<in> set cs. \<forall>r. decode_result (km_Value m) = Some r \<longrightarrow> stored (tables (co_sess c)) r)"
      using processing.Start_outcome[of "\<lparr>co_sess = \<lparr>tables = tables s1, faults = []\<rparr>, co_commits = [], co_log = []\<rparr>"
          decoder "fetches xs"] ok assms(6) by auto
    moreover have "m \<in> set (co_commits c)" using c(2) m(1) by force
    ultimately have "stored d' r" using r(1) c(1) by auto
    then show ?thesis using i r(2) by (simp add: stored_def)
  qed
  moreover have "\<exists>b \<in> set (batches d'). br_id b = i \<and> br_status b = BatchStatusCompleted \<and>
       br_processed b = length records \<and> br_total b = length records"
    using d'(3,4) by (force simp: awaiting_def)
  moreover have "diploma_hashes (tables s1) = diploma_hashes (tables s)" by (simp add: p(1) with_batch_def)
  ultimately show ?thesis using c d'(2,5) by simp
qed

text \<open>One record of the sample university, answered by the engine.\<close>

definition sample_answer :: kafka_message where
  "sample_answer = \<lparr>km_Partition = 0, km_Offset = 0, km_Key = ''b2'',
     km_Value = json_print (result_json ((sample_result 0 ''h0'' ''n0'')\<lparr>kpr_BatchID := ''b2''\<rparr>))\<rparr>"

lemma decode_sample_answer:
  "decode_result (km_Value sample_answer) = Some ((sample_result 0 ''h0'' ''n0'')\<lparr>kpr_BatchID := ''b2''\<rparr>)"
  by (simp add: sample_answer_def decode_result_print result_utf8_def sample_result_def
      valid_utf8.simps int_min_def int_max_def)

lemma sample_answered:
  "answered_by (Some sample_decoder) sample_db ''b2'' ''u1'' 1 [(sample_result 0 ''h0'' ''n0'')\<lparr>kpr_BatchID := ''b2''\<rparr>]"
proof -
  have "verdict (Some sample_decoder) ((sample_result 0 ''h0'' ''n0'')\<lparr>kpr_BatchID := ''b2''\<rparr>) (\<lambda>_. None) =
      Fresh ''n0'' ''n0''" by (simp add: verdict_def sample_simps)
  then show ?thesis
    by (simp add: answered_by_def accepts_new_def has_hash_def registered_def sample_db_def empty_db_def
        sample_result_def lessThan_Suc)
qed

lemma upload_is_carried_through_witness:
  "\<exists>resp s1 topic1 c. Upload (Some plain_cipher) (\<lambda>_. None) ''b2'' 3 ''now'' \<lparr>wo_delivered = [True], wo_error = None\<rparr> 4
       ''u1'' [sample_record] (\<lparr>tables = sample_db, faults = []\<rparr>, []) = (Inr resp, s1, topic1) \<and>
     Start (HandleProcessingResult (Some sample_decoder)) (fetches [(sample_answer, 5)])
       \<lparr>co_sess = \<lparr>tables = tables s1, faults = []\<rparr>, co_commits = [], co_log = []\<rparr> = c \<and>
     co_commits c = [sample_answer] \<and> map hr_hash (diploma_hashes (tables (co_sess c))) = [''h0'']"
proof -
  let ?s = "\<lparr>tables = sample_db, faults = []\<rparr>"
  obtain resp s1 topic1 where u: "Upload (Some plain_cipher) (\<lambda>_. None) ''b2'' 3 ''now''
      \<lparr>wo_delivered = [True], wo_error = None\<rparr> 4 ''u1'' [sample_record] (?s, []) = (Inr resp, s1, topic1)"
    using sample_create
    by (auto simp: Upload_def PublishRawTasks_def write_messages_def split: sum.splits prod.splits)
  obtain c where c: "Start (HandleProcessingResult (Some sample_decoder)) (fetches [(sample_answer, 5)])
      \<lparr>co_sess = \<lparr>tables = tables s1, faults = []\<rparr>, co_commits = [], co_log = []\<rparr> = c" by simp
  have a: "answers [(sample_answer, 5)] = [(5, (sample_result 0 ''h0'' ''n0'')\<lparr>kpr_BatchID := ''b2''\<rparr>)]"
    by (simp add: answers_def decode_sample_answer)
  have "co_commits c = map fst [(sample_answer, 5)]" "diploma_hashes (tables (co_sess c)) =
      diploma_hashes (tables ?s) @ map (registration (Some sample_decoder)) (answers [(sample_answer, 5)])"
    using upload_is_carried_through[OF _ _ u _ _ c] sample_answered by (auto simp: sample_db_ok decode_sample_answer a)
  then show ?thesis
    using u c a by (auto simp: sample_db_def empty_db_def sample_result_def)
qed

end
