(* ===== verification/JsonFuel.thy ===== *)
theory JsonFuel
  imports GoJson
begin

text \<open>
  The JSON parser of \<open>GoJson\<close> never runs out of fuel: the decoders start it with one unit more than
  the length of the text, and every result it can give with any fuel it gives with as much fuel as it
  reads bytes.
\<close>

lemma skip_space_length: "length (skip_space s) \<le> length s"
  by (simp add: skip_space_def length_dropWhile_le)

lemma skip_space_Cons: "skip_space s = c # cs \<Longrightarrow> length cs < length s"
  using skip_space_length[of s] by simp

lemma map_prefix_Some: "map_option (map_prod f id) y = Some (x, r) \<Longrightarrow> \<exists>x'. y = Some (x', r)"
  by (cases y) auto

lemma parse_string_shorter: "parse_string s = Some (x, r) \<Longrightarrow> length r < length s"
proof (induction "length s" arbitrary: s x r rule: less_induct)
  case less
  then obtain c cs where s: "s = c # cs" by (cases s) (auto simp: parse_string.simps[of "[]"])
  have sub: "length r < length s" if "map_option (map_prod f id) (parse_string t) = Some (x, r)" "length t < length s" for f t
    using map_prefix_Some[OF that(1)] less.hyps[OF that(2)] that(2) by fastforce
  note d = less.prems[unfolded parse_string.simps[of s], unfolded s list.case]
  show ?case
  proof (cases "c = quote")
    case True
    then show ?thesis using d s by simp
  next
    case nq: False
    show ?thesis
    proof (cases "c = bslash")
      case True
      note e = d[unfolded if_not_P[OF nq] if_P[OF True]]
      then obtain p u where u: "unescape cs = Some (p, u)" by (cases "unescape cs") auto
      have "length u < length s" using unescape_shorter[OF u] s by simp
      then show ?thesis using e[unfolded u option.case prod.case] sub by blast
    next
      case False
      note e = d[unfolded if_not_P[OF nq] if_not_P[OF False]]
      have "length cs < length s" "0 < utf8_len s \<Longrightarrow> length (drop (utf8_len s) s) < length s" using s by auto
      then show ?thesis using e sub unfolding s by (metis not_None_eq gr0I option.distinct(1))
    qed
  qed
qed

lemma scan_int_shorter: "scan_int s = Some (x, r) \<Longrightarrow> length r < length s"
  by (auto simp: scan_int_def length_dropWhile_le less_Suc_eq_le split: list.splits if_splits)

lemma scan_frac_shorter: "scan_frac s = Some (x, r) \<Longrightarrow> length r \<le> length s"
  by (auto simp: scan_frac_def split: list.splits if_splits intro: le_trans[OF length_dropWhile_le])

lemma scan_exp_shorter: "scan_exp s = Some (x, r) \<Longrightarrow> length r \<le> length s"
  by (auto simp: scan_exp_def Let_def split: list.splits if_splits prod.splits
      intro: le_trans[OF length_dropWhile_le])

lemma scan_number_shorter: "scan_number s = Some (x, r) \<Longrightarrow> length r < length s"
  by (auto simp: scan_number_def Let_def split: option.splits prod.splits
      dest!: scan_int_shorter scan_frac_shorter scan_exp_shorter)

text \<open>
  A result read with some fuel uses up at least one byte, and any fuel of at least the number of bytes
  read gives it again.
\<close>

lemma parse_consumes:
  "parse_value n s = Some (v, r) \<Longrightarrow> length r < length s \<and>
     (\<forall>m. length s - length r \<le> m \<longrightarrow> parse_value m s = Some (v, r))"
  "parse_elems n s = Some (vs, r') \<Longrightarrow> length r' < length s \<and>
     (\<forall>m. length s - length r' \<le> m \<longrightarrow> parse_elems m s = Some (vs, r'))"
  "parse_members n s = Some (kvs, r'') \<Longrightarrow> length r'' < length s \<and>
     (\<forall>m. length s - length r'' \<le> m \<longrightarrow> parse_members m s = Some (kvs, r''))"
proof (induction n arbitrary: s v r vs r' kvs r'')
  case 0
  { case 1 then show ?case by simp next case 2 then show ?case by simp next case 3 then show ?case by simp }
next
  case (Suc n)
  { case 1
    note prem = 1
    from 1 obtain c cs where c: "skip_space s = c # cs" by (auto split: list.splits)
    note l = skip_space_Cons[OF c]
    show ?case
    proof (cases "c \<noteq> quote \<and> (c = CHR ''{'' \<or> c = CHR ''['')")
      case False
      have same: "parse_value (Suc m) s = parse_value (Suc n) s" for m
        using False unfolding parse_value.simps c list.case
        by (cases "c = quote") (simp_all only: if_P if_not_P refl simp_thms de_Morgan_disj if_False if_True)
      have len: "length r < length s"
        using 1 False l skip_space_length[of s]
        by (auto simp: c split: if_splits dest!: map_prefix_Some parse_string_shorter scan_number_shorter)
      have "parse_value m s = Some (v, r)" if "length s - length r \<le> m" for m
        using that len same[of "m - 1"] 1 by (cases m) (simp_all del: parse_value.simps)
      then show ?thesis using len by simp
    next
      case True
      then obtain d ds where d: "skip_space cs = d # ds"
        using 1 by (auto simp: c split: list.splits if_splits)
      note l2 = skip_space_Cons[OF d] skip_space_length[of cs, unfolded d]
      consider "c = CHR ''{''" "d = CHR ''}''" | "c = CHR ''{''" "d \<noteq> CHR ''}''"
        | "c = CHR ''[''" "d = CHR '']''" | "c = CHR ''[''" "d \<noteq> CHR '']''" using True by blast
      then show ?thesis
      proof cases
        case 2
        then obtain kvs where k: "parse_members n (d # ds) = Some (kvs, r)" "v = JObj kvs"
          using 1 True by (auto simp: c d)
        note IH = Suc.IH(3)[OF k(1)]
        have "parse_value m s = Some (v, r)" if "length s - length r \<le> m" for m
        proof (cases m)
          case (Suc m')
          then show ?thesis using that IH l l2 k(2) 2 True by (simp add: c d)
        qed (use that IH l l2 in simp)
        then show ?thesis using IH l l2 by simp
      next
        case 4
        then obtain vs where k: "parse_elems n (d # ds) = Some (vs, r)" "v = JArr vs"
          using 1 True by (auto simp: c d)
        note IH = Suc.IH(2)[OF k(1)]
        have "parse_value m s = Some (v, r)" if "length s - length r \<le> m" for m
        proof (cases m)
          case (Suc m')
          then show ?thesis using that IH l l2 k(2) 4 True by (simp add: c d)
        qed (use that IH l l2 in simp)
        then show ?thesis using IH l l2 by simp
      next
        case 1
        then have r: "r = ds" and same: "parse_value (Suc m) s = Some (v, r)" for m
          using prem True by (simp_all add: c d)
        then have "parse_value m s = Some (v, r)" if "length s - length r \<le> m" for m
          using that l l2 by (cases m) (simp_all del: parse_value.simps)
        then show ?thesis using l l2 r by simp
      next
        case 3
        then have r: "r = ds" and same: "parse_value (Suc m) s = Some (v, r)" for m
          using prem True by (simp_all add: c d)
        then have "parse_value m s = Some (v, r)" if "length s - length r \<le> m" for m
          using that l l2 by (cases m) (simp_all del: parse_value.simps)
        then show ?thesis using l l2 r by simp
      qed
    qed
  next
    case 2
    then obtain x u where x: "parse_value n s = Some (x, u)" by (auto split: option.splits)
    note IH = Suc.IH(1)[OF x]
    obtain c cs where c: "skip_space u = c # cs" using 2 x by (auto split: list.splits)
    note l = skip_space_Cons[OF c]
    show ?case
    proof (cases "c = CHR '']''")
      case True
      have "parse_elems m s = Some (vs, r')" if "length s - length r' \<le> m" for m
      proof (cases m)
        case (Suc m')
        then show ?thesis using that IH l 2 True by (simp add: x c)
      qed (use that IH l 2 True x c in simp)
      then show ?thesis using IH l 2 True x c by simp
    next
      case False
      then obtain ws where k: "c = CHR '',''" "parse_elems n cs = Some (ws, r')" "vs = x # ws"
        using 2 by (auto simp: x c split: if_splits)
      note IH2 = Suc.IH(2)[OF k(2)]
      have "parse_elems m s = Some (vs, r')" if "length s - length r' \<le> m" for m
      proof (cases m)
        case (Suc m')
        then have "length s - length u \<le> m'" "length cs - length r' \<le> m'" using that IH IH2 l by linarith+
        then show ?thesis using Suc IH IH2 k by (simp add: c)
      qed (use that IH IH2 l in simp)
      then show ?thesis using IH IH2 l by simp
    qed
  next
    case 3
    then obtain q qs where q: "skip_space s = q # qs" "q = quote" by (auto split: list.splits if_splits)
    note l0 = skip_space_Cons[OF q(1)]
    obtain k u where k: "parse_string qs = Some (k, u)" using 3 q by (auto split: option.splits)
    obtain e es where e: "skip_space u = e # es" "e = CHR '':''"
      using 3 q k by (auto split: list.splits if_splits)
    obtain x w where x: "parse_value n es = Some (x, w)" using 3 q k e by (auto split: option.splits)
    note IH = Suc.IH(1)[OF x]
    obtain c cs where c: "skip_space w = c # cs" using 3 q k e x by (auto split: list.splits)
    note l = l0 parse_string_shorter[OF k] skip_space_Cons[OF e(1)] skip_space_Cons[OF c]
    show ?case
    proof (cases "c = CHR ''}''")
      case True
      have "parse_members m s = Some (kvs, r'')" if "length s - length r'' \<le> m" for m
      proof (cases m)
        case (Suc m')
        then show ?thesis using that IH l 3 True by (simp add: q k e x c)
      qed (use that IH l 3 True q k e x c in simp)
      then show ?thesis using IH l 3 True q k e x c by simp
    next
      case False
      then obtain ws where w: "c = CHR '',''" "parse_members n cs = Some (ws, r'')" "kvs = (k, x) # ws"
        using 3 by (auto simp: q k e x c split: if_splits)
      note IH2 = Suc.IH(3)[OF w(2)]
      have "parse_members m s = Some (kvs, r'')" if "length s - length r'' \<le> m" for m
      proof (cases m)
        case (Suc m')
        then have "length es - length w \<le> m'" "length cs - length r'' \<le> m'" using that IH IH2 l by linarith+
        then show ?thesis using Suc IH IH2 w by (simp add: q k e c)
      qed (use that IH IH2 l in simp)
      then show ?thesis using IH IH2 l by simp
    qed
  }
qed

text \<open>So more fuel never changes what the decoders read.\<close>

lemma parse_value_fuel:
  assumes "length s < n"
  shows "parse_value n s = parse_value (Suc (length s)) s"
proof (cases "parse_value n s")
  case None
  show ?thesis
  proof (cases "parse_value (Suc (length s)) s")
    case (Some p)
    then show ?thesis using parse_consumes(1)[of "Suc (length s)" s "fst p" "snd p"] assms None by (simp del: parse_value.simps)
  qed (simp only: None)
next
  case (Some p)
  then show ?thesis using parse_consumes(1)[of n s "fst p" "snd p"] by (simp del: parse_value.simps)
qed

end
