(* ===== verification/Lifecycle.thy ===== *)
theory Lifecycle
  imports Server PubConfig PubHttp
begin

text \<open>
  The life of the two processes: \<open>Start\<close> of \<open>apiserver.go\<close> with its \<open>main\<close>, the database handle of
  \<open>repository/postgres/db.go\<close>, and \<open>pubver/cmd/pubver/main.go\<close>.  What a process does to the outside
  is the list of its calls, in order; what the libraries report of them, and why the wait for the end
  is over, are arguments.  Log lines are left out.
\<close>

datatype proc_call =
    SetLogLevel log_level
  | OpenDB string
  | OpenPool string int
  | PingDB
  | Serve string
  | StartConsumer
  | ShutdownHTTP
  | CloseReader
  | CloseWriter
  | CloseDB

text \<open>What \<open>ListenAndServe\<close> and \<open>Shutdown\<close> report, and what the \<open>select\<close> of a process receives.\<close>

datatype http_error = ErrServerClosed | HttpFailed err

datatype stop_event = SignalReceived | ServeReturned http_error

record outcomes =
  oc_parse :: "err option"
  oc_open :: "err option"
  oc_ping :: "err option"
  oc_stop :: stop_event
  oc_shutdown :: "http_error option"
  oc_close :: "err option"

section \<open>The gateway\<close>

text \<open>A handle of the database is set by an opening that could reach the server.\<close>

definition DB_Open :: "outcomes \<Rightarrow> string \<Rightarrow> err option \<times> bool \<times> proc_call list" where
  "DB_Open oc url =
     (case oc_open oc of
        Some e \<Rightarrow> (Some e, False, [OpenDB url])
      | None \<Rightarrow>
          (case oc_ping oc of
             Some e \<Rightarrow> (Some e, False, [OpenDB url, PingDB])
           | None \<Rightarrow> (None, True, [OpenDB url, PingDB])))"

definition DB_Close :: "outcomes \<Rightarrow> bool \<Rightarrow> err option \<times> proc_call list" where
  "DB_Close oc handle = (if \<not> handle then (None, []) else (oc_close oc, [CloseDB]))"

definition configureLogger :: "Config \<Rightarrow> proc_call list" where
  "configureLogger config =
     (let level = LevelInfo; level = (if cf_LogLevel config = ''debug'' then LevelDebug else level)
      in [SetLogLevel level])"

definition configureDB :: "outcomes \<Rightarrow> Config \<Rightarrow> err option \<times> bool \<times> proc_call list" where
  "configureDB oc config = DB_Open oc (cf_DatabaseURL config)"

text \<open>
  The calls once the router is configured: reader and writer are set by then.  An error of
  \<open>ListenAndServe\<close> other than the regular one ends \<open>Start\<close> at once.
\<close>

definition run_server :: "outcomes \<Rightarrow> Config \<Rightarrow> bool \<Rightarrow> err option \<times> proc_call list" where
  "run_server oc config handle =
     (let calls = [StartConsumer, Serve (cf_BindAddr config)]
      in case oc_stop oc of
           ServeReturned (HttpFailed e) \<Rightarrow> (Some e, calls)
         | _ \<Rightarrow>
             (case oc_shutdown oc of
                Some (HttpFailed e) \<Rightarrow> (Some e, calls @ [ShutdownHTTP])
              | _ \<Rightarrow>
                  (case DB_Close oc handle of
                     (r, close) \<Rightarrow> (r, calls @ [ShutdownHTTP, CloseReader, CloseWriter] @ close))))"

text \<open>\<open>Start\<close>, on the database it finds; what is served meanwhile is the run of \<open>HttpRun\<close>.\<close>

definition APIServer_Start ::
  "libs \<Rightarrow> outcomes \<Rightarrow> Config \<Rightarrow> draws \<Rightarrow> bytes option \<Rightarrow> draws \<Rightarrow> draws \<Rightarrow> sess
     \<Rightarrow> err option \<times> proc_call list \<times> sess" where
  "APIServer_Start l oc config a salt d k s =
     (let logged = configureLogger config
      in case configureDB oc config of
           (Some e, _, opened) \<Rightarrow> (Some e, logged @ opened, s)
         | (None, handle, opened) \<Rightarrow>
             (case configureRouter l config a salt d k s of
                (Inl e, s) \<Rightarrow> (Some e, logged @ opened, s)
              | (Inr _, s) \<Rightarrow>
                  (case run_server oc config handle of (r, calls) \<Rightarrow> (r, logged @ opened @ calls, s))))"

text \<open>
  \<open>main\<close>: the configuration file is read over the defaults by the TOML library; \<open>log.Fatal\<close> exits with 1.
\<close>

definition gateway_main ::
  "libs \<Rightarrow> outcomes \<Rightarrow> (Config \<Rightarrow> Config res) \<Rightarrow> (string \<Rightarrow> string) \<Rightarrow> draws \<Rightarrow> bytes option \<Rightarrow> draws \<Rightarrow> draws
     \<Rightarrow> sess \<Rightarrow> nat \<times> proc_call list \<times> sess" where
  "gateway_main l oc decode_file env a salt d k s =
     (case decode_file NewConfig of
        Inl _ \<Rightarrow> (1, [], s)
      | Inr config \<Rightarrow>
          (case APIServer_Start l oc (applyEnvOverrides env config) a salt d k s of
             (Some _, calls, s) \<Rightarrow> (1, calls, s)
           | (None, calls, s) \<Rightarrow> (0, calls, s)))"

section \<open>The public service\<close>

definition newDBPool :: "outcomes \<Rightarrow> PubConfig \<Rightarrow> err option \<times> proc_call list" where
  "newDBPool oc cfg =
     (case oc_parse oc of
        Some e \<Rightarrow> (Some e, [])
      | None \<Rightarrow>
          (let opened = [OpenPool (pc_DatabaseURL cfg) (pc_DBMaxConns cfg)]
           in case oc_open oc of
                Some e \<Rightarrow> (Some e, opened)
              | None \<Rightarrow>
                  (case oc_ping oc of
                     Some e \<Rightarrow> (Some e, opened @ [PingDB, CloseDB])
                   | None \<Rightarrow> (None, opened @ [PingDB]))))"

text \<open>The repository, and whether there is a pool for the clean-up to close.\<close>

definition newVerificationRepository :: "outcomes \<Rightarrow> PubConfig \<Rightarrow> err option \<times> proc_call list \<times> proc_call list" where
  "newVerificationRepository oc cfg =
     (case newDBPool oc cfg of (Some e, calls) \<Rightarrow> (Some e, calls, []) | (None, calls) \<Rightarrow> (None, calls, [CloseDB]))"

text \<open>\<open>os.Exit\<close> does not run the deferred clean-up, returning from \<open>main\<close> does.\<close>

definition pub_main :: "outcomes \<Rightarrow> PubConfig res \<Rightarrow> nat \<times> proc_call list" where
  "pub_main oc loaded =
     (case loaded of
        Inl _ \<Rightarrow> (1, [])
      | Inr cfg \<Rightarrow>
          (let logged = [SetLogLevel (newLogger (pc_LogLevel cfg))]
           in case newVerificationRepository oc cfg of
                (Some _, opened, _) \<Rightarrow> (1, logged @ opened)
              | (None, opened, cleanup) \<Rightarrow>
                  (let calls = logged @ opened @ [Serve (pc_HTTPAddr cfg)]
                   in case oc_stop oc of
                        ServeReturned (HttpFailed _) \<Rightarrow> (1, calls)
                      | _ \<Rightarrow>
                          (case oc_shutdown oc of
                             Some _ \<Rightarrow> (1, calls @ [ShutdownHTTP])
                           | None \<Rightarrow> (0, calls @ [ShutdownHTTP] @ cleanup)))))"

section \<open>Ends\<close>

text \<open>
  A process ends with 0 exactly when nothing failed, and then what it has opened is closed in order:
  first no more requests, then the broker, the database last.
\<close>

definition clean_stop :: "outcomes \<Rightarrow> bool" where
  "clean_stop oc \<longleftrightarrow> oc_open oc = None \<and> oc_ping oc = None \<and> (\<forall>e. oc_stop oc \<noteq> ServeReturned (HttpFailed e))"

lemma Start_None:
  "APIServer_Start l oc config a salt d k s = (None, calls, t) \<longleftrightarrow>
     clean_stop oc \<and> (\<forall>e. oc_shutdown oc \<noteq> Some (HttpFailed e)) \<and> oc_close oc = None \<and>
     (\<exists>app. configureRouter l config a salt d k s = (Inr app, t)) \<and>
     calls = configureLogger config @ [OpenDB (cf_DatabaseURL config), PingDB, StartConsumer,
       Serve (cf_BindAddr config), ShutdownHTTP, CloseReader, CloseWriter, CloseDB]"
  unfolding APIServer_Start_def configureDB_def DB_Open_def run_server_def DB_Close_def clean_stop_def Let_def
  by (auto split: option.split prod.split sum.split stop_event.split http_error.split)

lemma gateway_exit_0:
  assumes "gateway_main l oc decode_file env a salt d k s = (0, calls, t)"
  shows "\<exists>config app. decode_file NewConfig = Inr config \<and>
    configureRouter l (applyEnvOverrides env config) a salt d k s = (Inr app, t) \<and>
    calls = configureLogger (applyEnvOverrides env config) @ [OpenDB (cf_DatabaseURL (applyEnvOverrides env config)),
       PingDB, StartConsumer, Serve (cf_BindAddr (applyEnvOverrides env config)), ShutdownHTTP, CloseReader,
       CloseWriter, CloseDB]"
proof -
  obtain config where c: "decode_file NewConfig = Inr config"
    "APIServer_Start l oc (applyEnvOverrides env config) a salt d k s = (None, calls, t)"
    using assms by (auto simp: gateway_main_def split: sum.splits prod.splits option.splits)
  from c(1) c(2)[unfolded Start_None] show ?thesis by (elim conjE exE) (intro exI conjI)
qed

lemma pub_exit_0:
  "pub_main oc loaded = (0, calls) \<longleftrightarrow>
     clean_stop oc \<and> oc_parse oc = None \<and> oc_shutdown oc = None \<and>
     (\<exists>cfg. loaded = Inr cfg \<and>
        calls = [SetLogLevel (newLogger (pc_LogLevel cfg)), OpenPool (pc_DatabaseURL cfg) (pc_DBMaxConns cfg), PingDB,
          Serve (pc_HTTPAddr cfg), ShutdownHTTP, CloseDB])"
  unfolding pub_main_def newVerificationRepository_def newDBPool_def clean_stop_def Let_def
  by (auto split: option.split prod.split sum.split stop_event.split http_error.split)

text \<open>The pool of a public service that could be opened but not reached is closed again; the gateway leaves it open.\<close>

lemma unreachable_database:
  assumes "oc_parse oc = None" "oc_open oc = None" "oc_ping oc = Some e"
  shows "pub_main oc (Inr cfg) = (1, [SetLogLevel (newLogger (pc_LogLevel cfg)),
      OpenPool (pc_DatabaseURL cfg) (pc_DBMaxConns cfg), PingDB, CloseDB])"
    and "APIServer_Start l oc config a salt d k s =
      (Some e, configureLogger config @ [OpenDB (cf_DatabaseURL config), PingDB], s)"
  using assms
  by (simp_all add: pub_main_def newVerificationRepository_def newDBPool_def APIServer_Start_def configureDB_def
      DB_Open_def Let_def)

end
