(* ===== verification/Spec2Isabelle.thy ===== *)
theory Spec2Isabelle
  imports GatewayProps VerifyProps PublicProps CsvProps PubHttpProps UrlProps ExcelProps SigningProps ApiKeyProps IssueProps JsonFuel Lifecycle
begin

text \<open>
  \<^bold>\<open>The program.\<close>  A registry of diplomas made of two Go services over one PostgreSQL database.  The
  \<^emph>\<open>gateway\<close> (\<open>src/gateway-service\<close>) keeps accounts of universities and administrators, takes
  uploads of diplomas, hands each record to a signing engine over Kafka, stores the results the engine
  sends back, lets universities download and revoke, and gives students share links.  The \<^emph>\<open>public
  service\<close> (\<open>src/pubver\<close>) only reads: it verifies a signed token of a diploma and searches by
  university code and diploma number.  The engine (\<open>src/cryptography-engine-rs\<close>) is a Rust program
  and is not modelled: its messages are arbitrary results the gateway consumes, and a token of the form
  it issues is built in \<open>EngineToken\<close> after \<open>pubver/internal/testutil/crypto.go\<close>.

  \<^bold>\<open>Values, errors, effects.\<close>  A Go string or byte slice is a list of bytes (\<open>string\<close>), an \<open>int\<close> is an
  integer whose conversions and wrap-around are written out where they occur (\<open>to_int32\<close>,
  \<open>int64_times\<close>, \<open>Atoi\<close>), a struct is a record, a fallible function returns \<open>err + 'a\<close>.  A program on
  the database is a function of a session (\<open>sess\<close>: the tables and a schedule of faults, by which any
  statement may fail before or after it took effect) to a result and a session (\<open>'a dbm\<close>); a
  transaction is rolled back by every error.  Times, new identifiers, random bytes, what the brokers
  take and what a library reports are arguments, so that a property holds for all of them.

  \<^bold>\<open>Libraries.\<close>
  \<^item> \<open>Prelude\<close>: result types, the shared list lemmas and the collections of the simplifier.
  \<^item> \<open>GoStd\<close>, \<open>GoTime\<close>, \<open>GoUrl\<close>, \<open>GoJson\<close>: of Go's standard library what the code calls, written
    out: white space, splitting, decimal, hexadecimal and base64 text with their round trips;
    durations, \<open>float64\<close>, URLs and clean paths; the JSON printer, parser and struct decoder.
    \<open>JsonFuel\<close> shows that the fuel of the parser, one more than the bytes of the text, is always
    enough.  The nesting limit of 10000 of \<open>encoding/json\<close> is left out.
  \<^item> \<open>Crypto\<close>: SHA-256, AES and GCM on bytes, executable, with the round trip of GCM.  Its security
    is not a theorem of HOL; properties speak of what opens and verifies.

  \<^bold>\<open>The gateway.\<close>
  \<^item> \<open>Model\<close> (\<open>model/*.go\<close>) and \<open>Database\<close>: the structs; the tables after all migrations, with keys,
    references, checks, statements and transactions.
  \<^item> \<open>RecordPayload\<close>, \<open>DiplomaRepo\<close>, \<open>UniversityRepo\<close> (\<open>repository/postgres\<close>): every method,
    statement by statement.  \<open>Invariant\<close> defines \<open>db_ok\<close>; \<open>DiplomaInv\<close> gives the effect of processing a
    result in closed form (\<open>verdict\<close>, \<open>book\<close>, \<open>apply_spec\<close>) and, with \<open>UniversityInv\<close>, shows that every
    method keeps the invariant.
  \<^item> \<open>Security\<close>, \<open>Ed25519Keys\<close>, \<open>Token\<close> (\<open>infrastructure\<close>): key derivation, the two AES-GCM formats,
    claims, PEM keys and fingerprints, access and share tokens.
  \<^item> \<open>Services\<close>, \<open>Kafka\<close> (\<open>service\<close>, \<open>infrastructure/kafka\<close>): the use cases; upload, publishing and the
    consumer as a fold over the outcomes of its fetches.
  \<^item> \<open>Gateway\<close>: the gateway as a transition system, one \<open>call\<close> for every operation that changes state,
    and the contract of the repositories; \<open>GatewayProps\<close>: the invariant in every reachable state, and
    the finality of revocation.
  \<^item> \<open>Access\<close>, \<open>Csv\<close>, \<open>Handlers\<close>, \<open>Server\<close> (\<open>authctx\<close>, \<open>transport/http\<close>, \<open>app/apiserver\<close>): the
    middlewares, the CSV reader and its upload format, every handler with its statuses, configuration,
    wiring and the route table.  \<open>HttpRun\<close>: every request is no step or one step of \<open>Gateway\<close>, so a run
    of the server is a run of the transition system.  \<open>Tenant\<close>, \<open>AccessProps\<close>, \<open>PublicProps\<close>: what a
    request can change, by its credentials.
  \<^item> \<open>Excel\<close> (\<open>infrastructure/excel\<close>, \<open>qr\<close>): the calls made on the workbook, and the SVG text.
  \<^item> \<open>Lifecycle\<close>: start and shutdown of both processes as their calls, in order.

  \<^bold>\<open>The public service.\<close>
  \<^item> \<open>VerifyHash\<close> (\<open>pkg/verifyhash\<close>), \<open>PubVerify\<close> (\<open>service\<close>, \<open>repository\<close>, \<open>domain\<close>): hashing,
    decryption, JWT reading, the queries, verification and search; \<open>PubFacts\<close> holds the lemmas.
  \<^item> \<open>PubConfig\<close> (\<open>config\<close>), \<open>PubHttp\<close>, \<open>RateLimit\<close> (\<open>httpapi\<close>, \<open>cmd/pubver\<close>): settings; router,
    \<open>ServeMux\<close> with its redirect of unclean paths, middleware and writer with their log; the limiter.  \<open>FloatFacts\<close>: the rounding of \<open>float64\<close>.

  \<^bold>\<open>The theorems.\<close>  \<open>DiplomaProps\<close>: a result takes effect exactly once under redelivery and faults, as its
  abstract verdict says, and batches close with the right status.  \<open>KafkaProps\<close>, \<open>IssueProps\<close>: uploads,
  committed offsets over partitions and redelivery, the outcomes of a failing upload, and the way of
  an upload to its completed batch.  \<open>RegistryProps\<close>, \<open>StudentProps\<close>, \<open>AccountProps\<close>, \<open>ApiKeyProps\<close>:
  downloads return uploads, share links open what they were made for and nothing else, log-in, keys,
  deletion, and API keys over later runs.  \<open>VerifyProps\<close>,
  \<open>PubSearchProps\<close>, \<open>SigningProps\<close> and this theory: a positive answer rests on a signature, on the hashed
  claims and on an active row; an issued diploma verifies; a key the gateway accepts is the key the
  public service uses; a revoked diploma never verifies.  \<open>CsvProps\<close>, \<open>ExcelProps\<close>, \<open>UrlProps\<close>,
  \<open>PubConfigProps\<close>, \<open>RateProps\<close>, \<open>PubHttpProps\<close>: formats, settings, the limiter against a limiter that
  forgets nothing, and the answers of the router.

  \<^bold>\<open>Contracts.\<close>  \<open>record_payload_cipher\<close> (kept by the key encryptor), \<open>result_handler\<close> (kept by the
  diploma service for the consumer), \<open>repository_invariant\<close> (kept for the invariant of the registry,
  for the finality of a revocation and for an issued API key) and \<open>reading_service\<close> (kept by the verification service for the
  router) are locales, interpreted on the model's definitions.

  \<^bold>\<open>Parameters and their laws.\<close>  Not under \<open>src\<close> and therefore arguments: bcrypt (\<open>password_hasher\<close>,
  with the law that a hash compares with its password), the JWT libraries (a token they sign parses to
  its claims), Ed25519, PEM reading and DER (\<open>x509_laws\<close>, \<open>ed25519_lib\<close>), the validator, excelize and
  go-qrcode, the token bucket (\<open>rate_lib\<close>; equal behaviour of a full bucket is a hypothesis where it is
  used), \<open>strconv.ParseFloat\<close>, \<open>netip\<close>, the redirect status
  of the toolchain's \<open>ServeMux\<close>, SQL's \<open>lower\<close>, multipart parsing.  Every property with such a
  law has a witness with a concrete library.

  \<^bold>\<open>Bounds and termination.\<close>  Every loop over data is structural or has a termination proof; the only fuel
  is that of the JSON parser.  The consumer's loop is the fold over its fetches, which ends where they
  end or at a cancellation.

  \<^bold>\<open>Idealised.\<close>  Every HTTP request and every handled message is one step of the transition system:
  requests that interleave between their separate statements or transactions are not represented,
  and a property of runs speaks of requests one after the other.  Inside a request every statement
  may fail, and a transaction is one step, as its row locks and unique keys make it for the tables it
  writes.  The Kafka writer appends the messages it reports as delivered, in order and once: retries
  that duplicate, and the balancing over partitions, are left out on the side of the tasks; on the
  side of the results any message may come again and from any partition.  A commit of the consumer is
  the call it makes; \<open>group_offset\<close> is how far the offset of a partition can get by these calls.  The
  texts of a workbook are those below Excel's limit of 32767 characters per cell, which excelize cuts.
  A JSON body that gives one key three times may leave stale elements in a Go slice that the decoder
  of \<open>Handlers\<close> does not.

  \<^bold>\<open>Not modelled.\<close>  Log lines of the gateway, the two calls of bcrypt, connection pools and sockets
  beyond the calls of \<open>Lifecycle\<close>, and path matching of the gateway's router library.  \<open>net/http\<close> answers
  malformed requests and \<open>OPTIONS *\<close> itself; the public router is modelled on what is handed to it.
  The migrations are represented by the tables, keys and checks they create.  The Rust engine, the
  frontend and the Go tests are outside.
\<close>

section \<open>Properties that span the services\<close>

text \<open>What an answer of the verification says, valid or not.\<close>

lemma FindByHash_status:
  assumes "FindByHash h s = (r, t)" "db_ok (tables s)" "row \<in> set (diploma_hashes (tables s))" "hr_hash row = h"
  shows "(\<exists>e. r = Inl (ErrDriver e)) \<or> (\<exists>x. r = Inr x \<and> dr_Status x = hr_status row \<and>
    dr_RevokedAt x = hr_revoked_at row)"
proof (cases r)
  case (Inr x)
  from FindByHash_read(2)[OF assms(1) Inr] obtain row' where r': "row' \<in> set (diploma_hashes (tables s))"
    "hr_hash row' = h" "dr_Status x = hr_status row'" "dr_RevokedAt x = hr_revoked_at row'" by auto
  have "distinct (map hr_hash (diploma_hashes (tables s)))" using assms(2) by (simp add: db_ok_defs)
  then have "row' = row" using distinct_key_unique r'(1,2) assms(3,4) by metis
  then show ?thesis using Inr r' by auto
next
  case (Inl e)
  let ?P = "\<lambda>(h', u, qr). hr_hash h' = h"
  let ?q = "\<lambda>d. (bind_res (first_row (filter ?P (verification_rows d))) scan_record, d)"
  have "hr_vuz_id row \<in> u_ID ` set (universities (tables s))"
    using assms(2,3) by (auto simp: db_ok_defs has_university_def)
  then obtain u where "u \<in> set (universities (tables s))" "u_ID u = hr_vuz_id row" by auto
  then have "(row, u, case latest_ok (tables s) h of None \<Rightarrow> None | Some r \<Rightarrow> rr_qr r)
      \<in> set (verification_rows (tables s))"
    using assms(3,4) by (force simp: verification_rows_def)
  then have "filter ?P (verification_rows (tables s)) \<noteq> []"
    using assms(4) by (auto simp: filter_empty_conv)
  then have n: "fst (?q (tables s)) \<noteq> Inl ErrNoRows"
    by (auto simp: bind_res_eq_Inl scan_record_def scan_text_def split: prod.splits)
  show ?thesis
    using assms(1) n unfolding Inl FindByHash_def fetchOne_def
    by (cases rule: run_stmt_cases[of ?q s]) (auto simp: lift_err_def split: sum.splits)
qed

lemma VerifyPayload_lookup:
  assumes "VerifyPayload lib encKey token s = (Inr resp, t)"
  obtains payload h s1 where "lookup_hash payload h s1 = (Inr resp, t)" "tables s1 = tables s"
proof -
  obtain claims vuz where c: "DecodeUnverifiedJWT (TrimSpace token) = Inr claims"
    "ExtractVUZIDFromMap claims = Inr vuz"
    using assms by (auto simp: VerifyPayload_def Let_def split: if_splits sum.splits)
  obtain k s1 where k: "FindUniversityVerificationKeyByID vuz s = (Inr k, s1)"
    using assms c by (auto simp: VerifyPayload_def Let_def invalid_def split: if_splits sum.splits prod.splits)
  obtain payload h where "lookup_hash payload h s1 = (Inr resp, t)"
    using assms c k by (auto simp: VerifyPayload_def Let_def invalid_def split: if_splits sum.splits prod.splits)
  then show thesis using that FindKey_read(1)[OF k] by blast
qed

lemma verification_status:
  assumes "VerifyPayload lib encKey token s = (Inr resp, t)" "db_ok (tables s)"
    "row \<in> set (diploma_hashes (tables s))" "hr_hash row = vr_Hash resp"
  shows "vr_Status resp = hr_status row \<and> vr_RevokedAt resp = hr_revoked_at row \<and>
    (vr_Valid resp \<longleftrightarrow> hr_status row = DiplomaStatusActive)"
proof -
  obtain payload h s1 where l: "lookup_hash payload h s1 = (Inr resp, t)" "tables s1 = tables s"
    by (rule VerifyPayload_lookup[OF assms(1)])
  obtain r s2 where f: "FindByHash h s1 = (r, s2)" by force
  have hash: "vr_Hash resp = h"
  proof (cases r)
    case (Inl e)
    then show ?thesis using l(1) f by (auto simp: lookup_hash_def not_found_response_def split: if_splits)
  next
    case (Inr x)
    then show ?thesis using l(1) f FindByHash_read(2)[OF f Inr]
      by (auto simp: lookup_hash_def toVerifyResponse_def)
  qed
  have "(\<exists>e. r = Inl (ErrDriver e)) \<or> (\<exists>x. r = Inr x \<and> dr_Status x = hr_status row \<and>
      dr_RevokedAt x = hr_revoked_at row)"
    using FindByHash_status[OF f] assms(2-4) l(2) hash by simp
  then show ?thesis using l(1) f by (auto simp: lookup_hash_def toVerifyResponse_def)
qed

text \<open>
  C2: a revoked diploma never verifies again.  After a successful revocation in a state that keeps
  the invariant, as every reachable one does, the public service never answers valid for the revoked
  hash in any later state of the gateway that has not deleted the university, whatever the token, the
  keys and the faults; an answer about it says revoked, with a date.
\<close>

theorem revoked_never_valid:
  fixes x :: system
  assumes "db_ok (sys_db x)" "Revoke now v h \<lparr>tables = sys_db x, faults = fs\<rparr> = (Inr (), s)"
    "gateway_run e \<lparr>sys_db = tables s, sys_topic = sys_topic x\<rparr> cs' y" "Delete v \<notin> set cs'"
    "VerifyPayload lib encKey token \<lparr>tables = sys_db y, faults = fs'\<rparr> = (Inr resp, t)" "vr_Hash resp = h"
  shows "\<not> vr_Valid resp \<and> vr_Status resp = DiplomaStatusRevoked \<and> vr_RevokedAt resp \<noteq> None"
proof -
  have "gateway_step e x (RevokeCall now v h) \<lparr>sys_db = tables s, sys_topic = sys_topic x\<rparr>"
    by (rule gateway_step[of _ _ _ fs]) (simp add: exec_def after_def assms(2))
  then have "db_ok (tables s)"
    using registry.step_keeps assms(1) by fastforce
  then have ok: "db_ok (sys_db y)" using registry.run_keeps[OF assms(3)] by simp
  have "revoked h v (tables s)"
    by (rule revoked_by_Revoke[OF assms(2)])
  then have "revoked h v (sys_db y)" using revocation.run_keeps[OF assms(3)] assms(4) by fastforce
  then obtain row where row: "row \<in> set (diploma_hashes (sys_db y))" "hr_hash row = h"
    "hr_status row = DiplomaStatusRevoked" "hr_revoked_at row \<noteq> None"
    by (auto simp: revoked_def)
  show ?thesis
    using verification_status[OF assms(5), of row] ok row assms(6) by (simp add: status_defs)
qed

definition revoked_row :: hash_row where
  "revoked_row = sample_row\<lparr>hr_status := DiplomaStatusRevoked, hr_revoked_at := Some 9\<rparr>"

lemma revoked_never_valid_witness:
  "let d = registry_db\<lparr>diploma_hashes := [revoked_row]\<rparr>
   in \<exists>resp. fst (VerifyPayload toy_ed25519 toy_key sample_token \<lparr>tables = d, faults = []\<rparr>) = Inr resp \<and>
        \<not> vr_Valid resp \<and> vr_Status resp = DiplomaStatusRevoked"
proof -
  let ?d = "registry_db\<lparr>diploma_hashes := [revoked_row]\<rparr>"
  let ?x = "\<lparr>sys_db = registry_db, sys_topic = []\<rparr>" and ?y = "\<lparr>sys_db = ?d, sys_topic = []\<rparr>"
  have r: "Revoke 9 ''u1'' sample_hash \<lparr>tables = sys_db ?x, faults = []\<rparr> = (Inr (), \<lparr>tables = ?d, faults = []\<rparr>)"
    by (simp add: Revoke_def MarkDiplomaRevoked_def registry_db_def sample_row_def revoked_row_def)
  have ok: "db_ok ?d"
    using preservesD[OF preserves_MarkDiplomaRevoked[of 9 "''u1''" sample_hash],
        of "\<lparr>tables = registry_db, faults = []\<rparr>"] registry_db_ok r
    by (simp add: Revoke_def)
  have v: "VerifyPayload toy_ed25519 toy_key sample_token \<lparr>tables = sys_db ?y, faults = []\<rparr> =
      (Inr (issued_response (sample_claims ''n0'') revoked_row ''n0'' keyed_university),
       \<lparr>tables = ?d, faults = []\<rparr>)"
    using engine_token_answer[of "sample_claims ''n0''" toy_key "Some (replicate 12 (CHR ''r''))" sample_enc
        keyed_university revoked_row 0 ?d "hex_encode toy_key" toy_ed25519 "(@)" toy_key "''n0''"]
      sample_claims_complete sample_seal sample_HashDiplomaInput ok toy_key_pair hex_toy_key
    by (simp add: keyed_university_def sample_university_def sample_row_def revoked_row_def registry_db_def
        TrimSpace_samples blank_def int_min_def int_max_def sample_token_def valid_utf8.simps)
  have h: "vr_Hash (issued_response (sample_claims ''n0'') revoked_row ''n0'' keyed_university) = sample_hash"
    by (simp add: issued_response_def revoked_row_def sample_row_def)
  have ok0: "db_ok (sys_db ?x)" using registry_db_ok by simp
  have run: "gateway_run sample_env \<lparr>sys_db = tables \<lparr>tables = ?d, faults = []\<rparr>, sys_topic = sys_topic ?x\<rparr> [] ?y"
    by simp
  show ?thesis
    using revoked_never_valid[OF ok0 r run _ v h] v by (simp add: Let_def)
qed

end
